(* ===== verification/Friday_Prelude.thy ===== *)
theory Friday_Prelude
  imports Main "HOL-Library.List_Lexorder" "HOL-Library.Char_ord"
begin

text \<open>
  Shared vocabulary of the development.

  \<^item> Exceptions. A method that mutates an object in place is a function into
    \<open>('e, 's) outcome\<close>: \<open>Done s\<close> is the object after a normal return,
    \<open>Raised e s\<close> the exception together with the object as the raise left it, so a
    method that assigns a field before it validates is visibly different from one that
    validates first. Pure validators and whole transactions use the sum \<open>'e + 'a\<close>.
  \<^item> Time (\<^verbatim>\<open>src/src/friday/domain/time.py\<close>). A \<open>datetime\<close> is naive or carries a
    UTC offset; \<open>ensure_utc\<close> yields an \<open>instant\<close>, the microseconds of the UTC wall
    clock. Stored timestamps are always instants. Wall clocks are unbounded integers: the
    \<^verbatim>\<open>OverflowError\<close> at the ends of Python's year range is not modelled.
  \<^item> Text. A Python \<^verbatim>\<open>str\<close> is a \<open>string\<close> (code points below 256).
  \<^item> Errors (\<^verbatim>\<open>src/src/friday/domain/errors.py\<close>) carry the messages of the source.
\<close>

named_theorems outcome_simps \<open>characterisations of the outcome and result combinators\<close>

section \<open>Outcomes of mutating methods\<close>

datatype ('e, 's) outcome = Done 's | Raised 'e 's

definition attempt :: "'e + 'a \<Rightarrow> 's \<Rightarrow> ('a \<Rightarrow> ('e, 's) outcome) \<Rightarrow> ('e, 's) outcome" where
  "attempt m s k = (case m of Inl e \<Rightarrow> Raised e s | Inr v \<Rightarrow> k v)"

definition require :: "bool \<Rightarrow> 'e \<Rightarrow> 's \<Rightarrow> ('e, 's) outcome \<Rightarrow> ('e, 's) outcome" where
  "require b e s k = (if b then k else Raised e s)"

definition andThen :: "('e, 's) outcome \<Rightarrow> ('s \<Rightarrow> ('e, 's) outcome) \<Rightarrow> ('e, 's) outcome" where
  "andThen m k = (case m of Done s \<Rightarrow> k s | Raised e s \<Rightarrow> Raised e s)"

primrec object_of :: "('e, 's) outcome \<Rightarrow> 's" where
  "object_of (Done s) = s"
| "object_of (Raised e s) = s"

primrec as_result :: "('e, 's) outcome \<Rightarrow> 'e + 's" where
  "as_result (Done s) = Inr s"
| "as_result (Raised e s) = Inl e"

lemma attempt_simps [simp]:
  "attempt (Inl e) s k = Raised e s"
  "attempt (Inr v) s k = k v"
  by (simp_all add: attempt_def)

lemma require_simps [simp]:
  "require True e s k = k"
  "require False e s k = Raised e s"
  by (simp_all add: require_def)

lemma andThen_simps [simp]:
  "andThen (Done s) k = k s"
  "andThen (Raised e s) k = Raised e s"
  by (simp_all add: andThen_def)

lemma attempt_Done_iff [outcome_simps]:
  "attempt m s k = Done t \<longleftrightarrow> (\<exists>v. m = Inr v \<and> k v = Done t)"
  by (cases m) auto

lemma attempt_Raised_iff [outcome_simps]:
  "attempt m s k = Raised e t \<longleftrightarrow> m = Inl e \<and> t = s \<or> (\<exists>v. m = Inr v \<and> k v = Raised e t)"
  by (cases m) auto

lemma require_Done_iff [outcome_simps]:
  "require b e s k = Done t \<longleftrightarrow> b \<and> k = Done t"
  by (cases b) auto

lemma require_Raised_iff [outcome_simps]:
  "require b e s k = Raised e' t \<longleftrightarrow> \<not> b \<and> e' = e \<and> t = s \<or> b \<and> k = Raised e' t"
  by (cases b) auto

lemma andThen_Done_iff [outcome_simps]:
  "andThen m k = Done t \<longleftrightarrow> (\<exists>s. m = Done s \<and> k s = Done t)"
  by (cases m) auto

lemma andThen_Raised_iff [outcome_simps]:
  "andThen m k = Raised e t \<longleftrightarrow> m = Raised e t \<or> (\<exists>s. m = Done s \<and> k s = Raised e t)"
  by (cases m) auto

lemma as_result_Inr_iff [outcome_simps]: "as_result m = Inr t \<longleftrightarrow> m = Done t"
  by (cases m) auto

section \<open>Results of validators and transactions\<close>

definition ebind :: "'e + 'a \<Rightarrow> ('a \<Rightarrow> 'e + 'b) \<Rightarrow> 'e + 'b" where
  "ebind m k = (case m of Inl e \<Rightarrow> Inl e | Inr v \<Rightarrow> k v)"

definition guard :: "bool \<Rightarrow> 'e \<Rightarrow> 'e + unit" where
  "guard b e = (if b then Inr () else Inl e)"

definition from_option :: "'e \<Rightarrow> 'a option \<Rightarrow> 'e + 'a" where
  "from_option e x = (case x of None \<Rightarrow> Inl e | Some v \<Rightarrow> Inr v)"

lemma ebind_simps [simp]:
  "ebind (Inl e) k = Inl e"
  "ebind (Inr v) k = k v"
  by (simp_all add: ebind_def)

lemma guard_simps [simp]:
  "guard True e = Inr ()"
  "guard False e = Inl e"
  by (simp_all add: guard_def)

lemma from_option_simps [simp]:
  "from_option e None = Inl e"
  "from_option e (Some v) = Inr v"
  by (simp_all add: from_option_def)

lemma ebind_Inr_iff [outcome_simps]:
  "ebind m k = Inr t \<longleftrightarrow> (\<exists>v. m = Inr v \<and> k v = Inr t)"
  by (cases m) auto

lemma ebind_Inl_iff [outcome_simps]:
  "ebind m k = Inl e \<longleftrightarrow> m = Inl e \<or> (\<exists>v. m = Inr v \<and> k v = Inl e)"
  by (cases m) auto

lemma guard_Inr_iff [outcome_simps]: "guard b e = Inr u \<longleftrightarrow> b"
  by (cases b) auto

lemma guard_Inl_iff [outcome_simps]: "guard b e = Inl e' \<longleftrightarrow> \<not> b \<and> e' = e"
  by (cases b) auto

lemma from_option_Inr_iff [outcome_simps]: "from_option e x = Inr v \<longleftrightarrow> x = Some v"
  by (cases x) auto

lemma from_option_Inl_iff [outcome_simps]: "from_option e x = Inl e' \<longleftrightarrow> x = None \<and> e' = e"
  by (cases x) auto

text \<open>An optional field is validated only when it is present.\<close>

definition validate_opt :: "('a \<Rightarrow> 'e + 'b) \<Rightarrow> 'a option \<Rightarrow> 'e + 'b option" where
  "validate_opt f x = (case x of None \<Rightarrow> Inr None | Some v \<Rightarrow> ebind (f v) (\<lambda>w. Inr (Some w)))"

lemma validate_opt_simps [simp]:
  "validate_opt f None = Inr None"
  "validate_opt f (Some v) = ebind (f v) (\<lambda>w. Inr (Some w))"
  by (simp_all add: validate_opt_def)

lemma validate_opt_Inr_iff [outcome_simps]:
  "validate_opt f x = Inr y \<longleftrightarrow>
     x = None \<and> y = None \<or> (\<exists>v w. x = Some v \<and> y = Some w \<and> f v = Inr w)"
  by (cases x) (auto simp: ebind_Inr_iff)

text \<open>Python's \<^verbatim>\<open>x or y\<close> where \<open>x\<close> is \<^verbatim>\<open>None\<close> or an object that is never false.\<close>

definition or_else :: "'a option \<Rightarrow> 'a \<Rightarrow> 'a" where
  "or_else x y = (case x of None \<Rightarrow> y | Some v \<Rightarrow> v)"

lemma or_else_simps [simp]: "or_else None y = y" "or_else (Some v) y = v"
  by (simp_all add: or_else_def)

section \<open>Domain errors\<close>

text \<open>The two classes of the source, and the exceptions of the language itself (by class name).\<close>

datatype domain_error =
    DomainValidationError string
  | InvalidStateTransition string string string
  | PythonError string

section \<open>Time\<close>

type_synonym instant = int

datatype datetime = Naive int | Aware int int

primrec ensure_utc :: "datetime \<Rightarrow> domain_error + instant" where
  "ensure_utc (Naive w) =
     Inl (DomainValidationError ''timestamp must be timezone-aware, got a naive datetime'')"
| "ensure_utc (Aware w offset) = Inr (w - offset)"

abbreviation utc :: "instant \<Rightarrow> datetime" where
  "utc t \<equiv> Aware t 0"

lemma ensure_utc_Inr_iff: "ensure_utc d = Inr t \<longleftrightarrow> (\<exists>w off. d = Aware w off \<and> t = w - off)"
  by (cases d) auto

section \<open>Text\<close>

definition py_isspace :: "char \<Rightarrow> bool" where
  "py_isspace c \<longleftrightarrow>
     of_char c \<in> set [9, 10, 11, 12, 13, 28, 29, 30, 31, 32, 133, 160 :: nat]"

definition py_strip :: "string \<Rightarrow> string" where
  "py_strip s = rev (dropWhile py_isspace (rev (dropWhile py_isspace s)))"

lemma all_dropWhile_iff: "(\<forall>c \<in> set (dropWhile P s). P c) \<longleftrightarrow> (\<forall>c \<in> set s. P c)"
  by (induction s) auto

lemma py_strip_Nil_iff: "py_strip s = [] \<longleftrightarrow> (\<forall>c \<in> set s. py_isspace c)"
  by (simp add: py_strip_def dropWhile_eq_Nil_conv all_dropWhile_iff)

lemma dropWhile_no_hd: "dropWhile P s = [] \<or> \<not> P (hd (dropWhile P s))"
  using hd_dropWhile [of P s] by blast

lemma dropWhile_idem' [simp]: "dropWhile P (dropWhile P s) = dropWhile P s"
  by (induction s) auto

lemma hd_append_keep: "ys \<noteq> [] \<Longrightarrow> \<not> P (hd (rev (dropWhile P (rev ys)))) \<or> dropWhile P (rev ys) = [] \<or> P (hd ys)"
proof -
  assume "ys \<noteq> []"
  then obtain y zs where ys: "ys = y # zs" by (cases ys) auto
  show ?thesis
  proof (cases "dropWhile P (rev ys)")
    case (Cons a as)
    have "\<exists>pre. rev ys = pre @ dropWhile P (rev ys)"
      by (metis takeWhile_dropWhile_id)
    then obtain pre where "rev ys = pre @ a # as" using Cons by auto
    then have "ys = rev (a # as) @ rev pre" by (metis rev_append rev_rev_ident)
    then have "hd ys = hd (rev (a # as))" by (simp add: hd_append)
    with Cons show ?thesis by auto
  qed simp
qed

lemma py_strip_idem: "py_strip (py_strip s) = py_strip s"
proof -
  let ?t = "dropWhile py_isspace s"
  let ?u = "rev (dropWhile py_isspace (rev ?t))"
  have e: "dropWhile py_isspace ?u = ?u"
  proof (cases "?u = []")
    case False
    have ne: "?t \<noteq> []"
    proof
      assume e: "?t = []"
      have "?u = []" unfolding e by simp
      with False show False by contradiction
    qed
    then have "\<not> py_isspace (hd ?t)" by (rule hd_dropWhile)
    with hd_append_keep [OF ne, of py_isspace] False have "\<not> py_isspace (hd ?u)"
      by (metis rev.simps(1))
    with False show ?thesis by (simp only: dropWhile_eq_self_iff) simp
  next
    case True
    show ?thesis unfolding True by simp
  qed
  show ?thesis by (simp only: py_strip_def e rev_rev_ident dropWhile_idem')
qed

text \<open>Evaluation of the library's option predicate.\<close>

lemma pred_option_code [code]:
  "pred_option P None = True"
  "pred_option P (Some x) = P x"
  by simp_all

end
