(* ===== verification/Lifecycle.thy ===== *)
theory Lifecycle
  imports Friday_Prelude
begin

text \<open>
  The contract every durable entity of the domain layer obeys, as a locale, and what
  follows from it for whole sequences of calls. The entities (Task, Run, RunStep,
  ApprovalRequest, ToolInvocation, DelegationRequest, OutboundDelivery, DeliveryAttempt,
  WorkflowExecution, WorkflowNodeExecution) interpret it in their own theories.

  \<open>run_all\<close> is a caller that lets an exception propagate: the sequence stops at the
  first raise. \<open>replay\<close> is a caller that catches every exception and keeps using the
  same object: it only makes sense for entities whose failed calls leave no trace.
\<close>

named_theorems step_defs \<open>definitions of the methods of an entity\<close>

section \<open>Sequences of calls\<close>

fun run_all :: "('op \<Rightarrow> 's \<Rightarrow> ('e, 's) outcome) \<Rightarrow> 'op list \<Rightarrow> 's \<Rightarrow> ('e, 's) outcome" where
  "run_all step [] s = Done s"
| "run_all step (x # xs) s = andThen (step x s) (run_all step xs)"

fun replay :: "('op \<Rightarrow> 's \<Rightarrow> ('e, 's) outcome) \<Rightarrow> 'op list \<Rightarrow> 's \<Rightarrow> 's" where
  "replay step [] s = s"
| "replay step (x # xs) s = replay step xs (object_of (step x s))"

inductive reaches :: "('op \<Rightarrow> 's \<Rightarrow> ('e, 's) outcome) \<Rightarrow> 's \<Rightarrow> 's \<Rightarrow> bool"
  for step :: "'op \<Rightarrow> 's \<Rightarrow> ('e, 's) outcome" and s0 :: 's where
  here: "reaches step s0 s0"
| onward: "reaches step s0 s \<Longrightarrow> step x s = Done s' \<Longrightarrow> reaches step s0 s'"

lemma reaches_trans: "reaches step s t \<Longrightarrow> reaches step t u \<Longrightarrow> reaches step s u"
  by (rotate_tac, induction rule: reaches.induct) (auto intro: reaches.onward)

lemma run_all_reaches: "run_all step xs s = Done t \<Longrightarrow> reaches step s t"
proof (induction xs arbitrary: s)
  case Nil
  then show ?case by (simp add: reaches.here)
next
  case (Cons x xs)
  then obtain u where "step x s = Done u" and "run_all step xs u = Done t"
    by (auto simp: outcome_simps)
  with Cons.IH show ?case
    by (blast intro: reaches_trans reaches.onward [OF reaches.here])
qed

section \<open>The contract\<close>

text \<open>
  \<open>inv\<close> is the entity's well-formedness, \<open>ident\<close> what no method may change,
  \<open>phase\<close> its status and \<open>final\<close> the terminal statuses.
\<close>

locale lifecycle =
  fixes step :: "'op \<Rightarrow> 's \<Rightarrow> ('e, 's) outcome"
    and inv :: "'s \<Rightarrow> bool"
    and ident :: "'s \<Rightarrow> 'k"
    and phase :: "'s \<Rightarrow> 'p"
    and final :: "'p \<Rightarrow> bool"
  assumes step_inv: "inv s \<Longrightarrow> step x s = Done s' \<Longrightarrow> inv s'"
    and step_ident: "step x s = Done s' \<Longrightarrow> ident s' = ident s"
    and step_final: "final (phase s) \<Longrightarrow> step x s = Done s' \<Longrightarrow> phase s' = phase s"
begin

lemma reaches_inv: "reaches step s t \<Longrightarrow> inv s \<Longrightarrow> inv t"
  by (induction rule: reaches.induct) (auto intro: step_inv)

lemma reaches_ident: "reaches step s t \<Longrightarrow> ident t = ident s"
  by (induction rule: reaches.induct) (auto dest: step_ident)

lemma reaches_final: "reaches step s t \<Longrightarrow> final (phase s) \<Longrightarrow> phase t = phase s"
proof (induction rule: reaches.induct)
  case (onward t x s')
  then have "phase s' = phase t" using step_final [of t x s'] by simp
  with onward show ?case by simp
qed simp

lemma run_all_inv: "inv s \<Longrightarrow> run_all step xs s = Done t \<Longrightarrow> inv t"
  by (blast dest: run_all_reaches reaches_inv)

lemma run_all_ident: "run_all step xs s = Done t \<Longrightarrow> ident t = ident s"
  by (blast dest: run_all_reaches reaches_ident)

end

text \<open>Entities that accept no call at all once they are terminal.\<close>

locale closed_lifecycle = lifecycle +
  assumes final_rejects: "final (phase s) \<Longrightarrow> step x s \<noteq> Done s'"
begin

lemma final_stuck: "final (phase s) \<Longrightarrow> reaches step s t \<Longrightarrow> t = s"
  by (rotate_tac, induction rule: reaches.induct) (auto simp: final_rejects)

end

text \<open>Entities whose rejected calls leave the object as it was.\<close>

locale atomic_lifecycle = lifecycle +
  assumes raise_unchanged: "step x s = Raised e s' \<Longrightarrow> s' = s"
begin

lemma object_of_step: "object_of (step x s) = s \<or> step x s = Done (object_of (step x s))"
  by (cases "step x s") (auto dest: raise_unchanged)

lemma replay_reaches: "reaches step s (replay step xs s)"
proof (induction xs arbitrary: s)
  case Nil
  then show ?case by (simp add: reaches.here)
next
  case (Cons x xs)
  have "reaches step s (object_of (step x s))"
    using object_of_step [of x s] by (metis reaches.here reaches.onward)
  with Cons.IH show ?case by (auto intro: reaches_trans)
qed

lemma replay_inv: "inv s \<Longrightarrow> inv (replay step xs s)"
  by (rule reaches_inv [OF replay_reaches])

lemma replay_ident: "ident (replay step xs s) = ident s"
  by (rule reaches_ident [OF replay_reaches])

lemma replay_final: "final (phase s) \<Longrightarrow> phase (replay step xs s) = phase s"
  by (rule reaches_final [OF replay_reaches])

end

end
