(* ===== verification/Identifiers.thy ===== *)
theory Identifiers
  imports Friday_Prelude
begin

text \<open>
  Identifier value objects (\<^verbatim>\<open>src/src/friday/domain/identifiers.py\<close>). Every identifier class of the
  source is an instance of one wrapper with a phantom tag, so identifiers of different
  classes have different types and never compare equal, and one \<open>linorder\<close> instance
  (the order of the wrapped string, which the work queue sorts by) serves them all.
\<close>

datatype 'k ident = Id (id_str: string)

datatype task_tag = TaskTag
datatype run_tag = RunTag
datatype step_tag = StepTag
datatype run_event_tag = RunEventTag
datatype task_event_tag = TaskEventTag
datatype approval_tag = ApprovalTag
datatype artifact_tag = ArtifactTag
datatype tool_tag = ToolTag
datatype schedule_tag = ScheduleTag
datatype fire_tag = FireTag
datatype plan_tag = PlanTag
datatype delivery_tag = DeliveryTag
datatype attempt_tag = AttemptTag
datatype agent_tag = AgentTag
datatype agent_revision_tag = AgentRevisionTag
datatype delegation_tag = DelegationTag
datatype workflow_tag = WorkflowTag
datatype workflow_revision_tag = WorkflowRevisionTag
datatype workflow_node_tag = WorkflowNodeTag
datatype workflow_edge_tag = WorkflowEdgeTag
datatype workflow_execution_tag = WorkflowExecutionTag
datatype node_execution_tag = NodeExecutionTag
datatype workflow_resolution_tag = WorkflowResolutionTag

type_synonym TaskId = "task_tag ident"
type_synonym RunId = "run_tag ident"
type_synonym RunStepId = "step_tag ident"
type_synonym RunEventId = "run_event_tag ident"
type_synonym TaskEventId = "task_event_tag ident"
type_synonym ApprovalRequestId = "approval_tag ident"
type_synonym ArtifactId = "artifact_tag ident"
type_synonym ToolInvocationId = "tool_tag ident"
type_synonym ScheduleId = "schedule_tag ident"
type_synonym ScheduleFireId = "fire_tag ident"
type_synonym ScheduleFireDeliveryPlanId = "plan_tag ident"
type_synonym DeliveryId = "delivery_tag ident"
type_synonym DeliveryAttemptId = "attempt_tag ident"
type_synonym AgentId = "agent_tag ident"
type_synonym AgentRevisionId = "agent_revision_tag ident"
type_synonym DelegationRequestId = "delegation_tag ident"
type_synonym WorkflowId = "workflow_tag ident"
type_synonym WorkflowRevisionId = "workflow_revision_tag ident"
type_synonym WorkflowNodeId = "workflow_node_tag ident"
type_synonym WorkflowEdgeId = "workflow_edge_tag ident"
type_synonym WorkflowExecutionId = "workflow_execution_tag ident"
type_synonym WorkflowNodeExecutionId = "node_execution_tag ident"
type_synonym RunWorkflowResolutionId = "workflow_resolution_tag ident"

instantiation ident :: (type) linorder
begin

definition less_eq_ident :: "'a ident \<Rightarrow> 'a ident \<Rightarrow> bool" where
  "less_eq_ident x y \<longleftrightarrow> id_str x \<le> id_str y"

definition less_ident :: "'a ident \<Rightarrow> 'a ident \<Rightarrow> bool" where
  "less_ident x y \<longleftrightarrow> id_str x < id_str y"

instance
  by standard (auto simp: less_eq_ident_def less_ident_def ident.expand)

end

section \<open>Construction\<close>

text \<open>
  \<^verbatim>\<open>_Id.__post_init__\<close> accepts whatever \<^verbatim>\<open>uuid.UUID(value)\<close> accepts. That constructor drops
  every \<^verbatim>\<open>urn:\<close> and \<^verbatim>\<open>uuid:\<close>, strips braces, drops dashes, wants 32 characters and reads
  them with \<^verbatim>\<open>int(hex, 16)\<close>, which itself skips outer blanks, takes a sign and a
  \<^verbatim>\<open>0x\<close> prefix, and allows single underscores between digits.
\<close>

fun remove_all :: "string \<Rightarrow> string \<Rightarrow> string" where
  "remove_all p [] = []"
| "remove_all p (c # cs) =
     (if p \<noteq> [] \<and> take (length p) (c # cs) = p then remove_all p (drop (length p) (c # cs))
      else c # remove_all p cs)"

definition strip_chars :: "string \<Rightarrow> string \<Rightarrow> string" where
  "strip_chars cs s =
     rev (dropWhile (\<lambda>c. c \<in> set cs) (rev (dropWhile (\<lambda>c. c \<in> set cs) s)))"

definition is_hex_digit :: "char \<Rightarrow> bool" where
  "is_hex_digit c \<longleftrightarrow> c \<in> set ''0123456789abcdefABCDEF''"

fun hex_tail_ok :: "string \<Rightarrow> bool" where
  "hex_tail_ok [] \<longleftrightarrow> True"
| "hex_tail_ok (c # cs) \<longleftrightarrow>
     (if is_hex_digit c then hex_tail_ok cs
      else c = CHR ''_'' \<and> cs \<noteq> [] \<and> is_hex_digit (hd cs) \<and> hex_tail_ok cs)"

definition hex_digits_ok :: "string \<Rightarrow> bool" where
  "hex_digits_ok s \<longleftrightarrow> s \<noteq> [] \<and> is_hex_digit (hd s) \<and> hex_tail_ok s"

definition drop_0x :: "string \<Rightarrow> string" where
  "drop_0x s =
     (if take 2 s = ''0x'' \<or> take 2 s = ''0X''
      then (let r = drop 2 s in if take 1 r = ''_'' then drop 1 r else r) else s)"

text \<open>A negative number is out of the 128-bit range unless it is zero.\<close>

definition int16_in_range :: "string \<Rightarrow> bool" where
  "int16_in_range s =
     (let t = py_strip s; neg = (take 1 t = ''-'');
          body = drop_0x (if neg \<or> take 1 t = ''+'' then drop 1 t else t)
      in hex_digits_ok body \<and>
         (neg \<longrightarrow> (\<forall>c \<in> set body. c = CHR ''0'' \<or> c = CHR ''_'')))"

definition uuid_accepts :: "string \<Rightarrow> bool" where
  "uuid_accepts s =
     (let h = remove_all ''-'' (strip_chars ''{}'' (remove_all ''uuid:'' (remove_all ''urn:'' s)))
      in length h = 32 \<and> int16_in_range h)"

definition id_post_init :: "string \<Rightarrow> domain_error + 'k ident" where
  "id_post_init value =
     (if value = [] then Inl (DomainValidationError ''id must not be empty'')
      else if \<not> uuid_accepts value
      then Inl (DomainValidationError ''id must be a canonical UUID string'')
      else Inr (Id value))"

end
