(* ===== verification/Json_Values.thy ===== *)
theory Json_Values
  imports Friday_Prelude
begin

text \<open>
  JSON-compatible payloads (\<^verbatim>\<open>src/src/friday/domain/json_value.py\<close>) and the structured failure
  record built on them (\<^verbatim>\<open>src/src/friday/domain/failure.py\<close>).

  \<open>pyval\<close> is the Python value a caller may hand over: the JSON shapes, floats with
  their non-finite values, dictionaries with keys of any type (in insertion order, keys
  distinct), and \<open>PyOther\<close> for every other object, named by its type. A finite float is
  identified by its \<^verbatim>\<open>repr\<close>.
\<close>

datatype pyfloat = Finite string | NaN | PosInf | NegInf

datatype pyval =
    PyNone
  | PyBool bool
  | PyInt int
  | PyStr string
  | PyFloat pyfloat
  | PyList "pyval list"
  | PyDict "(pyval \<times> pyval) list"
  | PyOther string

fun show_nat :: "nat \<Rightarrow> string" where
  "show_nat n =
     (if n < 10 then [''0123456789'' ! n]
      else show_nat (n div 10) @ [''0123456789'' ! (n mod 10)])"

declare show_nat.simps [simp del]

section \<open>ensure_json_value\<close>

text \<open>
  The validator walks lists by index and dictionaries in order, extends the path it
  reports, and stops at the first offence. The \<^verbatim>\<open>repr\<close> of an offending key is left out of
  the message.
\<close>

fun ensure_json_value :: "string \<Rightarrow> pyval \<Rightarrow> domain_error + pyval"
  and ensure_json_items :: "string \<Rightarrow> nat \<Rightarrow> pyval list \<Rightarrow> domain_error + pyval list"
  and ensure_json_entries ::
    "string \<Rightarrow> (pyval \<times> pyval) list \<Rightarrow> domain_error + (pyval \<times> pyval) list" where
  "ensure_json_value path PyNone = Inr PyNone"
| "ensure_json_value path (PyStr s) = Inr (PyStr s)"
| "ensure_json_value path (PyBool b) = Inr (PyBool b)"
| "ensure_json_value path (PyInt i) = Inr (PyInt i)"
| "ensure_json_value path (PyFloat f) =
     (case f of
        Finite r \<Rightarrow> Inr (PyFloat f)
      | _ \<Rightarrow> Inl (DomainValidationError (path @ '': non-finite float is not JSON-compatible'')))"
| "ensure_json_value path (PyList xs) =
     ebind (ensure_json_items path 0 xs) (\<lambda>ys. Inr (PyList ys))"
| "ensure_json_value path (PyDict es) =
     ebind (ensure_json_entries path es) (\<lambda>fs. Inr (PyDict fs))"
| "ensure_json_value path (PyOther t) =
     Inl (DomainValidationError (path @ '': '' @ t @ '' is not JSON-compatible''))"
| "ensure_json_items path i [] = Inr []"
| "ensure_json_items path i (x # xs) =
     ebind (ensure_json_value (path @ ''['' @ show_nat i @ '']'') x) (\<lambda>y.
     ebind (ensure_json_items path (Suc i) xs) (\<lambda>ys. Inr (y # ys)))"
| "ensure_json_entries path [] = Inr []"
| "ensure_json_entries path ((k, x) # es) =
     (case k of
        PyStr key \<Rightarrow>
          ebind (ensure_json_value (path @ ''.'' @ key) x) (\<lambda>y.
          ebind (ensure_json_entries path es) (\<lambda>fs. Inr ((k, y) # fs)))
      | _ \<Rightarrow> Inl (DomainValidationError (path @ '': mapping key is not a string'')))"

text \<open>What the wire contract means by a JSON value.\<close>

fun is_json :: "pyval \<Rightarrow> bool" where
  "is_json (PyFloat f) \<longleftrightarrow> (\<exists>r. f = Finite r)"
| "is_json (PyList xs) \<longleftrightarrow> (\<forall>x \<in> set xs. is_json x)"
| "is_json (PyDict es) \<longleftrightarrow> (\<forall>(k, x) \<in> set es. (\<exists>s. k = PyStr s) \<and> is_json x)"
| "is_json (PyOther t) \<longleftrightarrow> False"
| "is_json _ \<longleftrightarrow> True"

lemma ensure_json_spec:
  "is_json v \<Longrightarrow> ensure_json_value p v = Inr v"
  "\<forall>x \<in> set xs. is_json x \<Longrightarrow> ensure_json_items p i xs = Inr xs"
  "\<forall>(k, x) \<in> set es. (\<exists>s. k = PyStr s) \<and> is_json x \<Longrightarrow> ensure_json_entries p es = Inr es"
  by (induction p v and p i xs and p es
      rule: ensure_json_value_ensure_json_items_ensure_json_entries.induct)
     auto

lemma ensure_json_sound:
  "ensure_json_value p v = Inr w \<Longrightarrow> is_json v"
  "ensure_json_items p i xs = Inr ys \<Longrightarrow> \<forall>x \<in> set xs. is_json x"
  "ensure_json_entries p es = Inr fs \<Longrightarrow> \<forall>(k, x) \<in> set es. (\<exists>s. k = PyStr s) \<and> is_json x"
  by (induction p v and p i xs and p es arbitrary: w and ys and fs
      rule: ensure_json_value_ensure_json_items_ensure_json_entries.induct)
     (auto simp: outcome_simps split: pyfloat.splits pyval.splits, blast+)

lemma ensure_json_Inr_iff: "ensure_json_value p v = Inr w \<longleftrightarrow> is_json v \<and> w = v"
  using ensure_json_spec(1) [of v p] ensure_json_sound(1) [of p v w] by auto

section \<open>Failure\<close>

datatype FailureCause = VALIDATION | TOOL | RUNTIME | APPROVAL | CANCELLED | TIMEOUT | INTERNAL

record Failure =
  fl_code :: string
  fl_message :: string
  fl_retryable :: bool
  fl_cause :: FailureCause
  fl_details :: pyval

definition failure_post_init :: "Failure \<Rightarrow> domain_error + Failure" where
  "failure_post_init f =
     ebind (guard (py_strip (fl_code f) \<noteq> [])
       (DomainValidationError ''Failure.code must not be empty'')) (\<lambda>_.
     ebind (guard (py_strip (fl_message f) \<noteq> [])
       (DomainValidationError ''Failure.message must not be empty'')) (\<lambda>_.
     ebind (ensure_json_value ''Failure.details'' (fl_details f)) (\<lambda>_. Inr f)))"

definition failure_ok :: "Failure \<Rightarrow> bool" where
  "failure_ok f \<longleftrightarrow>
     py_strip (fl_code f) \<noteq> [] \<and> py_strip (fl_message f) \<noteq> [] \<and> is_json (fl_details f)"

lemma failure_post_init_Inr_iff: "failure_post_init f = Inr g \<longleftrightarrow> failure_ok f \<and> g = f"
  by (auto simp: failure_post_init_def failure_ok_def outcome_simps ensure_json_Inr_iff)

end
