(* ===== verification/Task_Entity.thy ===== *)
theory Task_Entity
  imports Lifecycle Identifiers Json_Values
begin

text \<open>
  \<^verbatim>\<open>src/src/friday/domain/task.py\<close>: a user-level requested outcome. One definition per method of the
  class \<^verbatim>\<open>Task\<close>; the record selectors are its read-only properties. The lifecycle contract
  is interpreted at the end.
\<close>

datatype TaskStatus = PENDING | ACTIVE | COMPLETED | FAILED | CANCELLED

fun task_status_value :: "TaskStatus \<Rightarrow> string" where
  "task_status_value TaskStatus.PENDING = ''pending''"
| "task_status_value TaskStatus.ACTIVE = ''active''"
| "task_status_value TaskStatus.COMPLETED = ''completed''"
| "task_status_value TaskStatus.FAILED = ''failed''"
| "task_status_value TaskStatus.CANCELLED = ''cancelled''"

definition TERMINAL_TASK_STATUSES :: "TaskStatus list" where
  "TERMINAL_TASK_STATUSES = [TaskStatus.COMPLETED, TaskStatus.FAILED, TaskStatus.CANCELLED]"

record Task =
  tk_id :: TaskId
  tk_title :: string
  tk_description :: string
  tk_status :: TaskStatus
  tk_created_at :: instant
  tk_started_at :: "instant option"
  tk_completed_at :: "instant option"
  tk_failed_at :: "instant option"
  tk_cancelled_at :: "instant option"
  tk_failure :: "Failure option"

definition task_new :: "TaskId \<Rightarrow> string \<Rightarrow> string \<Rightarrow> datetime \<Rightarrow> domain_error + Task" where
  "task_new i title description created_at =
     (let normalized_title = py_strip title in
      ebind (guard (normalized_title \<noteq> [])
        (DomainValidationError ''Task.title must not be empty after trimming'')) (\<lambda>_.
      ebind (ensure_utc created_at) (\<lambda>t.
      Inr \<lparr>tk_id = i, tk_title = normalized_title, tk_description = py_strip description,
           tk_status = TaskStatus.PENDING, tk_created_at = t, tk_started_at = None,
           tk_completed_at = None, tk_failed_at = None, tk_cancelled_at = None,
           tk_failure = None\<rparr>)))"

definition task_require_status ::
  "Task \<Rightarrow> TaskStatus list \<Rightarrow> TaskStatus \<Rightarrow> domain_error + unit" where
  "task_require_status k allowed target =
     guard (tk_status k \<in> set allowed)
       (InvalidStateTransition ''Task'' (task_status_value (tk_status k)) (task_status_value target))"

definition task_start :: "datetime \<Rightarrow> Task \<Rightarrow> (domain_error, Task) outcome" where
  "task_start at k =
     attempt (task_require_status k [TaskStatus.PENDING] TaskStatus.ACTIVE) k (\<lambda>_.
     attempt (ensure_utc at) k (\<lambda>t.
     Done (k\<lparr>tk_started_at := Some t, tk_status := TaskStatus.ACTIVE\<rparr>)))"

definition task_complete :: "datetime \<Rightarrow> Task \<Rightarrow> (domain_error, Task) outcome" where
  "task_complete at k =
     attempt (task_require_status k [TaskStatus.ACTIVE] TaskStatus.COMPLETED) k (\<lambda>_.
     attempt (ensure_utc at) k (\<lambda>t.
     Done (k\<lparr>tk_completed_at := Some t, tk_status := TaskStatus.COMPLETED\<rparr>)))"

definition task_fail :: "datetime \<Rightarrow> Failure \<Rightarrow> Task \<Rightarrow> (domain_error, Task) outcome" where
  "task_fail at failure k =
     attempt (task_require_status k [TaskStatus.ACTIVE] TaskStatus.FAILED) k (\<lambda>_.
     attempt (ensure_utc at) k (\<lambda>t.
     Done (k\<lparr>tk_failed_at := Some t, tk_failure := Some failure,
             tk_status := TaskStatus.FAILED\<rparr>)))"

definition task_cancel :: "datetime \<Rightarrow> Task \<Rightarrow> (domain_error, Task) outcome" where
  "task_cancel at k =
     attempt (task_require_status k [TaskStatus.PENDING, TaskStatus.ACTIVE] TaskStatus.CANCELLED) k
     (\<lambda>_. attempt (ensure_utc at) k (\<lambda>t.
     Done (k\<lparr>tk_cancelled_at := Some t, tk_status := TaskStatus.CANCELLED\<rparr>)))"

section \<open>Lifecycle\<close>

datatype task_call =
    TaskStart datetime
  | TaskComplete datetime
  | TaskFail datetime Failure
  | TaskCancel datetime

fun task_step :: "task_call \<Rightarrow> Task \<Rightarrow> (domain_error, Task) outcome" where
  "task_step (TaskStart at) = task_start at"
| "task_step (TaskComplete at) = task_complete at"
| "task_step (TaskFail at f) = task_fail at f"
| "task_step (TaskCancel at) = task_cancel at"

text \<open>
  Each status fixes which timestamps exist: exactly one terminal timestamp, and only in
  its own status; a failure record exactly in \<^verbatim>\<open>FAILED\<close>.
\<close>

definition task_inv :: "Task \<Rightarrow> bool" where
  "task_inv k \<longleftrightarrow>
     py_strip (tk_title k) = tk_title k \<and> tk_title k \<noteq> [] \<and>
     (tk_completed_at k \<noteq> None \<longleftrightarrow> tk_status k = TaskStatus.COMPLETED) \<and>
     (tk_failed_at k \<noteq> None \<longleftrightarrow> tk_status k = TaskStatus.FAILED) \<and>
     (tk_cancelled_at k \<noteq> None \<longleftrightarrow> tk_status k = TaskStatus.CANCELLED) \<and>
     (tk_failure k \<noteq> None \<longleftrightarrow> tk_status k = TaskStatus.FAILED) \<and>
     (tk_status k = TaskStatus.PENDING \<longrightarrow> tk_started_at k = None) \<and>
     (tk_status k \<in> {TaskStatus.ACTIVE, TaskStatus.COMPLETED, TaskStatus.FAILED} \<longrightarrow>
        tk_started_at k \<noteq> None)"

definition task_ident :: "Task \<Rightarrow> TaskId \<times> string \<times> string \<times> instant" where
  "task_ident k = (tk_id k, tk_title k, tk_description k, tk_created_at k)"

definition task_terminal :: "TaskStatus \<Rightarrow> bool" where
  "task_terminal s \<longleftrightarrow> s \<in> set TERMINAL_TASK_STATUSES"

lemmas task_defs [step_defs] =
  task_start_def task_complete_def task_fail_def task_cancel_def task_require_status_def

lemma task_new_inv: "task_new i title d at = Inr k \<Longrightarrow> task_inv k"
  by (auto simp: task_new_def task_inv_def Let_def outcome_simps py_strip_idem)

lemma task_step_inv: "task_inv k \<Longrightarrow> task_step x k = Done k' \<Longrightarrow> task_inv k'"
  by (cases x) (auto simp: task_defs outcome_simps, simp_all add: task_inv_def)

lemma task_step_ident: "task_step x k = Done k' \<Longrightarrow> task_ident k' = task_ident k"
  by (cases x) (auto simp: task_defs outcome_simps task_ident_def)

lemma task_step_terminal: "task_terminal (tk_status k) \<Longrightarrow> task_step x k \<noteq> Done k'"
  by (cases x)
     (auto simp: task_defs outcome_simps task_terminal_def TERMINAL_TASK_STATUSES_def)

lemma task_step_raise: "task_step x k = Raised e k' \<Longrightarrow> k' = k"
  by (cases x) (auto simp: task_defs outcome_simps)

interpretation task_life: closed_lifecycle task_step task_inv task_ident tk_status task_terminal
  by unfold_locales
     (erule (1) task_step_inv, erule task_step_ident, simp_all add: task_step_terminal)

interpretation task_life: atomic_lifecycle task_step task_inv task_ident tk_status task_terminal
  by unfold_locales (erule task_step_raise)

end
