(* ===== verification/Run_Entity.thy ===== *)
theory Run_Entity
  imports Lifecycle Identifiers Json_Values
begin

text \<open>
  \<^verbatim>\<open>src/src/friday/domain/run.py\<close>: one execution attempt of a Task. One definition per method of the
  class \<^verbatim>\<open>Run\<close>. The invariant ties the three wait markers (approval, delegation,
  workflow) to the waiting statuses: a Run never waits for two things at once.
\<close>

datatype RunStatus =
    QUEUED
  | RUNNING
  | WAITING_FOR_APPROVAL
  | WAITING_FOR_DELEGATION
  | WAITING_FOR_WORKFLOW
  | SUCCEEDED
  | FAILED
  | CANCELLED

fun run_status_value :: "RunStatus \<Rightarrow> string" where
  "run_status_value RunStatus.QUEUED = ''queued''"
| "run_status_value RunStatus.RUNNING = ''running''"
| "run_status_value RunStatus.WAITING_FOR_APPROVAL = ''waiting_for_approval''"
| "run_status_value RunStatus.WAITING_FOR_DELEGATION = ''waiting_for_delegation''"
| "run_status_value RunStatus.WAITING_FOR_WORKFLOW = ''waiting_for_workflow''"
| "run_status_value RunStatus.SUCCEEDED = ''succeeded''"
| "run_status_value RunStatus.FAILED = ''failed''"
| "run_status_value RunStatus.CANCELLED = ''cancelled''"

definition TERMINAL_RUN_STATUSES :: "RunStatus list" where
  "TERMINAL_RUN_STATUSES = [RunStatus.SUCCEEDED, RunStatus.FAILED, RunStatus.CANCELLED]"

record Run =
  rn_id :: RunId
  rn_task_id :: TaskId
  rn_execution_id :: RunId
  rn_status :: RunStatus
  rn_created_at :: instant
  rn_started_at :: "instant option"
  rn_ended_at :: "instant option"
  rn_failure :: "Failure option"
  rn_approval_request_id :: "ApprovalRequestId option"
  rn_delegation_request_id :: "DelegationRequestId option"
  rn_workflow_execution_id :: "WorkflowExecutionId option"

definition run_new ::
  "RunId \<Rightarrow> TaskId \<Rightarrow> datetime \<Rightarrow> RunId option \<Rightarrow> domain_error + Run" where
  "run_new i task_id created_at execution_id =
     ebind (ensure_utc created_at) (\<lambda>t.
     Inr \<lparr>rn_id = i, rn_task_id = task_id,
          rn_execution_id = or_else execution_id i,
          rn_status = RunStatus.QUEUED, rn_created_at = t, rn_started_at = None,
          rn_ended_at = None, rn_failure = None, rn_approval_request_id = None,
          rn_delegation_request_id = None, rn_workflow_execution_id = None\<rparr>)"

definition run_require_status ::
  "Run \<Rightarrow> RunStatus list \<Rightarrow> RunStatus \<Rightarrow> domain_error + unit" where
  "run_require_status r allowed target =
     guard (rn_status r \<in> set allowed)
       (InvalidStateTransition ''Run'' (run_status_value (rn_status r)) (run_status_value target))"

definition run_validated_end :: "datetime \<Rightarrow> Run \<Rightarrow> domain_error + instant" where
  "run_validated_end at r =
     ebind (ensure_utc at) (\<lambda>e.
     let reference = or_else (rn_started_at r) (rn_created_at r) in
     if e < reference
     then Inl (DomainValidationError ''Run end timestamp precedes its start/creation time'')
     else Inr e)"

definition run_start :: "datetime \<Rightarrow> Run \<Rightarrow> (domain_error, Run) outcome" where
  "run_start at r =
     attempt (run_require_status r [RunStatus.QUEUED] RunStatus.RUNNING) r (\<lambda>_.
     attempt (ensure_utc at) r (\<lambda>t.
     Done (r\<lparr>rn_started_at := Some t, rn_status := RunStatus.RUNNING\<rparr>)))"

definition run_wait_for_approval ::
  "datetime \<Rightarrow> ApprovalRequestId \<Rightarrow> Run \<Rightarrow> (domain_error, Run) outcome" where
  "run_wait_for_approval at approval_request_id r =
     attempt (run_require_status r [RunStatus.RUNNING] RunStatus.WAITING_FOR_APPROVAL) r (\<lambda>_.
     require (rn_delegation_request_id r = None \<and> rn_workflow_execution_id r = None)
       (DomainValidationError
          ''approval, delegation, and workflow wait markers are mutually exclusive'') r (
     attempt (ensure_utc at) r (\<lambda>_.
     Done (r\<lparr>rn_approval_request_id := Some approval_request_id,
             rn_status := RunStatus.WAITING_FOR_APPROVAL\<rparr>))))"

definition run_wait_for_delegation ::
  "datetime \<Rightarrow> DelegationRequestId \<Rightarrow> Run \<Rightarrow> (domain_error, Run) outcome" where
  "run_wait_for_delegation at delegation_request_id r =
     attempt (run_require_status r [RunStatus.RUNNING] RunStatus.WAITING_FOR_DELEGATION) r (\<lambda>_.
     require (rn_approval_request_id r = None \<and> rn_workflow_execution_id r = None)
       (DomainValidationError
          ''approval, delegation, and workflow wait markers are mutually exclusive'') r (
     attempt (ensure_utc at) r (\<lambda>_.
     Done (r\<lparr>rn_delegation_request_id := Some delegation_request_id,
             rn_status := RunStatus.WAITING_FOR_DELEGATION\<rparr>))))"

definition run_wait_for_workflow ::
  "datetime \<Rightarrow> WorkflowExecutionId \<Rightarrow> Run \<Rightarrow> (domain_error, Run) outcome" where
  "run_wait_for_workflow at workflow_execution_id r =
     attempt (run_require_status r [RunStatus.RUNNING] RunStatus.WAITING_FOR_WORKFLOW) r (\<lambda>_.
     require (rn_approval_request_id r = None \<and> rn_delegation_request_id r = None)
       (DomainValidationError ''workflow and other wait markers are mutually exclusive'') r (
     require (rn_workflow_execution_id r = None)
       (DomainValidationError ''Run already has a Workflow execution owner'') r (
     attempt (ensure_utc at) r (\<lambda>_.
     Done (r\<lparr>rn_workflow_execution_id := Some workflow_execution_id,
             rn_status := RunStatus.WAITING_FOR_WORKFLOW\<rparr>)))))"

definition run_resume :: "datetime \<Rightarrow> Run \<Rightarrow> (domain_error, Run) outcome" where
  "run_resume at r =
     attempt (run_require_status r
       [RunStatus.WAITING_FOR_APPROVAL, RunStatus.WAITING_FOR_DELEGATION] RunStatus.RUNNING) r (\<lambda>_.
     attempt (ensure_utc at) r (\<lambda>_.
     Done (r\<lparr>rn_approval_request_id := None, rn_delegation_request_id := None,
             rn_status := RunStatus.RUNNING\<rparr>)))"

definition run_resume_from_delegation :: "datetime \<Rightarrow> Run \<Rightarrow> (domain_error, Run) outcome" where
  "run_resume_from_delegation at r =
     attempt (run_require_status r [RunStatus.WAITING_FOR_DELEGATION] RunStatus.RUNNING) r (\<lambda>_.
     attempt (ensure_utc at) r (\<lambda>_.
     Done (r\<lparr>rn_delegation_request_id := None, rn_status := RunStatus.RUNNING\<rparr>)))"

definition run_succeed :: "datetime \<Rightarrow> Run \<Rightarrow> (domain_error, Run) outcome" where
  "run_succeed at r =
     attempt (run_require_status r
       [RunStatus.RUNNING, RunStatus.WAITING_FOR_WORKFLOW] RunStatus.SUCCEEDED) r (\<lambda>_.
     attempt (run_validated_end at r) r (\<lambda>e.
     Done (r\<lparr>rn_ended_at := Some e, rn_status := RunStatus.SUCCEEDED\<rparr>)))"

definition run_fail :: "datetime \<Rightarrow> Failure \<Rightarrow> Run \<Rightarrow> (domain_error, Run) outcome" where
  "run_fail at failure r =
     attempt (run_require_status r
       [RunStatus.RUNNING, RunStatus.WAITING_FOR_WORKFLOW] RunStatus.FAILED) r (\<lambda>_.
     attempt (run_validated_end at r) r (\<lambda>e.
     Done (r\<lparr>rn_ended_at := Some e, rn_failure := Some failure,
             rn_status := RunStatus.FAILED\<rparr>)))"

definition run_cancel :: "datetime \<Rightarrow> Run \<Rightarrow> (domain_error, Run) outcome" where
  "run_cancel at r =
     attempt (run_require_status r
       [RunStatus.QUEUED, RunStatus.RUNNING, RunStatus.WAITING_FOR_APPROVAL,
        RunStatus.WAITING_FOR_DELEGATION, RunStatus.WAITING_FOR_WORKFLOW] RunStatus.CANCELLED) r (\<lambda>_.
     attempt (run_validated_end at r) r (\<lambda>e.
     Done (r\<lparr>rn_ended_at := Some e, rn_approval_request_id := None,
             rn_delegation_request_id := None, rn_status := RunStatus.CANCELLED\<rparr>)))"

definition run_succeed_workflow :: "datetime \<Rightarrow> Run \<Rightarrow> (domain_error, Run) outcome" where
  "run_succeed_workflow at r =
     attempt (run_require_status r [RunStatus.WAITING_FOR_WORKFLOW] RunStatus.SUCCEEDED) r
       (\<lambda>_. run_succeed at r)"

definition run_fail_workflow :: "datetime \<Rightarrow> Failure \<Rightarrow> Run \<Rightarrow> (domain_error, Run) outcome" where
  "run_fail_workflow at failure r =
     attempt (run_require_status r [RunStatus.WAITING_FOR_WORKFLOW] RunStatus.FAILED) r
       (\<lambda>_. run_fail at failure r)"

definition run_cancel_workflow :: "datetime \<Rightarrow> Run \<Rightarrow> (domain_error, Run) outcome" where
  "run_cancel_workflow at r =
     attempt (run_require_status r [RunStatus.WAITING_FOR_WORKFLOW] RunStatus.CANCELLED) r
       (\<lambda>_. run_cancel at r)"

section \<open>Lifecycle\<close>

datatype run_call =
    RunStart datetime
  | RunWaitForApproval datetime ApprovalRequestId
  | RunWaitForDelegation datetime DelegationRequestId
  | RunWaitForWorkflow datetime WorkflowExecutionId
  | RunResume datetime
  | RunResumeFromDelegation datetime
  | RunSucceed datetime
  | RunFail datetime Failure
  | RunCancel datetime
  | RunSucceedWorkflow datetime
  | RunFailWorkflow datetime Failure
  | RunCancelWorkflow datetime

fun run_step :: "run_call \<Rightarrow> Run \<Rightarrow> (domain_error, Run) outcome" where
  "run_step (RunStart at) = run_start at"
| "run_step (RunWaitForApproval at i) = run_wait_for_approval at i"
| "run_step (RunWaitForDelegation at i) = run_wait_for_delegation at i"
| "run_step (RunWaitForWorkflow at i) = run_wait_for_workflow at i"
| "run_step (RunResume at) = run_resume at"
| "run_step (RunResumeFromDelegation at) = run_resume_from_delegation at"
| "run_step (RunSucceed at) = run_succeed at"
| "run_step (RunFail at f) = run_fail at f"
| "run_step (RunCancel at) = run_cancel at"
| "run_step (RunSucceedWorkflow at) = run_succeed_workflow at"
| "run_step (RunFailWorkflow at f) = run_fail_workflow at f"
| "run_step (RunCancelWorkflow at) = run_cancel_workflow at"

text \<open>What each status says about the markers, timestamps and failure of a Run.\<close>

definition run_markers_ok :: "Run \<Rightarrow> bool" where
  "run_markers_ok r =
     (case rn_status r of
        RunStatus.WAITING_FOR_APPROVAL \<Rightarrow>
          rn_approval_request_id r \<noteq> None \<and> rn_delegation_request_id r = None \<and>
          rn_workflow_execution_id r = None
      | RunStatus.WAITING_FOR_DELEGATION \<Rightarrow>
          rn_delegation_request_id r \<noteq> None \<and> rn_approval_request_id r = None \<and>
          rn_workflow_execution_id r = None
      | RunStatus.WAITING_FOR_WORKFLOW \<Rightarrow>
          rn_workflow_execution_id r \<noteq> None \<and> rn_approval_request_id r = None \<and>
          rn_delegation_request_id r = None
      | RunStatus.QUEUED \<Rightarrow>
          rn_approval_request_id r = None \<and> rn_delegation_request_id r = None \<and>
          rn_workflow_execution_id r = None
      | RunStatus.RUNNING \<Rightarrow>
          rn_approval_request_id r = None \<and> rn_delegation_request_id r = None \<and>
          rn_workflow_execution_id r = None
      | _ \<Rightarrow> rn_approval_request_id r = None \<and> rn_delegation_request_id r = None)"

definition run_times_ok :: "Run \<Rightarrow> bool" where
  "run_times_ok r \<longleftrightarrow>
     (rn_ended_at r \<noteq> None) = (rn_status r \<in> set TERMINAL_RUN_STATUSES) \<and>
     (rn_failure r \<noteq> None) = (rn_status r = RunStatus.FAILED) \<and>
     (rn_started_at r = None \<longrightarrow> rn_status r \<in> {RunStatus.QUEUED, RunStatus.CANCELLED}) \<and>
     (rn_status r = RunStatus.QUEUED \<longrightarrow> rn_started_at r = None) \<and>
     (\<forall>e. rn_ended_at r = Some e \<longrightarrow>
        or_else (rn_started_at r) (rn_created_at r) \<le> e)"

definition run_inv :: "Run \<Rightarrow> bool" where
  "run_inv r \<longleftrightarrow> run_markers_ok r \<and> run_times_ok r"

definition run_ident :: "Run \<Rightarrow> RunId \<times> TaskId \<times> RunId \<times> instant" where
  "run_ident r = (rn_id r, rn_task_id r, rn_execution_id r, rn_created_at r)"

definition run_terminal :: "RunStatus \<Rightarrow> bool" where
  "run_terminal s \<longleftrightarrow> s \<in> set TERMINAL_RUN_STATUSES"

lemmas run_defs [step_defs] =
  run_start_def run_wait_for_approval_def run_wait_for_delegation_def run_wait_for_workflow_def
  run_resume_def run_resume_from_delegation_def run_succeed_def run_fail_def run_cancel_def
  run_succeed_workflow_def run_fail_workflow_def run_cancel_workflow_def run_require_status_def

lemma run_validated_end_Inr:
  "run_validated_end at r = Inr e \<longleftrightarrow>
     ensure_utc at = Inr e \<and> or_else (rn_started_at r) (rn_created_at r) \<le> e"
  by (cases "ensure_utc at") (auto simp: run_validated_end_def Let_def)

lemma run_new_inv: "run_new i t at x = Inr r \<Longrightarrow> run_inv r"
  by (auto simp: run_new_def outcome_simps run_inv_def run_markers_ok_def run_times_ok_def
      TERMINAL_RUN_STATUSES_def)

lemma run_step_markers: "run_markers_ok r \<Longrightarrow> run_step x r = Done r' \<Longrightarrow> run_markers_ok r'"
  by (cases x) (auto simp: run_defs outcome_simps, simp_all add: run_markers_ok_def)

lemma run_step_times: "run_times_ok r \<Longrightarrow> run_step x r = Done r' \<Longrightarrow> run_times_ok r'"
  by (cases x)
     (auto simp: run_defs outcome_simps run_validated_end_Inr,
      simp_all add: run_times_ok_def TERMINAL_RUN_STATUSES_def)

lemma run_step_inv: "run_inv r \<Longrightarrow> run_step x r = Done r' \<Longrightarrow> run_inv r'"
  unfolding run_inv_def by (blast intro: run_step_markers run_step_times)

lemma run_step_ident: "run_step x r = Done r' \<Longrightarrow> run_ident r' = run_ident r"
  by (cases x) (auto simp: run_defs outcome_simps run_ident_def)

lemma run_step_terminal: "run_terminal (rn_status r) \<Longrightarrow> run_step x r \<noteq> Done r'"
  by (cases x) (auto simp: run_defs outcome_simps run_terminal_def TERMINAL_RUN_STATUSES_def)

lemma run_step_raise: "run_step x r = Raised e r' \<Longrightarrow> r' = r"
  by (cases x) (auto simp: run_defs outcome_simps)

interpretation run_life: closed_lifecycle run_step run_inv run_ident rn_status run_terminal
  by unfold_locales (erule (1) run_step_inv, erule run_step_ident, simp_all add: run_step_terminal)

interpretation run_life: atomic_lifecycle run_step run_inv run_ident rn_status run_terminal
  by unfold_locales (erule run_step_raise)

end
