(* ===== verification/Step_Entity.thy ===== *)
theory Step_Entity
  imports Lifecycle Identifiers Json_Values
begin

text \<open>
  \<^verbatim>\<open>src/src/friday/domain/step.py\<close>: an ordered unit of work inside a Run. One definition per method of
  the class \<^verbatim>\<open>RunStep\<close>.
\<close>

datatype RunStepStatus =
  PENDING | RUNNING | WAITING_FOR_APPROVAL | SUCCEEDED | FAILED | SKIPPED | CANCELLED

fun step_status_value :: "RunStepStatus \<Rightarrow> string" where
  "step_status_value RunStepStatus.PENDING = ''pending''"
| "step_status_value RunStepStatus.RUNNING = ''running''"
| "step_status_value RunStepStatus.WAITING_FOR_APPROVAL = ''waiting_for_approval''"
| "step_status_value RunStepStatus.SUCCEEDED = ''succeeded''"
| "step_status_value RunStepStatus.FAILED = ''failed''"
| "step_status_value RunStepStatus.SKIPPED = ''skipped''"
| "step_status_value RunStepStatus.CANCELLED = ''cancelled''"

definition TERMINAL_RUN_STEP_STATUSES :: "RunStepStatus list" where
  "TERMINAL_RUN_STEP_STATUSES =
     [RunStepStatus.SUCCEEDED, RunStepStatus.FAILED, RunStepStatus.SKIPPED,
      RunStepStatus.CANCELLED]"

record RunStep =
  st_id :: RunStepId
  st_run_id :: RunId
  st_name :: string
  st_position :: int
  st_status :: RunStepStatus
  st_created_at :: instant
  st_started_at :: "instant option"
  st_ended_at :: "instant option"
  st_failure :: "Failure option"
  st_approval_request_id :: "ApprovalRequestId option"

definition step_new ::
  "RunStepId \<Rightarrow> RunId \<Rightarrow> string \<Rightarrow> int \<Rightarrow> datetime \<Rightarrow> domain_error + RunStep" where
  "step_new i run_id name position created_at =
     (let normalized_name = py_strip name in
      ebind (guard (normalized_name \<noteq> [])
        (DomainValidationError ''RunStep.name must not be empty after trimming'')) (\<lambda>_.
      ebind (guard (\<not> position < 0)
        (DomainValidationError ''RunStep.position must be non-negative'')) (\<lambda>_.
      ebind (ensure_utc created_at) (\<lambda>t.
      Inr \<lparr>st_id = i, st_run_id = run_id, st_name = normalized_name, st_position = position,
           st_status = RunStepStatus.PENDING, st_created_at = t, st_started_at = None,
           st_ended_at = None, st_failure = None, st_approval_request_id = None\<rparr>))))"

definition step_require_status ::
  "RunStep \<Rightarrow> RunStepStatus list \<Rightarrow> RunStepStatus \<Rightarrow> domain_error + unit" where
  "step_require_status s allowed target =
     guard (st_status s \<in> set allowed)
       (InvalidStateTransition ''RunStep'' (step_status_value (st_status s))
          (step_status_value target))"

definition step_validated_end :: "datetime \<Rightarrow> RunStep \<Rightarrow> domain_error + instant" where
  "step_validated_end at s =
     ebind (ensure_utc at) (\<lambda>e.
     let reference = or_else (st_started_at s) (st_created_at s) in
     if e < reference
     then Inl (DomainValidationError ''RunStep end timestamp precedes its start/creation time'')
     else Inr e)"

definition step_start :: "datetime \<Rightarrow> RunStep \<Rightarrow> (domain_error, RunStep) outcome" where
  "step_start at s =
     attempt (step_require_status s [RunStepStatus.PENDING] RunStepStatus.RUNNING) s (\<lambda>_.
     attempt (ensure_utc at) s (\<lambda>t.
     Done (s\<lparr>st_started_at := Some t, st_status := RunStepStatus.RUNNING\<rparr>)))"

definition step_wait_for_approval ::
  "datetime \<Rightarrow> ApprovalRequestId \<Rightarrow> RunStep \<Rightarrow> (domain_error, RunStep) outcome" where
  "step_wait_for_approval at approval_request_id s =
     attempt (step_require_status s [RunStepStatus.RUNNING] RunStepStatus.WAITING_FOR_APPROVAL) s
     (\<lambda>_. attempt (ensure_utc at) s (\<lambda>_.
     Done (s\<lparr>st_approval_request_id := Some approval_request_id,
             st_status := RunStepStatus.WAITING_FOR_APPROVAL\<rparr>)))"

definition step_resume :: "datetime \<Rightarrow> RunStep \<Rightarrow> (domain_error, RunStep) outcome" where
  "step_resume at s =
     attempt (step_require_status s [RunStepStatus.WAITING_FOR_APPROVAL] RunStepStatus.RUNNING) s
     (\<lambda>_. attempt (ensure_utc at) s (\<lambda>_.
     Done (s\<lparr>st_approval_request_id := None, st_status := RunStepStatus.RUNNING\<rparr>)))"

definition step_succeed :: "datetime \<Rightarrow> RunStep \<Rightarrow> (domain_error, RunStep) outcome" where
  "step_succeed at s =
     attempt (step_require_status s [RunStepStatus.RUNNING] RunStepStatus.SUCCEEDED) s (\<lambda>_.
     attempt (step_validated_end at s) s (\<lambda>e.
     Done (s\<lparr>st_ended_at := Some e, st_status := RunStepStatus.SUCCEEDED\<rparr>)))"

definition step_fail :: "datetime \<Rightarrow> Failure \<Rightarrow> RunStep \<Rightarrow> (domain_error, RunStep) outcome" where
  "step_fail at failure s =
     attempt (step_require_status s [RunStepStatus.RUNNING] RunStepStatus.FAILED) s (\<lambda>_.
     attempt (step_validated_end at s) s (\<lambda>e.
     Done (s\<lparr>st_ended_at := Some e, st_failure := Some failure,
             st_status := RunStepStatus.FAILED\<rparr>)))"

definition step_skip :: "datetime \<Rightarrow> RunStep \<Rightarrow> (domain_error, RunStep) outcome" where
  "step_skip at s =
     attempt (step_require_status s [RunStepStatus.PENDING] RunStepStatus.SKIPPED) s (\<lambda>_.
     attempt (step_validated_end at s) s (\<lambda>e.
     Done (s\<lparr>st_ended_at := Some e, st_status := RunStepStatus.SKIPPED\<rparr>)))"

definition step_cancel :: "datetime \<Rightarrow> RunStep \<Rightarrow> (domain_error, RunStep) outcome" where
  "step_cancel at s =
     attempt (step_require_status s
       [RunStepStatus.PENDING, RunStepStatus.RUNNING, RunStepStatus.WAITING_FOR_APPROVAL]
       RunStepStatus.CANCELLED) s (\<lambda>_.
     attempt (step_validated_end at s) s (\<lambda>e.
     Done (s\<lparr>st_ended_at := Some e, st_approval_request_id := None,
             st_status := RunStepStatus.CANCELLED\<rparr>)))"

section \<open>Lifecycle\<close>

datatype step_call =
    StepStart datetime
  | StepWaitForApproval datetime ApprovalRequestId
  | StepResume datetime
  | StepSucceed datetime
  | StepFail datetime Failure
  | StepSkip datetime
  | StepCancel datetime

fun step_step :: "step_call \<Rightarrow> RunStep \<Rightarrow> (domain_error, RunStep) outcome" where
  "step_step (StepStart at) = step_start at"
| "step_step (StepWaitForApproval at i) = step_wait_for_approval at i"
| "step_step (StepResume at) = step_resume at"
| "step_step (StepSucceed at) = step_succeed at"
| "step_step (StepFail at f) = step_fail at f"
| "step_step (StepSkip at) = step_skip at"
| "step_step (StepCancel at) = step_cancel at"

definition step_inv :: "RunStep \<Rightarrow> bool" where
  "step_inv s \<longleftrightarrow>
     0 \<le> st_position s \<and>
     (st_approval_request_id s \<noteq> None) = (st_status s = RunStepStatus.WAITING_FOR_APPROVAL) \<and>
     (st_ended_at s \<noteq> None) = (st_status s \<in> set TERMINAL_RUN_STEP_STATUSES) \<and>
     (st_failure s \<noteq> None) = (st_status s = RunStepStatus.FAILED) \<and>
     (st_started_at s = None \<longrightarrow>
        st_status s \<in> {RunStepStatus.PENDING, RunStepStatus.SKIPPED, RunStepStatus.CANCELLED}) \<and>
     (st_status s \<in> {RunStepStatus.PENDING, RunStepStatus.SKIPPED} \<longrightarrow> st_started_at s = None) \<and>
     (\<forall>e. st_ended_at s = Some e \<longrightarrow> or_else (st_started_at s) (st_created_at s) \<le> e)"

definition step_ident :: "RunStep \<Rightarrow> RunStepId \<times> RunId \<times> string \<times> int \<times> instant" where
  "step_ident s = (st_id s, st_run_id s, st_name s, st_position s, st_created_at s)"

definition step_terminal :: "RunStepStatus \<Rightarrow> bool" where
  "step_terminal s \<longleftrightarrow> s \<in> set TERMINAL_RUN_STEP_STATUSES"

lemmas step_entity_defs [step_defs] =
  step_start_def step_wait_for_approval_def step_resume_def step_succeed_def step_fail_def
  step_skip_def step_cancel_def step_require_status_def

lemma step_validated_end_Inr:
  "step_validated_end at s = Inr e \<longleftrightarrow>
     ensure_utc at = Inr e \<and> or_else (st_started_at s) (st_created_at s) \<le> e"
  by (cases "ensure_utc at") (auto simp: step_validated_end_def Let_def)

lemma step_new_inv: "step_new i r n p at = Inr s \<Longrightarrow> step_inv s"
  by (auto simp: step_new_def outcome_simps step_inv_def TERMINAL_RUN_STEP_STATUSES_def Let_def)

lemma step_step_inv: "step_inv s \<Longrightarrow> step_step x s = Done s' \<Longrightarrow> step_inv s'"
  by (cases x)
     (auto simp: step_entity_defs outcome_simps step_validated_end_Inr,
      simp_all add: step_inv_def TERMINAL_RUN_STEP_STATUSES_def)

lemma step_step_ident: "step_step x s = Done s' \<Longrightarrow> step_ident s' = step_ident s"
  by (cases x) (auto simp: step_entity_defs outcome_simps step_ident_def)

lemma step_step_terminal: "step_terminal (st_status s) \<Longrightarrow> step_step x s \<noteq> Done s'"
  by (cases x)
     (auto simp: step_entity_defs outcome_simps step_terminal_def TERMINAL_RUN_STEP_STATUSES_def)

lemma step_step_raise: "step_step x s = Raised e s' \<Longrightarrow> s' = s"
  by (cases x) (auto simp: step_entity_defs outcome_simps)

interpretation step_life: closed_lifecycle step_step step_inv step_ident st_status step_terminal
  by unfold_locales
     (erule (1) step_step_inv, erule step_step_ident, simp_all add: step_step_terminal)

interpretation step_life: atomic_lifecycle step_step step_inv step_ident st_status step_terminal
  by unfold_locales (erule step_step_raise)

end
