(* ===== verification/Approval_Entity.thy ===== *)
theory Approval_Entity
  imports Lifecycle Identifiers Json_Values
begin

text \<open>
  \<^verbatim>\<open>src/src/friday/domain/approval.py\<close>: a request for human authorization. Resolution is one-way; an
  approved request may additionally be consumed, once: the grant behind a protected tool
  execution is one-shot.
\<close>

datatype ApprovalStatus = PENDING | APPROVED | REJECTED | CANCELLED | EXPIRED

fun approval_status_value :: "ApprovalStatus \<Rightarrow> string" where
  "approval_status_value ApprovalStatus.PENDING = ''pending''"
| "approval_status_value ApprovalStatus.APPROVED = ''approved''"
| "approval_status_value ApprovalStatus.REJECTED = ''rejected''"
| "approval_status_value ApprovalStatus.CANCELLED = ''cancelled''"
| "approval_status_value ApprovalStatus.EXPIRED = ''expired''"

definition TERMINAL_APPROVAL_STATUSES :: "ApprovalStatus list" where
  "TERMINAL_APPROVAL_STATUSES =
     [ApprovalStatus.APPROVED, ApprovalStatus.REJECTED, ApprovalStatus.CANCELLED,
      ApprovalStatus.EXPIRED]"

datatype ApprovalCategory =
    TOOL_EXECUTION
  | FILESYSTEM_WRITE
  | NETWORK_ACCESS
  | COMPUTER_USE
  | EXTERNAL_COMMUNICATION
  | OTHER

fun approval_category_value :: "ApprovalCategory \<Rightarrow> string" where
  "approval_category_value TOOL_EXECUTION = ''tool_execution''"
| "approval_category_value FILESYSTEM_WRITE = ''filesystem_write''"
| "approval_category_value NETWORK_ACCESS = ''network_access''"
| "approval_category_value COMPUTER_USE = ''computer_use''"
| "approval_category_value EXTERNAL_COMMUNICATION = ''external_communication''"
| "approval_category_value OTHER = ''other''"

datatype ApprovalSubjectKind = RUN | SKILL_PROMOTION | SKILL_ROLLBACK

record ApprovalRequest =
  ap_id :: ApprovalRequestId
  ap_run_id :: "RunId option"
  ap_category :: ApprovalCategory
  ap_summary :: string
  ap_reason :: string
  ap_requested_action :: string
  ap_requested_input :: pyval
  ap_status :: ApprovalStatus
  ap_requested_at :: instant
  ap_step_id :: "RunStepId option"
  ap_expires_at :: "instant option"
  ap_resolved_at :: "instant option"
  ap_resolution_note :: "string option"
  ap_resolver :: "string option"
  ap_authorization_fingerprint :: "string option"
  ap_consumed_at :: "instant option"
  ap_subject_kind :: ApprovalSubjectKind
  ap_subject_id :: "string option"

text \<open>The regular expression \<^verbatim>\<open>[0-9a-f]{64}\<close> matched in full.\<close>

definition lower_hex64 :: "string \<Rightarrow> bool" where
  "lower_hex64 s \<longleftrightarrow> length s = 64 \<and> (\<forall>c \<in> set s. c \<in> set ''0123456789abcdef'')"

definition approval_new ::
  "ApprovalRequestId \<Rightarrow> RunId option \<Rightarrow> ApprovalCategory \<Rightarrow> string \<Rightarrow> string \<Rightarrow> string \<Rightarrow> pyval
   \<Rightarrow> datetime \<Rightarrow> RunStepId option \<Rightarrow> datetime option \<Rightarrow> string option \<Rightarrow> ApprovalSubjectKind
   \<Rightarrow> string option \<Rightarrow> domain_error + ApprovalRequest" where
  "approval_new i run_id category summary reason requested_action requested_input requested_at
      step_id expires_at fingerprint subject_kind subject_id =
     (let normalized_summary = py_strip summary; normalized_action = py_strip requested_action in
      ebind (guard (normalized_summary \<noteq> [])
        (DomainValidationError ''ApprovalRequest.summary must not be empty'')) (\<lambda>_.
      ebind (guard (normalized_action \<noteq> [])
        (DomainValidationError ''ApprovalRequest.requested_action must not be empty'')) (\<lambda>_.
      ebind (guard (pred_option lower_hex64 fingerprint)
        (DomainValidationError
           ''ApprovalRequest.authorization_fingerprint must be 64 lowercase hex characters'')) (\<lambda>_.
      ebind (guard (\<not> (run_id = None \<and>
           (subject_kind = ApprovalSubjectKind.RUN \<or> subject_id = None \<or> subject_id = Some [])))
        (DomainValidationError ''non-run ApprovalRequest requires a typed subject identity'')) (\<lambda>_.
      ebind (guard (\<not> (run_id \<noteq> None \<and> subject_kind \<noteq> ApprovalSubjectKind.RUN))
        (DomainValidationError ''run ApprovalRequest must use the run subject kind'')) (\<lambda>_.
      ebind (validate_opt ensure_utc expires_at) (\<lambda>normalized_expiry.
      ebind (validate_opt (\<lambda>x. ebind (ensure_utc requested_at) (\<lambda>t.
           guard (\<not> x \<le> t) (DomainValidationError
             ''ApprovalRequest.expires_at must be after its requested_at''))) normalized_expiry) (\<lambda>_.
      ebind (ensure_json_value ''ApprovalRequest.requested_input'' requested_input) (\<lambda>payload.
      ebind (ensure_utc requested_at) (\<lambda>t.
      Inr \<lparr>ap_id = i, ap_run_id = run_id, ap_category = category,
           ap_summary = normalized_summary, ap_reason = py_strip reason,
           ap_requested_action = normalized_action, ap_requested_input = payload,
           ap_status = ApprovalStatus.PENDING, ap_requested_at = t, ap_step_id = step_id,
           ap_expires_at = normalized_expiry, ap_resolved_at = None,
           ap_resolution_note = None, ap_resolver = None,
           ap_authorization_fingerprint = fingerprint, ap_consumed_at = None,
           ap_subject_kind = subject_kind, ap_subject_id = subject_id\<rparr>))))))))))"

definition ap_is_consumed :: "ApprovalRequest \<Rightarrow> bool" where
  "ap_is_consumed a \<longleftrightarrow> ap_consumed_at a \<noteq> None"

definition approval_require_status ::
  "ApprovalRequest \<Rightarrow> ApprovalStatus list \<Rightarrow> ApprovalStatus \<Rightarrow> domain_error + unit" where
  "approval_require_status a allowed target =
     guard (ap_status a \<in> set allowed)
       (InvalidStateTransition ''ApprovalRequest'' (approval_status_value (ap_status a))
          (approval_status_value target))"

definition approval_resolve ::
  "ApprovalStatus \<Rightarrow> datetime \<Rightarrow> string option \<Rightarrow> string option \<Rightarrow> ApprovalRequest
   \<Rightarrow> (domain_error, ApprovalRequest) outcome" where
  "approval_resolve target at resolver note a =
     attempt (approval_require_status a [ApprovalStatus.PENDING] target) a (\<lambda>_.
     attempt (validate_opt (\<lambda>s. ebind (guard (py_strip s \<noteq> [])
         (DomainValidationError ''ApprovalRequest.resolver must not be empty''))
         (\<lambda>_. Inr (py_strip s))) resolver) a (\<lambda>who.
     attempt (ensure_utc at) a (\<lambda>t.
     Done (a\<lparr>ap_resolved_at := Some t, ap_resolver := who, ap_resolution_note := note,
             ap_status := target\<rparr>))))"

definition approval_approve ::
  "datetime \<Rightarrow> string \<Rightarrow> string option \<Rightarrow> ApprovalRequest
   \<Rightarrow> (domain_error, ApprovalRequest) outcome" where
  "approval_approve at resolver note = approval_resolve ApprovalStatus.APPROVED at (Some resolver) note"

definition approval_reject ::
  "datetime \<Rightarrow> string \<Rightarrow> string option \<Rightarrow> ApprovalRequest
   \<Rightarrow> (domain_error, ApprovalRequest) outcome" where
  "approval_reject at resolver note = approval_resolve ApprovalStatus.REJECTED at (Some resolver) note"

definition approval_cancel ::
  "datetime \<Rightarrow> string option \<Rightarrow> ApprovalRequest \<Rightarrow> (domain_error, ApprovalRequest) outcome" where
  "approval_cancel at note = approval_resolve ApprovalStatus.CANCELLED at None note"

definition approval_expire ::
  "datetime \<Rightarrow> ApprovalRequest \<Rightarrow> (domain_error, ApprovalRequest) outcome" where
  "approval_expire at = approval_resolve ApprovalStatus.EXPIRED at None None"

definition approval_consume ::
  "datetime \<Rightarrow> ApprovalRequest \<Rightarrow> (domain_error, ApprovalRequest) outcome" where
  "approval_consume at a =
     require (ap_status a = ApprovalStatus.APPROVED)
       (InvalidStateTransition ''ApprovalRequest'' (approval_status_value (ap_status a)) ''consumed'') a (
     require (ap_consumed_at a = None)
       (DomainValidationError ''ApprovalRequest is already consumed'') a (
     attempt (ensure_utc at) a (\<lambda>t.
     Done (a\<lparr>ap_consumed_at := Some t\<rparr>))))"

section \<open>Lifecycle\<close>

datatype approval_call =
    ApprovalApprove datetime string "string option"
  | ApprovalReject datetime string "string option"
  | ApprovalCancel datetime "string option"
  | ApprovalExpire datetime
  | ApprovalConsume datetime

fun approval_step ::
  "approval_call \<Rightarrow> ApprovalRequest \<Rightarrow> (domain_error, ApprovalRequest) outcome" where
  "approval_step (ApprovalApprove at w n) = approval_approve at w n"
| "approval_step (ApprovalReject at w n) = approval_reject at w n"
| "approval_step (ApprovalCancel at n) = approval_cancel at n"
| "approval_step (ApprovalExpire at) = approval_expire at"
| "approval_step (ApprovalConsume at) = approval_consume at"

definition approval_inv :: "ApprovalRequest \<Rightarrow> bool" where
  "approval_inv a \<longleftrightarrow>
     ap_summary a \<noteq> [] \<and> ap_requested_action a \<noteq> [] \<and> is_json (ap_requested_input a) \<and>
     pred_option lower_hex64 (ap_authorization_fingerprint a) \<and>
     (ap_run_id a \<noteq> None) = (ap_subject_kind a = ApprovalSubjectKind.RUN) \<and>
     pred_option (\<lambda>x. ap_requested_at a < x) (ap_expires_at a) \<and>
     (ap_resolved_at a \<noteq> None) = (ap_status a \<noteq> ApprovalStatus.PENDING) \<and>
     (ap_consumed_at a \<noteq> None \<longrightarrow> ap_status a = ApprovalStatus.APPROVED) \<and>
     (ap_status a \<in> {ApprovalStatus.APPROVED, ApprovalStatus.REJECTED} \<longrightarrow>
        (\<exists>w. ap_resolver a = Some w \<and> w \<noteq> []))"

text \<open>The exact action an approval covers is part of its identity.\<close>

definition approval_ident where
  "approval_ident a =
     (ap_id a, ap_run_id a, ap_step_id a, ap_requested_action a, ap_requested_input a,
      ap_authorization_fingerprint a, ap_expires_at a, ap_subject_kind a, ap_subject_id a)"

definition approval_terminal :: "ApprovalStatus \<Rightarrow> bool" where
  "approval_terminal s \<longleftrightarrow> s \<in> set TERMINAL_APPROVAL_STATUSES"

lemmas approval_defs [step_defs] =
  approval_approve_def approval_reject_def approval_cancel_def approval_expire_def
  approval_consume_def approval_resolve_def approval_require_status_def

lemma approval_new_inv:
  "approval_new i r c s re act inp at st ex fp sk si = Inr a \<Longrightarrow> approval_inv a"
  by (clarsimp simp: approval_new_def outcome_simps Let_def ensure_json_Inr_iff)
     (auto simp: approval_inv_def)

lemma approval_step_inv: "approval_inv a \<Longrightarrow> approval_step x a = Done a' \<Longrightarrow> approval_inv a'"
  by (cases x)
     (auto simp: approval_defs outcome_simps, simp_all add: approval_inv_def py_strip_idem)

lemma approval_step_ident: "approval_step x a = Done a' \<Longrightarrow> approval_ident a' = approval_ident a"
  by (cases x) (auto simp: approval_defs outcome_simps approval_ident_def)

lemma approval_step_final:
  "approval_terminal (ap_status a) \<Longrightarrow> approval_step x a = Done a' \<Longrightarrow> ap_status a' = ap_status a"
  by (cases x)
     (auto simp: approval_defs outcome_simps approval_terminal_def TERMINAL_APPROVAL_STATUSES_def)

lemma approval_step_raise: "approval_step x a = Raised e a' \<Longrightarrow> a' = a"
  by (cases x) (auto simp: approval_defs outcome_simps)

interpretation approval_life: atomic_lifecycle
  approval_step approval_inv approval_ident ap_status approval_terminal
  by unfold_locales
     (erule (1) approval_step_inv, erule approval_step_ident, erule (1) approval_step_final,
      erule approval_step_raise)

end
