(* ===== verification/Tool_Entity.thy ===== *)
theory Tool_Entity
  imports Lifecycle Identifiers Json_Values
begin

text \<open>
  \<^verbatim>\<open>src/src/friday/domain/tool.py\<close> and \<^verbatim>\<open>tool_provenance.py\<close>: the durable record of one attempt to
  invoke a tool. Unlike Run, RunStep and Task, \<^verbatim>\<open>succeed\<close> assigns \<^verbatim>\<open>_completed_at\<close> before it
  validates the output, so a rejected call can leave a running invocation with a
  completion time; only the closed part of the lifecycle contract is interpreted.
\<close>

definition MAX_PROVENANCE_FIELD_CHARS :: nat where
  "MAX_PROVENANCE_FIELD_CHARS = 200"

record ToolProvenance =
  pv_kind :: string
  pv_target :: string
  pv_remote_name :: string
  pv_binding_fingerprint :: string

definition provenance_field :: "string \<Rightarrow> string \<Rightarrow> domain_error + unit" where
  "provenance_field name value =
     ebind (guard (py_strip value \<noteq> [])
       (DomainValidationError (''ToolProvenance.'' @ name @ '' must not be empty''))) (\<lambda>_.
     guard (\<not> MAX_PROVENANCE_FIELD_CHARS < length value)
       (DomainValidationError (''ToolProvenance.'' @ name @ '' must not exceed 200 characters'')))"

definition provenance_post_init :: "ToolProvenance \<Rightarrow> domain_error + ToolProvenance" where
  "provenance_post_init p =
     ebind (provenance_field ''kind'' (pv_kind p)) (\<lambda>_.
     ebind (provenance_field ''target'' (pv_target p)) (\<lambda>_.
     ebind (provenance_field ''remote_name'' (pv_remote_name p)) (\<lambda>_.
     ebind (provenance_field ''binding_fingerprint'' (pv_binding_fingerprint p)) (\<lambda>_.
     Inr p))))"

datatype ToolInvocationStatus = REQUESTED | RUNNING | SUCCEEDED | FAILED | CANCELLED

fun tool_status_value :: "ToolInvocationStatus \<Rightarrow> string" where
  "tool_status_value ToolInvocationStatus.REQUESTED = ''requested''"
| "tool_status_value ToolInvocationStatus.RUNNING = ''running''"
| "tool_status_value ToolInvocationStatus.SUCCEEDED = ''succeeded''"
| "tool_status_value ToolInvocationStatus.FAILED = ''failed''"
| "tool_status_value ToolInvocationStatus.CANCELLED = ''cancelled''"

definition TERMINAL_TOOL_INVOCATION_STATUSES :: "ToolInvocationStatus list" where
  "TERMINAL_TOOL_INVOCATION_STATUSES =
     [ToolInvocationStatus.SUCCEEDED, ToolInvocationStatus.FAILED, ToolInvocationStatus.CANCELLED]"

record ToolInvocation =
  ti_id :: ToolInvocationId
  ti_run_id :: RunId
  ti_tool_name :: string
  ti_requested_input :: pyval
  ti_status :: ToolInvocationStatus
  ti_requested_at :: instant
  ti_step_id :: "RunStepId option"
  ti_approval_request_id :: "ApprovalRequestId option"
  ti_started_at :: "instant option"
  ti_completed_at :: "instant option"
  ti_output :: pyval
  ti_output_set :: bool
  ti_failure :: "Failure option"
  ti_provenance :: "ToolProvenance option"

definition tool_new ::
  "ToolInvocationId \<Rightarrow> RunId \<Rightarrow> string \<Rightarrow> pyval \<Rightarrow> datetime \<Rightarrow> RunStepId option
   \<Rightarrow> ApprovalRequestId option \<Rightarrow> ToolProvenance option \<Rightarrow> domain_error + ToolInvocation" where
  "tool_new i run_id tool_name requested_input requested_at step_id approval_request_id provenance =
     (let normalized_name = py_strip tool_name in
      ebind (guard (normalized_name \<noteq> [])
        (DomainValidationError ''ToolInvocation.tool_name must not be empty'')) (\<lambda>_.
      ebind (ensure_json_value ''ToolInvocation.requested_input'' requested_input) (\<lambda>payload.
      ebind (ensure_utc requested_at) (\<lambda>t.
      Inr \<lparr>ti_id = i, ti_run_id = run_id, ti_tool_name = normalized_name,
           ti_requested_input = payload, ti_status = ToolInvocationStatus.REQUESTED,
           ti_requested_at = t, ti_step_id = step_id,
           ti_approval_request_id = approval_request_id, ti_started_at = None,
           ti_completed_at = None, ti_output = PyNone, ti_output_set = False,
           ti_failure = None, ti_provenance = provenance\<rparr>))))"

definition tool_require_status ::
  "ToolInvocation \<Rightarrow> ToolInvocationStatus list \<Rightarrow> ToolInvocationStatus \<Rightarrow> domain_error + unit" where
  "tool_require_status i allowed target =
     guard (ti_status i \<in> set allowed)
       (InvalidStateTransition ''ToolInvocation'' (tool_status_value (ti_status i))
          (tool_status_value target))"

definition tool_validated_end :: "datetime \<Rightarrow> ToolInvocation \<Rightarrow> domain_error + instant" where
  "tool_validated_end at i =
     ebind (ensure_utc at) (\<lambda>e.
     let reference = or_else (ti_started_at i) (ti_requested_at i) in
     if e < reference
     then Inl (DomainValidationError
       ''ToolInvocation end timestamp precedes its start/request time'')
     else Inr e)"

definition tool_start :: "datetime \<Rightarrow> ToolInvocation \<Rightarrow> (domain_error, ToolInvocation) outcome" where
  "tool_start at i =
     attempt (tool_require_status i [ToolInvocationStatus.REQUESTED] ToolInvocationStatus.RUNNING) i
     (\<lambda>_. attempt (ensure_utc at) i (\<lambda>t.
     Done (i\<lparr>ti_started_at := Some t, ti_status := ToolInvocationStatus.RUNNING\<rparr>)))"

text \<open>The output is \<open>None\<close> when the caller passed none (the \<^verbatim>\<open>_UNSET\<close> sentinel).\<close>

definition tool_succeed ::
  "datetime \<Rightarrow> pyval option \<Rightarrow> ToolInvocation \<Rightarrow> (domain_error, ToolInvocation) outcome" where
  "tool_succeed at output i =
     attempt (tool_require_status i [ToolInvocationStatus.RUNNING] ToolInvocationStatus.SUCCEEDED) i
     (\<lambda>_. attempt (from_option (DomainValidationError
       ''ToolInvocation.succeed requires an explicit output (None is a valid output)'') output) i (\<lambda>v.
     attempt (tool_validated_end at i) i (\<lambda>e.
     let j = i\<lparr>ti_completed_at := Some e\<rparr> in
     attempt (ensure_json_value ''ToolInvocation.output'' v) j (\<lambda>w.
     Done (j\<lparr>ti_output := w, ti_output_set := True,
             ti_status := ToolInvocationStatus.SUCCEEDED\<rparr>)))))"

definition tool_fail ::
  "datetime \<Rightarrow> Failure \<Rightarrow> ToolInvocation \<Rightarrow> (domain_error, ToolInvocation) outcome" where
  "tool_fail at failure i =
     attempt (tool_require_status i [ToolInvocationStatus.RUNNING] ToolInvocationStatus.FAILED) i
     (\<lambda>_. attempt (tool_validated_end at i) i (\<lambda>e.
     Done (i\<lparr>ti_completed_at := Some e, ti_failure := Some failure,
             ti_status := ToolInvocationStatus.FAILED\<rparr>)))"

definition tool_cancel :: "datetime \<Rightarrow> ToolInvocation \<Rightarrow> (domain_error, ToolInvocation) outcome" where
  "tool_cancel at i =
     attempt (tool_require_status i
       [ToolInvocationStatus.REQUESTED, ToolInvocationStatus.RUNNING]
       ToolInvocationStatus.CANCELLED) i
     (\<lambda>_. attempt (tool_validated_end at i) i (\<lambda>e.
     Done (i\<lparr>ti_completed_at := Some e, ti_status := ToolInvocationStatus.CANCELLED\<rparr>)))"

section \<open>Lifecycle\<close>

datatype tool_call =
    ToolStart datetime
  | ToolSucceed datetime "pyval option"
  | ToolFail datetime Failure
  | ToolCancel datetime

fun tool_step :: "tool_call \<Rightarrow> ToolInvocation \<Rightarrow> (domain_error, ToolInvocation) outcome" where
  "tool_step (ToolStart at) = tool_start at"
| "tool_step (ToolSucceed at v) = tool_succeed at v"
| "tool_step (ToolFail at f) = tool_fail at f"
| "tool_step (ToolCancel at) = tool_cancel at"

definition tool_inv :: "ToolInvocation \<Rightarrow> bool" where
  "tool_inv i \<longleftrightarrow>
     ti_tool_name i \<noteq> [] \<and> is_json (ti_requested_input i) \<and> is_json (ti_output i) \<and>
     ti_output_set i = (ti_status i = ToolInvocationStatus.SUCCEEDED) \<and>
     (ti_failure i \<noteq> None) = (ti_status i = ToolInvocationStatus.FAILED) \<and>
     (ti_completed_at i \<noteq> None) = (ti_status i \<in> set TERMINAL_TOOL_INVOCATION_STATUSES) \<and>
     (ti_started_at i = None \<longrightarrow>
        ti_status i \<in> {ToolInvocationStatus.REQUESTED, ToolInvocationStatus.CANCELLED}) \<and>
     (ti_status i = ToolInvocationStatus.REQUESTED \<longrightarrow> ti_started_at i = None) \<and>
     (\<forall>e. ti_completed_at i = Some e \<longrightarrow> or_else (ti_started_at i) (ti_requested_at i) \<le> e)"

text \<open>The external target and the authorizing approval never change after creation.\<close>

definition tool_ident where
  "tool_ident i =
     (ti_id i, ti_run_id i, ti_tool_name i, ti_requested_input i, ti_step_id i,
      ti_approval_request_id i, ti_provenance i)"

definition tool_terminal :: "ToolInvocationStatus \<Rightarrow> bool" where
  "tool_terminal s \<longleftrightarrow> s \<in> set TERMINAL_TOOL_INVOCATION_STATUSES"

lemmas tool_defs [step_defs] =
  tool_start_def tool_succeed_def tool_fail_def tool_cancel_def tool_require_status_def

lemma tool_validated_end_Inr:
  "tool_validated_end at i = Inr e \<longleftrightarrow>
     ensure_utc at = Inr e \<and> or_else (ti_started_at i) (ti_requested_at i) \<le> e"
  by (cases "ensure_utc at") (auto simp: tool_validated_end_def Let_def)

lemma tool_new_inv: "tool_new i r n p at s a v = Inr t \<Longrightarrow> tool_inv t"
  by (auto simp: tool_new_def outcome_simps tool_inv_def Let_def ensure_json_Inr_iff
      TERMINAL_TOOL_INVOCATION_STATUSES_def)

lemma tool_step_inv: "tool_inv i \<Longrightarrow> tool_step x i = Done i' \<Longrightarrow> tool_inv i'"
  by (cases x)
     (auto simp: tool_defs outcome_simps tool_validated_end_Inr Let_def ensure_json_Inr_iff,
      simp_all add: tool_inv_def TERMINAL_TOOL_INVOCATION_STATUSES_def)

lemma tool_step_ident: "tool_step x i = Done i' \<Longrightarrow> tool_ident i' = tool_ident i"
  by (cases x) (auto simp: tool_defs outcome_simps tool_ident_def Let_def)

lemma tool_step_terminal: "tool_terminal (ti_status i) \<Longrightarrow> tool_step x i \<noteq> Done i'"
  by (cases x)
     (auto simp: tool_defs outcome_simps tool_terminal_def TERMINAL_TOOL_INVOCATION_STATUSES_def)

interpretation tool_life: closed_lifecycle tool_step tool_inv tool_ident ti_status tool_terminal
  by unfold_locales
     (erule (1) tool_step_inv, erule tool_step_ident, simp_all add: tool_step_terminal)

text \<open>
  The one call that is not atomic: a running invocation whose output is not JSON is
  rejected with its completion time already written.
\<close>

lemma tool_succeed_bad_output:
  assumes "ti_status i = ToolInvocationStatus.RUNNING" and "\<not> is_json v"
    and "tool_validated_end at i = Inr e"
  obtains err where "tool_succeed at (Some v) i = Raised err (i\<lparr>ti_completed_at := Some e\<rparr>)"
proof (cases "ensure_json_value ''ToolInvocation.output'' v")
  case (Inl err)
  with assms that show ?thesis by (simp add: tool_defs Let_def)
next
  case (Inr w)
  with assms(2) show ?thesis by (simp add: ensure_json_Inr_iff)
qed

lemma tool_step_raise:
  assumes "tool_step x i = Raised e i'" and "\<And>at v. x = ToolSucceed at (Some v) \<Longrightarrow> is_json v"
  shows "i' = i"
  using assms
  by (cases x) (auto simp: tool_defs outcome_simps Let_def ensure_json_spec)

end
