(* ===== verification/Canonical_Json.thy ===== *)
theory Canonical_Json
  imports Json_Values
begin

text \<open>
  The canonical JSON text that every fingerprint and content digest of the source is
  computed from: \<^verbatim>\<open>json.dumps(value, sort_keys=True, separators=(",", ":"))\<close>, with
  \<^verbatim>\<open>ensure_ascii\<close> on or off. Keys are sorted first (\<open>json_sort\<close>), then the value is
  printed (\<open>json_print\<close>). Only values that passed \<open>ensure_json_value\<close> are printed.
  The digest itself (SHA-256) is a parameter of the definitions that use it.
\<close>

section \<open>Sorting keys\<close>

definition key_str :: "pyval \<Rightarrow> string" where
  "key_str k = (case k of PyStr s \<Rightarrow> s | _ \<Rightarrow> [])"

fun json_sort :: "pyval \<Rightarrow> pyval" where
  "json_sort (PyList xs) = PyList (map json_sort xs)"
| "json_sort (PyDict es) =
     PyDict (sort_key (\<lambda>e. key_str (fst e)) (map (\<lambda>(k, v). (k, json_sort v)) es))"
| "json_sort v = v"

section \<open>Printing\<close>

definition hex_digit :: "nat \<Rightarrow> char" where
  "hex_digit n = ''0123456789abcdef'' ! n"

definition json_escape :: "bool \<Rightarrow> char \<Rightarrow> string" where
  "json_escape ascii c =
     (let n = (of_char c :: nat) in
      if n = 34 then [CHR 0x5C, CHR 0x22]
      else if n = 92 then [CHR 0x5C, CHR 0x5C]
      else if n = 10 then CHR 0x5C # ''n''
      else if n = 13 then CHR 0x5C # ''r''
      else if n = 9 then CHR 0x5C # ''t''
      else if n = 12 then CHR 0x5C # ''f''
      else if n = 8 then CHR 0x5C # ''b''
      else if n < 32 \<or> (ascii \<and> 126 < n)
      then CHR 0x5C # ''u00'' @ [hex_digit (n div 16), hex_digit (n mod 16)]
      else [c])"

definition json_string :: "bool \<Rightarrow> string \<Rightarrow> string" where
  "json_string ascii s = CHR 0x22 # concat (map (json_escape ascii) s) @ [CHR 0x22]"

definition show_int :: "int \<Rightarrow> string" where
  "show_int i = (if i < 0 then CHR ''-'' # show_nat (nat (- i)) else show_nat (nat i))"

fun comma_sep :: "string list \<Rightarrow> string" where
  "comma_sep [] = []"
| "comma_sep [x] = x"
| "comma_sep (x # y # zs) = x @ '','' @ comma_sep (y # zs)"

fun json_print :: "bool \<Rightarrow> pyval \<Rightarrow> string" where
  "json_print a PyNone = ''null''"
| "json_print a (PyBool b) = (if b then ''true'' else ''false'')"
| "json_print a (PyInt i) = show_int i"
| "json_print a (PyStr s) = json_string a s"
| "json_print a (PyFloat f) =
     (case f of Finite r \<Rightarrow> r | NaN \<Rightarrow> ''NaN'' | PosInf \<Rightarrow> ''Infinity'' | NegInf \<Rightarrow> ''-Infinity'')"
| "json_print a (PyList xs) = ''['' @ comma_sep (map (json_print a) xs) @ '']''"
| "json_print a (PyDict es) =
     ''{'' @ comma_sep (map (\<lambda>(k, v). json_string a (key_str k) @ '':'' @ json_print a v) es) @ ''}''"
| "json_print a (PyOther t) = []"

definition json_dumps :: "bool \<Rightarrow> pyval \<Rightarrow> string" where
  "json_dumps ascii v = json_print ascii (json_sort v)"

section \<open>No raw line breaks\<close>

text \<open>Escaping leaves no line feed, which is what separates the parts of a fingerprint.\<close>

lemma hex_digit_in: "n < 16 \<Longrightarrow> hex_digit n \<in> set ''0123456789abcdef''"
  unfolding hex_digit_def by (rule nth_mem) simp

lemma hex_digit_not_newline: "n < 16 \<Longrightarrow> hex_digit n \<noteq> CHR 0x0A"
  using hex_digit_in by fastforce

lemma of_char_newline: "(of_char c = (10 :: nat)) = (c = CHR 0x0A)"
proof -
  have "of_char (CHR 0x0A) = (10 :: nat)" by simp
  then show ?thesis by (metis of_char_eq_iff)
qed

lemma json_escape_no_newline: "CHR 0x0A \<notin> set (json_escape a c)"
proof -
  have "(of_char c :: nat) div 16 < 16" and "(of_char c :: nat) mod 16 < 16"
    using nat_of_char_less_256 [of c] by (simp_all add: less_mult_imp_div_less)
  from hex_digit_not_newline [OF this(1)] hex_digit_not_newline [OF this(2)]
  show ?thesis
    by (auto simp: json_escape_def Let_def of_char_newline)
qed

lemma json_string_no_newline: "CHR 0x0A \<notin> set (json_string a s)"
  using json_escape_no_newline by (auto simp: json_string_def)

lemma comma_sep_set: "set (comma_sep xs) \<subseteq> insert (CHR '','') (\<Union> (set ` set xs))"
  by (induction xs rule: comma_sep.induct) auto

lemma show_nat_digits: "set (show_nat n) \<subseteq> set ''0123456789''"
proof (induction n rule: show_nat.induct)
  case (1 n)
  have d: "''0123456789'' ! m \<in> set ''0123456789''" if "m < 10" for m :: nat
    using that by (intro nth_mem) simp
  show ?case
  proof (cases "n < 10")
    case True
    then show ?thesis using d [of n] by (subst show_nat.simps) auto
  next
    case False
    then show ?thesis using 1 d [of "n mod 10"] by (subst show_nat.simps) auto
  qed
qed

end
