(* ===== verification/Delegation_Entity.thy ===== *)
theory Delegation_Entity
  imports Lifecycle Identifiers Canonical_Json Approval_Entity
begin

text \<open>
  \<^verbatim>\<open>src/src/friday/domain/delegation.py\<close>: the durable edge from a parent Run to the child Run a target
  Agent executes. A \<open>DelegationDraft\<close> holds the constructor's arguments;
  \<open>delegation_post_init\<close> is \<^verbatim>\<open>__post_init__\<close>. The digest \<open>sha256\<close> is a parameter.
\<close>

definition MAX_OBJECTIVE_LENGTH :: nat where "MAX_OBJECTIVE_LENGTH = 4000"
definition MAX_OUTPUT_CONTRACT_LENGTH :: nat where "MAX_OUTPUT_CONTRACT_LENGTH = 4000"
definition MAX_FAILURE_CODE_LENGTH :: nat where "MAX_FAILURE_CODE_LENGTH = 128"
definition MAX_DELEGATIONS_PER_RUN :: nat where "MAX_DELEGATIONS_PER_RUN = 4"
definition MAX_DELEGATIONS_PER_TREE :: nat where "MAX_DELEGATIONS_PER_TREE = 16"
definition ROOT_DELEGATION_DEPTH :: int where "ROOT_DELEGATION_DEPTH = 1"
definition MAX_DELEGATION_DEPTH :: int where "MAX_DELEGATION_DEPTH = 3"

datatype DelegationStatus = REQUESTED | DISPATCHED | SUCCEEDED | FAILED | CANCELLED

fun delegation_status_value :: "DelegationStatus \<Rightarrow> string" where
  "delegation_status_value DelegationStatus.REQUESTED = ''requested''"
| "delegation_status_value DelegationStatus.DISPATCHED = ''dispatched''"
| "delegation_status_value DelegationStatus.SUCCEEDED = ''succeeded''"
| "delegation_status_value DelegationStatus.FAILED = ''failed''"
| "delegation_status_value DelegationStatus.CANCELLED = ''cancelled''"

definition TERMINAL_DELEGATION_STATUSES :: "DelegationStatus list" where
  "TERMINAL_DELEGATION_STATUSES =
     [DelegationStatus.SUCCEEDED, DelegationStatus.FAILED, DelegationStatus.CANCELLED]"

definition delegation_material ::
  "DelegationRequestId \<Rightarrow> RunId \<Rightarrow> RunStepId option \<Rightarrow> AgentId \<Rightarrow> string \<Rightarrow> pyval \<Rightarrow> string \<Rightarrow> string"
where
  "delegation_material i parent_run_id parent_run_step_id target_agent_id objective input_payload
      expected_output_contract =
     json_dumps True (PyDict
       [(PyStr ''version'', PyInt 1),
        (PyStr ''delegation_request_id'', PyStr (id_str i)),
        (PyStr ''parent_run_id'', PyStr (id_str parent_run_id)),
        (PyStr ''parent_run_step_id'',
           (case parent_run_step_id of None \<Rightarrow> PyNone | Some s \<Rightarrow> PyStr (id_str s))),
        (PyStr ''target_agent_id'', PyStr (id_str target_agent_id)),
        (PyStr ''objective'', PyStr objective),
        (PyStr ''input_payload'', input_payload),
        (PyStr ''expected_output_contract'', PyStr expected_output_contract)])"

definition compute_delegation_fingerprint ::
  "(string \<Rightarrow> string) \<Rightarrow> DelegationRequestId \<Rightarrow> RunId \<Rightarrow> RunStepId option \<Rightarrow> AgentId \<Rightarrow> string
   \<Rightarrow> pyval \<Rightarrow> string \<Rightarrow> string" where
  "compute_delegation_fingerprint sha256 i p s a objective payload contract =
     sha256 (delegation_material i p s a objective payload contract)"

record DelegationRequest =
  dg_id :: DelegationRequestId
  dg_parent_run_id :: RunId
  dg_target_agent_id :: AgentId
  dg_objective :: string
  dg_input_payload :: pyval
  dg_expected_output_contract :: string
  dg_authorization_fingerprint :: string
  dg_status :: DelegationStatus
  dg_created_at :: instant
  dg_parent_run_step_id :: "RunStepId option"
  dg_child_task_id :: "TaskId option"
  dg_child_run_id :: "RunId option"
  dg_started_at :: "instant option"
  dg_completed_at :: "instant option"
  dg_failure_code :: "string option"
  dg_root_delegation_id :: DelegationRequestId
  dg_depth :: int

record DelegationDraft =
  dd_id :: DelegationRequestId
  dd_parent_run_id :: RunId
  dd_target_agent_id :: AgentId
  dd_objective :: string
  dd_input_payload :: pyval
  dd_expected_output_contract :: string
  dd_authorization_fingerprint :: string
  dd_status :: DelegationStatus
  dd_created_at :: datetime
  dd_parent_run_step_id :: "RunStepId option"
  dd_child_task_id :: "TaskId option"
  dd_child_run_id :: "RunId option"
  dd_started_at :: "datetime option"
  dd_completed_at :: "datetime option"
  dd_failure_code :: "string option"
  dd_root_delegation_id :: "DelegationRequestId option"
  dd_depth :: "int option"

definition delegation_validate_state_shape :: "DelegationRequest \<Rightarrow> domain_error + unit" where
  "delegation_validate_state_shape d =
     (let dispatched = (dg_child_task_id d \<noteq> None \<and> dg_child_run_id d \<noteq> None) in
      ebind (guard (\<not> ((dg_child_task_id d = None) \<noteq> (dg_child_run_id d = None)))
        (DomainValidationError ''delegation child task/run ids must be paired'')) (\<lambda>_.
      case dg_status d of
        DelegationStatus.REQUESTED \<Rightarrow>
          ebind (guard (\<not> (dispatched \<or> dg_started_at d \<noteq> None \<or> dg_completed_at d \<noteq> None))
            (DomainValidationError ''requested delegation cannot have child execution state'')) (\<lambda>_.
          guard (dg_failure_code d = None)
            (DomainValidationError ''requested delegation cannot have a failure code''))
      | DelegationStatus.DISPATCHED \<Rightarrow>
          ebind (guard (\<not> (\<not> dispatched \<or> dg_started_at d = None \<or> dg_completed_at d \<noteq> None))
            (DomainValidationError ''dispatched delegation has invalid execution state'')) (\<lambda>_.
          guard (dg_failure_code d = None)
            (DomainValidationError ''dispatched delegation cannot have a failure code''))
      | DelegationStatus.SUCCEEDED \<Rightarrow>
          ebind (guard (\<not> (\<not> dispatched \<or> dg_started_at d = None \<or> dg_completed_at d = None))
            (DomainValidationError ''succeeded delegation has invalid execution state'')) (\<lambda>_.
          guard (dg_failure_code d = None)
            (DomainValidationError ''succeeded delegation cannot have a failure code''))
      | DelegationStatus.FAILED \<Rightarrow>
          ebind (guard (\<not> (\<not> dispatched \<or> dg_started_at d = None \<or> dg_completed_at d = None))
            (DomainValidationError ''failed delegation has invalid execution state'')) (\<lambda>_.
          guard (dg_failure_code d \<noteq> None \<and> dg_failure_code d \<noteq> Some [])
            (DomainValidationError ''failed DelegationRequest requires a failure_code''))
      | DelegationStatus.CANCELLED \<Rightarrow>
          ebind (guard (dg_failure_code d = None)
            (DomainValidationError ''cancelled delegation cannot have a failure code'')) (\<lambda>_.
          guard (\<not> (dispatched \<and> (dg_started_at d = None \<or> dg_completed_at d = None)))
            (DomainValidationError ''dispatched cancelled delegation has invalid execution state''))))"

definition delegation_post_init ::
  "(string \<Rightarrow> string) \<Rightarrow> DelegationDraft \<Rightarrow> domain_error + DelegationRequest" where
  "delegation_post_init sha256 d =
     (let objective = py_strip (dd_objective d) in
      ebind (guard (objective \<noteq> [] \<and> length objective \<le> MAX_OBJECTIVE_LENGTH) (DomainValidationError
        ''DelegationRequest.objective must be non-empty and within the maximum length'')) (\<lambda>_.
      let contract = py_strip (dd_expected_output_contract d) in
      ebind (guard (contract \<noteq> [] \<and> length contract \<le> MAX_OUTPUT_CONTRACT_LENGTH)
        (DomainValidationError
          ''DelegationRequest.expected_output_contract must be non-empty and within the maximum length''))
      (\<lambda>_.
      ebind (ensure_json_value ''DelegationRequest.input_payload'' (dd_input_payload d)) (\<lambda>_.
      ebind (guard (lower_hex64 (dd_authorization_fingerprint d)) (DomainValidationError
        ''DelegationRequest.authorization_fingerprint must be lowercase sha256'')) (\<lambda>_.
      ebind (guard (dd_authorization_fingerprint d =
          compute_delegation_fingerprint sha256 (dd_id d) (dd_parent_run_id d)
            (dd_parent_run_step_id d) (dd_target_agent_id d) objective (dd_input_payload d) contract)
        (DomainValidationError ''delegation_fingerprint_mismatch'')) (\<lambda>_.
      ebind (guard (pred_option (\<lambda>c. length c \<le> MAX_FAILURE_CODE_LENGTH) (dd_failure_code d))
        (DomainValidationError ''DelegationRequest.failure_code exceeds the maximum length'')) (\<lambda>_.
      ebind (guard (\<not> (dd_status d = DelegationStatus.FAILED \<and> dd_failure_code d = None))
        (DomainValidationError ''failed DelegationRequest requires a failure_code'')) (\<lambda>_.
      ebind (guard (\<not> (dd_status d \<noteq> DelegationStatus.FAILED \<and> dd_failure_code d \<noteq> None))
        (DomainValidationError ''only a failed DelegationRequest may carry a failure_code'')) (\<lambda>_.
      let root = or_else (dd_root_delegation_id d) (dd_id d);
          depth = or_else (dd_depth d) ROOT_DELEGATION_DEPTH in
      ebind (guard (\<not> depth < ROOT_DELEGATION_DEPTH)
        (DomainValidationError ''DelegationRequest.depth must be at least 1'')) (\<lambda>_.
      ebind (guard ((depth = ROOT_DELEGATION_DEPTH) = (root = dd_id d)) (DomainValidationError
        ''a root delegation has depth 1 and is its own root; a nested delegation has depth > 1 and names another delegation as root''))
      (\<lambda>_.
      ebind (ensure_utc (dd_created_at d)) (\<lambda>created.
      ebind (validate_opt ensure_utc (dd_started_at d)) (\<lambda>started.
      ebind (validate_opt ensure_utc (dd_completed_at d)) (\<lambda>completed.
      let r = \<lparr>dg_id = dd_id d, dg_parent_run_id = dd_parent_run_id d,
               dg_target_agent_id = dd_target_agent_id d, dg_objective = objective,
               dg_input_payload = dd_input_payload d, dg_expected_output_contract = contract,
               dg_authorization_fingerprint = dd_authorization_fingerprint d,
               dg_status = dd_status d, dg_created_at = created,
               dg_parent_run_step_id = dd_parent_run_step_id d,
               dg_child_task_id = dd_child_task_id d, dg_child_run_id = dd_child_run_id d,
               dg_started_at = started, dg_completed_at = completed,
               dg_failure_code = dd_failure_code d, dg_root_delegation_id = root,
               dg_depth = depth\<rparr> in
      ebind (delegation_validate_state_shape r) (\<lambda>_. Inr r)))))))))))))))"

definition delegation_new ::
  "(string \<Rightarrow> string) \<Rightarrow> DelegationRequestId \<Rightarrow> RunId \<Rightarrow> AgentId \<Rightarrow> string \<Rightarrow> pyval \<Rightarrow> string
   \<Rightarrow> datetime \<Rightarrow> RunStepId option \<Rightarrow> DelegationRequestId option \<Rightarrow> int option
   \<Rightarrow> domain_error + DelegationRequest" where
  "delegation_new sha256 i parent_run_id target objective payload contract created_at step_id root depth =
     ebind (ensure_json_value ''DelegationRequest.input_payload'' payload) (\<lambda>canonical.
     ebind (ensure_utc created_at) (\<lambda>created.
     delegation_post_init sha256
       \<lparr>dd_id = i, dd_parent_run_id = parent_run_id, dd_target_agent_id = target,
        dd_objective = py_strip objective, dd_input_payload = canonical,
        dd_expected_output_contract = py_strip contract,
        dd_authorization_fingerprint =
          compute_delegation_fingerprint sha256 i parent_run_id step_id target
            (py_strip objective) canonical (py_strip contract),
        dd_status = DelegationStatus.REQUESTED, dd_created_at = utc created,
        dd_parent_run_step_id = step_id, dd_child_task_id = None, dd_child_run_id = None,
        dd_started_at = None, dd_completed_at = None, dd_failure_code = None,
        dd_root_delegation_id = root, dd_depth = depth\<rparr>))"

definition delegation_dispatch ::
  "TaskId \<Rightarrow> RunId \<Rightarrow> datetime \<Rightarrow> DelegationRequest
   \<Rightarrow> (domain_error, DelegationRequest) outcome" where
  "delegation_dispatch child_task_id child_run_id at d =
     require (dg_status d = DelegationStatus.REQUESTED)
       (InvalidStateTransition ''DelegationRequest'' (delegation_status_value (dg_status d))
          ''dispatched'') d (
     let e = d\<lparr>dg_child_task_id := Some child_task_id, dg_child_run_id := Some child_run_id\<rparr> in
     attempt (ensure_utc at) e (\<lambda>t.
     Done (e\<lparr>dg_started_at := Some t, dg_status := DelegationStatus.DISPATCHED\<rparr>)))"

definition delegation_succeed ::
  "datetime \<Rightarrow> DelegationRequest \<Rightarrow> (domain_error, DelegationRequest) outcome" where
  "delegation_succeed at d =
     require (dg_status d = DelegationStatus.DISPATCHED)
       (InvalidStateTransition ''DelegationRequest'' (delegation_status_value (dg_status d))
          ''succeeded'') d (
     attempt (ensure_utc at) d (\<lambda>t.
     Done (d\<lparr>dg_completed_at := Some t, dg_status := DelegationStatus.SUCCEEDED\<rparr>)))"

definition delegation_fail ::
  "datetime \<Rightarrow> string \<Rightarrow> DelegationRequest \<Rightarrow> (domain_error, DelegationRequest) outcome" where
  "delegation_fail at failure_code d =
     require (dg_status d = DelegationStatus.DISPATCHED)
       (InvalidStateTransition ''DelegationRequest'' (delegation_status_value (dg_status d))
          ''failed'') d (
     let code = py_strip failure_code in
     require (code \<noteq> [] \<and> length code \<le> MAX_FAILURE_CODE_LENGTH)
       (DomainValidationError ''delegation failure code is empty or too long'') d (
     let e = d\<lparr>dg_failure_code := Some code\<rparr> in
     attempt (ensure_utc at) e (\<lambda>t.
     Done (e\<lparr>dg_completed_at := Some t, dg_status := DelegationStatus.FAILED\<rparr>))))"

definition delegation_cancel ::
  "datetime \<Rightarrow> DelegationRequest \<Rightarrow> (domain_error, DelegationRequest) outcome" where
  "delegation_cancel at d =
     require (dg_status d \<in> {DelegationStatus.REQUESTED, DelegationStatus.DISPATCHED})
       (InvalidStateTransition ''DelegationRequest'' (delegation_status_value (dg_status d))
          ''cancelled'') d (
     attempt (ensure_utc at) d (\<lambda>t.
     Done (d\<lparr>dg_completed_at := Some t, dg_status := DelegationStatus.CANCELLED\<rparr>)))"

section \<open>Lifecycle\<close>

datatype delegation_call =
    DelegationDispatch TaskId RunId datetime
  | DelegationSucceed datetime
  | DelegationFail datetime string
  | DelegationCancel datetime

fun delegation_step ::
  "delegation_call \<Rightarrow> DelegationRequest \<Rightarrow> (domain_error, DelegationRequest) outcome" where
  "delegation_step (DelegationDispatch t r at) = delegation_dispatch t r at"
| "delegation_step (DelegationSucceed at) = delegation_succeed at"
| "delegation_step (DelegationFail at c) = delegation_fail at c"
| "delegation_step (DelegationCancel at) = delegation_cancel at"

text \<open>
  Everything the constructor checks, so that a stored delegation can be read back: the
  fingerprint binds the exact intent, root and depth agree, the state has its shape.
\<close>

definition delegation_inv :: "(string \<Rightarrow> string) \<Rightarrow> DelegationRequest \<Rightarrow> bool" where
  "delegation_inv sha256 d \<longleftrightarrow>
     dg_objective d \<noteq> [] \<and> length (dg_objective d) \<le> MAX_OBJECTIVE_LENGTH \<and>
     dg_expected_output_contract d \<noteq> [] \<and>
     length (dg_expected_output_contract d) \<le> MAX_OUTPUT_CONTRACT_LENGTH \<and>
     is_json (dg_input_payload d) \<and>
     dg_authorization_fingerprint d =
       compute_delegation_fingerprint sha256 (dg_id d) (dg_parent_run_id d)
         (dg_parent_run_step_id d) (dg_target_agent_id d) (dg_objective d) (dg_input_payload d)
         (dg_expected_output_contract d) \<and>
     pred_option (\<lambda>c. length c \<le> MAX_FAILURE_CODE_LENGTH) (dg_failure_code d) \<and>
     ROOT_DELEGATION_DEPTH \<le> dg_depth d \<and>
     (dg_depth d = ROOT_DELEGATION_DEPTH) = (dg_root_delegation_id d = dg_id d) \<and>
     delegation_validate_state_shape d = Inr ()"

definition delegation_ident where
  "delegation_ident d =
     (dg_id d, dg_parent_run_id d, dg_target_agent_id d, dg_objective d, dg_input_payload d,
      dg_expected_output_contract d, dg_authorization_fingerprint d, dg_created_at d,
      dg_parent_run_step_id d, dg_root_delegation_id d, dg_depth d)"

definition delegation_terminal :: "DelegationStatus \<Rightarrow> bool" where
  "delegation_terminal s \<longleftrightarrow> s \<in> set TERMINAL_DELEGATION_STATUSES"

lemmas delegation_defs [step_defs] =
  delegation_dispatch_def delegation_succeed_def delegation_fail_def delegation_cancel_def

lemma delegation_post_init_inv:
  "delegation_post_init sha256 d = Inr r \<Longrightarrow> delegation_inv sha256 r"
  by (clarsimp simp: delegation_post_init_def outcome_simps Let_def ensure_json_Inr_iff)
     (auto simp: delegation_inv_def)

lemma delegation_new_inv:
  "delegation_new sha256 i p t ob pl ct at st root dep = Inr r \<Longrightarrow> delegation_inv sha256 r"
  by (auto simp: delegation_new_def outcome_simps dest: delegation_post_init_inv)

lemma delegation_step_inv:
  "delegation_inv sha256 d \<Longrightarrow> delegation_step x d = Done d' \<Longrightarrow> delegation_inv sha256 d'"
  by (cases x)
     (auto simp: delegation_defs outcome_simps Let_def,
      simp_all add: delegation_inv_def delegation_validate_state_shape_def outcome_simps, auto)

lemma delegation_step_ident:
  "delegation_step x d = Done d' \<Longrightarrow> delegation_ident d' = delegation_ident d"
  by (cases x) (auto simp: delegation_defs outcome_simps delegation_ident_def Let_def)

lemma delegation_step_terminal:
  "delegation_terminal (dg_status d) \<Longrightarrow> delegation_step x d \<noteq> Done d'"
  by (cases x)
     (auto simp: delegation_defs outcome_simps delegation_terminal_def
      TERMINAL_DELEGATION_STATUSES_def)

interpretation delegation_life: closed_lifecycle
  delegation_step "delegation_inv sha256" delegation_ident dg_status delegation_terminal
  for sha256
  by unfold_locales
     (erule (1) delegation_step_inv, erule delegation_step_ident,
      simp_all add: delegation_step_terminal)

end
