(* ===== verification/Workflow_Graph.thy ===== *)
theory Workflow_Graph
  imports Identifiers
begin

text \<open>
  The worklist at the heart of \<^verbatim>\<open>validate_workflow_dag\<close> (\<^verbatim>\<open>src/src/friday/domain/workflow.py\<close>): Kahn's
  algorithm over dictionaries \<^verbatim>\<open>indegree\<close> and \<^verbatim>\<open>outgoing\<close>, with a queue that is kept sorted.
  A dictionary is an association list in insertion order; \<open>adjust\<close> is an in-place
  \<^verbatim>\<open>d[k] op= v\<close> on a key that is present (the callers have checked that it is).
  The result: every node is visited exactly when the edge relation is acyclic.
\<close>

section \<open>Definitions\<close>

definition adjust :: "'k \<Rightarrow> ('v \<Rightarrow> 'v) \<Rightarrow> ('k \<times> 'v) list \<Rightarrow> ('k \<times> 'v) list" where
  "adjust k f d = map (\<lambda>(k', v). (k', if k' = k then f v else v)) d"

fun relax :: "'n::linorder list \<Rightarrow> ('n \<times> int) list \<Rightarrow> 'n list \<Rightarrow> ('n \<times> int) list \<times> 'n list" where
  "relax [] ind q = (ind, q)"
| "relax (t # ts) ind q =
     (let ind' = adjust t (\<lambda>d. d - 1) ind
      in relax ts ind' (if map_of ind' t = Some 0 then sort (q @ [t]) else q))"

definition targets :: "('n \<times> 'n list) list \<Rightarrow> 'n \<Rightarrow> 'n list" where
  "targets out c = (case map_of out c of None \<Rightarrow> [] | Some ts \<Rightarrow> ts)"

definition pending_degree :: "('n \<times> int) list \<Rightarrow> nat" where
  "pending_degree ind = sum_list (map (\<lambda>(k, d). nat d) ind)"

lemma pending_degree_adjust_le: "pending_degree (adjust t (\<lambda>d. d - 1) ind) \<le> pending_degree ind"
  by (induction ind) (auto simp: pending_degree_def adjust_def)

lemma pending_degree_adjust_less:
  "map_of (adjust t (\<lambda>d. d - 1) ind) t = Some 0 \<Longrightarrow>
   pending_degree (adjust t (\<lambda>d. d - 1) ind) < pending_degree ind"
proof (induction ind)
  case Nil
  then show ?case by (simp add: adjust_def)
next
  case (Cons x ind)
  obtain k d where x: "x = (k, d)" by (cases x)
  show ?case
  proof (cases "k = t")
    case True
    with Cons.prems x have "d = 1" by (simp add: adjust_def)
    moreover have "pending_degree (adjust t (\<lambda>d. d - 1) ind) \<le> pending_degree ind"
      by (rule pending_degree_adjust_le)
    ultimately show ?thesis using True x by (simp add: adjust_def pending_degree_def)
  next
    case False
    with Cons x show ?thesis by (simp add: adjust_def pending_degree_def)
  qed
qed

lemma relax_measure:
  "pending_degree (fst (relax ts ind q)) + length (snd (relax ts ind q))
     \<le> pending_degree ind + length q"
proof (induction ts ind q rule: relax.induct)
  case (1 ind q)
  then show ?case by simp
next
  case (2 t ts ind q)
  let ?i = "adjust t (\<lambda>d. d - 1) ind"
  show ?case
  proof (cases "map_of ?i t = Some 0")
    case True
    with 2 [OF refl] pending_degree_adjust_less [OF True] show ?thesis by simp
  next
    case False
    with 2 [OF refl] pending_degree_adjust_le [of t ind] show ?thesis by simp
  qed
qed

lemma relax_measure':
  "(ind', q') = relax ts ind q \<Longrightarrow> pending_degree ind' + length q' \<le> pending_degree ind + length q"
  using relax_measure [of ts ind q] by (metis fst_conv snd_conv)

function kahn_loop ::
  "('n::linorder \<times> 'n list) list \<Rightarrow> 'n list \<Rightarrow> ('n \<times> int) list \<Rightarrow> nat \<Rightarrow> nat" where
  "kahn_loop out [] ind visited = visited"
| "kahn_loop out (current # queue) ind visited =
     (case relax (sort (targets out current)) ind queue of
        (ind', queue') \<Rightarrow> kahn_loop out queue' ind' (visited + 1))"
  by pat_completeness auto
termination
  by (relation "measure (\<lambda>(out, q, ind, v). pending_degree ind + length q)")
     (auto simp: less_Suc_eq_le dest!: relax_measure')

section \<open>Dictionary facts\<close>

lemma map_of_adjust:
  "map_of (adjust k f d) n = (if n = k then map_option f (map_of d n) else map_of d n)"
  by (induction d) (auto simp: adjust_def)

lemma keys_adjust [simp]: "map fst (adjust k f d) = map fst d"
  by (induction d) (auto simp: adjust_def)

lemma relax_ind:
  "distinct ts \<Longrightarrow>
   map_of (fst (relax ts ind q)) n =
     (if n \<in> set ts then map_option (\<lambda>d. d - 1) (map_of ind n) else map_of ind n)"
  by (induction ts ind q rule: relax.induct) (auto simp: Let_def map_of_adjust)

lemma relax_keys [simp]: "map fst (fst (relax ts ind q)) = map fst ind"
  by (induction ts ind q rule: relax.induct) (auto simp: Let_def)

lemma relax_queue_set:
  "distinct ts \<Longrightarrow>
   set (snd (relax ts ind q)) = set q \<union> {t \<in> set ts. map_of ind t = Some 1}"
  by (induction ts ind q rule: relax.induct) (auto simp: Let_def map_of_adjust)

lemma relax_queue_distinct:
  "distinct ts \<Longrightarrow> distinct q \<Longrightarrow> set q \<inter> set ts = {} \<Longrightarrow> distinct (snd (relax ts ind q))"
  by (induction ts ind q rule: relax.induct) (auto simp: Let_def)

section \<open>Correctness of the worklist\<close>

text \<open>
  \<open>ps\<close> are the edges, \<open>V\<close> the visited nodes, newest first. A node waits for as many
  edges as come from unvisited nodes; the visited nodes are in reverse topological order.
\<close>

definition waiting :: "('n \<times> 'n) list \<Rightarrow> 'n list \<Rightarrow> 'n \<Rightarrow> nat" where
  "waiting ps V n = length (filter (\<lambda>p. snd p = n \<and> fst p \<notin> set V) ps)"

fun topo :: "('n \<times> 'n) list \<Rightarrow> 'n list \<Rightarrow> bool" where
  "topo ps [] \<longleftrightarrow> True"
| "topo ps (v # vs) \<longleftrightarrow> (\<forall>a. (a, v) \<in> set ps \<longrightarrow> a \<in> set vs) \<and> topo ps vs"

lemma waiting_0_iff: "waiting ps V n = 0 \<longleftrightarrow> (\<forall>a. (a, n) \<in> set ps \<longrightarrow> a \<in> set V)"
  by (auto simp: waiting_def filter_empty_conv)

lemma waiting_visit:
  "distinct ps \<Longrightarrow> c \<notin> set V \<Longrightarrow>
   waiting ps V n = waiting ps (c # V) n + (if (c, n) \<in> set ps then 1 else 0)"
  by (induction ps) (auto simp: waiting_def)

lemma topo_closed: "topo ps V \<Longrightarrow> (a, b) \<in> set ps \<Longrightarrow> b \<in> set V \<Longrightarrow> a \<in> set V"
  by (induction V) auto

lemma topo_position:
  "topo ps V \<Longrightarrow> distinct V \<Longrightarrow> (a, b) \<in> set ps \<Longrightarrow> b \<in> set V \<Longrightarrow>
   length (takeWhile (\<lambda>x. x \<noteq> b) V) < length (takeWhile (\<lambda>x. x \<noteq> a) V)"
proof (induction V)
  case (Cons v vs)
  show ?case
  proof (cases "b = v")
    case True
    with Cons.prems have "a \<in> set vs" by auto
    with Cons.prems True show ?thesis by auto
  next
    case False
    with Cons.prems have b: "b \<in> set vs" and t: "topo ps vs" by auto
    from topo_closed [OF t Cons.prems(3) b] have "a \<in> set vs" .
    with Cons.prems have "a \<noteq> v" by auto
    with False Cons.IH [OF t _ Cons.prems(3) b] Cons.prems(2) show ?thesis by auto
  qed
qed simp

lemma topo_acyclic:
  assumes "topo ps V" and "distinct V" and "\<And>a b. (a, b) \<in> set ps \<Longrightarrow> b \<in> set V"
  shows "acyclic (set ps)"
proof (rule acyclicI_order [where f = "\<lambda>n. length (takeWhile (\<lambda>x. x \<noteq> n) V)"])
  fix a b assume e: "(a, b) \<in> set ps"
  show "length (takeWhile (\<lambda>x. x \<noteq> b) V) < length (takeWhile (\<lambda>x. x \<noteq> a) V)"
    by (rule topo_position [OF assms(1,2) e assms(3) [OF e]])
qed

definition kahn_inv ::
  "('n::linorder \<times> 'n) list \<Rightarrow> 'n list \<Rightarrow> ('n \<times> 'n list) list \<Rightarrow> 'n list \<Rightarrow> ('n \<times> int) list
   \<Rightarrow> 'n list \<Rightarrow> bool" where
  "kahn_inv ps ids out q ind V \<longleftrightarrow>
     distinct ps \<and> set ps \<subseteq> set ids \<times> set ids \<and>
     (\<forall>c \<in> set ids. targets out c = map snd (filter (\<lambda>p. fst p = c) ps)) \<and>
     (\<forall>n \<in> set ids. map_of ind n = Some (int (waiting ps V n))) \<and>
     distinct q \<and> set q = {n \<in> set ids. n \<notin> set V \<and> waiting ps V n = 0} \<and>
     distinct V \<and> set V \<subseteq> set ids \<and> topo ps V"

lemma kahn_inv_step:
  assumes inv: "kahn_inv ps ids out (c # q) ind V"
    and rel: "relax (sort (targets out c)) ind q = (ind', q')"
  shows "kahn_inv ps ids out q' ind' (c # V)"
proof -
  from inv have dp: "distinct ps" and sub: "set ps \<subseteq> set ids \<times> set ids"
    and out: "\<And>c. c \<in> set ids \<Longrightarrow> targets out c = map snd (filter (\<lambda>p. fst p = c) ps)"
    and ind: "\<And>n. n \<in> set ids \<Longrightarrow> map_of ind n = Some (int (waiting ps V n))"
    and dq: "distinct (c # q)"
    and sq: "set (c # q) = {n \<in> set ids. n \<notin> set V \<and> waiting ps V n = 0}"
    and dV: "distinct V" and sV: "set V \<subseteq> set ids" and tV: "topo ps V"
    by (simp_all add: kahn_inv_def)
  have c: "c \<in> set ids" "c \<notin> set V" "waiting ps V c = 0" using sq by auto
  let ?ts = "sort (targets out c)"
  have sts: "set ?ts = {b. (c, b) \<in> set ps}" using out [OF c(1)] by force
  have dts: "distinct ?ts"
    using dp out [OF c(1)] by (auto simp: distinct_map inj_on_def)
  have visit: "waiting ps V n = waiting ps (c # V) n + (if (c, n) \<in> set ps then 1 else 0)" for n
    by (rule waiting_visit [OF dp c(2)])
  have ind': "ind' = fst (relax ?ts ind q)" and q': "q' = snd (relax ?ts ind q)" using rel by auto
  have I: "map_of ind' n = Some (int (waiting ps (c # V) n))" if "n \<in> set ids" for n
    using ind [OF that] visit [of n] sts by (simp add: ind' relax_ind [OF dts])
  have one: "{t \<in> set ?ts. map_of ind t = Some 1} = {t. (c, t) \<in> set ps \<and> waiting ps (c # V) t = 0}"
    using sts ind visit sub by auto
  have notV: "t \<notin> set V" "t \<noteq> c" if "(c, t) \<in> set ps" for t
    using topo_closed [OF tV that] c waiting_0_iff [of ps V c] that by auto
  have "set q' = set q \<union> {t. (c, t) \<in> set ps \<and> waiting ps (c # V) t = 0}"
    unfolding q' relax_queue_set [OF dts] one ..
  also have "\<dots> = {n \<in> set ids. n \<notin> set (c # V) \<and> waiting ps (c # V) n = 0}"
  proof (intro set_eqI iffI)
    fix n assume "n \<in> set q \<union> {t. (c, t) \<in> set ps \<and> waiting ps (c # V) t = 0}"
    then consider "n \<in> set q" | "(c, n) \<in> set ps" "waiting ps (c # V) n = 0" by auto
    then show "n \<in> {n \<in> set ids. n \<notin> set (c # V) \<and> waiting ps (c # V) n = 0}"
    proof cases
      case 1
      then have "n \<in> {n \<in> set ids. n \<notin> set V \<and> waiting ps V n = 0}" using sq by auto
      with 1 dq visit [of n] show ?thesis by auto
    qed (use notV sub in auto)
  next
    fix n assume n: "n \<in> {n \<in> set ids. n \<notin> set (c # V) \<and> waiting ps (c # V) n = 0}"
    show "n \<in> set q \<union> {t. (c, t) \<in> set ps \<and> waiting ps (c # V) t = 0}"
    proof (cases "(c, n) \<in> set ps")
      case False
      with n visit [of n] have "n \<in> set (c # q)" unfolding sq by simp
      with n show ?thesis by auto
    qed (use n in simp)
  qed
  finally have S: "set q' = {n \<in> set ids. n \<notin> set (c # V) \<and> waiting ps (c # V) n = 0}" .
  have "t \<notin> set q" if "t \<in> set ?ts" for t
  proof
    assume "t \<in> set q"
    then have "waiting ps V t = 0" using sq by auto
    with visit [of t] that sts show False by simp
  qed
  then have "set q \<inter> set ?ts = {}" by blast
  then have D: "distinct q'" unfolding q' using dts dq by (intro relax_queue_distinct) auto
  have T: "topo ps (c # V)" using tV c(3) by (simp add: waiting_0_iff)
  show ?thesis
    unfolding kahn_inv_def using dp sub out I D S T dV sV c by simp
qed

lemma kahn_loop_final:
  "kahn_inv ps ids out q ind V \<Longrightarrow> v = length V \<Longrightarrow>
   \<exists>ind' V'. kahn_loop out q ind v = length V' \<and> kahn_inv ps ids out [] ind' V'"
proof (induction out q ind v arbitrary: V rule: kahn_loop.induct)
  case (1 out ind visited)
  then show ?case by auto
next
  case (2 out current queue ind visited)
  obtain ind' q' where r: "relax (sort (targets out current)) ind queue = (ind', q')" by fastforce
  from kahn_inv_step [OF "2.prems"(1) r] have "kahn_inv ps ids out q' ind' (current # V)" .
  from "2.IH" [OF r [symmetric] this] "2.prems"(2) r show ?case by simp
qed

lemma kahn_final_all:
  assumes inv: "kahn_inv ps ids out [] ind V" and ids: "distinct ids"
  shows "length V = length ids \<longleftrightarrow> acyclic (set ps)"
proof -
  from inv have sub: "set ps \<subseteq> set ids \<times> set ids" and dV: "distinct V" and sV: "set V \<subseteq> set ids"
    and tV: "topo ps V" and none: "\<And>n. n \<in> set ids \<Longrightarrow> n \<notin> set V \<Longrightarrow> waiting ps V n \<noteq> 0"
    by (auto simp: kahn_inv_def)
  show ?thesis
  proof
    assume "length V = length ids"
    then have "set V = set ids"
      using sV dV ids by (metis card_subset_eq distinct_card List.finite_set)
    with sub topo_acyclic [OF tV dV] show "acyclic (set ps)" by auto
  next
    assume "acyclic (set ps)"
    then have wf: "wf (set ps)" by (simp add: finite_acyclic_wf)
    have "set ids - set V = {}"
    proof (rule ccontr)
      assume "set ids - set V \<noteq> {}"
      then obtain z where z: "z \<in> set ids - set V"
        and min: "\<And>y. (y, z) \<in> set ps \<Longrightarrow> y \<notin> set ids - set V"
        using wfE_min' [OF wf, of "set ids - set V"] by metis
      from z none [of z] obtain a where "(a, z) \<in> set ps" and "a \<notin> set V"
        by (auto simp: waiting_0_iff)
      with sub min show False by blast
    qed
    with sV have "set V = set ids" by auto
    with dV ids show "length V = length ids" by (metis distinct_card)
  qed
qed

theorem kahn_loop_visits_all_iff_acyclic:
  assumes "kahn_inv ps ids out q ind []" and "distinct ids"
  shows "kahn_loop out q ind 0 = length ids \<longleftrightarrow> acyclic (set ps)"
proof -
  from kahn_loop_final [OF assms(1)] obtain ind' V' where
    "kahn_loop out q ind 0 = length V'" and "kahn_inv ps ids out [] ind' V'" by auto
  with kahn_final_all [OF _ assms(2)] show ?thesis by simp
qed

end
