(* ===== verification/Workflow_Entity.thy ===== *)
theory Workflow_Entity
  imports Workflow_Graph Canonical_Json Lifecycle Approval_Entity "HOL-Library.Product_Lexorder"
    "HOL-Library.Multiset"
begin

text \<open>
  \<^verbatim>\<open>src/src/friday/domain/workflow.py\<close>: immutable workflow definitions. Machine-readable keys, bounded
  node inputs, graph validation, content digests, revisions, and the registry entry
  \<^verbatim>\<open>Workflow\<close>. The digest \<open>sha256\<close> is a parameter.
\<close>

definition MAX_WORKFLOW_NODES :: nat where "MAX_WORKFLOW_NODES = 64"
definition MAX_WORKFLOW_EDGES :: nat where "MAX_WORKFLOW_EDGES = 256"
definition MAX_WORKFLOW_KEY_LENGTH :: nat where "MAX_WORKFLOW_KEY_LENGTH = 128"
definition MAX_WORKFLOW_OBJECTIVE_LENGTH :: nat where "MAX_WORKFLOW_OBJECTIVE_LENGTH = 4000"
definition MAX_WORKFLOW_OUTPUT_LENGTH :: nat where "MAX_WORKFLOW_OUTPUT_LENGTH = 4000"
definition MAX_WORKFLOW_INPUT_BYTES :: nat where "MAX_WORKFLOW_INPUT_BYTES = 16384"
definition MAX_WORKFLOW_INPUT_DEPTH :: nat where "MAX_WORKFLOW_INPUT_DEPTH = 8"
definition MAX_WORKFLOW_INPUT_NODES :: nat where "MAX_WORKFLOW_INPUT_NODES = 256"

section \<open>Keys\<close>

text \<open>
  \<open>key_match\<close> runs the expression \<^verbatim>\<open>[a-z][a-z0-9]*(?:[._-][a-z0-9]+)*\<close> as an automaton;
  \<open>key_language\<close> is the language the expression denotes.
\<close>

definition lower_letter :: "char \<Rightarrow> bool" where
  "lower_letter c \<longleftrightarrow> c \<in> set ''abcdefghijklmnopqrstuvwxyz''"

definition lower_alnum :: "char \<Rightarrow> bool" where
  "lower_alnum c \<longleftrightarrow> lower_letter c \<or> c \<in> set ''0123456789''"

definition key_separator :: "char \<Rightarrow> bool" where
  "key_separator c \<longleftrightarrow> c \<in> set ''._-''"

fun key_tail :: "string \<Rightarrow> bool" and key_segment :: "string \<Rightarrow> bool" where
  "key_tail [] \<longleftrightarrow> True"
| "key_tail (c # cs) \<longleftrightarrow> (if lower_alnum c then key_tail cs else key_separator c \<and> key_segment cs)"
| "key_segment [] \<longleftrightarrow> False"
| "key_segment (c # cs) \<longleftrightarrow> lower_alnum c \<and> key_tail cs"

fun key_match :: "string \<Rightarrow> bool" where
  "key_match [] \<longleftrightarrow> False"
| "key_match (c # cs) \<longleftrightarrow> lower_letter c \<and> key_tail cs"

definition key_language :: "string \<Rightarrow> bool" where
  "key_language s \<longleftrightarrow>
     (\<exists>h t segs. s = h # t @ concat (map (\<lambda>(p, w). p # w) segs) \<and> lower_letter h \<and>
        list_all lower_alnum t \<and>
        list_all (\<lambda>(p, w). key_separator p \<and> w \<noteq> [] \<and> list_all lower_alnum w) segs)"

definition validate_workflow_key :: "string \<Rightarrow> domain_error + string" where
  "validate_workflow_key value =
     (if value = [] \<or> MAX_WORKFLOW_KEY_LENGTH < length value \<or> \<not> key_match value
      then Inl (DomainValidationError ''Workflow.key must be a stable machine-readable identifier'')
      else Inr value)"

lemma separator_not_alnum: "key_separator c \<Longrightarrow> \<not> lower_alnum c"
  by (auto simp: key_separator_def lower_alnum_def lower_letter_def)

lemma key_tail_alnum: "list_all lower_alnum t \<Longrightarrow> key_tail (t @ r) = key_tail r"
  by (induction t) auto

lemma key_tail_segments:
  "list_all (\<lambda>(p, w). key_separator p \<and> w \<noteq> [] \<and> list_all lower_alnum w) segs \<Longrightarrow>
   key_tail (concat (map (\<lambda>(p, w). p # w) segs))"
proof (induction segs)
  case (Cons seg segs)
  obtain p c w where seg: "seg = (p, c # w)" using Cons.prems by (cases seg) (auto simp: neq_Nil_conv)
  with Cons separator_not_alnum [of p] show ?case by (simp add: key_tail_alnum)
qed simp

lemma key_tail_split:
  "(key_tail s \<longrightarrow> (\<exists>t segs. s = t @ concat (map (\<lambda>(p, w). p # w) segs) \<and> list_all lower_alnum t \<and>
      list_all (\<lambda>(p, w). key_separator p \<and> w \<noteq> [] \<and> list_all lower_alnum w) segs)) \<and>
   (key_segment s \<longrightarrow> (\<exists>t segs. s = t @ concat (map (\<lambda>(p, w). p # w) segs) \<and> t \<noteq> [] \<and>
      list_all lower_alnum t \<and>
      list_all (\<lambda>(p, w). key_separator p \<and> w \<noteq> [] \<and> list_all lower_alnum w) segs))"
proof (induction s)
  case Nil
  have "[] = [] @ concat (map (\<lambda>(p, w). p # w) [])" by simp
  then show ?case by (auto intro!: exI [of _ "[]"])
next
  case (Cons c s)
  let ?S = "\<lambda>segs. list_all (\<lambda>(p, w). key_separator p \<and> w \<noteq> [] \<and> list_all lower_alnum w) segs"
  let ?C = "\<lambda>segs. concat (map (\<lambda>(p, w). p # w) segs)"
  have alnum: "\<exists>t segs. c # s = t @ ?C segs \<and> t \<noteq> [] \<and> list_all lower_alnum t \<and> ?S segs"
    if "lower_alnum c" "key_tail s"
  proof -
    from that Cons.IH obtain t segs where "s = t @ ?C segs" "list_all lower_alnum t" "?S segs"
      by auto
    with that show ?thesis by (intro exI [of _ "c # t"] exI [of _ segs]) simp
  qed
  have sep: "\<exists>t segs. c # s = t @ ?C segs \<and> list_all lower_alnum t \<and> ?S segs"
    if "key_separator c" "key_segment s"
  proof -
    from that Cons.IH obtain t segs where "s = t @ ?C segs" "t \<noteq> []" "list_all lower_alnum t" "?S segs"
      by auto
    with that show ?thesis by (intro exI [of _ "[]"] exI [of _ "(c, t) # segs"]) simp
  qed
  show ?case using alnum sep by (auto split: if_splits)
qed

lemma key_match_language: "key_match s \<longleftrightarrow> key_language s"
proof
  assume m: "key_match s"
  then obtain h r where s: "s = h # r" "lower_letter h" "key_tail r" by (cases s) auto
  with key_tail_split [of r] obtain t segs where
    "r = t @ concat (map (\<lambda>(p, w). p # w) segs)" "list_all lower_alnum t"
    "list_all (\<lambda>(p, w). key_separator p \<and> w \<noteq> [] \<and> list_all lower_alnum w) segs" by blast
  with s show "key_language s" unfolding key_language_def by blast
next
  assume "key_language s"
  then show "key_match s"
    by (auto simp: key_language_def key_tail_alnum key_tail_segments)
qed

section \<open>Bounded inputs\<close>

fun json_stats :: "nat \<Rightarrow> pyval \<Rightarrow> domain_error + nat"
  and json_stats_list :: "nat \<Rightarrow> pyval list \<Rightarrow> domain_error + nat"
  and json_stats_entries :: "nat \<Rightarrow> (pyval \<times> pyval) list \<Rightarrow> domain_error + nat" where
  "json_stats depth v =
     (if MAX_WORKFLOW_INPUT_DEPTH < depth
      then Inl (DomainValidationError ''WorkflowNode.input_payload exceeds maximum depth'')
      else (case v of
              PyDict es \<Rightarrow> ebind (json_stats_entries (Suc depth) es) (\<lambda>n. Inr (1 + n))
            | PyList xs \<Rightarrow> ebind (json_stats_list (Suc depth) xs) (\<lambda>n. Inr (1 + n))
            | _ \<Rightarrow> Inr 1))"
| "json_stats_list depth [] = Inr 0"
| "json_stats_list depth (x # xs) =
     ebind (json_stats depth x) (\<lambda>m. ebind (json_stats_list depth xs) (\<lambda>n. Inr (m + n)))"
| "json_stats_entries depth [] = Inr 0"
| "json_stats_entries depth ((k, x) # es) =
     ebind (json_stats depth x) (\<lambda>m. ebind (json_stats_entries depth es) (\<lambda>n. Inr (m + n)))"

text \<open>\<^verbatim>\<open>len(text.encode())\<close>: the UTF-8 length of code points below 256.\<close>

definition utf8_length :: "string \<Rightarrow> nat" where
  "utf8_length s = sum_list (map (\<lambda>c. if (of_char c :: nat) < 128 then 1 else 2) s)"

definition validate_workflow_input :: "pyval \<Rightarrow> domain_error + pyval" where
  "validate_workflow_input value =
     ebind (ensure_json_value ''WorkflowNode.input_payload'' value) (\<lambda>result.
     ebind (guard (utf8_length (json_dumps False result) \<le> MAX_WORKFLOW_INPUT_BYTES)
       (DomainValidationError ''WorkflowNode.input_payload exceeds maximum bytes'')) (\<lambda>_.
     ebind (json_stats 0 result) (\<lambda>n.
     ebind (guard (n \<le> MAX_WORKFLOW_INPUT_NODES)
       (DomainValidationError ''WorkflowNode.input_payload exceeds maximum nodes'')) (\<lambda>_.
     Inr result))))"

text \<open>Nesting depth and number of values, as the limits mean them.\<close>

fun json_depth :: "pyval \<Rightarrow> nat" where
  "json_depth (PyList xs) = (if xs = [] then 0 else Suc (Max (set (map json_depth xs))))"
| "json_depth (PyDict es) = (if es = [] then 0 else Suc (Max (set (map (\<lambda>(k, v). json_depth v) es))))"
| "json_depth _ = 0"

fun json_nodes :: "pyval \<Rightarrow> nat" where
  "json_nodes (PyList xs) = 1 + sum_list (map json_nodes xs)"
| "json_nodes (PyDict es) = 1 + sum_list (map (\<lambda>(k, v). json_nodes v) es)"
| "json_nodes _ = 1"

section \<open>Nodes and edges\<close>

record WorkflowNode =
  wn_id :: WorkflowNodeId
  wn_revision_id :: WorkflowRevisionId
  wn_node_key :: string
  wn_target_agent_id :: AgentId
  wn_objective :: string
  wn_input_payload :: pyval
  wn_expected_output_contract :: string
  wn_created_at :: instant

record WorkflowEdge =
  we_id :: WorkflowEdgeId
  we_revision_id :: WorkflowRevisionId
  we_from_node_id :: WorkflowNodeId
  we_to_node_id :: WorkflowNodeId
  we_created_at :: instant

definition check_text :: "string \<Rightarrow> string \<Rightarrow> nat \<Rightarrow> domain_error + string" where
  "check_text value name maximum =
     (if value = [] \<or> maximum < length value
      then Inl (DomainValidationError (name @ '' must be non-empty and within the maximum length''))
      else Inr value)"

text \<open>The constructors: the fields as given, and the creation time to normalise.\<close>

definition workflow_node_post_init :: "WorkflowNode \<Rightarrow> datetime \<Rightarrow> domain_error + WorkflowNode" where
  "workflow_node_post_init n created_at =
     ebind (guard (\<not> (wn_node_key n = [] \<or> 128 < length (wn_node_key n) \<or> \<not> key_match (wn_node_key n)))
       (DomainValidationError ''WorkflowNode.node_key is invalid'')) (\<lambda>_.
     ebind (check_text (wn_objective n) ''WorkflowNode.objective'' MAX_WORKFLOW_OBJECTIVE_LENGTH) (\<lambda>_.
     ebind (check_text (wn_expected_output_contract n) ''WorkflowNode.expected_output_contract''
       MAX_WORKFLOW_OUTPUT_LENGTH) (\<lambda>_.
     ebind (validate_workflow_input (wn_input_payload n)) (\<lambda>_.
     ebind (ensure_utc created_at) (\<lambda>t. Inr (n\<lparr>wn_created_at := t\<rparr>))))))"

definition workflow_edge_post_init :: "WorkflowEdge \<Rightarrow> datetime \<Rightarrow> domain_error + WorkflowEdge" where
  "workflow_edge_post_init e created_at =
     ebind (guard (we_from_node_id e \<noteq> we_to_node_id e)
       (DomainValidationError ''WorkflowEdge cannot be a self-edge'')) (\<lambda>_.
     ebind (ensure_utc created_at) (\<lambda>t. Inr (e\<lparr>we_created_at := t\<rparr>)))"

section \<open>Graph validation\<close>

definition validate_workflow_revision_ownership ::
  "WorkflowRevisionId \<Rightarrow> WorkflowNode list \<Rightarrow> WorkflowEdge list \<Rightarrow> domain_error + unit" where
  "validate_workflow_revision_ownership expected nodes edges =
     (if list_ex (\<lambda>n. wn_revision_id n \<noteq> expected) nodes
      then Inl (DomainValidationError ''WorkflowNode ownership does not match revision'')
      else if list_ex (\<lambda>e. we_revision_id e \<noteq> expected) edges
      then Inl (DomainValidationError ''WorkflowEdge ownership does not match revision'')
      else Inr ())"

abbreviation edge_pair :: "WorkflowEdge \<Rightarrow> WorkflowNodeId \<times> WorkflowNodeId" where
  "edge_pair e \<equiv> (we_from_node_id e, we_to_node_id e)"

text \<open>The loop over the edges: it checks each edge and fills the two dictionaries.\<close>

fun dag_edges ::
  "WorkflowRevisionId \<Rightarrow> WorkflowNodeId list \<Rightarrow> WorkflowEdge list
   \<Rightarrow> (WorkflowNodeId \<times> WorkflowNodeId) list
   \<Rightarrow> (WorkflowNodeId \<times> int) list \<Rightarrow> (WorkflowNodeId \<times> WorkflowNodeId list) list
   \<Rightarrow> domain_error + (WorkflowNodeId \<times> int) list \<times> (WorkflowNodeId \<times> WorkflowNodeId list) list"
where
  "dag_edges revision_id ids [] pairs indegree outgoing = Inr (indegree, outgoing)"
| "dag_edges revision_id ids (e # es) pairs indegree outgoing =
     (if we_revision_id e \<noteq> revision_id
      then Inl (DomainValidationError ''WorkflowEdge ownership does not match revision'')
      else if we_from_node_id e \<notin> set ids \<or> we_to_node_id e \<notin> set ids
      then Inl (DomainValidationError ''WorkflowEdge endpoint does not belong to revision'')
      else if edge_pair e \<in> set pairs
      then Inl (DomainValidationError ''duplicate WorkflowEdge'')
      else dag_edges revision_id ids es (edge_pair e # pairs)
             (adjust (we_to_node_id e) (\<lambda>d. d + 1) indegree)
             (adjust (we_from_node_id e) (\<lambda>ts. ts @ [we_to_node_id e]) outgoing))"

definition validate_workflow_dag :: "WorkflowNode list \<Rightarrow> WorkflowEdge list \<Rightarrow> domain_error + unit" where
  "validate_workflow_dag nodes edges =
     (if nodes = [] then Inl (DomainValidationError ''WorkflowRevision requires at least one node'')
      else if MAX_WORKFLOW_NODES < length nodes \<or> MAX_WORKFLOW_EDGES < length edges
      then Inl (DomainValidationError ''WorkflowRevision graph exceeds limits'')
      else if \<not> distinct (map wn_id nodes)
      then Inl (DomainValidationError ''duplicate WorkflowNode.id'')
      else if \<not> list_all (\<lambda>n. wn_revision_id n = wn_revision_id (hd nodes)) nodes
      then Inl (DomainValidationError ''WorkflowNode ownership does not match revision'')
      else let revision_id = wn_revision_id (hd nodes); keys = map wn_node_key nodes in
      if \<not> distinct keys
      then Inl (DomainValidationError ''duplicate WorkflowNode.node_key'')
      else let ids = map wn_id nodes in
      ebind (dag_edges revision_id ids edges [] (map (\<lambda>i. (i, 0)) ids) (map (\<lambda>i. (i, [])) ids))
      (\<lambda>(indegree, outgoing).
        let queue = sort (map fst (filter (\<lambda>(x, d). d = 0) indegree)) in
        if kahn_loop outgoing queue indegree 0 \<noteq> length nodes
        then Inl (DomainValidationError ''WorkflowRevision graph contains a cycle'')
        else Inr ()))"

section \<open>Content digest\<close>

text \<open>\<open>None\<close> is the \<^verbatim>\<open>KeyError\<close> of an edge whose endpoint is not among the nodes.\<close>

definition key_by_id :: "WorkflowNode list \<Rightarrow> WorkflowNodeId \<Rightarrow> string option" where
  "key_by_id nodes = map_of (rev (map (\<lambda>n. (wn_id n, wn_node_key n)) nodes))"

definition edge_keys :: "WorkflowNode list \<Rightarrow> WorkflowEdge \<Rightarrow> string \<times> string" where
  "edge_keys nodes e =
     (or_else (key_by_id nodes (we_from_node_id e)) [], or_else (key_by_id nodes (we_to_node_id e)) [])"

definition workflow_node_json :: "WorkflowNode \<Rightarrow> pyval" where
  "workflow_node_json n = PyDict
     [(PyStr ''node_key'', PyStr (wn_node_key n)),
      (PyStr ''target_agent_id'', PyStr (id_str (wn_target_agent_id n))),
      (PyStr ''objective'', PyStr (wn_objective n)),
      (PyStr ''input_payload'', wn_input_payload n),
      (PyStr ''expected_output_contract'', PyStr (wn_expected_output_contract n))]"

definition workflow_edge_json :: "string \<times> string \<Rightarrow> pyval" where
  "workflow_edge_json p = PyDict [(PyStr ''from'', PyStr (fst p)), (PyStr ''to'', PyStr (snd p))]"

definition canonical_workflow_content :: "WorkflowNode list \<Rightarrow> WorkflowEdge list \<Rightarrow> string option" where
  "canonical_workflow_content nodes edges =
     (if list_all (\<lambda>e. key_by_id nodes (we_from_node_id e) \<noteq> None
                     \<and> key_by_id nodes (we_to_node_id e) \<noteq> None) edges
      then Some (json_dumps False (PyDict
        [(PyStr ''nodes'', PyList (map workflow_node_json (sort_key wn_node_key nodes))),
         (PyStr ''edges'', PyList (map (workflow_edge_json \<circ> edge_keys nodes)
                                       (sort_key (edge_keys nodes) edges)))]))
      else None)"

section \<open>Revisions\<close>

datatype WorkflowRevisionSourceKind = OPERATOR | IMPORTED

record WorkflowRevision =
  wr_id :: WorkflowRevisionId
  wr_workflow_id :: WorkflowId
  wr_version :: int
  wr_content_sha256 :: string
  wr_source_kind :: WorkflowRevisionSourceKind
  wr_nodes :: "WorkflowNode list"
  wr_edges :: "WorkflowEdge list"
  wr_created_at :: instant

definition workflow_digest ::
  "(string \<Rightarrow> string) \<Rightarrow> WorkflowNode list \<Rightarrow> WorkflowEdge list \<Rightarrow> domain_error + string" where
  "workflow_digest sha256 nodes edges =
     ebind (from_option (PythonError ''KeyError'') (canonical_workflow_content nodes edges))
       (\<lambda>content. Inr (sha256 content))"

definition workflow_revision_post_init ::
  "(string \<Rightarrow> string) \<Rightarrow> WorkflowRevision \<Rightarrow> datetime \<Rightarrow> domain_error + WorkflowRevision" where
  "workflow_revision_post_init sha256 r created_at =
     ebind (guard (1 \<le> wr_version r)
       (DomainValidationError ''WorkflowRevision.version must be positive'')) (\<lambda>_.
     ebind (validate_workflow_revision_ownership (wr_id r) (wr_nodes r) (wr_edges r)) (\<lambda>_.
     ebind (validate_workflow_dag (wr_nodes r) (wr_edges r)) (\<lambda>_.
     ebind (workflow_digest sha256 (wr_nodes r) (wr_edges r)) (\<lambda>expected.
     ebind (guard (wr_content_sha256 r = expected)
       (DomainValidationError ''workflow_integrity_failed'')) (\<lambda>_.
     ebind (guard (lower_hex64 (wr_content_sha256 r))
       (DomainValidationError ''WorkflowRevision.content_sha256 must be lowercase sha256'')) (\<lambda>_.
     ebind (ensure_utc created_at) (\<lambda>t. Inr (r\<lparr>wr_created_at := t\<rparr>))))))))"

definition workflow_revision_new ::
  "(string \<Rightarrow> string) \<Rightarrow> WorkflowRevisionId \<Rightarrow> WorkflowId \<Rightarrow> int \<Rightarrow> WorkflowNode list
   \<Rightarrow> WorkflowEdge list \<Rightarrow> WorkflowRevisionSourceKind \<Rightarrow> datetime
   \<Rightarrow> domain_error + WorkflowRevision" where
  "workflow_revision_new sha256 i workflow_id version nodes edges source_kind created_at =
     ebind (validate_workflow_revision_ownership i nodes edges) (\<lambda>_.
     ebind (validate_workflow_dag nodes edges) (\<lambda>_.
     ebind (workflow_digest sha256 nodes edges) (\<lambda>digest.
     workflow_revision_post_init sha256
       \<lparr>wr_id = i, wr_workflow_id = workflow_id, wr_version = version, wr_content_sha256 = digest,
        wr_source_kind = source_kind, wr_nodes = nodes, wr_edges = edges, wr_created_at = 0\<rparr>
       created_at)))"

section \<open>The registry entry\<close>

datatype WorkflowStatus = ACTIVE | DISABLED | ARCHIVED

fun workflow_status_value :: "WorkflowStatus \<Rightarrow> string" where
  "workflow_status_value WorkflowStatus.ACTIVE = ''active''"
| "workflow_status_value WorkflowStatus.DISABLED = ''disabled''"
| "workflow_status_value WorkflowStatus.ARCHIVED = ''archived''"

record Workflow =
  wf_id :: WorkflowId
  wf_key :: string
  wf_display_name :: string
  wf_description :: string
  wf_status :: WorkflowStatus
  wf_active_revision_id :: "WorkflowRevisionId option"
  wf_created_at :: instant
  wf_updated_at :: instant

definition workflow_new ::
  "WorkflowId \<Rightarrow> string \<Rightarrow> string \<Rightarrow> string \<Rightarrow> datetime \<Rightarrow> domain_error + Workflow" where
  "workflow_new i key display_name description created_at =
     ebind (guard (py_strip display_name \<noteq> [])
       (DomainValidationError ''Workflow.display_name must not be empty'')) (\<lambda>_.
     ebind (ensure_utc created_at) (\<lambda>now.
     ebind (validate_workflow_key key) (\<lambda>k.
     Inr \<lparr>wf_id = i, wf_key = k, wf_display_name = py_strip display_name,
          wf_description = py_strip description, wf_status = WorkflowStatus.ACTIVE,
          wf_active_revision_id = None, wf_created_at = now, wf_updated_at = now\<rparr>)))"

definition workflow_activate ::
  "WorkflowRevision \<Rightarrow> datetime \<Rightarrow> Workflow \<Rightarrow> (domain_error, Workflow) outcome" where
  "workflow_activate revision at w =
     require (wf_status w \<noteq> WorkflowStatus.ARCHIVED)
       (InvalidStateTransition ''Workflow'' (workflow_status_value (wf_status w)) ''activate'') w
     (require (wr_workflow_id revision = wf_id w)
       (DomainValidationError ''Workflow revision does not belong to workflow'') w
     (attempt (ensure_utc at) w (\<lambda>t.
      Done (w\<lparr>wf_active_revision_id := Some (wr_id revision), wf_status := WorkflowStatus.ACTIVE,
              wf_updated_at := t\<rparr>))))"

definition workflow_disable :: "datetime \<Rightarrow> Workflow \<Rightarrow> (domain_error, Workflow) outcome" where
  "workflow_disable at w =
     require (wf_status w \<noteq> WorkflowStatus.ARCHIVED)
       (InvalidStateTransition ''Workflow'' (workflow_status_value (wf_status w)) ''disabled'') w
     (attempt (ensure_utc at) w (\<lambda>t.
      Done (w\<lparr>wf_status := WorkflowStatus.DISABLED, wf_updated_at := t\<rparr>)))"

definition workflow_archive :: "datetime \<Rightarrow> Workflow \<Rightarrow> (domain_error, Workflow) outcome" where
  "workflow_archive at w =
     (if wf_status w \<noteq> WorkflowStatus.ARCHIVED
      then attempt (ensure_utc at) w (\<lambda>t.
             Done (w\<lparr>wf_status := WorkflowStatus.ARCHIVED, wf_updated_at := t\<rparr>))
      else Done w)"

section \<open>The validator accepts exactly the bounded acyclic graphs\<close>

abbreviation bump :: "WorkflowEdge \<Rightarrow> (WorkflowNodeId \<times> int) list \<Rightarrow> (WorkflowNodeId \<times> int) list" where
  "bump e \<equiv> adjust (we_to_node_id e) (\<lambda>d. d + 1)"

abbreviation link ::
  "WorkflowEdge \<Rightarrow> (WorkflowNodeId \<times> WorkflowNodeId list) list \<Rightarrow> (WorkflowNodeId \<times> WorkflowNodeId list) list"
where
  "link e \<equiv> adjust (we_from_node_id e) (\<lambda>ts. ts @ [we_to_node_id e])"

definition edge_ok :: "WorkflowRevisionId \<Rightarrow> WorkflowNodeId set \<Rightarrow> WorkflowEdge \<Rightarrow> bool" where
  "edge_ok r ids e \<longleftrightarrow> we_revision_id e = r \<and> we_from_node_id e \<in> ids \<and> we_to_node_id e \<in> ids"

lemma dag_edges_Inr_iff:
  "dag_edges r ids es pairs ind out = Inr p \<longleftrightarrow>
     (\<forall>e \<in> set es. edge_ok r (set ids) e) \<and> distinct (map edge_pair es) \<and>
     edge_pair ` set es \<inter> set pairs = {} \<and> p = (fold bump es ind, fold link es out)"
  by (induction r ids es pairs ind out rule: dag_edges.induct) (auto simp: edge_ok_def)

lemma fold_bump:
  "map_of (fold bump es ind) n =
     map_option (\<lambda>d. d + int (waiting (map edge_pair es) [] n)) (map_of ind n)"
  by (induction es arbitrary: ind)
     (auto simp: map_of_adjust waiting_def map_option_case split: option.split)

lemma fold_bump_keys: "map fst (fold bump es ind) = map fst ind"
  by (induction es arbitrary: ind) auto

lemma fold_link:
  "map_of (fold link es out) n =
     map_option (\<lambda>ts. ts @ map snd (filter (\<lambda>p. fst p = n) (map edge_pair es))) (map_of out n)"
  by (induction es arbitrary: out)
     (auto simp: map_of_adjust map_option_case split: option.split)

lemma map_of_const: "map_of (map (\<lambda>i. (i, c)) xs) n = (if n \<in> set xs then Some c else None)"
  by (induction xs) auto

lemma zero_keys:
  "distinct (map fst d) \<Longrightarrow> set (map fst (filter (\<lambda>(x, v). v = c) d)) = {x. map_of d x = Some c}"
  by (induction d) (force dest: map_of_SomeD split: if_splits)+

lemma dag_start:
  assumes "distinct ids" and "\<forall>e \<in> set es. edge_ok r (set ids) e" and "distinct (map edge_pair es)"
  defines "ind \<equiv> fold bump es (map (\<lambda>i. (i, 0)) ids)"
    and "out \<equiv> fold link es (map (\<lambda>i. (i, [])) ids)"
  shows "kahn_inv (map edge_pair es) ids out
           (sort (map fst (filter (\<lambda>(x, d). d = 0) ind))) ind []"
proof -
  have keys: "map fst ind = ids" by (simp add: ind_def fold_bump_keys comp_def)
  have ind: "map_of ind n = (if n \<in> set ids then Some (int (waiting (map edge_pair es) [] n)) else None)"
    for n by (simp add: ind_def fold_bump map_of_const)
  have "distinct (map fst (filter (\<lambda>(x, d). d = 0) ind))"
    using keys assms(1) by (metis distinct_map_filter)
  moreover have "set (map fst (filter (\<lambda>(x, d). d = 0) ind)) =
      {n \<in> set ids. waiting (map edge_pair es) [] n = 0}"
    using zero_keys [of ind 0] keys assms(1) ind by (auto split: if_splits)
  ultimately show ?thesis
    using assms(2,3) ind
    by (auto simp: kahn_inv_def targets_def out_def fold_link map_of_const edge_ok_def)
qed

definition dag_valid :: "WorkflowNode list \<Rightarrow> WorkflowEdge list \<Rightarrow> bool" where
  "dag_valid nodes edges \<longleftrightarrow>
     nodes \<noteq> [] \<and> length nodes \<le> 64 \<and> length edges \<le> 256 \<and>
     distinct (map wn_id nodes) \<and> distinct (map wn_node_key nodes) \<and>
     distinct (map edge_pair edges) \<and>
     (\<exists>r. (\<forall>n \<in> set nodes. wn_revision_id n = r) \<and>
          (\<forall>e \<in> set edges. edge_ok r (wn_id ` set nodes) e)) \<and>
     acyclic (edge_pair ` set edges)"

lemma dag_owner_iff:
  "(\<exists>r. (\<forall>n \<in> set nodes. wn_revision_id n = r) \<and> (\<forall>e \<in> set edges. edge_ok r ids e)) \<longleftrightarrow>
   (\<exists>r. wn_revision_id ` set nodes \<subseteq> {r} \<and> we_revision_id ` set edges \<subseteq> {r}) \<and>
   edge_pair ` set edges \<subseteq> ids \<times> ids"
  by (simp add: edge_ok_def image_subset_iff ball_conj_distrib) iprover

lemma kahn_accepts:
  assumes "distinct (map wn_id nodes)" and "\<forall>e \<in> set edges. edge_ok r (wn_id ` set nodes) e"
    and "distinct (map edge_pair edges)"
  shows "kahn_loop (fold link edges (map (\<lambda>i. (i, [])) (map wn_id nodes)))
      (sort (map fst (filter (\<lambda>(x, d). d = 0) (fold bump edges (map (\<lambda>i. (i, 0)) (map wn_id nodes))))))
      (fold bump edges (map (\<lambda>i. (i, 0)) (map wn_id nodes))) 0 = length nodes
    \<longleftrightarrow> acyclic (edge_pair ` set edges)"
  using kahn_loop_visits_all_iff_acyclic [OF dag_start [of "map wn_id nodes" edges r]] assms
  by (simp del: map_map)

lemma validate_workflow_dag_iff: "validate_workflow_dag nodes edges = Inr () \<longleftrightarrow> dag_valid nodes edges"
proof (cases "nodes = []")
  case False
  obtain r where r: "wn_revision_id (hd nodes) = r" by simp
  have "validate_workflow_dag nodes edges = Inr () \<longleftrightarrow>
      length nodes \<le> 64 \<and> length edges \<le> 256 \<and> distinct (map wn_id nodes) \<and>
      (\<forall>n \<in> set nodes. wn_revision_id n = r) \<and> distinct (map wn_node_key nodes) \<and>
      (\<forall>e \<in> set edges. edge_ok r (wn_id ` set nodes) e) \<and> distinct (map edge_pair edges) \<and>
      acyclic (edge_pair ` set edges)"
    using kahn_accepts [of nodes edges r]
    by (simp add: False r validate_workflow_dag_def Let_def outcome_simps dag_edges_Inr_iff
          list_all_iff MAX_WORKFLOW_NODES_def MAX_WORKFLOW_EDGES_def not_less del: map_map)
       blast
  moreover have "(\<exists>r. (\<forall>n \<in> set nodes. wn_revision_id n = r) \<and> (\<forall>e \<in> set edges. edge_ok r (wn_id ` set nodes) e))
      \<longleftrightarrow> (\<forall>n \<in> set nodes. wn_revision_id n = r) \<and> (\<forall>e \<in> set edges. edge_ok r (wn_id ` set nodes) e)"
    using False r by (metis hd_in_set)
  ultimately show ?thesis using False unfolding dag_valid_def by blast
qed (simp add: validate_workflow_dag_def dag_valid_def)

section \<open>Input limits\<close>

lemma add_Max_le:
  fixes f :: "'a \<Rightarrow> nat"
  assumes "finite A" and "A \<noteq> {}"
  shows "d + Max (f ` A) \<le> b \<longleftrightarrow> (\<forall>x \<in> A. d + f x \<le> b)"
proof -
  have "d + Max (f ` A) = Max ((\<lambda>x. d + f x) ` A)"
    using mono_Max_commute [of "\<lambda>y. d + y" "f ` A"] assms by (simp add: mono_def image_image)
  with assms show ?thesis by simp
qed

lemma json_stats_Inr_iff:
  "json_stats d v = Inr n \<longleftrightarrow> d + json_depth v \<le> 8 \<and> n = json_nodes v"
  "json_stats_list d xs = Inr n \<longleftrightarrow> (\<forall>x \<in> set xs. d + json_depth x \<le> 8) \<and> n = sum_list (map json_nodes xs)"
  "json_stats_entries d es = Inr n \<longleftrightarrow>
     (\<forall>(k, x) \<in> set es. d + json_depth x \<le> 8) \<and> n = sum_list (map (\<lambda>(k, x). json_nodes x) es)"
proof (induction d v and d xs and d es arbitrary: n and n and n
    rule: json_stats_json_stats_list_json_stats_entries.induct)
  case (1 depth v)
  show ?case
    using 1 by (cases v) (auto simp: outcome_simps MAX_WORKFLOW_INPUT_DEPTH_def add_Max_le
        case_prod_unfold not_less)
qed (auto simp: outcome_simps)

lemma validate_workflow_input_Inr_iff:
  "validate_workflow_input v = Inr w \<longleftrightarrow>
     w = v \<and> is_json v \<and> utf8_length (json_dumps False v) \<le> 16384 \<and> json_depth v \<le> 8 \<and>
     json_nodes v \<le> 256"
  by (auto simp: validate_workflow_input_def outcome_simps ensure_json_Inr_iff json_stats_Inr_iff
      MAX_WORKFLOW_INPUT_BYTES_def MAX_WORKFLOW_INPUT_NODES_def simp del: json_stats.simps)

section \<open>The digest is canonical\<close>

lemma key_by_id_perm:
  assumes "mset nodes = mset nodes'" and "distinct (map wn_id nodes)"
  shows "key_by_id nodes = key_by_id nodes'"
proof -
  have "distinct (map wn_id nodes')"
    using assms by (metis mset_eq_imp_distinct_iff mset_map)
  with assms show ?thesis
    unfolding key_by_id_def
    by (subst map_of_inject_set) (auto simp: rev_map [symmetric] comp_def dest: mset_eq_setD)
qed

lemma key_by_id_node:
  assumes "distinct (map wn_id nodes)" and "n \<in> set nodes"
  shows "key_by_id nodes (wn_id n) = Some (wn_node_key n)"
  unfolding key_by_id_def using assms by (intro map_of_is_SomeI) (auto simp: rev_map [symmetric] comp_def)

lemma key_by_id_inj:
  assumes "dag_valid nodes edges" and "i \<in> wn_id ` set nodes" and "j \<in> wn_id ` set nodes"
    and "or_else (key_by_id nodes i) [] = or_else (key_by_id nodes j) []"
  shows "i = j"
proof -
  from assms(1) have d: "distinct (map wn_id nodes)" and k: "distinct (map wn_node_key nodes)"
    by (simp_all add: dag_valid_def)
  from assms(2,3) obtain m n where "m \<in> set nodes" "i = wn_id m" "n \<in> set nodes" "j = wn_id n" by auto
  with assms(4) key_by_id_node [OF d] k show ?thesis by (auto simp: distinct_map dest: inj_onD)
qed

lemma edge_keys_inj:
  assumes "dag_valid nodes edges"
  shows "inj_on (edge_keys nodes) (set edges)"
proof (rule inj_onI)
  fix e e' assume e: "e \<in> set edges" "e' \<in> set edges" and eq: "edge_keys nodes e = edge_keys nodes e'"
  from assms e have "we_from_node_id e \<in> wn_id ` set nodes" "we_to_node_id e \<in> wn_id ` set nodes"
    "we_from_node_id e' \<in> wn_id ` set nodes" "we_to_node_id e' \<in> wn_id ` set nodes"
    by (auto simp: dag_valid_def edge_ok_def)
  with eq key_by_id_inj [OF assms] have "edge_pair e = edge_pair e'" by (simp add: edge_keys_def)
  with assms e show "e = e'" by (auto simp: dag_valid_def distinct_map dest: inj_onD)
qed

lemma sort_key_perm:
  assumes "mset xs = mset ys" and "inj_on f (set xs)"
  shows "sort_key f xs = sort_key f ys"
  using assms by (intro sort_key_inj_key_eq) simp_all

lemma canonical_content_perm:
  assumes "dag_valid nodes edges" and n: "mset nodes = mset nodes'" and e: "mset edges = mset edges'"
  shows "canonical_workflow_content nodes edges = canonical_workflow_content nodes' edges'"
proof -
  from assms(1) have d: "distinct (map wn_id nodes)" and k: "distinct (map wn_node_key nodes)"
    by (simp_all add: dag_valid_def)
  have K: "key_by_id nodes' = key_by_id nodes" using key_by_id_perm [OF n d] by simp
  then have E: "edge_keys nodes' = edge_keys nodes" by (simp add: edge_keys_def fun_eq_iff)
  have "sort_key wn_node_key nodes = sort_key wn_node_key nodes'"
    using k by (intro sort_key_perm [OF n]) (simp add: distinct_map)
  moreover have "sort_key (edge_keys nodes) edges = sort_key (edge_keys nodes) edges'"
    by (rule sort_key_perm [OF e edge_keys_inj [OF assms(1)]])
  ultimately show ?thesis
    using mset_eq_setD [OF e] by (simp add: canonical_workflow_content_def K E list_all_iff)
qed

lemma canonical_content_total:
  "dag_valid nodes edges \<Longrightarrow> canonical_workflow_content nodes edges \<noteq> None"
  by (force simp: dag_valid_def canonical_workflow_content_def list_all_iff edge_ok_def key_by_id_node)

section \<open>Revisions and the registry entry\<close>

definition revision_inv :: "(string \<Rightarrow> string) \<Rightarrow> WorkflowRevision \<Rightarrow> bool" where
  "revision_inv sha256 r \<longleftrightarrow>
     1 \<le> wr_version r \<and> dag_valid (wr_nodes r) (wr_edges r) \<and>
     (\<forall>n \<in> set (wr_nodes r). wn_revision_id n = wr_id r) \<and>
     (\<forall>e \<in> set (wr_edges r). we_revision_id e = wr_id r) \<and>
     canonical_workflow_content (wr_nodes r) (wr_edges r) \<noteq> None \<and>
     wr_content_sha256 r = sha256 (the (canonical_workflow_content (wr_nodes r) (wr_edges r))) \<and>
     lower_hex64 (wr_content_sha256 r)"

lemma ownership_Inr_iff:
  "validate_workflow_revision_ownership i nodes edges = Inr u \<longleftrightarrow>
     (\<forall>n \<in> set nodes. wn_revision_id n = i) \<and> (\<forall>e \<in> set edges. we_revision_id e = i)"
  by (auto simp: validate_workflow_revision_ownership_def list_ex_iff)

lemma workflow_revision_post_init_Inr_iff:
  "workflow_revision_post_init sha256 r at = Inr r' \<longleftrightarrow>
     revision_inv sha256 r \<and> (\<exists>t. ensure_utc at = Inr t \<and> r' = r\<lparr>wr_created_at := t\<rparr>)"
  by (auto simp: workflow_revision_post_init_def outcome_simps ownership_Inr_iff
      validate_workflow_dag_iff workflow_digest_def revision_inv_def)

lemma workflow_revision_new_Inr_iff:
  "workflow_revision_new sha256 i w v nodes edges k at = Inr r \<longleftrightarrow>
     (\<exists>t. ensure_utc at = Inr t \<and> revision_inv sha256 r \<and> canonical_workflow_content nodes edges \<noteq> None \<and>
      r = \<lparr>wr_id = i, wr_workflow_id = w, wr_version = v,
           wr_content_sha256 = sha256 (the (canonical_workflow_content nodes edges)),
           wr_source_kind = k, wr_nodes = nodes, wr_edges = edges, wr_created_at = t\<rparr>)"
  by (auto simp: workflow_revision_new_def workflow_revision_post_init_Inr_iff outcome_simps
      ownership_Inr_iff validate_workflow_dag_iff workflow_digest_def revision_inv_def)

datatype workflow_call =
    WorkflowActivate WorkflowRevision datetime
  | WorkflowDisable datetime
  | WorkflowArchive datetime

fun workflow_step :: "workflow_call \<Rightarrow> Workflow \<Rightarrow> (domain_error, Workflow) outcome" where
  "workflow_step (WorkflowActivate r at) = workflow_activate r at"
| "workflow_step (WorkflowDisable at) = workflow_disable at"
| "workflow_step (WorkflowArchive at) = workflow_archive at"

definition workflow_inv :: "Workflow \<Rightarrow> bool" where
  "workflow_inv w \<longleftrightarrow>
     key_language (wf_key w) \<and> length (wf_key w) \<le> 128 \<and>
     py_strip (wf_display_name w) = wf_display_name w \<and> wf_display_name w \<noteq> []"

definition workflow_ident :: "Workflow \<Rightarrow> WorkflowId \<times> string \<times> string \<times> string \<times> instant" where
  "workflow_ident w =
     (wf_id w, wf_key w, wf_display_name w, wf_description w, wf_created_at w)"

lemmas workflow_defs [step_defs] = workflow_activate_def workflow_disable_def workflow_archive_def

lemma workflow_new_inv: "workflow_new i k n d at = Inr w \<Longrightarrow> workflow_inv w"
  by (auto simp: workflow_new_def workflow_inv_def outcome_simps py_strip_idem validate_workflow_key_def
      MAX_WORKFLOW_KEY_LENGTH_def key_match_language split: if_splits)

lemma workflow_step_ident: "workflow_step x w = Done w' \<Longrightarrow> workflow_ident w' = workflow_ident w"
  by (cases x) (auto simp: workflow_defs outcome_simps workflow_ident_def split: if_splits)

lemma workflow_step_inv: "workflow_inv w \<Longrightarrow> workflow_step x w = Done w' \<Longrightarrow> workflow_inv w'"
  by (drule workflow_step_ident) (simp add: workflow_inv_def workflow_ident_def)

lemma workflow_step_archived:
  "wf_status w = WorkflowStatus.ARCHIVED \<Longrightarrow> workflow_step x w = Done w' \<Longrightarrow> w' = w"
  by (cases x) (auto simp: workflow_defs outcome_simps)

lemma workflow_step_raise: "workflow_step x w = Raised e w' \<Longrightarrow> w' = w"
  by (cases x) (auto simp: workflow_defs outcome_simps split: if_splits)

interpretation workflow_life: atomic_lifecycle workflow_step workflow_inv workflow_ident wf_status
  "\<lambda>s. s = WorkflowStatus.ARCHIVED"
  by unfold_locales
     (erule (1) workflow_step_inv, erule workflow_step_ident, drule (1) workflow_step_archived, simp,
      erule workflow_step_raise)

end
