(* ===== verification/Workflow_Execution_Entity.thy ===== *)
theory Workflow_Execution_Entity
  imports Workflow_Entity
begin

text \<open>
  \<^verbatim>\<open>src/src/friday/domain/workflow_execution.py\<close>: the durable snapshot of one workflow run and of each
  of its nodes, the per-Run resolution and the Task binding. The constructors take the
  raw timestamps and return the normalised object.
\<close>

section \<open>Shared validation\<close>

definition validate_sha256 :: "string \<Rightarrow> string \<Rightarrow> domain_error + string" where
  "validate_sha256 value field_name =
     (if lower_hex64 value then Inr value
      else Inl (DomainValidationError (field_name @ '' must be a lowercase sha256'')))"

definition validate_failure ::
  "string option \<Rightarrow> string option \<Rightarrow> bool \<Rightarrow> domain_error + unit" where
  "validate_failure code message required =
     (if required \<and> (or_else code [] = [] \<or> or_else message [] = [])
      then Inl (DomainValidationError ''failed workflow state requires failure code and message'')
      else if code \<noteq> None \<and> py_strip (the code) = []
      then Inl (DomainValidationError ''failure code must not be empty'')
      else if message \<noteq> None \<and> py_strip (the message) = []
      then Inl (DomainValidationError ''failure message must not be empty'')
      else Inr ())"

definition failure_shape :: "string option \<Rightarrow> string option \<Rightarrow> bool" where
  "failure_shape code message \<longleftrightarrow>
     pred_option (\<lambda>c. py_strip c \<noteq> []) code \<and> pred_option (\<lambda>m. py_strip m \<noteq> []) message"

lemma py_strip_empty [simp]: "py_strip [] = []"
  by (simp add: py_strip_def)

lemma validate_failure_Inr_iff:
  "validate_failure code message required = Inr u \<longleftrightarrow>
     failure_shape code message \<and> (required \<longrightarrow> code \<noteq> None \<and> message \<noteq> None)"
  by (cases code; cases message) (auto simp: validate_failure_def failure_shape_def)

section \<open>Executions\<close>

datatype WorkflowExecutionStatus = RUNNING | SUCCEEDED | FAILED | CANCELLED

fun wx_status_value :: "WorkflowExecutionStatus \<Rightarrow> string" where
  "wx_status_value WorkflowExecutionStatus.RUNNING = ''running''"
| "wx_status_value WorkflowExecutionStatus.SUCCEEDED = ''succeeded''"
| "wx_status_value WorkflowExecutionStatus.FAILED = ''failed''"
| "wx_status_value WorkflowExecutionStatus.CANCELLED = ''cancelled''"

definition TERMINAL_WORKFLOW_EXECUTION_STATUSES :: "WorkflowExecutionStatus list" where
  "TERMINAL_WORKFLOW_EXECUTION_STATUSES =
     [WorkflowExecutionStatus.SUCCEEDED, WorkflowExecutionStatus.FAILED,
      WorkflowExecutionStatus.CANCELLED]"

record WorkflowExecution =
  wx_id :: WorkflowExecutionId
  wx_root_run_id :: RunId
  wx_workflow_id :: WorkflowId
  wx_workflow_revision_id :: WorkflowRevisionId
  wx_workflow_content_sha256 :: string
  wx_status :: WorkflowExecutionStatus
  wx_started_at :: instant
  wx_completed_at :: "instant option"
  wx_failure_code :: "string option"
  wx_failure_message :: "string option"

abbreviation wx_precedes :: domain_error where
  "wx_precedes \<equiv> DomainValidationError
     ''WorkflowExecution.completed_at precedes WorkflowExecution.started_at''"

definition wx_post_init ::
  "WorkflowExecution \<Rightarrow> datetime \<Rightarrow> datetime option \<Rightarrow> domain_error + WorkflowExecution" where
  "wx_post_init e started_at completed_at =
     ebind (validate_sha256 (wx_workflow_content_sha256 e) ''WorkflowExecution.workflow_content_sha256'') (\<lambda>_.
     ebind (ensure_utc started_at) (\<lambda>s.
     ebind (validate_opt ensure_utc completed_at) (\<lambda>c.
     ebind (guard (pred_option (\<lambda>t. s \<le> t) c) wx_precedes) (\<lambda>_.
     ebind (guard (wx_status e = WorkflowExecutionStatus.RUNNING \<longrightarrow> c = None)
       (DomainValidationError ''running WorkflowExecution cannot be completed'')) (\<lambda>_.
     ebind (guard (wx_status e = WorkflowExecutionStatus.RUNNING \<longrightarrow>
                     wx_failure_code e = None \<and> wx_failure_message e = None)
       (DomainValidationError ''running WorkflowExecution cannot have a failure'')) (\<lambda>_.
     ebind (guard (wx_status e \<noteq> WorkflowExecutionStatus.RUNNING \<longrightarrow> c \<noteq> None)
       (DomainValidationError ''terminal WorkflowExecution requires completed_at'')) (\<lambda>_.
     ebind (guard (wx_status e = WorkflowExecutionStatus.SUCCEEDED \<longrightarrow>
                     wx_failure_code e = None \<and> wx_failure_message e = None)
       (DomainValidationError ''succeeded WorkflowExecution cannot have a failure'')) (\<lambda>_.
     ebind (guard (wx_status e = WorkflowExecutionStatus.CANCELLED \<longrightarrow> wx_failure_code e = None)
       (DomainValidationError ''cancelled WorkflowExecution cannot have a failure code'')) (\<lambda>_.
     ebind (validate_failure (wx_failure_code e) (wx_failure_message e)
              (wx_status e = WorkflowExecutionStatus.FAILED)) (\<lambda>_.
     Inr (e\<lparr>wx_started_at := s, wx_completed_at := c\<rparr>)))))))))))"

definition wx_is_terminal :: "WorkflowExecution \<Rightarrow> bool" where
  "wx_is_terminal e \<longleftrightarrow> wx_status e \<in> set TERMINAL_WORKFLOW_EXECUTION_STATUSES"

definition wx_require_running ::
  "WorkflowExecution \<Rightarrow> WorkflowExecutionStatus \<Rightarrow> domain_error + unit" where
  "wx_require_running e target =
     guard (wx_status e = WorkflowExecutionStatus.RUNNING)
       (InvalidStateTransition ''WorkflowExecution'' (wx_status_value (wx_status e))
          (wx_status_value target))"

text \<open>\<^verbatim>\<open>succeed\<close> stores \<^verbatim>\<open>completed_at\<close> before it compares it with the start.\<close>

definition wx_succeed :: "datetime \<Rightarrow> WorkflowExecution \<Rightarrow> (domain_error, WorkflowExecution) outcome" where
  "wx_succeed at e =
     attempt (wx_require_running e WorkflowExecutionStatus.SUCCEEDED) e (\<lambda>_.
     attempt (ensure_utc at) e (\<lambda>t.
     let e1 = e\<lparr>wx_completed_at := Some t\<rparr> in
     require (wx_started_at e \<le> t) wx_precedes e1
     (Done (e1\<lparr>wx_failure_code := None, wx_failure_message := None,
               wx_status := WorkflowExecutionStatus.SUCCEEDED\<rparr>))))"

definition wx_fail ::
  "datetime \<Rightarrow> string \<Rightarrow> string \<Rightarrow> WorkflowExecution \<Rightarrow> (domain_error, WorkflowExecution) outcome" where
  "wx_fail at failure_code failure_message e =
     attempt (wx_require_running e WorkflowExecutionStatus.FAILED) e (\<lambda>_.
     attempt (validate_failure (Some failure_code) (Some failure_message) True) e (\<lambda>_.
     attempt (ensure_utc at) e (\<lambda>t.
     require (wx_started_at e \<le> t) wx_precedes e
     (Done (e\<lparr>wx_completed_at := Some t, wx_failure_code := Some failure_code,
              wx_failure_message := Some failure_message,
              wx_status := WorkflowExecutionStatus.FAILED\<rparr>)))))"

definition wx_cancel ::
  "datetime \<Rightarrow> string option \<Rightarrow> WorkflowExecution \<Rightarrow> (domain_error, WorkflowExecution) outcome" where
  "wx_cancel at message e =
     attempt (wx_require_running e WorkflowExecutionStatus.CANCELLED) e (\<lambda>_.
     attempt (ensure_utc at) e (\<lambda>t.
     require (wx_started_at e \<le> t) wx_precedes e
     (require (pred_option (\<lambda>m. py_strip m \<noteq> []) message)
       (DomainValidationError ''WorkflowExecution cancellation message must not be empty'') e
     (Done (e\<lparr>wx_completed_at := Some t, wx_failure_code := None, wx_failure_message := message,
              wx_status := WorkflowExecutionStatus.CANCELLED\<rparr>)))))"

section \<open>Node executions\<close>

datatype WorkflowNodeExecutionStatus =
  PENDING | DISPATCHED | SUCCEEDED | FAILED | CANCELLED | BLOCKED

fun wne_status_value :: "WorkflowNodeExecutionStatus \<Rightarrow> string" where
  "wne_status_value WorkflowNodeExecutionStatus.PENDING = ''pending''"
| "wne_status_value WorkflowNodeExecutionStatus.DISPATCHED = ''dispatched''"
| "wne_status_value WorkflowNodeExecutionStatus.SUCCEEDED = ''succeeded''"
| "wne_status_value WorkflowNodeExecutionStatus.FAILED = ''failed''"
| "wne_status_value WorkflowNodeExecutionStatus.CANCELLED = ''cancelled''"
| "wne_status_value WorkflowNodeExecutionStatus.BLOCKED = ''blocked''"

definition TERMINAL_WORKFLOW_NODE_EXECUTION_STATUSES :: "WorkflowNodeExecutionStatus list" where
  "TERMINAL_WORKFLOW_NODE_EXECUTION_STATUSES =
     [WorkflowNodeExecutionStatus.SUCCEEDED, WorkflowNodeExecutionStatus.FAILED,
      WorkflowNodeExecutionStatus.CANCELLED, WorkflowNodeExecutionStatus.BLOCKED]"

record WorkflowNodeExecution =
  wne_id :: WorkflowNodeExecutionId
  wne_workflow_execution_id :: WorkflowExecutionId
  wne_workflow_node_id :: WorkflowNodeId
  wne_workflow_revision_id :: WorkflowRevisionId
  wne_node_key :: string
  wne_target_agent_id :: AgentId
  wne_target_agent_revision_id :: AgentRevisionId
  wne_target_agent_revision_sha256 :: string
  wne_status :: WorkflowNodeExecutionStatus
  wne_created_at :: instant
  wne_child_task_id :: "TaskId option"
  wne_child_run_id :: "RunId option"
  wne_child_execution_id :: "RunId option"
  wne_result_payload :: pyval
  wne_failure_code :: "string option"
  wne_failure_message :: "string option"
  wne_started_at :: "instant option"
  wne_completed_at :: "instant option"

definition wne_has_child :: "WorkflowNodeExecution \<Rightarrow> bool" where
  "wne_has_child n \<longleftrightarrow>
     wne_child_task_id n \<noteq> None \<or> wne_child_run_id n \<noteq> None \<or> wne_child_execution_id n \<noteq> None"

definition wne_all_child :: "WorkflowNodeExecution \<Rightarrow> bool" where
  "wne_all_child n \<longleftrightarrow>
     wne_child_task_id n \<noteq> None \<and> wne_child_run_id n \<noteq> None \<and> wne_child_execution_id n \<noteq> None"

definition wne_no_failure :: "WorkflowNodeExecution \<Rightarrow> bool" where
  "wne_no_failure n \<longleftrightarrow> wne_failure_code n = None \<and> wne_failure_message n = None"

definition wne_validate_status_shape :: "WorkflowNodeExecution \<Rightarrow> domain_error + unit" where
  "wne_validate_status_shape n =
     (case wne_status n of
        WorkflowNodeExecutionStatus.PENDING \<Rightarrow>
          ebind (guard (\<not> wne_has_child n \<and> wne_started_at n = None \<and> wne_completed_at n = None)
            (DomainValidationError ''pending WorkflowNodeExecution cannot have a child'')) (\<lambda>_.
          guard (wne_no_failure n)
            (DomainValidationError ''pending WorkflowNodeExecution cannot have a failure''))
      | WorkflowNodeExecutionStatus.DISPATCHED \<Rightarrow>
          ebind (guard (wne_all_child n \<and> wne_started_at n \<noteq> None \<and> wne_completed_at n = None)
            (DomainValidationError ''dispatched WorkflowNodeExecution child shape is invalid'')) (\<lambda>_.
          guard (wne_no_failure n)
            (DomainValidationError ''dispatched WorkflowNodeExecution cannot have a failure''))
      | WorkflowNodeExecutionStatus.SUCCEEDED \<Rightarrow>
          ebind (guard (wne_all_child n \<and> wne_started_at n \<noteq> None \<and> wne_completed_at n \<noteq> None)
            (DomainValidationError ''succeeded WorkflowNodeExecution child shape is invalid'')) (\<lambda>_.
          guard (wne_no_failure n)
            (DomainValidationError ''succeeded WorkflowNodeExecution cannot have a failure''))
      | WorkflowNodeExecutionStatus.FAILED \<Rightarrow>
          ebind (guard (wne_all_child n \<and> wne_started_at n \<noteq> None \<and> wne_completed_at n \<noteq> None)
            (DomainValidationError ''failed WorkflowNodeExecution child shape is invalid'')) (\<lambda>_.
          validate_failure (wne_failure_code n) (wne_failure_message n) True)
      | WorkflowNodeExecutionStatus.CANCELLED \<Rightarrow>
          ebind (guard (wne_completed_at n \<noteq> None)
            (DomainValidationError ''cancelled WorkflowNodeExecution requires completed_at'')) (\<lambda>_.
          guard (wne_no_failure n)
            (DomainValidationError ''cancelled WorkflowNodeExecution cannot have a failure''))
      | WorkflowNodeExecutionStatus.BLOCKED \<Rightarrow>
          ebind (guard (wne_completed_at n \<noteq> None)
            (DomainValidationError ''blocked WorkflowNodeExecution requires completed_at'')) (\<lambda>_.
          ebind (guard (\<not> wne_has_child n)
            (DomainValidationError ''blocked WorkflowNodeExecution cannot have a child'')) (\<lambda>_.
          validate_failure (wne_failure_code n) (wne_failure_message n) True)))"

definition wne_post_init ::
  "WorkflowNodeExecution \<Rightarrow> datetime \<Rightarrow> datetime option \<Rightarrow> datetime option
   \<Rightarrow> domain_error + WorkflowNodeExecution" where
  "wne_post_init n created_at started_at completed_at =
     ebind (guard (\<not> (wne_node_key n = [] \<or> 128 < length (wne_node_key n) \<or> \<not> key_match (wne_node_key n)))
       (DomainValidationError ''WorkflowNodeExecution.node_key is invalid'')) (\<lambda>_.
     ebind (validate_sha256 (wne_target_agent_revision_sha256 n)
       ''WorkflowNodeExecution.target_agent_revision_sha256'') (\<lambda>_.
     ebind (ensure_utc created_at) (\<lambda>c.
     ebind (validate_opt ensure_utc started_at) (\<lambda>s.
     ebind (guard (pred_option (\<lambda>t. c \<le> t) s)
       (DomainValidationError ''WorkflowNodeExecution.started_at precedes created_at'')) (\<lambda>_.
     ebind (validate_opt ensure_utc completed_at) (\<lambda>f.
     ebind (guard (pred_option (\<lambda>t. or_else s c \<le> t) f)
       (DomainValidationError ''WorkflowNodeExecution.completed_at precedes start/creation time'')) (\<lambda>_.
     ebind (ensure_json_value ''WorkflowNodeExecution.result_payload'' (wne_result_payload n)) (\<lambda>_.
     ebind (validate_failure (wne_failure_code n) (wne_failure_message n) False) (\<lambda>_.
     let n1 = n\<lparr>wne_created_at := c, wne_started_at := s, wne_completed_at := f\<rparr> in
     ebind (wne_validate_status_shape n1) (\<lambda>_. Inr n1))))))))))"

definition wne_is_terminal :: "WorkflowNodeExecution \<Rightarrow> bool" where
  "wne_is_terminal n \<longleftrightarrow> wne_status n \<in> set TERMINAL_WORKFLOW_NODE_EXECUTION_STATUSES"

definition wne_require_status ::
  "WorkflowNodeExecution \<Rightarrow> WorkflowNodeExecutionStatus \<Rightarrow> WorkflowNodeExecutionStatus list
   \<Rightarrow> domain_error + unit" where
  "wne_require_status n target allowed =
     guard (wne_status n \<in> set allowed)
       (InvalidStateTransition ''WorkflowNodeExecution'' (wne_status_value (wne_status n))
          (wne_status_value target))"

definition wne_dispatch ::
  "TaskId \<Rightarrow> RunId \<Rightarrow> RunId \<Rightarrow> datetime \<Rightarrow> WorkflowNodeExecution
   \<Rightarrow> (domain_error, WorkflowNodeExecution) outcome" where
  "wne_dispatch child_task_id child_run_id child_execution_id at n =
     attempt (wne_require_status n WorkflowNodeExecutionStatus.DISPATCHED
                [WorkflowNodeExecutionStatus.PENDING]) n (\<lambda>_.
     require (\<not> wne_has_child n)
       (DomainValidationError ''WorkflowNodeExecution has already been dispatched'') n
     (attempt (ensure_utc at) n (\<lambda>t.
     require (wne_created_at n \<le> t)
       (DomainValidationError ''WorkflowNodeExecution.started_at precedes created_at'') n
     (Done (n\<lparr>wne_child_task_id := Some child_task_id, wne_child_run_id := Some child_run_id,
              wne_child_execution_id := Some child_execution_id, wne_started_at := Some t,
              wne_completed_at := None, wne_failure_code := None, wne_failure_message := None,
              wne_status := WorkflowNodeExecutionStatus.DISPATCHED\<rparr>)))))"

definition wne_completion :: "WorkflowNodeExecution \<Rightarrow> datetime \<Rightarrow> domain_error + instant" where
  "wne_completion n at =
     ebind (ensure_utc at) (\<lambda>t.
     ebind (guard (or_else (wne_started_at n) (wne_created_at n) \<le> t)
       (DomainValidationError ''WorkflowNodeExecution.completed_at precedes start/creation time'')) (\<lambda>_.
     Inr t))"

definition wne_succeed ::
  "datetime \<Rightarrow> pyval \<Rightarrow> WorkflowNodeExecution \<Rightarrow> (domain_error, WorkflowNodeExecution) outcome" where
  "wne_succeed at result_payload n =
     attempt (wne_require_status n WorkflowNodeExecutionStatus.SUCCEEDED
                [WorkflowNodeExecutionStatus.DISPATCHED]) n (\<lambda>_.
     attempt (wne_completion n at) n (\<lambda>t.
     attempt (ensure_json_value ''WorkflowNodeExecution.result_payload'' result_payload) n (\<lambda>r.
     Done (n\<lparr>wne_result_payload := r, wne_completed_at := Some t, wne_failure_code := None,
             wne_failure_message := None, wne_status := WorkflowNodeExecutionStatus.SUCCEEDED\<rparr>))))"

definition wne_fail ::
  "datetime \<Rightarrow> string \<Rightarrow> string \<Rightarrow> WorkflowNodeExecution
   \<Rightarrow> (domain_error, WorkflowNodeExecution) outcome" where
  "wne_fail at failure_code failure_message n =
     attempt (wne_require_status n WorkflowNodeExecutionStatus.FAILED
                [WorkflowNodeExecutionStatus.DISPATCHED]) n (\<lambda>_.
     attempt (validate_failure (Some failure_code) (Some failure_message) True) n (\<lambda>_.
     attempt (wne_completion n at) n (\<lambda>t.
     Done (n\<lparr>wne_completed_at := Some t, wne_failure_code := Some failure_code,
             wne_failure_message := Some failure_message,
             wne_status := WorkflowNodeExecutionStatus.FAILED\<rparr>))))"

definition wne_cancel ::
  "datetime \<Rightarrow> WorkflowNodeExecution \<Rightarrow> (domain_error, WorkflowNodeExecution) outcome" where
  "wne_cancel at n =
     attempt (wne_require_status n WorkflowNodeExecutionStatus.CANCELLED
                [WorkflowNodeExecutionStatus.PENDING, WorkflowNodeExecutionStatus.DISPATCHED]) n (\<lambda>_.
     attempt (wne_completion n at) n (\<lambda>t.
     Done (n\<lparr>wne_completed_at := Some t, wne_failure_code := None, wne_failure_message := None,
             wne_status := WorkflowNodeExecutionStatus.CANCELLED\<rparr>)))"

definition wne_block ::
  "datetime \<Rightarrow> string \<Rightarrow> string \<Rightarrow> WorkflowNodeExecution
   \<Rightarrow> (domain_error, WorkflowNodeExecution) outcome" where
  "wne_block at failure_code failure_message n =
     attempt (wne_require_status n WorkflowNodeExecutionStatus.BLOCKED
                [WorkflowNodeExecutionStatus.PENDING]) n (\<lambda>_.
     attempt (validate_failure (Some failure_code) (Some failure_message) True) n (\<lambda>_.
     attempt (ensure_utc at) n (\<lambda>t.
     require (wne_created_at n \<le> t)
       (DomainValidationError ''WorkflowNodeExecution.completed_at precedes created_at'') n
     (Done (n\<lparr>wne_completed_at := Some t, wne_failure_code := Some failure_code,
              wne_failure_message := Some failure_message,
              wne_status := WorkflowNodeExecutionStatus.BLOCKED\<rparr>)))))"

section \<open>Resolutions and bindings\<close>

record RunWorkflowResolution =
  rwr_id :: RunWorkflowResolutionId
  rwr_run_id :: RunId
  rwr_workflow_id :: WorkflowId
  rwr_workflow_revision_id :: WorkflowRevisionId
  rwr_content_sha256 :: string
  rwr_resolved_at :: instant

definition rwr_post_init ::
  "RunWorkflowResolution \<Rightarrow> datetime \<Rightarrow> domain_error + RunWorkflowResolution" where
  "rwr_post_init r resolved_at =
     ebind (validate_sha256 (rwr_content_sha256 r) ''RunWorkflowResolution.content_sha256'') (\<lambda>_.
     ebind (ensure_utc resolved_at) (\<lambda>t. Inr (r\<lparr>rwr_resolved_at := t\<rparr>)))"

record TaskWorkflowBinding =
  twb_task_id :: TaskId
  twb_workflow_id :: WorkflowId
  twb_created_at :: instant
  twb_updated_at :: instant

definition twb_post_init ::
  "TaskId \<Rightarrow> WorkflowId \<Rightarrow> datetime \<Rightarrow> datetime \<Rightarrow> domain_error + TaskWorkflowBinding" where
  "twb_post_init task_id workflow_id created_at updated_at =
     ebind (ensure_utc created_at) (\<lambda>c.
     ebind (ensure_utc updated_at) (\<lambda>u.
     ebind (guard (c \<le> u) (DomainValidationError
       ''TaskWorkflowBinding.updated_at precedes TaskWorkflowBinding.created_at'')) (\<lambda>_.
     Inr \<lparr>twb_task_id = task_id, twb_workflow_id = workflow_id, twb_created_at = c,
          twb_updated_at = u\<rparr>)))"

definition twb_new :: "TaskId \<Rightarrow> WorkflowId \<Rightarrow> datetime \<Rightarrow> domain_error + TaskWorkflowBinding" where
  "twb_new task_id workflow_id at =
     ebind (ensure_utc at) (\<lambda>now. twb_post_init task_id workflow_id (utc now) (utc now))"

definition twb_updated ::
  "WorkflowId \<Rightarrow> datetime \<Rightarrow> TaskWorkflowBinding \<Rightarrow> domain_error + TaskWorkflowBinding" where
  "twb_updated workflow_id at b =
     twb_post_init (twb_task_id b) workflow_id (utc (twb_created_at b)) at"

section \<open>Lifecycle of an execution\<close>

datatype wx_call =
    WxSucceed datetime
  | WxFail datetime string string
  | WxCancel datetime "string option"

fun wx_step :: "wx_call \<Rightarrow> WorkflowExecution \<Rightarrow> (domain_error, WorkflowExecution) outcome" where
  "wx_step (WxSucceed at) = wx_succeed at"
| "wx_step (WxFail at c m) = wx_fail at c m"
| "wx_step (WxCancel at m) = wx_cancel at m"

definition wx_inv :: "WorkflowExecution \<Rightarrow> bool" where
  "wx_inv e \<longleftrightarrow>
     lower_hex64 (wx_workflow_content_sha256 e) \<and>
     pred_option (\<lambda>t. wx_started_at e \<le> t) (wx_completed_at e) \<and>
     (wx_completed_at e = None) = (wx_status e = WorkflowExecutionStatus.RUNNING) \<and>
     (wx_failure_code e \<noteq> None) = (wx_status e = WorkflowExecutionStatus.FAILED) \<and>
     (wx_failure_message e \<noteq> None \<longrightarrow>
        wx_status e \<in> {WorkflowExecutionStatus.FAILED, WorkflowExecutionStatus.CANCELLED}) \<and>
     (wx_status e = WorkflowExecutionStatus.FAILED \<longrightarrow> wx_failure_message e \<noteq> None) \<and>
     failure_shape (wx_failure_code e) (wx_failure_message e)"

definition wx_ident where
  "wx_ident e = (wx_id e, wx_root_run_id e, wx_workflow_id e, wx_workflow_revision_id e,
     wx_workflow_content_sha256 e, wx_started_at e)"

definition wx_terminal :: "WorkflowExecutionStatus \<Rightarrow> bool" where
  "wx_terminal s \<longleftrightarrow> s \<in> set TERMINAL_WORKFLOW_EXECUTION_STATUSES"

lemmas wx_defs [step_defs] = wx_succeed_def wx_fail_def wx_cancel_def wx_require_running_def

lemma wx_post_init_inv: "wx_post_init e s c = Inr e' \<Longrightarrow> wx_inv e'"
  by (cases "wx_status e")
     (clarsimp simp: wx_post_init_def outcome_simps validate_failure_Inr_iff validate_sha256_def
        wx_inv_def split: if_splits)+

lemma wx_step_inv: "wx_inv e \<Longrightarrow> wx_step x e = Done e' \<Longrightarrow> wx_inv e'"
  by (cases x) (auto simp: wx_defs outcome_simps Let_def validate_failure_Inr_iff,
      simp_all add: wx_inv_def failure_shape_def)

lemma wx_step_ident: "wx_step x e = Done e' \<Longrightarrow> wx_ident e' = wx_ident e"
  by (cases x) (auto simp: wx_defs outcome_simps Let_def wx_ident_def)

lemma wx_step_terminal: "wx_terminal (wx_status e) \<Longrightarrow> wx_step x e \<noteq> Done e'"
  by (cases x)
     (auto simp: wx_defs outcome_simps Let_def wx_terminal_def TERMINAL_WORKFLOW_EXECUTION_STATUSES_def)

interpretation wx_life: closed_lifecycle wx_step wx_inv wx_ident wx_status wx_terminal
  by unfold_locales (erule (1) wx_step_inv, erule wx_step_ident, simp_all add: wx_step_terminal)

text \<open>A rejected \<^verbatim>\<open>succeed\<close> leaves its timestamp behind; \<^verbatim>\<open>fail\<close> and \<^verbatim>\<open>cancel\<close> leave nothing.\<close>

lemma wx_succeed_early:
  "wx_status e = WorkflowExecutionStatus.RUNNING \<Longrightarrow> t < wx_started_at e \<Longrightarrow>
   wx_succeed (utc t) e = Raised wx_precedes (e\<lparr>wx_completed_at := Some t\<rparr>)"
  by (simp add: wx_succeed_def wx_require_running_def)

lemma wx_step_raise: "(\<And>at. x \<noteq> WxSucceed at) \<Longrightarrow> wx_step x e = Raised er e' \<Longrightarrow> e' = e"
  by (cases x) (auto simp: wx_defs outcome_simps)

section \<open>Lifecycle of a node execution\<close>

datatype wne_call =
    WneDispatch TaskId RunId RunId datetime
  | WneSucceed datetime pyval
  | WneFail datetime string string
  | WneCancel datetime
  | WneBlock datetime string string

fun wne_step ::
  "wne_call \<Rightarrow> WorkflowNodeExecution \<Rightarrow> (domain_error, WorkflowNodeExecution) outcome" where
  "wne_step (WneDispatch t r e at) = wne_dispatch t r e at"
| "wne_step (WneSucceed at v) = wne_succeed at v"
| "wne_step (WneFail at c m) = wne_fail at c m"
| "wne_step (WneCancel at) = wne_cancel at"
| "wne_step (WneBlock at c m) = wne_block at c m"

definition wne_times_ok :: "WorkflowNodeExecution \<Rightarrow> bool" where
  "wne_times_ok n \<longleftrightarrow>
     pred_option (\<lambda>t. wne_created_at n \<le> t) (wne_started_at n) \<and>
     pred_option (\<lambda>t. or_else (wne_started_at n) (wne_created_at n) \<le> t) (wne_completed_at n)"

definition wne_inv :: "WorkflowNodeExecution \<Rightarrow> bool" where
  "wne_inv n \<longleftrightarrow>
     key_language (wne_node_key n) \<and> length (wne_node_key n) \<le> 128 \<and>
     lower_hex64 (wne_target_agent_revision_sha256 n) \<and> is_json (wne_result_payload n) \<and>
     failure_shape (wne_failure_code n) (wne_failure_message n) \<and> wne_times_ok n \<and>
     wne_validate_status_shape n = Inr ()"

definition wne_ident where
  "wne_ident n = (wne_id n, wne_workflow_execution_id n, wne_workflow_node_id n,
     wne_workflow_revision_id n, wne_node_key n, wne_target_agent_id n,
     wne_target_agent_revision_id n, wne_target_agent_revision_sha256 n, wne_created_at n)"

definition wne_terminal :: "WorkflowNodeExecutionStatus \<Rightarrow> bool" where
  "wne_terminal s \<longleftrightarrow> s \<in> set TERMINAL_WORKFLOW_NODE_EXECUTION_STATUSES"

lemmas wne_defs [step_defs] =
  wne_dispatch_def wne_succeed_def wne_fail_def wne_cancel_def wne_block_def
  wne_require_status_def wne_completion_def

lemma wne_post_init_inv: "wne_post_init n c s f = Inr n' \<Longrightarrow> wne_inv n'"
  by (clarsimp simp: wne_post_init_def outcome_simps Let_def validate_failure_Inr_iff
        validate_sha256_def ensure_json_Inr_iff split: if_splits)
     (auto simp: wne_inv_def wne_times_ok_def key_match_language)

lemma wne_step_inv: "wne_inv n \<Longrightarrow> wne_step x n = Done n' \<Longrightarrow> wne_inv n'"
  by (cases x) (auto simp: wne_defs outcome_simps validate_failure_Inr_iff ensure_json_Inr_iff,
      simp_all add: wne_inv_def failure_shape_def wne_times_ok_def wne_validate_status_shape_def
        wne_has_child_def wne_all_child_def wne_no_failure_def validate_failure_Inr_iff outcome_simps)

lemma wne_step_ident: "wne_step x n = Done n' \<Longrightarrow> wne_ident n' = wne_ident n"
  by (cases x) (auto simp: wne_defs outcome_simps wne_ident_def)

lemma wne_step_terminal: "wne_terminal (wne_status n) \<Longrightarrow> wne_step x n \<noteq> Done n'"
  by (cases x)
     (auto simp: wne_defs outcome_simps wne_terminal_def TERMINAL_WORKFLOW_NODE_EXECUTION_STATUSES_def)

lemma wne_step_raise: "wne_step x n = Raised e n' \<Longrightarrow> n' = n"
  by (cases x) (auto simp: wne_defs outcome_simps)

interpretation wne_life: closed_lifecycle wne_step wne_inv wne_ident wne_status wne_terminal
  by unfold_locales (erule (1) wne_step_inv, erule wne_step_ident, simp_all add: wne_step_terminal)

interpretation wne_life: atomic_lifecycle wne_step wne_inv wne_ident wne_status wne_terminal
  by unfold_locales (erule wne_step_raise)

end
