(* ===== verification/Delivery_Entity.thy ===== *)
theory Delivery_Entity
  imports Lifecycle Identifiers Json_Values Workflow_Entity
begin

text \<open>
  \<^verbatim>\<open>src/src/friday/domain/outbound_delivery.py\<close>, \<^verbatim>\<open>delivery_attempt.py\<close> and \<^verbatim>\<open>delivery_route.py\<close>: a
  durable delivery instruction, the audit record of one dispatch, and the route a
  delivery was authorised for. \<open>sha256\<close> is a parameter (lower-case hexadecimal of a
  text's UTF-8 bytes). The class guards attribute assignment with \<^verbatim>\<open>__setattr__\<close>; here the
  guard is the theorem that no method changes an authority field.
\<close>

section \<open>Delivery instructions\<close>

definition MAX_ROUTE_ID_LENGTH :: nat where "MAX_ROUTE_ID_LENGTH = 64"
definition MAX_SUBJECT_LENGTH :: nat where "MAX_SUBJECT_LENGTH = 512"
definition MAX_BODY_LENGTH :: nat where "MAX_BODY_LENGTH = 16000"
definition MAX_CLAIM_VALUE_LENGTH :: nat where "MAX_CLAIM_VALUE_LENGTH = 256"
definition MAX_PROVIDER_MESSAGE_ID_LENGTH :: nat where "MAX_PROVIDER_MESSAGE_ID_LENGTH = 512"
definition MAX_DELIVERY_FAILURE_CODE_LENGTH :: nat where "MAX_DELIVERY_FAILURE_CODE_LENGTH = 128"
definition MAX_FAILURE_MESSAGE_LENGTH :: nat where "MAX_FAILURE_MESSAGE_LENGTH = 2048"

datatype DeliveryStatus = QUEUED | SENDING | DELIVERED | FAILED | AMBIGUOUS | CANCELLED

fun delivery_status_value :: "DeliveryStatus \<Rightarrow> string" where
  "delivery_status_value DeliveryStatus.QUEUED = ''queued''"
| "delivery_status_value DeliveryStatus.SENDING = ''sending''"
| "delivery_status_value DeliveryStatus.DELIVERED = ''delivered''"
| "delivery_status_value DeliveryStatus.FAILED = ''failed''"
| "delivery_status_value DeliveryStatus.AMBIGUOUS = ''ambiguous''"
| "delivery_status_value DeliveryStatus.CANCELLED = ''cancelled''"

datatype DeliverySourceKind = AGENT_REQUEST | SCHEDULED_RUN_ANSWER

definition TERMINAL_DELIVERY_STATUSES :: "DeliveryStatus list" where
  "TERMINAL_DELIVERY_STATUSES =
     [DeliveryStatus.DELIVERED, DeliveryStatus.FAILED, DeliveryStatus.AMBIGUOUS,
      DeliveryStatus.CANCELLED]"

record OutboundDelivery =
  od_id :: DeliveryId
  od_source_kind :: DeliverySourceKind
  od_source_run_id :: RunId
  od_source_tool_invocation_id :: "ToolInvocationId option"
  od_source_schedule_fire_id :: "ScheduleFireId option"
  od_route_id :: string
  od_route_fingerprint :: string
  od_subject :: "string option"
  od_body :: string
  od_body_sha256 :: string
  od_status :: DeliveryStatus
  od_available_at :: instant
  od_attempt_count :: int
  od_claim_owner :: "string option"
  od_claim_token :: "string option"
  od_claim_generation :: int
  od_claim_expires_at :: "instant option"
  od_provider_message_id :: "string option"
  od_failure_code :: "string option"
  od_failure_message :: "string option"
  od_created_at :: instant
  od_updated_at :: instant
  od_delivered_at :: "instant option"
  od_dispatch_started_at :: "instant option"

definition od_bounded :: "string \<Rightarrow> string \<Rightarrow> nat \<Rightarrow> domain_error + string" where
  "od_bounded value field maximum =
     (if py_strip value = []
      then Inl (DomainValidationError (''OutboundDelivery.'' @ field @ '' must not be empty''))
      else if maximum < length value
      then Inl (DomainValidationError (''OutboundDelivery.'' @ field @ '' must be at most '' @
             show_nat maximum @ '' characters''))
      else Inr value)"

definition od_optional_bounded ::
  "string option \<Rightarrow> string \<Rightarrow> nat \<Rightarrow> domain_error + string option" where
  "od_optional_bounded value field maximum = validate_opt (\<lambda>v. od_bounded v field maximum) value"

definition validate_claim_identity_value :: "string \<Rightarrow> string \<Rightarrow> domain_error + string" where
  "validate_claim_identity_value value field = od_bounded value field MAX_CLAIM_VALUE_LENGTH"

definition od_validate_source_shape :: "OutboundDelivery \<Rightarrow> domain_error + unit" where
  "od_validate_source_shape d =
     guard (if od_source_kind d = DeliverySourceKind.AGENT_REQUEST
            then od_source_tool_invocation_id d \<noteq> None \<and> od_source_schedule_fire_id d = None
            else od_source_tool_invocation_id d = None \<and> od_source_schedule_fire_id d \<noteq> None)
       (DomainValidationError ''OutboundDelivery source references do not match source_kind'')"

text \<open>The constructor; the timestamps are the raw arguments, in the order of the class.\<close>

definition od_post_init ::
  "(string \<Rightarrow> string) \<Rightarrow> OutboundDelivery \<Rightarrow> datetime \<Rightarrow> datetime option \<Rightarrow> datetime \<Rightarrow> datetime
   \<Rightarrow> datetime option \<Rightarrow> datetime option \<Rightarrow> domain_error + OutboundDelivery" where
  "od_post_init sha256 d available_at claim_expires_at created_at updated_at delivered_at
     dispatch_started_at =
     ebind (od_bounded (od_route_id d) ''route_id'' MAX_ROUTE_ID_LENGTH) (\<lambda>_.
     ebind (guard (lower_hex64 (od_route_fingerprint d)) (DomainValidationError
       ''OutboundDelivery.route_fingerprint must be a lowercase SHA-256 hex digest'')) (\<lambda>_.
     ebind (guard (od_body d \<noteq> [])
       (DomainValidationError ''OutboundDelivery.body must not be empty'')) (\<lambda>_.
     ebind (guard (length (od_body d) \<le> MAX_BODY_LENGTH)
       (DomainValidationError ''OutboundDelivery.body must be at most 16000 characters'')) (\<lambda>_.
     ebind (od_optional_bounded (od_subject d) ''subject'' MAX_SUBJECT_LENGTH) (\<lambda>_.
     ebind (guard (lower_hex64 (od_body_sha256 d)) (DomainValidationError
       ''OutboundDelivery.body_sha256 must be a lowercase SHA-256 hex digest'')) (\<lambda>_.
     ebind (guard (od_body_sha256 d = sha256 (od_body d))
       (DomainValidationError ''OutboundDelivery.body_sha256 does not match body'')) (\<lambda>_.
     ebind (od_validate_source_shape d) (\<lambda>_.
     ebind (guard (0 \<le> od_attempt_count d \<and> 0 \<le> od_claim_generation d) (DomainValidationError
       ''OutboundDelivery attempt and claim generations must be non-negative'')) (\<lambda>_.
     ebind (od_optional_bounded (od_claim_owner d) ''claim_owner'' MAX_CLAIM_VALUE_LENGTH) (\<lambda>_.
     ebind (od_optional_bounded (od_claim_token d) ''claim_token'' MAX_CLAIM_VALUE_LENGTH) (\<lambda>_.
     ebind (guard ((od_claim_owner d = None) = (od_claim_token d = None)) (DomainValidationError
       ''OutboundDelivery claim owner and token must be set together'')) (\<lambda>_.
     ebind (od_optional_bounded (od_provider_message_id d) ''provider_message_id''
       MAX_PROVIDER_MESSAGE_ID_LENGTH) (\<lambda>_.
     ebind (od_optional_bounded (od_failure_code d) ''failure_code''
       MAX_DELIVERY_FAILURE_CODE_LENGTH) (\<lambda>_.
     ebind (od_optional_bounded (od_failure_message d) ''failure_message''
       MAX_FAILURE_MESSAGE_LENGTH) (\<lambda>_.
     ebind (ensure_utc available_at) (\<lambda>available.
     ebind (ensure_utc created_at) (\<lambda>created.
     ebind (ensure_utc updated_at) (\<lambda>updated.
     ebind (validate_opt ensure_utc claim_expires_at) (\<lambda>expires.
     ebind (validate_opt ensure_utc delivered_at) (\<lambda>delivered.
     ebind (validate_opt ensure_utc dispatch_started_at) (\<lambda>dispatched.
     Inr (d\<lparr>od_available_at := available, od_created_at := created, od_updated_at := updated,
            od_claim_expires_at := expires, od_delivered_at := delivered,
            od_dispatch_started_at := dispatched\<rparr>))))))))))))))))))))))"

definition od_new ::
  "(string \<Rightarrow> string) \<Rightarrow> DeliveryId \<Rightarrow> DeliverySourceKind \<Rightarrow> RunId \<Rightarrow> ToolInvocationId option
   \<Rightarrow> ScheduleFireId option \<Rightarrow> string \<Rightarrow> string \<Rightarrow> string \<Rightarrow> datetime \<Rightarrow> datetime
   \<Rightarrow> string option \<Rightarrow> string option \<Rightarrow> domain_error + OutboundDelivery" where
  "od_new sha256 i source_kind source_run_id source_tool_invocation_id source_schedule_fire_id
     route_id route_fingerprint body available_at created_at subject body_sha256 =
     (let digest = sha256 body in
      ebind (guard (pred_option (\<lambda>b. b = digest) body_sha256)
        (DomainValidationError ''OutboundDelivery.body_sha256 does not match body'')) (\<lambda>_.
      ebind (ensure_utc created_at) (\<lambda>created.
      ebind (ensure_utc available_at) (\<lambda>available.
      od_post_init sha256
        \<lparr>od_id = i, od_source_kind = source_kind, od_source_run_id = source_run_id,
         od_source_tool_invocation_id = source_tool_invocation_id,
         od_source_schedule_fire_id = source_schedule_fire_id, od_route_id = route_id,
         od_route_fingerprint = route_fingerprint, od_subject = subject, od_body = body,
         od_body_sha256 = digest, od_status = DeliveryStatus.QUEUED, od_available_at = available,
         od_attempt_count = 0, od_claim_owner = None, od_claim_token = None,
         od_claim_generation = 0, od_claim_expires_at = None, od_provider_message_id = None,
         od_failure_code = None, od_failure_message = None, od_created_at = created,
         od_updated_at = created, od_delivered_at = None, od_dispatch_started_at = None\<rparr>
        (utc available) None (utc created) (utc created) None None))))"

definition od_require_status ::
  "OutboundDelivery \<Rightarrow> DeliveryStatus list \<Rightarrow> DeliveryStatus \<Rightarrow> domain_error + unit" where
  "od_require_status d allowed target =
     guard (od_status d \<in> set allowed)
       (InvalidStateTransition ''OutboundDelivery'' (delivery_status_value (od_status d))
          (delivery_status_value target))"

text \<open>Fields are assigned one by one, so a rejected argument keeps what was assigned before it.\<close>

definition od_mark_sending ::
  "datetime \<Rightarrow> string \<Rightarrow> string \<Rightarrow> datetime \<Rightarrow> OutboundDelivery
   \<Rightarrow> (domain_error, OutboundDelivery) outcome" where
  "od_mark_sending at claim_owner claim_token claim_expires_at d =
     attempt (od_require_status d [DeliveryStatus.QUEUED] DeliveryStatus.SENDING) d (\<lambda>_.
     attempt (ensure_utc at) d (\<lambda>now.
     attempt (ensure_utc claim_expires_at) d (\<lambda>expiry.
     require (now < expiry)
       (DomainValidationError ''OutboundDelivery claim expiry must be after claim time'') d
     (attempt (od_bounded claim_owner ''claim_owner'' MAX_CLAIM_VALUE_LENGTH) d (\<lambda>owner.
     let d1 = d\<lparr>od_claim_owner := Some owner\<rparr> in
     attempt (od_bounded claim_token ''claim_token'' MAX_CLAIM_VALUE_LENGTH) d1 (\<lambda>token.
     Done (d1\<lparr>od_claim_token := Some token, od_claim_expires_at := Some expiry,
              od_claim_generation := od_claim_generation d1 + 1,
              od_attempt_count := od_attempt_count d1 + 1,
              od_status := DeliveryStatus.SENDING, od_updated_at := now\<rparr>)))))))"

definition od_mark_dispatch_started ::
  "datetime \<Rightarrow> OutboundDelivery \<Rightarrow> (domain_error, OutboundDelivery) outcome" where
  "od_mark_dispatch_started at d =
     attempt (od_require_status d [DeliveryStatus.SENDING] DeliveryStatus.SENDING) d (\<lambda>_.
     require (od_dispatch_started_at d = None)
       (InvalidStateTransition ''OutboundDelivery'' ''dispatch_started'' ''dispatch_started'') d
     (attempt (ensure_utc at) d (\<lambda>now.
     require (\<exists>x \<in> set_option (od_claim_expires_at d). now < x) (DomainValidationError
       ''OutboundDelivery dispatch requires an unexpired claim lease'') d
     (Done (d\<lparr>od_dispatch_started_at := Some now, od_updated_at := now\<rparr>)))))"

definition od_release_for_retry ::
  "datetime \<Rightarrow> datetime \<Rightarrow> OutboundDelivery \<Rightarrow> (domain_error, OutboundDelivery) outcome" where
  "od_release_for_retry at available_at d =
     attempt (od_require_status d [DeliveryStatus.SENDING] DeliveryStatus.QUEUED) d (\<lambda>_.
     require (od_dispatch_started_at d = None)
       (InvalidStateTransition ''OutboundDelivery'' ''dispatch_started'' ''queued'') d
     (attempt (ensure_utc at) d (\<lambda>now.
     attempt (ensure_utc available_at) d (\<lambda>retry_at.
     require (now \<le> retry_at) (DomainValidationError
       ''OutboundDelivery retry availability must not be in the past'') d
     (Done (d\<lparr>od_claim_owner := None, od_claim_token := None, od_claim_expires_at := None,
              od_available_at := retry_at, od_status := DeliveryStatus.QUEUED,
              od_updated_at := now\<rparr>))))))"

definition od_require_dispatch_boundary ::
  "OutboundDelivery \<Rightarrow> DeliveryStatus \<Rightarrow> domain_error + unit" where
  "od_require_dispatch_boundary d target =
     guard (od_dispatch_started_at d \<noteq> None)
       (InvalidStateTransition ''OutboundDelivery'' ''sending'' (delivery_status_value target))"

definition od_deliver ::
  "datetime \<Rightarrow> string option \<Rightarrow> OutboundDelivery \<Rightarrow> (domain_error, OutboundDelivery) outcome" where
  "od_deliver at provider_message_id d =
     attempt (od_require_status d [DeliveryStatus.SENDING] DeliveryStatus.DELIVERED) d (\<lambda>_.
     attempt (od_require_dispatch_boundary d DeliveryStatus.DELIVERED) d (\<lambda>_.
     attempt (od_optional_bounded provider_message_id ''provider_message_id''
                MAX_PROVIDER_MESSAGE_ID_LENGTH) d (\<lambda>p.
     let d1 = d\<lparr>od_provider_message_id := p\<rparr> in
     attempt (ensure_utc at) d1 (\<lambda>t.
     Done (d1\<lparr>od_delivered_at := Some t, od_updated_at := t,
              od_status := DeliveryStatus.DELIVERED\<rparr>)))))"

text \<open>The common tail of \<^verbatim>\<open>fail\<close>, \<^verbatim>\<open>mark_ambiguous\<close> and \<^verbatim>\<open>mark_route_ambiguous\<close>.\<close>

definition od_record_failure ::
  "DeliveryStatus \<Rightarrow> datetime \<Rightarrow> string \<Rightarrow> string \<Rightarrow> OutboundDelivery
   \<Rightarrow> (domain_error, OutboundDelivery) outcome" where
  "od_record_failure target at failure_code failure_message d =
     attempt (od_bounded failure_code ''failure_code'' MAX_DELIVERY_FAILURE_CODE_LENGTH) d (\<lambda>c.
     let d1 = d\<lparr>od_failure_code := Some c\<rparr> in
     attempt (od_bounded failure_message ''failure_message'' MAX_FAILURE_MESSAGE_LENGTH) d1 (\<lambda>m.
     let d2 = d1\<lparr>od_failure_message := Some m\<rparr> in
     attempt (ensure_utc at) d2 (\<lambda>t.
     Done (d2\<lparr>od_updated_at := t, od_status := target\<rparr>))))"

definition od_fail ::
  "datetime \<Rightarrow> string \<Rightarrow> string \<Rightarrow> OutboundDelivery \<Rightarrow> (domain_error, OutboundDelivery) outcome" where
  "od_fail at failure_code failure_message d =
     attempt (od_require_status d [DeliveryStatus.SENDING] DeliveryStatus.FAILED) d (\<lambda>_.
     od_record_failure DeliveryStatus.FAILED at failure_code failure_message d)"

definition od_mark_ambiguous ::
  "datetime \<Rightarrow> string \<Rightarrow> string \<Rightarrow> OutboundDelivery \<Rightarrow> (domain_error, OutboundDelivery) outcome" where
  "od_mark_ambiguous at failure_code failure_message d =
     attempt (od_require_status d [DeliveryStatus.SENDING] DeliveryStatus.AMBIGUOUS) d (\<lambda>_.
     attempt (od_require_dispatch_boundary d DeliveryStatus.AMBIGUOUS) d (\<lambda>_.
     od_record_failure DeliveryStatus.AMBIGUOUS at failure_code failure_message d))"

definition od_mark_route_ambiguous ::
  "datetime \<Rightarrow> string \<Rightarrow> string \<Rightarrow> OutboundDelivery \<Rightarrow> (domain_error, OutboundDelivery) outcome" where
  "od_mark_route_ambiguous at failure_code failure_message d =
     attempt (od_require_status d [DeliveryStatus.SENDING] DeliveryStatus.AMBIGUOUS) d (\<lambda>_.
     od_record_failure DeliveryStatus.AMBIGUOUS at failure_code failure_message d)"

definition od_cancel :: "datetime \<Rightarrow> OutboundDelivery \<Rightarrow> (domain_error, OutboundDelivery) outcome" where
  "od_cancel at d =
     attempt (od_require_status d [DeliveryStatus.QUEUED] DeliveryStatus.CANCELLED) d (\<lambda>_.
     attempt (ensure_utc at) d (\<lambda>t.
     Done (d\<lparr>od_updated_at := t, od_status := DeliveryStatus.CANCELLED\<rparr>)))"

section \<open>Dispatch attempts\<close>

definition MAX_DELIVERY_ATTEMPT_FAILURE_CODE_LENGTH :: nat where
  "MAX_DELIVERY_ATTEMPT_FAILURE_CODE_LENGTH = 128"

datatype DeliveryAttemptOutcome = IN_PROGRESS | DELIVERED | FAILED | AMBIGUOUS

fun attempt_outcome_value :: "DeliveryAttemptOutcome \<Rightarrow> string" where
  "attempt_outcome_value DeliveryAttemptOutcome.IN_PROGRESS = ''in_progress''"
| "attempt_outcome_value DeliveryAttemptOutcome.DELIVERED = ''delivered''"
| "attempt_outcome_value DeliveryAttemptOutcome.FAILED = ''failed''"
| "attempt_outcome_value DeliveryAttemptOutcome.AMBIGUOUS = ''ambiguous''"

definition failure_code_match :: "string \<Rightarrow> bool" where
  "failure_code_match s \<longleftrightarrow>
     s \<noteq> [] \<and> list_all (\<lambda>c. c \<in> set ''abcdefghijklmnopqrstuvwxyz0123456789_'') s"

definition validate_delivery_attempt_failure_code ::
  "string option \<Rightarrow> domain_error + string option" where
  "validate_delivery_attempt_failure_code value =
     validate_opt (\<lambda>v.
       ebind (guard (failure_code_match v)
         (DomainValidationError ''DeliveryAttempt.failure_code must be a stable lowercase code'')) (\<lambda>_.
       ebind (guard (length v \<le> MAX_DELIVERY_ATTEMPT_FAILURE_CODE_LENGTH)
         (DomainValidationError ''DeliveryAttempt.failure_code must be at most 128 characters'')) (\<lambda>_.
       Inr v))) value"

definition validate_delivery_attempt_shape ::
  "DeliveryAttemptOutcome \<Rightarrow> instant \<Rightarrow> instant option \<Rightarrow> string option
   \<Rightarrow> domain_error + string option" where
  "validate_delivery_attempt_shape result started_at finished_at failure_code =
     (if result = DeliveryAttemptOutcome.IN_PROGRESS
      then ebind (guard (finished_at = None)
             (DomainValidationError ''DeliveryAttempt in_progress must have no finished_at'')) (\<lambda>_.
           ebind (guard (failure_code = None)
             (DomainValidationError ''DeliveryAttempt in_progress must have no failure_code'')) (\<lambda>_.
           Inr None))
      else
        ebind (from_option
          (DomainValidationError ''DeliveryAttempt terminal outcome requires finished_at'')
          finished_at) (\<lambda>finished.
        ebind (guard (started_at \<le> finished)
          (DomainValidationError ''DeliveryAttempt.finished_at must not precede started_at'')) (\<lambda>_.
        ebind (guard (result = DeliveryAttemptOutcome.DELIVERED \<longrightarrow> failure_code = None)
          (DomainValidationError ''DeliveryAttempt delivered must have no failure_code'')) (\<lambda>_.
        ebind (guard (result \<in> {DeliveryAttemptOutcome.FAILED, DeliveryAttemptOutcome.AMBIGUOUS} \<longrightarrow>
                        failure_code \<noteq> None)
          (DomainValidationError (''DeliveryAttempt '' @ attempt_outcome_value result @
             '' requires a stable failure_code''))) (\<lambda>_.
        validate_delivery_attempt_failure_code failure_code)))))"

record DeliveryAttempt =
  da_id :: DeliveryAttemptId
  da_delivery_id :: DeliveryId
  da_claim_generation :: int
  da_started_at :: instant
  da_finished_at :: "instant option"
  da_outcome :: DeliveryAttemptOutcome
  da_failure_code :: "string option"

definition da_post_init ::
  "DeliveryAttempt \<Rightarrow> datetime \<Rightarrow> datetime option \<Rightarrow> domain_error + DeliveryAttempt" where
  "da_post_init a started_at finished_at =
     ebind (guard (0 < da_claim_generation a)
       (DomainValidationError ''DeliveryAttempt.claim_generation must be greater than zero'')) (\<lambda>_.
     ebind (ensure_utc started_at) (\<lambda>s.
     ebind (validate_opt ensure_utc finished_at) (\<lambda>f.
     ebind (validate_delivery_attempt_shape (da_outcome a) s f (da_failure_code a)) (\<lambda>c.
     Inr (a\<lparr>da_started_at := s, da_finished_at := f, da_failure_code := c\<rparr>)))))"

definition da_begin ::
  "DeliveryAttemptId \<Rightarrow> DeliveryId \<Rightarrow> int \<Rightarrow> datetime \<Rightarrow> domain_error + DeliveryAttempt" where
  "da_begin i delivery_id claim_generation started_at =
     da_post_init \<lparr>da_id = i, da_delivery_id = delivery_id, da_claim_generation = claim_generation,
       da_started_at = 0, da_finished_at = None, da_outcome = DeliveryAttemptOutcome.IN_PROGRESS,
       da_failure_code = None\<rparr> started_at None"

definition da_complete ::
  "DeliveryAttemptOutcome \<Rightarrow> datetime \<Rightarrow> string option \<Rightarrow> DeliveryAttempt
   \<Rightarrow> (domain_error, DeliveryAttempt) outcome" where
  "da_complete result finished_at failure_code a =
     require (da_outcome a = DeliveryAttemptOutcome.IN_PROGRESS)
       (InvalidStateTransition ''DeliveryAttempt'' (attempt_outcome_value (da_outcome a))
          (attempt_outcome_value result)) a
     (require (result \<noteq> DeliveryAttemptOutcome.IN_PROGRESS)
       (DomainValidationError ''DeliveryAttempt cannot complete as in_progress'') a
     (attempt (ensure_utc finished_at) a (\<lambda>finished.
     attempt (validate_delivery_attempt_shape result (da_started_at a) (Some finished) failure_code) a
     (\<lambda>code.
     Done (a\<lparr>da_outcome := result, da_finished_at := Some finished, da_failure_code := code\<rparr>)))))"

section \<open>Routes\<close>

definition validate_route_id :: "string \<Rightarrow> domain_error + string" where
  "validate_route_id value =
     (if MAX_ROUTE_ID_LENGTH < length value \<or> \<not> key_match value
      then Inl (DomainValidationError ''delivery route_id is invalid'') else Inr value)"

record DeliveryRouteAuthority =
  ra_route_id :: string
  ra_enabled :: bool
  ra_fingerprint :: string
  ra_max_body_chars :: int

definition route_authority_post_init ::
  "DeliveryRouteAuthority \<Rightarrow> domain_error + DeliveryRouteAuthority" where
  "route_authority_post_init r =
     ebind (validate_route_id (ra_route_id r)) (\<lambda>_.
     ebind (guard (lower_hex64 (ra_fingerprint r) \<and> 0 < ra_max_body_chars r)
       (DomainValidationError ''delivery route authority is invalid'')) (\<lambda>_. Inr r))"

section \<open>Lifecycle of a delivery\<close>

datatype od_call =
    OdMarkSending datetime string string datetime
  | OdMarkDispatchStarted datetime
  | OdReleaseForRetry datetime datetime
  | OdDeliver datetime "string option"
  | OdFail datetime string string
  | OdMarkAmbiguous datetime string string
  | OdMarkRouteAmbiguous datetime string string
  | OdCancel datetime

fun od_step :: "od_call \<Rightarrow> OutboundDelivery \<Rightarrow> (domain_error, OutboundDelivery) outcome" where
  "od_step (OdMarkSending at w t x) = od_mark_sending at w t x"
| "od_step (OdMarkDispatchStarted at) = od_mark_dispatch_started at"
| "od_step (OdReleaseForRetry at v) = od_release_for_retry at v"
| "od_step (OdDeliver at p) = od_deliver at p"
| "od_step (OdFail at c m) = od_fail at c m"
| "od_step (OdMarkAmbiguous at c m) = od_mark_ambiguous at c m"
| "od_step (OdMarkRouteAmbiguous at c m) = od_mark_route_ambiguous at c m"
| "od_step (OdCancel at) = od_cancel at"

text \<open>
  What a delivery's status says about its claim, its dispatch marker and its result. The
  marker is absent while queued and present once delivered, and every claim is one attempt.
\<close>

definition od_shape :: "OutboundDelivery \<Rightarrow> bool" where
  "od_shape d \<longleftrightarrow>
     (od_status d \<in> {DeliveryStatus.QUEUED, DeliveryStatus.CANCELLED} \<longrightarrow>
        od_claim_owner d = None \<and> od_claim_token d = None \<and> od_claim_expires_at d = None \<and>
        od_dispatch_started_at d = None) \<and>
     (od_status d = DeliveryStatus.SENDING \<longrightarrow>
        od_claim_owner d \<noteq> None \<and> od_claim_token d \<noteq> None \<and> od_claim_expires_at d \<noteq> None) \<and>
     (od_status d = DeliveryStatus.DELIVERED \<longrightarrow> od_dispatch_started_at d \<noteq> None) \<and>
     (od_delivered_at d \<noteq> None) = (od_status d = DeliveryStatus.DELIVERED) \<and>
     (od_failure_code d \<noteq> None) = (od_status d \<in> {DeliveryStatus.FAILED, DeliveryStatus.AMBIGUOUS}) \<and>
     (od_failure_message d \<noteq> None) = (od_failure_code d \<noteq> None) \<and>
     (od_claim_owner d = None) = (od_claim_token d = None) \<and>
     0 \<le> od_attempt_count d \<and> od_attempt_count d = od_claim_generation d \<and>
     (od_status d = DeliveryStatus.SENDING \<longrightarrow> 0 < od_claim_generation d)"

definition od_content_ok :: "(string \<Rightarrow> string) \<Rightarrow> OutboundDelivery \<Rightarrow> bool" where
  "od_content_ok sha256 d \<longleftrightarrow>
     py_strip (od_route_id d) \<noteq> [] \<and> length (od_route_id d) \<le> 64 \<and>
     lower_hex64 (od_route_fingerprint d) \<and> od_body d \<noteq> [] \<and> length (od_body d) \<le> 16000 \<and>
     lower_hex64 (od_body_sha256 d) \<and> od_body_sha256 d = sha256 (od_body d) \<and>
     od_validate_source_shape d = Inr ()"

definition od_inv :: "(string \<Rightarrow> string) \<Rightarrow> OutboundDelivery \<Rightarrow> bool" where
  "od_inv sha256 d \<longleftrightarrow> od_content_ok sha256 d \<and> od_shape d"

definition od_ident where
  "od_ident d = (od_id d, od_source_kind d, od_source_run_id d, od_source_tool_invocation_id d,
     od_source_schedule_fire_id d, od_route_id d, od_route_fingerprint d, od_subject d,
     od_body d, od_body_sha256 d, od_created_at d)"

definition od_terminal :: "DeliveryStatus \<Rightarrow> bool" where
  "od_terminal s \<longleftrightarrow> s \<in> set TERMINAL_DELIVERY_STATUSES"

lemmas od_defs [step_defs] =
  od_mark_sending_def od_mark_dispatch_started_def od_release_for_retry_def od_deliver_def
  od_fail_def od_mark_ambiguous_def od_mark_route_ambiguous_def od_cancel_def
  od_record_failure_def od_require_status_def od_require_dispatch_boundary_def

lemma od_bounded_Inr_iff:
  "od_bounded v f m = Inr w \<longleftrightarrow> py_strip v \<noteq> [] \<and> length v \<le> m \<and> w = v"
  by (auto simp: od_bounded_def)

lemma od_content_ident: "od_ident d' = od_ident d \<Longrightarrow> od_content_ok s d' = od_content_ok s d"
  by (simp add: od_ident_def od_content_ok_def od_validate_source_shape_def)

lemma od_step_ident: "od_step x d = Done d' \<Longrightarrow> od_ident d' = od_ident d"
  by (cases x) (auto simp: od_defs outcome_simps Let_def od_ident_def)

lemma od_step_shape: "od_shape d \<Longrightarrow> od_step x d = Done d' \<Longrightarrow> od_shape d'"
  by (cases x) (auto simp: od_defs outcome_simps Let_def, simp_all add: od_shape_def)

lemma od_step_inv: "od_inv s d \<Longrightarrow> od_step x d = Done d' \<Longrightarrow> od_inv s d'"
  using od_step_shape [of d x d'] od_content_ident [OF od_step_ident, of x d d' s]
  by (simp add: od_inv_def)

lemma od_step_terminal: "od_terminal (od_status d) \<Longrightarrow> od_step x d \<noteq> Done d'"
  by (cases x)
     (auto simp: od_defs outcome_simps Let_def od_terminal_def TERMINAL_DELIVERY_STATUSES_def)

text \<open>The dispatch marker is written once.\<close>

lemma od_step_dispatch_once:
  "od_dispatch_started_at d = Some t \<Longrightarrow> od_step x d = Done d' \<Longrightarrow> od_dispatch_started_at d' = Some t"
  by (cases x) (auto simp: od_defs outcome_simps Let_def)

lemma od_new_inv:
  "od_new s i k r tool fire route fp body av cr subj dg = Inr d \<Longrightarrow> od_inv s d"
  by (clarsimp simp: od_new_def od_post_init_def outcome_simps Let_def od_bounded_Inr_iff
        MAX_ROUTE_ID_LENGTH_def MAX_BODY_LENGTH_def)
     (auto simp: od_inv_def od_content_ok_def od_shape_def od_validate_source_shape_def outcome_simps)

interpretation od_life: closed_lifecycle od_step "od_inv sha256" od_ident od_status od_terminal
  for sha256
  by unfold_locales (erule (1) od_step_inv, erule od_step_ident, simp_all add: od_step_terminal)

section \<open>Lifecycle of an attempt\<close>

definition da_inv :: "DeliveryAttempt \<Rightarrow> bool" where
  "da_inv a \<longleftrightarrow>
     0 < da_claim_generation a \<and>
     (da_finished_at a = None) = (da_outcome a = DeliveryAttemptOutcome.IN_PROGRESS) \<and>
     pred_option (\<lambda>t. da_started_at a \<le> t) (da_finished_at a) \<and>
     (da_failure_code a \<noteq> None) =
       (da_outcome a \<in> {DeliveryAttemptOutcome.FAILED, DeliveryAttemptOutcome.AMBIGUOUS}) \<and>
     pred_option (\<lambda>c. failure_code_match c \<and> length c \<le> 128) (da_failure_code a)"

definition da_ident where
  "da_ident a = (da_id a, da_delivery_id a, da_claim_generation a, da_started_at a)"

datatype da_call = DaComplete DeliveryAttemptOutcome datetime "string option"

fun da_step :: "da_call \<Rightarrow> DeliveryAttempt \<Rightarrow> (domain_error, DeliveryAttempt) outcome" where
  "da_step (DaComplete r at c) = da_complete r at c"

lemma attempt_shape_Inr_iff:
  "validate_delivery_attempt_shape r s f c = Inr c' \<longleftrightarrow>
     c' = c \<and> (f = None) = (r = DeliveryAttemptOutcome.IN_PROGRESS) \<and> pred_option (\<lambda>t. s \<le> t) f \<and>
     (c \<noteq> None) = (r \<in> {DeliveryAttemptOutcome.FAILED, DeliveryAttemptOutcome.AMBIGUOUS}) \<and>
     pred_option (\<lambda>v. failure_code_match v \<and> length v \<le> 128) c"
  by (cases r; cases c; cases f)
     (auto simp: validate_delivery_attempt_shape_def validate_delivery_attempt_failure_code_def
        outcome_simps MAX_DELIVERY_ATTEMPT_FAILURE_CODE_LENGTH_def)

lemma da_post_init_inv: "da_post_init a s f = Inr a' \<Longrightarrow> da_inv a'"
  by (clarsimp simp: da_post_init_def outcome_simps attempt_shape_Inr_iff) (simp add: da_inv_def)

lemma da_step_inv: "da_inv a \<Longrightarrow> da_step x a = Done a' \<Longrightarrow> da_inv a'"
  by (cases x) (clarsimp simp: da_complete_def outcome_simps attempt_shape_Inr_iff, simp add: da_inv_def)

lemma da_step_ident: "da_step x a = Done a' \<Longrightarrow> da_ident a' = da_ident a"
  by (cases x) (auto simp: da_complete_def outcome_simps da_ident_def)

lemma da_step_terminal:
  "da_outcome a \<noteq> DeliveryAttemptOutcome.IN_PROGRESS \<Longrightarrow> da_step x a \<noteq> Done a'"
  by (cases x) (auto simp: da_complete_def outcome_simps)

lemma da_step_raise: "da_step x a = Raised e a' \<Longrightarrow> a' = a"
  by (cases x) (auto simp: da_complete_def outcome_simps)

interpretation da_life: closed_lifecycle da_step da_inv da_ident da_outcome
  "\<lambda>r. r \<noteq> DeliveryAttemptOutcome.IN_PROGRESS"
  by unfold_locales (erule (1) da_step_inv, erule da_step_ident, simp_all add: da_step_terminal)

interpretation da_life: atomic_lifecycle da_step da_inv da_ident da_outcome
  "\<lambda>r. r \<noteq> DeliveryAttemptOutcome.IN_PROGRESS"
  by unfold_locales (erule da_step_raise)

end
