(* ===== verification/Retry_Policy.thy ===== *)
theory Retry_Policy
  imports Json_Values Complex_Main
begin

text \<open>
  \<^verbatim>\<open>src/src/friday/application/retry_policy.py\<close>: exponential backoff. Durations are microseconds. The
  multiplier is an exact rational where the source has a double, so the rounding of
  \<^verbatim>\<open>multiplier**exponent\<close> to a double is not modelled; the rounding of
  \<^verbatim>\<open>timedelta * float\<close> to a microsecond (half to even) and the \<^verbatim>\<open>OverflowError\<close> of a duration
  beyond \<^verbatim>\<open>timedelta.max\<close> are.
\<close>

record RetryPolicy =
  rp_max_attempts :: int
  rp_base_delay :: int
  rp_multiplier :: rat
  rp_max_delay :: int

definition TIMEDELTA_MAX :: int where "TIMEDELTA_MAX = 86399999999999999999"

definition retry_policy_post_init :: "RetryPolicy \<Rightarrow> string + RetryPolicy" where
  "retry_policy_post_init p =
     ebind (guard (1 \<le> rp_max_attempts p) ''max_attempts must be at least 1'') (\<lambda>_.
     ebind (guard (0 < rp_base_delay p) ''base_delay must be greater than zero'') (\<lambda>_.
     ebind (guard (1 \<le> rp_multiplier p) ''multiplier must be at least 1'') (\<lambda>_.
     ebind (guard (rp_base_delay p \<le> rp_max_delay p) ''max_delay must be at least base_delay'') (\<lambda>_.
     Inr p))))"

definition is_retry_allowed :: "RetryPolicy \<Rightarrow> int \<Rightarrow> Failure \<Rightarrow> bool" where
  "is_retry_allowed p attempt_number failure \<longleftrightarrow>
     fl_retryable failure \<and> attempt_number < rp_max_attempts p"

definition round_half_even :: "rat \<Rightarrow> int" where
  "round_half_even x =
     (let f = \<lfloor>x\<rfloor>; d = x - of_int f in
      if d < 1 / 2 then f else if 1 / 2 < d then f + 1 else if even f then f else f + 1)"

definition compute_delay :: "RetryPolicy \<Rightarrow> int \<Rightarrow> domain_error + int" where
  "compute_delay p next_attempt_number =
     (let exponent = next_attempt_number - 2;
          delay = round_half_even (of_int (rp_base_delay p) * power_int (rp_multiplier p) exponent)
      in if TIMEDELTA_MAX < delay then Inl (PythonError ''OverflowError'')
         else Inr (min (rp_max_delay p) delay))"

section \<open>Properties\<close>

definition retry_policy_ok :: "RetryPolicy \<Rightarrow> bool" where
  "retry_policy_ok p \<longleftrightarrow>
     1 \<le> rp_max_attempts p \<and> 0 < rp_base_delay p \<and> 1 \<le> rp_multiplier p \<and>
     rp_base_delay p \<le> rp_max_delay p"

lemma retry_policy_post_init_Inr_iff:
  "retry_policy_post_init p = Inr q \<longleftrightarrow> retry_policy_ok p \<and> q = p"
  by (auto simp: retry_policy_post_init_def retry_policy_ok_def outcome_simps)

lemma round_half_even_mono: assumes "x \<le> y" shows "round_half_even x \<le> round_half_even y"
proof -
  have le: "\<lfloor>x\<rfloor> \<le> \<lfloor>y\<rfloor>" using assms by (rule floor_mono)
  show ?thesis
  proof (cases "\<lfloor>x\<rfloor> = \<lfloor>y\<rfloor>")
    case True
    with assms show ?thesis by (auto simp: round_half_even_def Let_def)
  next
    case False
    with le have "\<lfloor>x\<rfloor> + 1 \<le> \<lfloor>y\<rfloor>" by simp
    then show ?thesis by (auto simp: round_half_even_def Let_def)
  qed
qed

lemma round_half_even_of_int [simp]: "round_half_even (of_int n) = n"
  by (simp add: round_half_even_def)

lemma raw_delay_mono:
  assumes "retry_policy_ok p" and "m \<le> n"
  shows "round_half_even (of_int (rp_base_delay p) * power_int (rp_multiplier p) (m - 2))
       \<le> round_half_even (of_int (rp_base_delay p) * power_int (rp_multiplier p) (n - 2))"
  using assms by (intro round_half_even_mono mult_left_mono power_int_increasing)
     (auto simp: retry_policy_ok_def)

lemma raw_delay_base:
  assumes "retry_policy_ok p" and "2 \<le> n"
  shows "rp_base_delay p
       \<le> round_half_even (of_int (rp_base_delay p) * power_int (rp_multiplier p) (n - 2))"
  using raw_delay_mono [OF assms] by simp

lemma compute_delay_bounds:
  assumes "retry_policy_ok p" and "2 \<le> n" and "compute_delay p n = Inr d"
  shows "rp_base_delay p \<le> d \<and> d \<le> rp_max_delay p"
  using raw_delay_base [OF assms(1,2)] assms
  by (auto simp: compute_delay_def Let_def retry_policy_ok_def split: if_splits)

lemma compute_delay_mono:
  assumes "retry_policy_ok p" and "m \<le> n" and "compute_delay p m = Inr d" and "compute_delay p n = Inr e"
  shows "d \<le> e"
  using raw_delay_mono [OF assms(1,2)] assms(3,4)
  by (auto simp: compute_delay_def Let_def split: if_splits)

lemma compute_delay_first:
  assumes "retry_policy_ok p" and "rp_base_delay p \<le> TIMEDELTA_MAX"
  shows "compute_delay p 2 = Inr (rp_base_delay p)"
  using assms by (simp add: compute_delay_def Let_def retry_policy_ok_def)

lemma compute_delay_defined:
  assumes "retry_policy_ok p" and "m \<le> n" and "compute_delay p n = Inr e"
  shows "\<exists>d. compute_delay p m = Inr d"
  using raw_delay_mono [OF assms(1,2)] assms(3)
  by (auto simp: compute_delay_def Let_def split: if_splits)

end
