(* ===== verification/Tables.thy ===== *)
theory Tables
  imports Identifiers "HOL-Library.Product_Lexorder"
begin

text \<open>
  The persistence vocabulary of \<^verbatim>\<open>src/src/friday/infrastructure/persistence\<close> and the errors of
  \<^verbatim>\<open>src/src/friday/application/errors.py\<close>. A table is the list of its rows, a row the entity it stores
  (the mappers between rows and entities are the identity here). \<open>get_row\<close> is
  \<^verbatim>\<open>Session.get\<close>, \<open>merge_row\<close> is \<^verbatim>\<open>Session.merge\<close> (insert or replace by primary key),
  \<open>update_rows\<close> an SQL \<^verbatim>\<open>UPDATE ... WHERE\<close> and \<open>row_count\<close> the rows it matched.
  A use case is a function from the database to \<open>app_error + (result \<times> database)\<close>: \<open>Inl\<close>
  is a transaction that raised, and its writes are rolled back with it.
\<close>

section \<open>Application errors\<close>

datatype app_error =
    TaskNotFound TaskId
  | RunNotFound RunId
  | ScheduleNotFound ScheduleId
  | RunStepNotFound RunStepId
  | ApprovalNotFound ApprovalRequestId
  | ToolInvocationNotFound ToolInvocationId
  | AgentNotFound AgentId
  | AgentRevisionNotFound AgentRevisionId
  | AgentIntegrityFailed
  | WorkflowNotFound WorkflowId
  | WorkflowRevisionNotFound WorkflowRevisionId
  | WorkflowExecutionError string
  | WorkflowIntegrityError string
  | WorkflowBindingError string
  | DelegationRequestNotFound DelegationRequestId
  | UnknownBrainRuntimeKind string
  | InvalidBrainRuntimeConfig string
  | EntityConflict string
  | DelegatedManualRetryForbidden
  | WorkflowNodeManualRetryForbidden
  | WorkflowCancelNotSupportedWhileActive
  | ConcurrencyConflict string
  | TransactionFailure string
  | ClaimLost string
  | ToolNotFound string
  | ToolExecutionAmbiguous string
  | ToolInputInvalid string
  | PyValueError string
  | PyAssertionError string
  | DomainFailure domain_error

text \<open>A domain exception that escapes a use case.\<close>

definition lift_domain :: "domain_error + 'a \<Rightarrow> app_error + 'a" where
  "lift_domain m = (case m of Inl e \<Rightarrow> Inl (DomainFailure e) | Inr v \<Rightarrow> Inr v)"

lemma lift_domain_simps [simp]:
  "lift_domain (Inl e) = Inl (DomainFailure e)"
  "lift_domain (Inr v) = Inr v"
  by (simp_all add: lift_domain_def)

lemma lift_domain_Inr_iff [outcome_simps]: "lift_domain m = Inr v \<longleftrightarrow> m = Inr v"
  by (cases m) auto

definition call_method :: "(domain_error, 's) outcome \<Rightarrow> app_error + 's" where
  "call_method m = lift_domain (as_result m)"

lemma call_method_Inr_iff [outcome_simps]: "call_method m = Inr s \<longleftrightarrow> m = Done s"
  by (cases m) (auto simp: call_method_def)

section \<open>Rows\<close>

definition get_row :: "('r \<Rightarrow> 'k) \<Rightarrow> 'k \<Rightarrow> 'r list \<Rightarrow> 'r option" where
  "get_row key k t = find (\<lambda>r. key r = k) t"

definition merge_row :: "('r \<Rightarrow> 'k) \<Rightarrow> 'r \<Rightarrow> 'r list \<Rightarrow> 'r list" where
  "merge_row key r t =
     (if \<exists>x \<in> set t. key x = key r then map (\<lambda>x. if key x = key r then r else x) t else t @ [r])"

definition update_rows :: "('r \<Rightarrow> bool) \<Rightarrow> ('r \<Rightarrow> 'r) \<Rightarrow> 'r list \<Rightarrow> 'r list" where
  "update_rows P f t = map (\<lambda>r. if P r then f r else r) t"

definition row_count :: "('r \<Rightarrow> bool) \<Rightarrow> 'r list \<Rightarrow> nat" where
  "row_count P t = length (filter P t)"

definition keyed :: "('r \<Rightarrow> 'k) \<Rightarrow> 'r list \<Rightarrow> bool" where
  "keyed key t \<longleftrightarrow> distinct (map key t)"

lemma get_row_Nil [simp]: "get_row key k [] = None"
  by (simp add: get_row_def)

lemma get_row_Cons: "get_row key k (x # t) = (if key x = k then Some x else get_row key k t)"
  by (simp add: get_row_def)

lemma get_row_key: "get_row key k t = Some r \<Longrightarrow> key r = k"
  by (auto simp: get_row_def find_Some_iff)

lemma get_row_in: "get_row key k t = Some r \<Longrightarrow> r \<in> set t"
  by (auto simp: get_row_def find_Some_iff)

lemma get_row_None_iff: "get_row key k t = None \<longleftrightarrow> k \<notin> key ` set t"
  by (auto simp: get_row_def find_None_iff)

lemma get_row_append: "get_row key k (s @ t) = (case get_row key k s of None \<Rightarrow> get_row key k t | Some r \<Rightarrow> Some r)"
  by (induction s) (auto simp: get_row_Cons)

lemma get_row_update:
  assumes "\<And>r. P r \<Longrightarrow> key (f r) = key r"
  shows "get_row key k (update_rows P f t) =
    map_option (\<lambda>r. if P r then f r else r) (get_row key k t)"
  using assms by (induction t) (auto simp: update_rows_def get_row_Cons)

lemma keyed_update:
  assumes "\<And>r. P r \<Longrightarrow> key (f r) = key r"
  shows "keyed key (update_rows P f t) = keyed key t"
proof -
  have "map key (update_rows P f t) = map key t"
    using assms by (induction t) (auto simp: update_rows_def)
  then show ?thesis by (simp add: keyed_def)
qed

lemma keyed_merge: "keyed key t \<Longrightarrow> keyed key (merge_row key r t)"
proof -
  assume k: "keyed key t"
  have "map key (map (\<lambda>x. if key x = key r then r else x) t) = map key t"
    by (induction t) auto
  with k show ?thesis by (auto simp: keyed_def merge_row_def simp del: map_map)
qed

lemma row_count_pos_iff: "0 < row_count P t \<longleftrightarrow> (\<exists>r \<in> set t. P r)"
  by (auto simp: row_count_def filter_empty_conv)

lemma keyed_row_count:
  assumes "keyed key t" and "\<And>r. P r \<Longrightarrow> key r = k"
  shows "row_count P t = (case get_row key k t of None \<Rightarrow> 0 | Some r \<Rightarrow> if P r then 1 else 0)"
  using assms
proof (induction t)
  case (Cons x t)
  show ?case
  proof (cases "key x = k")
    case True
    with Cons.prems have "\<forall>r \<in> set t. \<not> P r"
      by (metis distinct.simps(2) image_eqI keyed_def list.simps(9) set_map)
    then have "filter P t = []" by (simp add: filter_empty_conv)
    with True show ?thesis by (auto simp: row_count_def get_row_Cons)
  next
    case False
    with Cons show ?thesis by (auto simp: row_count_def get_row_Cons keyed_def)
  qed
qed (simp add: row_count_def)

lemma keyed_get: "keyed key t \<Longrightarrow> x \<in> set t \<Longrightarrow> get_row key (key x) t = Some x"
  by (induction t) (auto simp: keyed_def get_row_Cons)

lemma row_count_unique:
  assumes "distinct t" and "a \<in> set t" and "P a" and u: "\<And>b. b \<in> set t \<Longrightarrow> P b \<Longrightarrow> b = a"
  shows "row_count P t = 1"
proof -
  have "set (filter P t) = {a}" using assms(2,3) u unfolding set_filter by blast
  moreover have "distinct (filter P t)" using assms(1) by (rule distinct_filter)
  ultimately have "card {a} = length (filter P t)" by (metis distinct_card)
  then show ?thesis by (simp add: row_count_def)
qed

lemma row_count_1:
  assumes "keyed key t" and "\<And>r. P r \<Longrightarrow> key r = k" and "row_count P t = 1"
  obtains r where "get_row key k t = Some r" and "P r"
proof (cases "get_row key k t")
  case None
  have False using keyed_row_count [OF assms(1,2)] assms(3) unfolding None by simp
  then show thesis ..
next
  case (Some r)
  have "P r" using keyed_row_count [OF assms(1,2)] assms(3) unfolding Some
    by (cases "P r") simp_all
  with Some show thesis by (rule that)
qed

section \<open>The repository contract\<close>

text \<open>What a use case relies on when it loads and saves an entity by its primary key.\<close>

locale repository =
  fixes key :: "'r \<Rightarrow> 'k"
    and get :: "'k \<Rightarrow> 't \<Rightarrow> 'r option"
    and save :: "'r \<Rightarrow> 't \<Rightarrow> 't"
  assumes get_save_same: "get (key r) (save r t) = Some r"
    and get_save_other: "k \<noteq> key r \<Longrightarrow> get k (save r t) = get k t"
    and get_key: "get k t = Some r \<Longrightarrow> key r = k"
begin

lemma get_save: "get k (save r t) = (if k = key r then Some r else get k t)"
  by (simp add: get_save_same get_save_other)

lemma get_saves:
  "distinct (map key rs) \<Longrightarrow>
   get k (fold save rs t) = (case get_row key k rs of None \<Rightarrow> get k t | Some r \<Rightarrow> Some r)"
proof (induction rs arbitrary: t)
  case (Cons r rs)
  from Cons.prems have "get_row key (key r) rs = None" by (simp add: get_row_None_iff)
  with Cons show ?case by (cases "k = key r") (simp_all add: get_row_Cons get_save split: option.split)
qed simp

lemma load_save_id: "get k t = Some r \<Longrightarrow> get k (save r t) = Some r"
  using get_key get_save_same by metis

end

lemma get_merge_row: "get_row key k (merge_row key r t) = (if k = key r then Some r else get_row key k t)"
proof -
  have "get_row key k (map (\<lambda>x. if key x = key r then r else x) t) =
      (if k = key r then (if \<exists>x \<in> set t. key x = key r then Some r else None) else get_row key k t)"
    by (induction t) (auto simp: get_row_Cons)
  moreover have "get_row key k (t @ [r]) = (if k = key r then Some r else get_row key k t)"
    if "\<not> (\<exists>x \<in> set t. key x = key r)"
  proof (cases "k = key r")
    case True
    with that have "get_row key k t = None" by (auto simp: get_row_None_iff)
    with True show ?thesis by (simp add: get_row_append get_row_Cons)
  next
    case False
    then show ?thesis by (simp add: get_row_append get_row_Cons split: option.splits)
  qed
  ultimately show ?thesis by (auto simp: merge_row_def)
qed

interpretation rows: repository key "get_row key" "merge_row key" for key
  by unfold_locales (auto simp: get_merge_row dest: get_row_key)

end
