(* ===== verification/Delivery_Lifecycle.thy ===== *)
theory Delivery_Lifecycle
  imports Delivery_Entity Retry_Policy Tables Canonical_Json
begin

text \<open>
  Claiming, dispatching and settling outbound deliveries: the two repositories
  (\<^verbatim>\<open>OutboundDeliveryRepository\<close> and \<^verbatim>\<open>DeliveryAttemptRepository\<close> of
  \<^verbatim>\<open>src/src/friday/infrastructure/persistence/repositories.py\<close>) and the use cases of
  \<^verbatim>\<open>src/src/friday/application/delivery_lifecycle.py\<close>. Every definition is one transaction on
  \<open>delivery_db\<close>; the clock reading and fresh identifiers are arguments.
\<close>

section \<open>Repositories\<close>

record delivery_db =
  dv_deliveries :: "OutboundDelivery list"
  dv_attempts :: "DeliveryAttempt list"

definition dl_get :: "DeliveryId \<Rightarrow> delivery_db \<Rightarrow> OutboundDelivery option" where
  "dl_get i db = get_row od_id i (dv_deliveries db)"

definition dl_list_due :: "instant \<Rightarrow> nat \<Rightarrow> delivery_db \<Rightarrow> OutboundDelivery list" where
  "dl_list_due now limit db =
     take limit (sort_key (\<lambda>d. (od_available_at d, od_id d))
       (filter (\<lambda>d. od_status d = DeliveryStatus.QUEUED \<and> od_available_at d \<le> now)
         (dv_deliveries db)))"

definition expires_by :: "instant \<Rightarrow> OutboundDelivery \<Rightarrow> bool" where
  "expires_by now d \<longleftrightarrow> pred_option (\<lambda>x. x \<le> now) (od_claim_expires_at d) \<and> od_claim_expires_at d \<noteq> None"

definition expires_after :: "instant \<Rightarrow> OutboundDelivery \<Rightarrow> bool" where
  "expires_after now d \<longleftrightarrow> pred_option (\<lambda>x. now < x) (od_claim_expires_at d) \<and> od_claim_expires_at d \<noteq> None"

definition dl_find_expired_claims :: "instant \<Rightarrow> nat \<Rightarrow> delivery_db \<Rightarrow> OutboundDelivery list" where
  "dl_find_expired_claims now limit db =
     take limit (sort_key (\<lambda>d. (or_else (od_claim_expires_at d) 0, od_id d))
       (filter (\<lambda>d. od_status d = DeliveryStatus.SENDING \<and> expires_by now d) (dv_deliveries db)))"

definition dl_update ::
  "(OutboundDelivery \<Rightarrow> bool) \<Rightarrow> (OutboundDelivery \<Rightarrow> OutboundDelivery) \<Rightarrow> delivery_db
   \<Rightarrow> bool \<times> delivery_db" where
  "dl_update P f db =
     (row_count P (dv_deliveries db) = 1, db\<lparr>dv_deliveries := update_rows P f (dv_deliveries db)\<rparr>)"

definition dl_try_claim ::
  "DeliveryId \<Rightarrow> string \<Rightarrow> string \<Rightarrow> instant \<Rightarrow> instant \<Rightarrow> delivery_db \<Rightarrow> int option \<times> delivery_db" where
  "dl_try_claim i worker_id claim_token now lease_expires_at db =
     (let P = (\<lambda>d. od_id d = i \<and> od_status d = DeliveryStatus.QUEUED \<and> od_available_at d \<le> now);
          db' = db\<lparr>dv_deliveries := update_rows P (\<lambda>d. d\<lparr>od_status := DeliveryStatus.SENDING,
                   od_claim_owner := Some worker_id, od_claim_token := Some claim_token,
                   od_claim_generation := od_claim_generation d + 1,
                   od_claim_expires_at := Some lease_expires_at,
                   od_attempt_count := od_attempt_count d + 1, od_updated_at := now\<rparr>)
                 (dv_deliveries db)\<rparr>
      in case filter P (dv_deliveries db) of
           [d] \<Rightarrow> (Some (od_claim_generation d + 1), db')
         | _ \<Rightarrow> (None, db'))"

definition active_claim :: "DeliveryId \<Rightarrow> string \<Rightarrow> string \<Rightarrow> int \<Rightarrow> instant \<Rightarrow> OutboundDelivery \<Rightarrow> bool" where
  "active_claim i worker_id claim_token generation now d \<longleftrightarrow>
     od_id d = i \<and> od_status d = DeliveryStatus.SENDING \<and> od_claim_owner d = Some worker_id \<and>
     od_claim_token d = Some claim_token \<and> od_claim_generation d = generation \<and>
     expires_after now d"

definition dl_is_claim_active ::
  "DeliveryId \<Rightarrow> string \<Rightarrow> string \<Rightarrow> int \<Rightarrow> instant \<Rightarrow> delivery_db \<Rightarrow> bool" where
  "dl_is_claim_active i worker_id claim_token generation now db \<longleftrightarrow>
     0 < row_count (active_claim i worker_id claim_token generation now) (dv_deliveries db)"

definition dl_mark_dispatch_started ::
  "DeliveryId \<Rightarrow> string \<Rightarrow> string \<Rightarrow> int \<Rightarrow> instant \<Rightarrow> delivery_db \<Rightarrow> bool \<times> delivery_db" where
  "dl_mark_dispatch_started i worker_id claim_token generation now =
     dl_update
       (\<lambda>d. active_claim i worker_id claim_token generation now d \<and> od_dispatch_started_at d = None)
       (\<lambda>d. d\<lparr>od_dispatch_started_at := Some now, od_updated_at := now\<rparr>)"

definition dl_save_claimed_lifecycle ::
  "OutboundDelivery \<Rightarrow> string \<Rightarrow> string \<Rightarrow> int \<Rightarrow> instant \<Rightarrow> delivery_db \<Rightarrow> bool \<times> delivery_db" where
  "dl_save_claimed_lifecycle delivery worker_id claim_token generation now =
     dl_update
       (\<lambda>d. active_claim (od_id delivery) worker_id claim_token generation now d \<and>
            (od_status delivery = DeliveryStatus.QUEUED \<longrightarrow> od_dispatch_started_at d = None))
       (\<lambda>d. d\<lparr>od_status := od_status delivery, od_available_at := od_available_at delivery,
              od_claim_owner := od_claim_owner delivery, od_claim_token := od_claim_token delivery,
              od_claim_expires_at := od_claim_expires_at delivery,
              od_provider_message_id := od_provider_message_id delivery,
              od_failure_code := od_failure_code delivery,
              od_failure_message := od_failure_message delivery,
              od_delivered_at := od_delivered_at delivery, od_updated_at := od_updated_at delivery\<rparr>)"

definition expired_claim :: "DeliveryId \<Rightarrow> int \<Rightarrow> instant \<Rightarrow> OutboundDelivery \<Rightarrow> bool" where
  "expired_claim i generation now d \<longleftrightarrow>
     od_id d = i \<and> od_status d = DeliveryStatus.SENDING \<and> od_claim_generation d = generation \<and>
     expires_by now d"

definition dl_requeue_expired_pre_dispatch ::
  "DeliveryId \<Rightarrow> int \<Rightarrow> instant \<Rightarrow> instant \<Rightarrow> delivery_db \<Rightarrow> bool \<times> delivery_db" where
  "dl_requeue_expired_pre_dispatch i generation now available_at =
     dl_update (\<lambda>d. expired_claim i generation now d \<and> od_dispatch_started_at d = None)
       (\<lambda>d. d\<lparr>od_status := DeliveryStatus.QUEUED, od_available_at := available_at,
              od_claim_owner := None, od_claim_token := None, od_claim_expires_at := None,
              od_updated_at := now\<rparr>)"

definition dl_fail_expired_pre_dispatch ::
  "DeliveryId \<Rightarrow> int \<Rightarrow> instant \<Rightarrow> string \<Rightarrow> string \<Rightarrow> delivery_db \<Rightarrow> bool \<times> delivery_db" where
  "dl_fail_expired_pre_dispatch i generation now failure_code failure_message =
     dl_update (\<lambda>d. expired_claim i generation now d \<and> od_dispatch_started_at d = None)
       (\<lambda>d. d\<lparr>od_status := DeliveryStatus.FAILED, od_claim_owner := None, od_claim_token := None,
              od_claim_expires_at := None, od_failure_code := Some failure_code,
              od_failure_message := Some failure_message, od_updated_at := now\<rparr>)"

definition dl_mark_expired_post_dispatch_ambiguous ::
  "DeliveryId \<Rightarrow> int \<Rightarrow> instant \<Rightarrow> string \<Rightarrow> string \<Rightarrow> delivery_db \<Rightarrow> bool \<times> delivery_db" where
  "dl_mark_expired_post_dispatch_ambiguous i generation now failure_code failure_message =
     dl_update (\<lambda>d. expired_claim i generation now d \<and> od_dispatch_started_at d \<noteq> None)
       (\<lambda>d. d\<lparr>od_status := DeliveryStatus.AMBIGUOUS, od_claim_owner := None, od_claim_token := None,
              od_claim_expires_at := None, od_failure_code := Some failure_code,
              od_failure_message := Some failure_message, od_updated_at := now\<rparr>)"

text \<open>
  \<^verbatim>\<open>INSERT ... SELECT\<close>: one attempt row per matching delivery row. The primary key and
  \<^verbatim>\<open>UNIQUE(delivery_id, claim_generation)\<close> turn a second insert into an integrity error.
\<close>

definition da_begin_for_claim ::
  "DeliveryAttemptId \<Rightarrow> DeliveryId \<Rightarrow> string \<Rightarrow> string \<Rightarrow> int \<Rightarrow> instant \<Rightarrow> instant \<Rightarrow> delivery_db
   \<Rightarrow> app_error + bool \<times> delivery_db" where
  "da_begin_for_claim attempt_id i worker_id claim_token generation started_at now db =
     (let P = (\<lambda>d. active_claim i worker_id claim_token generation now d \<and>
                   od_dispatch_started_at d = Some started_at) in
      if row_count P (dv_deliveries db) = 0 then Inr (False, db)
      else if list_ex (\<lambda>a. da_id a = attempt_id \<or>
                (da_delivery_id a = i \<and> da_claim_generation a = generation)) (dv_attempts db)
      then Inl (EntityConflict ''write violated a uniqueness or state constraint'')
      else Inr (row_count P (dv_deliveries db) = 1,
        db\<lparr>dv_attempts := dv_attempts db @
          [\<lparr>da_id = attempt_id, da_delivery_id = i, da_claim_generation = generation,
            da_started_at = started_at, da_finished_at = None,
            da_outcome = DeliveryAttemptOutcome.IN_PROGRESS, da_failure_code = None\<rparr>]\<rparr>))"

definition open_attempt :: "DeliveryId \<Rightarrow> int \<Rightarrow> DeliveryAttempt \<Rightarrow> bool" where
  "open_attempt i generation a \<longleftrightarrow>
     da_delivery_id a = i \<and> da_claim_generation a = generation \<and>
     da_outcome a = DeliveryAttemptOutcome.IN_PROGRESS"

definition da_validated_terminal_write ::
  "DeliveryId \<Rightarrow> int \<Rightarrow> instant \<Rightarrow> DeliveryAttemptOutcome \<Rightarrow> string option \<Rightarrow> delivery_db
   \<Rightarrow> app_error + string option" where
  "da_validated_terminal_write i generation now result failure_code db =
     lift_domain (validate_delivery_attempt_shape result
       (or_else (map_option da_started_at (find (open_attempt i generation) (dv_attempts db))) now)
       (Some now) failure_code)"

definition da_close ::
  "DeliveryId \<Rightarrow> int \<Rightarrow> bool \<Rightarrow> DeliveryAttemptOutcome \<Rightarrow> instant \<Rightarrow> string option \<Rightarrow> delivery_db
   \<Rightarrow> bool \<times> delivery_db" where
  "da_close i generation exists result now code db =
     (let P = (\<lambda>a. open_attempt i generation a \<and> exists) in
      (row_count P (dv_attempts db) = 1,
       db\<lparr>dv_attempts := update_rows P (\<lambda>a. a\<lparr>da_outcome := result, da_finished_at := Some now,
            da_failure_code := code\<rparr>) (dv_attempts db)\<rparr>))"

definition da_complete_for_claim ::
  "DeliveryId \<Rightarrow> string \<Rightarrow> string \<Rightarrow> int \<Rightarrow> instant \<Rightarrow> DeliveryAttemptOutcome \<Rightarrow> string option
   \<Rightarrow> delivery_db \<Rightarrow> app_error + bool \<times> delivery_db" where
  "da_complete_for_claim i worker_id claim_token generation now result failure_code db =
     ebind (da_validated_terminal_write i generation now result failure_code db) (\<lambda>code.
     Inr (da_close i generation (dl_is_claim_active i worker_id claim_token generation now db)
            result now code db))"

definition da_close_expired_as_ambiguous ::
  "DeliveryId \<Rightarrow> int \<Rightarrow> instant \<Rightarrow> string \<Rightarrow> delivery_db \<Rightarrow> app_error + bool \<times> delivery_db" where
  "da_close_expired_as_ambiguous i generation now failure_code db =
     ebind (da_validated_terminal_write i generation now DeliveryAttemptOutcome.AMBIGUOUS
              (Some failure_code) db) (\<lambda>code.
     Inr (da_close i generation
            (0 < row_count (\<lambda>d. expired_claim i generation now d \<and> od_dispatch_started_at d \<noteq> None)
                   (dv_deliveries db))
            DeliveryAttemptOutcome.AMBIGUOUS now code db))"

section \<open>Use cases\<close>

definition PRE_DISPATCH_ATTEMPTS_EXHAUSTED :: string where
  "PRE_DISPATCH_ATTEMPTS_EXHAUSTED = ''delivery_pre_dispatch_attempts_exhausted''"

definition LEASE_EXPIRED_AFTER_DISPATCH :: string where
  "LEASE_EXPIRED_AFTER_DISPATCH = ''delivery_lease_expired_after_dispatch''"

definition PRE_DISPATCH_EXHAUSTED_MESSAGE :: string where
  "PRE_DISPATCH_EXHAUSTED_MESSAGE =
     ''Delivery lease expired before dispatch and the retry budget is exhausted; '' @
     ''no external message was sent.''"

definition POST_DISPATCH_AMBIGUOUS_MESSAGE :: string where
  "POST_DISPATCH_AMBIGUOUS_MESSAGE =
     ''Delivery lease expired after the dispatch boundary was crossed; '' @
     ''the external message may or may not have been sent.''"

record DeliveryClaim =
  dc_delivery_id :: DeliveryId
  dc_worker_id :: string
  dc_claim_token :: string
  dc_claim_generation :: int
  dc_acquired_at :: instant
  dc_lease_expires_at :: instant

definition dl_recover_one ::
  "RetryPolicy \<Rightarrow> OutboundDelivery \<Rightarrow> instant \<Rightarrow> delivery_db \<Rightarrow> app_error + bool \<times> delivery_db" where
  "dl_recover_one policy delivery now db =
     (if od_dispatch_started_at delivery \<noteq> None
      then ebind (da_close_expired_as_ambiguous (od_id delivery) (od_claim_generation delivery) now
                    LEASE_EXPIRED_AFTER_DISPATCH db) (\<lambda>(closed, db1).
           ebind (guard closed (TransactionFailure
             ''delivery attempt history is inconsistent at post-dispatch recovery'')) (\<lambda>_.
           (case dl_mark_expired_post_dispatch_ambiguous (od_id delivery)
                   (od_claim_generation delivery) now LEASE_EXPIRED_AFTER_DISPATCH
                   POST_DISPATCH_AMBIGUOUS_MESSAGE db1 of (parked, db2) \<Rightarrow>
           ebind (guard parked (TransactionFailure
             ''delivery claim changed during post-dispatch recovery'')) (\<lambda>_.
           Inr (True, db2)))))
      else if od_attempt_count delivery < rp_max_attempts policy
      then ebind (lift_domain (compute_delay policy (od_attempt_count delivery + 1))) (\<lambda>delay.
           Inr (dl_requeue_expired_pre_dispatch (od_id delivery) (od_claim_generation delivery) now
                  (now + delay) db))
      else Inr (dl_fail_expired_pre_dispatch (od_id delivery) (od_claim_generation delivery) now
                  PRE_DISPATCH_ATTEMPTS_EXHAUSTED PRE_DISPATCH_EXHAUSTED_MESSAGE db))"

fun dl_recover_all ::
  "RetryPolicy \<Rightarrow> instant \<Rightarrow> OutboundDelivery list \<Rightarrow> nat \<Rightarrow> delivery_db \<Rightarrow> app_error + nat \<times> delivery_db"
where
  "dl_recover_all policy now [] recovered db = Inr (recovered, db)"
| "dl_recover_all policy now (d # ds) recovered db =
     ebind (dl_recover_one policy d now db) (\<lambda>(ok, db').
     dl_recover_all policy now ds (if ok then recovered + 1 else recovered) db')"

definition RecoverExpiredDeliveryClaims ::
  "RetryPolicy \<Rightarrow> nat \<Rightarrow> instant \<Rightarrow> delivery_db \<Rightarrow> app_error + nat \<times> delivery_db" where
  "RecoverExpiredDeliveryClaims policy candidate_limit now db =
     dl_recover_all policy now (dl_find_expired_claims now candidate_limit db) 0 db"

text \<open>\<open>tokens\<close> are the fresh claim tokens, one per candidate that is tried.\<close>

fun dl_claim_first ::
  "string \<Rightarrow> instant \<Rightarrow> instant \<Rightarrow> string list \<Rightarrow> OutboundDelivery list \<Rightarrow> delivery_db
   \<Rightarrow> DeliveryClaim option \<times> delivery_db" where
  "dl_claim_first worker_id now lease_expires_at (token # tokens) (candidate # rest) db =
     (case dl_try_claim (od_id candidate) worker_id token now lease_expires_at db of
        (None, db') \<Rightarrow> dl_claim_first worker_id now lease_expires_at tokens rest db'
      | (Some generation, db') \<Rightarrow>
          (Some \<lparr>dc_delivery_id = od_id candidate, dc_worker_id = worker_id, dc_claim_token = token,
                 dc_claim_generation = generation, dc_acquired_at = now,
                 dc_lease_expires_at = lease_expires_at\<rparr>, db'))"
| "dl_claim_first worker_id now lease_expires_at tokens candidates db = (None, db)"

definition ClaimNextDelivery ::
  "RetryPolicy \<Rightarrow> string \<Rightarrow> int \<Rightarrow> nat \<Rightarrow> instant \<Rightarrow> string list \<Rightarrow> delivery_db
   \<Rightarrow> app_error + DeliveryClaim option \<times> delivery_db" where
  "ClaimNextDelivery policy worker_id lease_duration candidate_limit now tokens db =
     ebind (RecoverExpiredDeliveryClaims policy candidate_limit now db) (\<lambda>(recovered, db').
     Inr (dl_claim_first worker_id now (now + lease_duration) tokens
            (dl_list_due now candidate_limit db') db'))"

definition VerifyDeliveryClaim :: "DeliveryClaim \<Rightarrow> instant \<Rightarrow> delivery_db \<Rightarrow> bool" where
  "VerifyDeliveryClaim claim now db =
     dl_is_claim_active (dc_delivery_id claim) (dc_worker_id claim) (dc_claim_token claim)
       (dc_claim_generation claim) now db"

definition BeginDeliveryAttempt ::
  "DeliveryClaim \<Rightarrow> instant \<Rightarrow> DeliveryAttemptId \<Rightarrow> delivery_db \<Rightarrow> app_error + instant \<times> delivery_db" where
  "BeginDeliveryAttempt claim now attempt_id db =
     (case dl_mark_dispatch_started (dc_delivery_id claim) (dc_worker_id claim)
             (dc_claim_token claim) (dc_claim_generation claim) now db of (marked, db1) \<Rightarrow>
      if marked
      then ebind (da_begin_for_claim attempt_id (dc_delivery_id claim) (dc_worker_id claim)
                    (dc_claim_token claim) (dc_claim_generation claim) now now db1) (\<lambda>(began, db2).
           ebind (guard began (TransactionFailure
             ''dispatch boundary could not open its delivery attempt ledger row'')) (\<lambda>_.
           Inr (now, db2)))
      else Inl (ClaimLost ''dispatch boundary lost claim''))"

fun attempt_outcome_of :: "DeliveryStatus \<Rightarrow> DeliveryAttemptOutcome option" where
  "attempt_outcome_of DeliveryStatus.DELIVERED = Some DeliveryAttemptOutcome.DELIVERED"
| "attempt_outcome_of DeliveryStatus.FAILED = Some DeliveryAttemptOutcome.FAILED"
| "attempt_outcome_of DeliveryStatus.AMBIGUOUS = Some DeliveryAttemptOutcome.AMBIGUOUS"
| "attempt_outcome_of _ = None"

text \<open>
  \<^verbatim>\<open>PersistDeliveryOutcome._apply\<close>: first its middle part, which closes the ledger row of a
  dispatched delivery; the transition is one of the calls below.
\<close>

definition persist_attempt ::
  "DeliveryClaim \<Rightarrow> OutboundDelivery \<Rightarrow> instant \<Rightarrow> delivery_db \<Rightarrow> app_error + delivery_db" where
  "persist_attempt claim moved now db =
     (if od_dispatch_started_at moved \<noteq> None
      then ebind (from_option (TransactionFailure
             ''post-dispatch outcome requires a terminal delivery state'')
             (attempt_outcome_of (od_status moved))) (\<lambda>result.
           ebind (da_complete_for_claim (dc_delivery_id claim) (dc_worker_id claim)
             (dc_claim_token claim) (dc_claim_generation claim) now result
             (od_failure_code moved) db) (\<lambda>(completed, db1).
           ebind (guard completed (ClaimLost ''outcome attempt lost claim'')) (\<lambda>_.
           Inr db1)))
      else Inr db)"

definition persist_apply ::
  "DeliveryClaim \<Rightarrow> (OutboundDelivery \<Rightarrow> (domain_error, OutboundDelivery) outcome) \<Rightarrow> instant
   \<Rightarrow> delivery_db \<Rightarrow> app_error + unit \<times> delivery_db" where
  "persist_apply claim transition now db =
     ebind (from_option (ClaimLost ''outcome lost claim'') (dl_get (dc_delivery_id claim) db)) (\<lambda>delivery.
     ebind (guard (od_status delivery = DeliveryStatus.SENDING \<and>
                   od_claim_owner delivery = Some (dc_worker_id claim) \<and>
                   od_claim_token delivery = Some (dc_claim_token claim) \<and>
                   od_claim_generation delivery = dc_claim_generation claim)
       (ClaimLost ''outcome lost claim'')) (\<lambda>_.
     ebind (call_method (transition delivery)) (\<lambda>moved.
     ebind (persist_attempt claim moved now db) (\<lambda>db1.
     (case dl_save_claimed_lifecycle moved (dc_worker_id claim) (dc_claim_token claim)
             (dc_claim_generation claim) now db1 of (saved, db2) \<Rightarrow>
     ebind (guard saved (ClaimLost ''outcome lost claim'')) (\<lambda>_. Inr ((), db2)))))))"

datatype persist_call =
    PersistDeliver "string option"
  | PersistFail string string
  | PersistMarkAmbiguous string string
  | PersistMarkRouteAmbiguous string string

fun persist_transition ::
  "persist_call \<Rightarrow> instant \<Rightarrow> OutboundDelivery \<Rightarrow> (domain_error, OutboundDelivery) outcome" where
  "persist_transition (PersistDeliver p) now = od_deliver (utc now) p"
| "persist_transition (PersistFail c m) now = od_fail (utc now) c m"
| "persist_transition (PersistMarkAmbiguous c m) now = od_mark_ambiguous (utc now) c m"
| "persist_transition (PersistMarkRouteAmbiguous c m) now = od_mark_route_ambiguous (utc now) c m"

definition PersistDeliveryOutcome ::
  "persist_call \<Rightarrow> DeliveryClaim \<Rightarrow> instant \<Rightarrow> delivery_db \<Rightarrow> app_error + unit \<times> delivery_db" where
  "PersistDeliveryOutcome call claim now db = persist_apply claim (persist_transition call now) now db"

end
