(* ===== verification/Delivery_Dispatch.thy ===== *)
theory Delivery_Dispatch
  imports Delivery_Lifecycle
begin

text \<open>
  \<^verbatim>\<open>DeliveryDispatcher.dispatch_once\<close> (\<^verbatim>\<open>src/src/friday/infrastructure/messaging/dispatcher.py\<close>) as a
  machine whose steps are the transactions and the one network call of the source, and
  any number of such machines interleaved on one database. A worker may crash between two
  steps and start over; clocks of different workers need not agree.
\<close>

section \<open>Routes\<close>

record MessagingRoute =
  mr_route_id :: string
  mr_trusted_description :: string
  mr_enabled :: bool
  mr_transport :: string
  mr_principal_id :: string
  mr_endpoint_env :: string
  mr_endpoint :: string
  mr_payload_field :: string
  mr_max_body_chars :: int
  mr_timeout_seconds :: pyfloat

definition mr_fingerprint :: "(string \<Rightarrow> string) \<Rightarrow> MessagingRoute \<Rightarrow> string" where
  "mr_fingerprint sha256 r =
     sha256 (json_dumps True (PyDict
       [(PyStr ''version'', PyInt 1),
        (PyStr ''route_id'', PyStr (mr_route_id r)),
        (PyStr ''transport'', PyStr (mr_transport r)),
        (PyStr ''principal_id'', PyStr (mr_principal_id r)),
        (PyStr ''destination_digest'', PyStr (sha256 (mr_endpoint r))),
        (PyStr ''payload_field'', PyStr (mr_payload_field r)),
        (PyStr ''max_body_chars'', PyInt (mr_max_body_chars r)),
        (PyStr ''timeout_seconds'', PyFloat (mr_timeout_seconds r))]))"

datatype TransportOutcome = DELIVERED | FAILED | AMBIGUOUS

record TransportResult =
  tr_outcome :: TransportOutcome
  tr_failure_code :: "string option"

section \<open>The dispatcher\<close>

definition ROUTE_MISSING :: string where "ROUTE_MISSING = ''delivery_route_missing''"
definition ROUTE_DISABLED :: string where "ROUTE_DISABLED = ''delivery_route_disabled''"
definition ROUTE_FINGERPRINT_MISMATCH :: string where
  "ROUTE_FINGERPRINT_MISMATCH = ''delivery_route_fingerprint_mismatch''"
definition ALREADY_DISPATCHED :: string where "ALREADY_DISPATCHED = ''delivery_already_dispatched''"
definition TRANSPORT_EXCEPTION :: string where "TRANSPORT_EXCEPTION = ''delivery_transport_exception''"

datatype DispatchResult = IDLE | CLAIM_LOST | DELIVERED | FAILED | AMBIGUOUS

text \<open>Where a dispatcher stands between two steps.\<close>

datatype dispatch_pc =
    DStart
  | DClaimed DeliveryClaim
  | DReady DeliveryClaim OutboundDelivery MessagingRoute
  | DSend DeliveryClaim OutboundDelivery MessagingRoute
  | DPersist DeliveryClaim persist_call DispatchResult
  | DFinished DispatchResult
  | DRaised app_error

text \<open>
  Configuration of a dispatcher, and what one step reads from outside: the clock, fresh
  identifiers, and the transport's reply (\<open>None\<close> when \<^verbatim>\<open>send\<close> raises).
\<close>

record dispatch_cfg =
  cf_policy :: RetryPolicy
  cf_worker_id :: string
  cf_lease_duration :: int
  cf_candidate_limit :: nat
  cf_routes :: "MessagingRoute list"

record dispatch_env =
  ev_now :: instant
  ev_tokens :: "string list"
  ev_attempt_id :: DeliveryAttemptId
  ev_reply :: "TransportResult option"

definition dispatch_check ::
  "(string \<Rightarrow> string) \<Rightarrow> MessagingRoute list \<Rightarrow> DeliveryClaim \<Rightarrow> OutboundDelivery \<Rightarrow> dispatch_pc" where
  "dispatch_check sha256 routes claim delivery =
     (if od_dispatch_started_at delivery \<noteq> None
      then DPersist claim (PersistMarkAmbiguous ALREADY_DISPATCHED
             ''Delivery was already marked for dispatch; no message was sent.'') DispatchResult.AMBIGUOUS
      else case find (\<lambda>r. mr_route_id r = od_route_id delivery) routes of
        None \<Rightarrow> DPersist claim (PersistMarkRouteAmbiguous ROUTE_MISSING
          ''Delivery route is no longer configured; no message was sent.'') DispatchResult.AMBIGUOUS
      | Some route \<Rightarrow>
          if \<not> mr_enabled route
          then DPersist claim (PersistMarkRouteAmbiguous ROUTE_DISABLED
                 ''Delivery route is disabled; no message was sent.'') DispatchResult.AMBIGUOUS
          else if mr_fingerprint sha256 route \<noteq> od_route_fingerprint delivery
          then DPersist claim (PersistMarkRouteAmbiguous ROUTE_FINGERPRINT_MISMATCH
                 ''Delivery route authority changed; no message was sent.'') DispatchResult.AMBIGUOUS
          else DReady claim delivery route)"

text \<open>\<^verbatim>\<open>result.failure_code or "webhook_transport_error"\<close>: an empty code counts as absent.\<close>

definition transport_code :: "TransportResult \<Rightarrow> string" where
  "transport_code r =
     (case tr_failure_code r of None \<Rightarrow> ''webhook_transport_error''
      | Some c \<Rightarrow> if c = [] then ''webhook_transport_error'' else c)"

definition dispatch_reply :: "DeliveryClaim \<Rightarrow> TransportResult option \<Rightarrow> dispatch_pc" where
  "dispatch_reply claim reply =
     (case reply of
        None \<Rightarrow> DPersist claim (PersistMarkAmbiguous TRANSPORT_EXCEPTION
          ''Webhook transport failed without a delivery result.'') DispatchResult.AMBIGUOUS
      | Some r \<Rightarrow>
          (case tr_outcome r of
             TransportOutcome.DELIVERED \<Rightarrow> DPersist claim (PersistDeliver None) DispatchResult.DELIVERED
           | TransportOutcome.AMBIGUOUS \<Rightarrow> DPersist claim (PersistMarkAmbiguous (transport_code r)
               ''Webhook delivery outcome is unknown.'') DispatchResult.AMBIGUOUS
           | TransportOutcome.FAILED \<Rightarrow> DPersist claim (PersistFail (transport_code r)
               ''Webhook delivery failed.'') DispatchResult.FAILED))"

text \<open>The third component is the message handed to the transport in this step, if any.\<close>

type_synonym sent_message = "DeliveryId \<times> MessagingRoute \<times> string"

fun dispatch_next ::
  "(string \<Rightarrow> string) \<Rightarrow> dispatch_cfg \<Rightarrow> dispatch_env \<Rightarrow> dispatch_pc \<Rightarrow> delivery_db
   \<Rightarrow> dispatch_pc \<times> delivery_db \<times> sent_message option" where
  "dispatch_next sha256 cf ev DStart db =
     (case ClaimNextDelivery (cf_policy cf) (cf_worker_id cf) (cf_lease_duration cf)
             (cf_candidate_limit cf) (ev_now ev) (ev_tokens ev) db of
        Inl e \<Rightarrow> (DRaised e, db, None)
      | Inr (None, db') \<Rightarrow> (DFinished DispatchResult.IDLE, db', None)
      | Inr (Some claim, db') \<Rightarrow> (DClaimed claim, db', None))"
| "dispatch_next sha256 cf ev (DClaimed claim) db =
     (case dl_get (dc_delivery_id claim) db of
        None \<Rightarrow> (DFinished DispatchResult.CLAIM_LOST, db, None)
      | Some delivery \<Rightarrow> (dispatch_check sha256 (cf_routes cf) claim delivery, db, None))"
| "dispatch_next sha256 cf ev (DReady claim delivery route) db =
     (case BeginDeliveryAttempt claim (ev_now ev) (ev_attempt_id ev) db of
        Inl (ClaimLost m) \<Rightarrow> (DFinished DispatchResult.IDLE, db, None)
      | Inl e \<Rightarrow> (DRaised e, db, None)
      | Inr (began, db') \<Rightarrow> (DSend claim delivery route, db', None))"
| "dispatch_next sha256 cf ev (DSend claim delivery route) db =
     (dispatch_reply claim (ev_reply ev), db, Some (od_id delivery, route, od_body delivery))"
| "dispatch_next sha256 cf ev (DPersist claim call result) db =
     (case PersistDeliveryOutcome call claim (ev_now ev) db of
        Inl (ClaimLost m) \<Rightarrow> (DFinished DispatchResult.CLAIM_LOST, db, None)
      | Inl e \<Rightarrow> (DRaised e, db, None)
      | Inr (u, db') \<Rightarrow> (DFinished result, db', None))"
| "dispatch_next sha256 cf ev pc db = (pc, db, None)"

text \<open>One dispatcher alone: \<^verbatim>\<open>dispatch_once\<close> takes at most five steps.\<close>

fun dispatch_run ::
  "(string \<Rightarrow> string) \<Rightarrow> dispatch_cfg \<Rightarrow> dispatch_env list \<Rightarrow> dispatch_pc \<Rightarrow> delivery_db
   \<Rightarrow> dispatch_pc \<times> delivery_db \<times> sent_message list" where
  "dispatch_run sha256 cf [] pc db = (pc, db, [])"
| "dispatch_run sha256 cf (ev # evs) pc db =
     (case dispatch_next sha256 cf ev pc db of (pc', db', m) \<Rightarrow>
      case dispatch_run sha256 cf evs pc' db' of (pc'', db'', ms) \<Rightarrow>
        (pc'', db'', (case m of None \<Rightarrow> ms | Some x \<Rightarrow> x # ms)))"

section \<open>Many dispatchers\<close>

record dispatch_system =
  sy_db :: delivery_db
  sy_pc :: "nat \<Rightarrow> dispatch_pc"
  sy_sent :: "sent_message list"

text \<open>
  A step of worker \<open>w\<close>, a crash or restart of worker \<open>w\<close>, or a new delivery being
  queued by some other use case.
\<close>

inductive dispatch_step :: "(string \<Rightarrow> string) \<Rightarrow> dispatch_system \<Rightarrow> dispatch_system \<Rightarrow> bool"
  for sha256 :: "string \<Rightarrow> string" where
  work: "dispatch_next sha256 cf ev (sy_pc s w) (sy_db s) = (pc', db', m) \<Longrightarrow>
    dispatch_step sha256 s
      (s\<lparr>sy_db := db', sy_pc := (sy_pc s)(w := pc'),
         sy_sent := (case m of None \<Rightarrow> sy_sent s | Some x \<Rightarrow> x # sy_sent s)\<rparr>)"
| restart: "dispatch_step sha256 s (s\<lparr>sy_pc := (sy_pc s)(w := DStart)\<rparr>)"
| queue: "od_new sha256 i k r tool fire route fp body av cr subj dg = Inr d \<Longrightarrow>
    i \<notin> od_id ` set (dv_deliveries (sy_db s)) \<Longrightarrow>
    dispatch_step sha256 s
      (s\<lparr>sy_db := (sy_db s)\<lparr>dv_deliveries := dv_deliveries (sy_db s) @ [d]\<rparr>\<rparr>)"

definition dispatch_init :: "dispatch_system" where
  "dispatch_init = \<lparr>sy_db = \<lparr>dv_deliveries = [], dv_attempts = []\<rparr>, sy_pc = (\<lambda>w. DStart), sy_sent = []\<rparr>"

end
