(* ===== verification/Delivery_Safety.thy ===== *)
theory Delivery_Safety
  imports Delivery_Dispatch
begin

text \<open>
  What no transaction on deliveries can do (drop a row, change an authority field, clear a
  dispatch marker, lower a generation, touch a terminal row), and what follows for any
  number of interleaved dispatchers: a delivery is handed to the transport at most once,
  and only with the content and the route authority it was created with.
\<close>

section \<open>How a delivery row may evolve\<close>

text \<open>The set \<open>T\<close> holds the claim tokens the transaction draws: only they can become owners.\<close>

definition row_owned :: "string \<Rightarrow> string \<Rightarrow> int \<Rightarrow> OutboundDelivery \<Rightarrow> bool" where
  "row_owned w t g d \<longleftrightarrow>
     od_status d = DeliveryStatus.SENDING \<and> od_claim_owner d = Some w \<and> od_claim_token d = Some t \<and>
     od_claim_generation d = g"

definition od_evolves :: "string set \<Rightarrow> OutboundDelivery \<Rightarrow> OutboundDelivery \<Rightarrow> bool" where
  "od_evolves T d d' \<longleftrightarrow>
     od_ident d' = od_ident d \<and> (\<forall>w t g. row_owned w t g d' \<longrightarrow> row_owned w t g d \<or> t \<in> T) \<and>
     (od_dispatch_started_at d \<noteq> None \<longrightarrow> od_dispatch_started_at d' = od_dispatch_started_at d) \<and>
     od_claim_generation d \<le> od_claim_generation d' \<and>
     (od_terminal (od_status d) \<longrightarrow> d' = d)"

abbreviation db_evolves :: "string set \<Rightarrow> delivery_db \<Rightarrow> delivery_db \<Rightarrow> bool" where
  "db_evolves T db db' \<equiv> list_all2 (od_evolves T) (dv_deliveries db) (dv_deliveries db')"

lemma od_evolves_refl [simp]: "od_evolves T d d"
  by (simp add: od_evolves_def)

lemma od_evolves_trans: "od_evolves T a b \<Longrightarrow> od_evolves T b c \<Longrightarrow> od_evolves T a c"
  unfolding od_evolves_def by (metis order_trans)

lemma db_evolves_refl [simp]: "db_evolves T db db"
  by (simp add: list_all2_refl)

lemma db_evolves_trans: "db_evolves T a b \<Longrightarrow> db_evolves T b c \<Longrightarrow> db_evolves T a c"
  by (rule list_all2_trans [of "od_evolves T" "od_evolves T" "od_evolves T"]) (auto intro: od_evolves_trans)

lemma db_evolves_keys: "db_evolves T a b \<Longrightarrow> map od_id (dv_deliveries b) = map od_id (dv_deliveries a)"
  by (induction rule: list_all2_induct) (auto simp: od_evolves_def od_ident_def)

lemma db_evolves_get:
  "db_evolves T a b \<Longrightarrow> dl_get i a = Some d \<Longrightarrow> \<exists>d'. dl_get i b = Some d' \<and> od_evolves T d d'"
  unfolding dl_get_def
proof (induction rule: list_all2_induct)
  case (Cons x xs y ys)
  then have "od_id y = od_id x" by (simp add: od_evolves_def od_ident_def)
  with Cons show ?case by (auto simp: get_row_Cons split: if_splits)
qed simp

lemma update_evolves:
  "(\<And>d. P d \<Longrightarrow> od_evolves T d (f d)) \<Longrightarrow> list_all2 (od_evolves T) t (update_rows P f t)"
  by (induction t) (auto simp: update_rows_def)

lemma db_evolves_mono: "db_evolves T a b \<Longrightarrow> T \<subseteq> U \<Longrightarrow> db_evolves U a b"
  by (erule list_all2_mono) (unfold od_evolves_def, blast)

lemmas row_defs = active_claim_def row_owned_def expired_claim_def od_evolves_def od_ident_def od_terminal_def
  TERMINAL_DELIVERY_STATUSES_def

lemma row_update_evolves:
  "t \<in> T \<Longrightarrow> db_evolves T db (snd (dl_try_claim i w t now l db))"
  "db_evolves T db (snd (dl_mark_dispatch_started i w t g now db))"
  "od_status d \<noteq> DeliveryStatus.SENDING \<Longrightarrow> db_evolves T db (snd (dl_save_claimed_lifecycle d w t g now db))"
  "db_evolves T db (snd (dl_requeue_expired_pre_dispatch i g now av db))"
  "db_evolves T db (snd (dl_fail_expired_pre_dispatch i g now c m db))"
  "db_evolves T db (snd (dl_mark_expired_post_dispatch_ambiguous i g now c m db))"
  by (auto simp: dl_try_claim_def Let_def row_defs dl_update_def dl_mark_dispatch_started_def
      dl_save_claimed_lifecycle_def dl_requeue_expired_pre_dispatch_def dl_fail_expired_pre_dispatch_def
      dl_mark_expired_post_dispatch_ambiguous_def intro!: update_evolves split: list.splits)

lemma attempts_only:
  "da_begin_for_claim a i w t g st now db = Inr p \<Longrightarrow> dv_deliveries (snd p) = dv_deliveries db"
  "da_complete_for_claim i w t g now r c db = Inr p \<Longrightarrow> dv_deliveries (snd p) = dv_deliveries db"
  "da_close_expired_as_ambiguous i g now m db = Inr p \<Longrightarrow> dv_deliveries (snd p) = dv_deliveries db"
  by (auto simp: da_begin_for_claim_def da_close_def da_complete_for_claim_def
      da_close_expired_as_ambiguous_def outcome_simps Let_def split: if_splits)

section \<open>Transactions\<close>

lemma recover_one_evolves:
  assumes "dl_recover_one p d now db = Inr (b, db')" shows "db_evolves T db db'"
proof (cases "od_dispatch_started_at d")
  case None
  with assms row_update_evolves(4,5) show ?thesis
    by (auto simp: dl_recover_one_def outcome_simps split: if_splits) (metis snd_conv)+
next
  case (Some t)
  with assms obtain q where q:
    "da_close_expired_as_ambiguous (od_id d) (od_claim_generation d) now LEASE_EXPIRED_AFTER_DISPATCH db
       = Inr q" and
    "db' = snd (dl_mark_expired_post_dispatch_ambiguous (od_id d) (od_claim_generation d) now
       LEASE_EXPIRED_AFTER_DISPATCH POST_DISPATCH_AMBIGUOUS_MESSAGE (snd q))"
    by (auto simp: dl_recover_one_def outcome_simps case_prod_unfold)
  with attempts_only(3) [OF q(1)] row_update_evolves(6) show ?thesis by metis
qed

lemma recover_all_evolves: "dl_recover_all p now ds n db = Inr (m, db') \<Longrightarrow> db_evolves T db db'"
proof (induction ds arbitrary: n db)
  case (Cons d ds)
  then obtain b db1 where "dl_recover_one p d now db = Inr (b, db1)"
    and "dl_recover_all p now ds (if b then n + 1 else n) db1 = Inr (m, db')"
    by (auto simp: outcome_simps split: prod.splits)
  with Cons.IH recover_one_evolves show ?case by (blast intro: db_evolves_trans)
qed simp

lemma claim_first_evolves:
  "dl_claim_first w now l ts ds db = (c, db') \<Longrightarrow> set ts \<subseteq> T \<Longrightarrow> db_evolves T db db'"
proof (induction w now l ts ds db rule: dl_claim_first.induct)
  case (1 worker now l token tokens candidate rest db)
  obtain g db1 where t: "dl_try_claim (od_id candidate) worker token now l db = (g, db1)"
    by fastforce
  from row_update_evolves(1) [of token T db "od_id candidate" worker now l] t 1
  have e: "db_evolves T db db1" by simp
  show ?case
  proof (cases g)
    case None
    with 1 t have "db_evolves T db1 db'" by simp
    with e show ?thesis by (rule db_evolves_trans)
  next
    case (Some n)
    with 1 t e show ?thesis by simp
  qed
qed auto

lemma ClaimNextDelivery_evolves:
  "ClaimNextDelivery p w l n now ts db = Inr (c, db') \<Longrightarrow> set ts \<subseteq> T \<Longrightarrow> db_evolves T db db'"
  by (auto simp: ClaimNextDelivery_def RecoverExpiredDeliveryClaims_def outcome_simps
      intro: db_evolves_trans dest: recover_all_evolves claim_first_evolves)

lemma BeginDeliveryAttempt_evolves:
  "BeginDeliveryAttempt c now a db = Inr (t, db') \<Longrightarrow> db_evolves T db db'"
  using row_update_evolves(2) [of T db "dc_delivery_id c" "dc_worker_id c" "dc_claim_token c"
      "dc_claim_generation c" now]
  by (auto simp: BeginDeliveryAttempt_def outcome_simps case_prod_unfold split: if_splits
      dest!: attempts_only(1))

lemma persist_apply_elim:
  assumes "persist_apply claim tr now db = Inr (u, db')"
  obtains d moved db1 where "dl_get (dc_delivery_id claim) db = Some d"
    and "od_status d = DeliveryStatus.SENDING" and "od_claim_owner d = Some (dc_worker_id claim)"
    and "od_claim_token d = Some (dc_claim_token claim)"
    and "od_claim_generation d = dc_claim_generation claim" and "tr d = Done moved"
    and "persist_attempt claim moved now db = Inr db1"
    and "dl_save_claimed_lifecycle moved (dc_worker_id claim) (dc_claim_token claim)
       (dc_claim_generation claim) now db1 = (True, db')"
  using assms by (fastforce simp: persist_apply_def outcome_simps case_prod_unfold prod_eq_iff)

lemma persist_attempt_deliveries:
  "persist_attempt claim moved now db = Inr db1 \<Longrightarrow> dv_deliveries db1 = dv_deliveries db"
  by (auto simp: persist_attempt_def outcome_simps case_prod_unfold split: if_splits
      dest!: attempts_only(2))

lemma persist_transition_status:
  "persist_transition call now d = Done d' \<Longrightarrow> od_status d' \<noteq> DeliveryStatus.SENDING"
  by (cases call) (auto simp: od_defs outcome_simps Let_def)

lemma PersistDeliveryOutcome_evolves:
  assumes "PersistDeliveryOutcome call c now db = Inr (u, db')" shows "db_evolves T db db'"
proof -
  from assms obtain d moved db1 where "persist_attempt c moved now db = Inr db1"
    and tr: "persist_transition call now d = Done moved" and save: "dl_save_claimed_lifecycle moved (dc_worker_id c) (dc_claim_token c)
       (dc_claim_generation c) now db1 = (True, db')"
    unfolding PersistDeliveryOutcome_def by (rule persist_apply_elim)
  then have "dv_deliveries db1 = dv_deliveries db" by (simp add: persist_attempt_deliveries)
  with row_update_evolves(3) [OF persist_transition_status [OF tr], of T db1] save
  show ?thesis by (metis snd_conv)
qed

lemma dispatch_next_evolves:
  "dispatch_next s cf ev pc db = (pc', db', m) \<Longrightarrow> db_evolves (set (ev_tokens ev)) db db'"
  by (cases pc) (auto split: sum.splits prod.splits option.splits app_error.splits
      dest: ClaimNextDelivery_evolves BeginDeliveryAttempt_evolves PersistDeliveryOutcome_evolves)

section \<open>Invariant of the interleaved system\<close>

definition db_extends :: "delivery_db \<Rightarrow> delivery_db \<Rightarrow> bool" where
  "db_extends a b \<longleftrightarrow> (\<forall>i d. dl_get i a = Some d \<longrightarrow> (\<exists>d'. dl_get i b = Some d' \<and> od_evolves UNIV d d'))"

definition boundary :: "delivery_db \<Rightarrow> DeliveryId \<Rightarrow> bool" where
  "boundary db i \<longleftrightarrow> (\<exists>d. dl_get i db = Some d \<and> od_dispatch_started_at d \<noteq> None)"

text \<open>The message is the stored body, on an enabled route with the stored fingerprint.\<close>

definition authorised ::
  "(string \<Rightarrow> string) \<Rightarrow> delivery_db \<Rightarrow> DeliveryId \<Rightarrow> MessagingRoute \<Rightarrow> string \<Rightarrow> bool" where
  "authorised sha256 db i r body \<longleftrightarrow>
     (\<exists>d. dl_get i db = Some d \<and> od_body d = body \<and> od_route_id d = mr_route_id r \<and>
          mr_enabled r \<and> od_route_fingerprint d = mr_fingerprint sha256 r)"

fun pc_ok :: "(string \<Rightarrow> string) \<Rightarrow> delivery_db \<Rightarrow> dispatch_pc \<Rightarrow> bool" where
  "pc_ok sha256 db (DReady c d r) \<longleftrightarrow>
     od_id d = dc_delivery_id c \<and> authorised sha256 db (od_id d) r (od_body d)"
| "pc_ok sha256 db (DSend c d r) \<longleftrightarrow>
     od_id d = dc_delivery_id c \<and> authorised sha256 db (od_id d) r (od_body d) \<and> boundary db (od_id d)"
| "pc_ok sha256 db pc \<longleftrightarrow> True"

fun sending :: "DeliveryId \<Rightarrow> dispatch_pc \<Rightarrow> bool" where
  "sending i (DSend c d r) \<longleftrightarrow> od_id d = i"
| "sending i pc \<longleftrightarrow> False"

text \<open>At most one worker is about to send a delivery, and none if it has been sent.\<close>

definition lone :: "sent_message list \<Rightarrow> (nat \<Rightarrow> dispatch_pc) \<Rightarrow> bool" where
  "lone ms pcs \<longleftrightarrow> (\<forall>w i. sending i (pcs w) \<longrightarrow>
     i \<notin> fst ` set ms \<and> (\<forall>w'. sending i (pcs w') \<longrightarrow> w' = w))"

definition sys_inv :: "(string \<Rightarrow> string) \<Rightarrow> dispatch_system \<Rightarrow> bool" where
  "sys_inv sha256 s \<longleftrightarrow>
     keyed od_id (dv_deliveries (sy_db s)) \<and>
     (\<forall>w. pc_ok sha256 (sy_db s) (sy_pc s w)) \<and>
     (\<forall>(i, r, body) \<in> set (sy_sent s). boundary (sy_db s) i \<and> authorised sha256 (sy_db s) i r body) \<and>
     distinct (map fst (sy_sent s)) \<and> lone (sy_sent s) (sy_pc s)"

lemma evolves_extends: "db_evolves T a b \<Longrightarrow> db_extends a b"
  by (auto simp: db_extends_def dest: db_evolves_get [OF db_evolves_mono [of T _ _ UNIV]])

lemma boundary_extends: "db_extends a b \<Longrightarrow> boundary a i \<Longrightarrow> boundary b i"
  unfolding db_extends_def boundary_def od_evolves_def by fastforce

lemma authorised_extends: "db_extends a b \<Longrightarrow> authorised s a i r m \<Longrightarrow> authorised s b i r m"
  unfolding db_extends_def authorised_def od_evolves_def od_ident_def by fastforce

lemma pc_ok_extends: "db_extends a b \<Longrightarrow> pc_ok s a pc \<Longrightarrow> pc_ok s b pc"
  by (cases pc) (auto intro: boundary_extends authorised_extends)

lemma sent_extends:
  "db_extends a b \<Longrightarrow> \<forall>(i, r, body) \<in> set ms. boundary a i \<and> authorised s a i r body \<Longrightarrow>
   \<forall>(i, r, body) \<in> set ms. boundary b i \<and> authorised s b i r body"
  using boundary_extends authorised_extends by fastforce

lemma keyed_evolves: "db_evolves T a b \<Longrightarrow> keyed od_id (dv_deliveries a) \<Longrightarrow> keyed od_id (dv_deliveries b)"
  by (simp add: keyed_def db_evolves_keys)

text \<open>Crossing the boundary: it was not crossed before, and it is afterwards.\<close>

lemma Begin_boundary:
  assumes b: "BeginDeliveryAttempt c now a db = Inr (t, db')" and k: "keyed od_id (dv_deliveries db)"
  shows "\<not> boundary db (dc_delivery_id c) \<and> boundary db' (dc_delivery_id c)"
proof -
  let ?P = "\<lambda>d. active_claim (dc_delivery_id c) (dc_worker_id c) (dc_claim_token c)
      (dc_claim_generation c) now d \<and> od_dispatch_started_at d = None"
  let ?f = "\<lambda>d. d\<lparr>od_dispatch_started_at := Some now, od_updated_at := now\<rparr>"
  from b have n: "row_count ?P (dv_deliveries db) = 1"
    and t: "dv_deliveries db' = update_rows ?P ?f (dv_deliveries db)"
    by (auto simp: BeginDeliveryAttempt_def dl_mark_dispatch_started_def dl_update_def outcome_simps
        case_prod_unfold dest!: attempts_only(1) split: if_splits)
  have id: "od_id d = dc_delivery_id c" if "?P d" for d using that by (simp add: active_claim_def)
  from row_count_1 [OF k id n] obtain d where
    d: "dl_get (dc_delivery_id c) db = Some d" "?P d" unfolding dl_get_def .
  have "dl_get (dc_delivery_id c) db' = Some (?f d)"
    using d t get_row_update [of ?P od_id ?f] by (simp add: dl_get_def)
  with d show ?thesis by (auto simp: boundary_def)
qed

lemma dispatch_check_ok:
  assumes g: "dl_get (dc_delivery_id c) db = Some d"
  shows "pc_ok s db (dispatch_check s rs c d) \<and> \<not> sending i (dispatch_check s rs c d)"
proof (cases "find (\<lambda>r. mr_route_id r = od_route_id d) rs")
  case None
  then show ?thesis by (simp add: dispatch_check_def)
next
  case (Some r)
  have "od_id d = dc_delivery_id c" using g by (auto simp: dl_get_def dest: get_row_key)
  moreover have "od_route_id d = mr_route_id r" using Some by (auto simp: find_Some_iff)
  ultimately show ?thesis using g Some by (simp add: dispatch_check_def authorised_def)
qed

lemma dispatch_reply_ok: "pc_ok s db (dispatch_reply c r) \<and> \<not> sending i (dispatch_reply c r)"
  by (auto simp: dispatch_reply_def split: option.splits TransportOutcome.splits)

text \<open>A step that hands a message to the transport comes from \<open>DSend\<close>, and only
  \<^verbatim>\<open>BeginDeliveryAttempt\<close> leads there.\<close>

lemma dispatch_next_sent:
  "dispatch_next s cf ev pc db = (pc', db', Some m) \<Longrightarrow>
   \<exists>c d r. pc = DSend c d r \<and> m = (od_id d, r, od_body d) \<and> db' = db \<and> pc' = dispatch_reply c (ev_reply ev)"
  by (cases pc) (auto split: sum.splits prod.splits option.splits app_error.splits)

lemma dispatch_next_sending:
  "dispatch_next s cf ev pc db = (pc', db', m) \<Longrightarrow> sending i pc' \<Longrightarrow>
   \<exists>c d r t. pc = DReady c d r \<and> pc' = DSend c d r \<and> m = None \<and> od_id d = i \<and>
     BeginDeliveryAttempt c (ev_now ev) (ev_attempt_id ev) db = Inr (t, db')"
  by (cases pc) (auto simp: dispatch_check_ok dispatch_reply_ok
      split: sum.splits prod.splits option.splits app_error.splits)

lemma dispatch_next_pc_ok:
  assumes n: "dispatch_next s cf ev pc db = (pc', db', m)" and ok: "pc_ok s db pc"
    and k: "keyed od_id (dv_deliveries db)"
  shows "pc_ok s db' pc'"
proof (cases "\<exists>i. sending i pc'")
  case True
  then obtain i where "sending i pc'" ..
  from dispatch_next_sending [OF n this] obtain c d r t where
    pc: "pc = DReady c d r" "pc' = DSend c d r" and
    b: "BeginDeliveryAttempt c (ev_now ev) (ev_attempt_id ev) db = Inr (t, db')" by blast
  from ok pc Begin_boundary [OF b k] evolves_extends [OF BeginDeliveryAttempt_evolves [OF b, of UNIV]]
  show ?thesis by (auto intro: authorised_extends)
next
  case False
  then have "\<And>c d r. pc' \<noteq> DSend c d r" by auto
  with n show ?thesis
    by (cases pc) (auto simp: dispatch_check_ok dispatch_reply_ok
        split: sum.splits prod.splits option.splits app_error.splits)
qed

lemma lone_keep: "lone ms pcs \<Longrightarrow> (\<And>i. \<not> sending i pc') \<Longrightarrow> lone ms (pcs(w := pc'))"
  unfolding lone_def by simp

lemma lone_begin:
  "lone ms pcs \<Longrightarrow> (\<And>w. \<not> sending i (pcs w)) \<Longrightarrow> i \<notin> fst ` set ms \<Longrightarrow> (\<And>j. sending j pc' \<Longrightarrow> j = i) \<Longrightarrow>
   lone ms (pcs(w := pc'))"
  unfolding lone_def by (metis fun_upd_apply)

lemma lone_send:
  "lone ms pcs \<Longrightarrow> sending i (pcs w) \<Longrightarrow> (\<And>j. \<not> sending j pc') \<Longrightarrow> lone ((i, x) # ms) (pcs(w := pc'))"
  unfolding lone_def by (metis fst_conv fun_upd_apply image_insert insertE list.simps(15))

lemma lone_silent:
  assumes n: "dispatch_next sha cf ev (pcs w) db = (pc', db', None)"
    and k: "keyed od_id (dv_deliveries db)" and pc: "\<And>w. pc_ok sha db (pcs w)"
    and sent: "\<forall>(i, r, body) \<in> set ms. boundary db i \<and> authorised sha db i r body"
    and lone: "lone ms pcs"
  shows "lone ms (pcs(w := pc'))"
proof (cases "\<exists>i. sending i pc'")
  case True
  then obtain i where i: "sending i pc'" ..
  from dispatch_next_sending [OF n i] obtain c d r t where
    p: "pcs w = DReady c d r" "pc' = DSend c d r" "od_id d = i" and
    b: "BeginDeliveryAttempt c (ev_now ev) (ev_attempt_id ev) db = Inr (t, db')" by blast
  have fresh: "\<not> boundary db i" using Begin_boundary [OF b k] pc [of w] p by simp
  show ?thesis
  proof (rule lone_begin [OF lone])
    show "\<not> sending i (pcs x)" for x using fresh pc [of x] by (cases "pcs x") auto
    show "i \<notin> fst ` set ms" using fresh sent by fastforce
    show "sending j pc' \<Longrightarrow> j = i" for j using p by simp
  qed
next
  case False
  then show ?thesis by (intro lone_keep [OF lone]) blast
qed

lemma sys_inv_work:
  assumes inv: "sys_inv sha s"
    and n: "dispatch_next sha cf ev (sy_pc s w) (sy_db s) = (pc', db', m)"
  shows "sys_inv sha (s\<lparr>sy_db := db', sy_pc := (sy_pc s)(w := pc'),
    sy_sent := (case m of None \<Rightarrow> sy_sent s | Some x \<Rightarrow> x # sy_sent s)\<rparr>)"
proof -
  from inv have k: "keyed od_id (dv_deliveries (sy_db s))"
    and pc: "\<And>w. pc_ok sha (sy_db s) (sy_pc s w)"
    and sent: "\<forall>(i, r, body) \<in> set (sy_sent s). boundary (sy_db s) i \<and> authorised sha (sy_db s) i r body"
    and dist: "distinct (map fst (sy_sent s))" and lone: "lone (sy_sent s) (sy_pc s)"
    unfolding sys_inv_def by blast+
  note ev = dispatch_next_evolves [OF n] note ex = evolves_extends [OF ev]
  have k': "keyed od_id (dv_deliveries db')" using keyed_evolves [OF ev k] .
  have pc': "pc_ok sha db' (((sy_pc s)(w := pc')) v)" for v
    using pc_ok_extends [OF ex pc] dispatch_next_pc_ok [OF n pc k] by simp
  note sent' = sent_extends [OF ex sent]
  show ?thesis
  proof (cases m)
    case None
    from lone_silent [OF n [unfolded None] k pc sent lone] k' pc' sent' dist None
    show ?thesis unfolding sys_inv_def by simp
  next
    case (Some x)
    from dispatch_next_sent [OF n [unfolded Some]] obtain c d r where
      p: "sy_pc s w = DSend c d r" "x = (od_id d, r, od_body d)" "db' = sy_db s"
        "pc' = dispatch_reply c (ev_reply ev)" by blast
    have own: "sending (od_id d) (sy_pc s w)" using p by simp
    have "lone (x # sy_sent s) ((sy_pc s)(w := pc'))"
      unfolding p(2) using p by (intro lone_send [OF lone own]) (simp add: dispatch_reply_ok)
    moreover have "od_id d \<notin> fst ` set (sy_sent s)" using lone own unfolding lone_def by blast
    moreover have "boundary (sy_db s) (od_id d) \<and> authorised sha (sy_db s) (od_id d) r (od_body d)"
      using pc [of w] unfolding p(1) pc_ok.simps by blast
    ultimately show ?thesis using k' pc' sent' dist p(2,3) Some unfolding sys_inv_def by simp
  qed
qed

lemma sys_inv_queue:
  assumes inv: "sys_inv sha s" and i: "od_id d \<notin> od_id ` set (dv_deliveries (sy_db s))"
  shows "sys_inv sha (s\<lparr>sy_db := (sy_db s)\<lparr>dv_deliveries := dv_deliveries (sy_db s) @ [d]\<rparr>\<rparr>)"
proof -
  have ex: "db_extends (sy_db s) ((sy_db s)\<lparr>dv_deliveries := dv_deliveries (sy_db s) @ [d]\<rparr>)"
    by (auto simp: db_extends_def dl_get_def get_row_append)
  from inv i show ?thesis
    unfolding sys_inv_def
    by (auto simp: keyed_def dest: pc_ok_extends [OF ex] boundary_extends [OF ex] authorised_extends [OF ex])
qed

lemma od_new_id: "od_new sha i k r tool fire route fp body av cr subj dg = Inr d \<Longrightarrow> od_id d = i"
  by (auto simp: od_new_def od_post_init_def outcome_simps Let_def)

lemma sys_inv_step: "dispatch_step sha s s' \<Longrightarrow> sys_inv sha s \<Longrightarrow> sys_inv sha s'"
proof (induction rule: dispatch_step.induct)
  case (work cf ev s w pc' db' m)
  then show ?case by (simp add: sys_inv_work)
next
  case (restart s w)
  then show ?case unfolding sys_inv_def by (simp add: lone_keep)
next
  case (queue i k r tool fire route fp body av cr subj dg d s)
  then show ?case by (metis od_new_id sys_inv_queue)
qed

lemma sys_inv_reachable:
  assumes "(dispatch_step sha)\<^sup>*\<^sup>* dispatch_init s" shows "sys_inv sha s"
  using assms
proof (induction rule: rtranclp_induct)
  case base
  show ?case by (simp add: sys_inv_def dispatch_init_def keyed_def lone_def)
qed (rule sys_inv_step)

end
