(* ===== verification/Claim_Fence.thy ===== *)
theory Claim_Fence
  imports Main
begin

text \<open>
  The fencing contract shared by the run work queue and the delivery claims. A claim is
  identified by its key, worker, token and generation. Every transaction draws its claim
  tokens fresh; the one law is that a transaction can make a claim the owner only with a
  token it drew itself. Providers interpret the locale on their own transactions.
\<close>

inductive fence_path :: "('t set \<Rightarrow> 's \<Rightarrow> 's \<Rightarrow> bool) \<Rightarrow> 't set \<Rightarrow> 's \<Rightarrow> 's \<Rightarrow> bool"
  for move :: "'t set \<Rightarrow> 's \<Rightarrow> 's \<Rightarrow> bool" where
  stay: "fence_path move {} s s"
| move: "fence_path move T s s' \<Longrightarrow> move U s' s'' \<Longrightarrow> fence_path move (T \<union> U) s s''"

locale claim_fence =
  fixes move :: "'t set \<Rightarrow> 's \<Rightarrow> 's \<Rightarrow> bool"
    and owns :: "'s \<Rightarrow> 'c \<Rightarrow> bool"
    and token :: "'c \<Rightarrow> 't"
    and key :: "'c \<Rightarrow> 'k"
    and good :: "'s \<Rightarrow> bool"
  assumes move_good: "good s \<Longrightarrow> move T s s' \<Longrightarrow> good s'"
    and move_owns: "good s \<Longrightarrow> move T s s' \<Longrightarrow> owns s' c \<Longrightarrow> owns s c \<or> token c \<in> T"
    and owner_unique: "owns s c \<Longrightarrow> owns s c' \<Longrightarrow> key c = key c' \<Longrightarrow> token c = token c'"
begin

lemma path_good: "fence_path move T s s' \<Longrightarrow> good s \<Longrightarrow> good s'"
  by (induction rule: fence_path.induct) (auto intro: move_good)

lemma lost_forever:
  "fence_path move T s s' \<Longrightarrow> good s \<Longrightarrow> \<not> owns s c \<Longrightarrow> token c \<notin> T \<Longrightarrow> \<not> owns s' c"
proof (induction rule: fence_path.induct)
  case (move T s s' U s'')
  then show ?case using move_owns [of s' U s'' c] path_good by blast
qed simp

lemma displaced_forever:
  assumes "fence_path move T s s'" and "good s" and "owns s c'" and "key c = key c'"
    and "token c \<noteq> token c'" and "token c \<notin> T"
  shows "\<not> owns s' c"
  using lost_forever [OF assms(1,2) _ assms(6)] owner_unique [OF _ assms(3,4)] assms(5) by blast

end

end
