(* ===== verification/Delivery_Fencing.thy ===== *)
theory Delivery_Fencing
  imports Delivery_Safety Claim_Fence
begin

text \<open>
  The fencing contract for delivery claims, interpreted on the transactions of
  \<^verbatim>\<open>src/src/friday/application/delivery_lifecycle.py\<close>: a worker whose claim was displaced can neither
  cross the dispatch boundary nor persist an outcome, whatever happens afterwards.
\<close>

inductive delivery_move :: "string set \<Rightarrow> delivery_db \<Rightarrow> delivery_db \<Rightarrow> bool" where
  claim: "ClaimNextDelivery p w l n now ts db = Inr (c, db') \<Longrightarrow> delivery_move (set ts) db db'"
| dispatch: "BeginDeliveryAttempt c now a db = Inr (t, db') \<Longrightarrow> delivery_move {} db db'"
| persist: "PersistDeliveryOutcome call c now db = Inr (u, db') \<Longrightarrow> delivery_move {} db db'"
| queue: "od_new sha256 i k r tool fire route fp body av cr subj dg = Inr d \<Longrightarrow>
    i \<notin> od_id ` set (dv_deliveries db) \<Longrightarrow>
    delivery_move {} db (db\<lparr>dv_deliveries := dv_deliveries db @ [d]\<rparr>)"

definition dl_owns :: "delivery_db \<Rightarrow> DeliveryClaim \<Rightarrow> bool" where
  "dl_owns db c \<longleftrightarrow> (\<exists>d. dl_get (dc_delivery_id c) db = Some d \<and>
     row_owned (dc_worker_id c) (dc_claim_token c) (dc_claim_generation c) d)"

lemma db_evolves_back:
  "db_evolves T a b \<Longrightarrow> dl_get i b = Some d' \<Longrightarrow> \<exists>d. dl_get i a = Some d \<and> od_evolves T d d'"
  unfolding dl_get_def
proof (induction rule: list_all2_induct)
  case (Cons x xs y ys)
  then have "od_id y = od_id x" by (simp add: od_evolves_def od_ident_def)
  with Cons show ?case by (auto simp: get_row_Cons split: if_splits)
qed simp

lemma od_new_unclaimed:
  "od_new sha i k r tool fire route fp body av cr subj dg = Inr d \<Longrightarrow> od_status d = DeliveryStatus.QUEUED"
  by (auto simp: od_new_def od_post_init_def outcome_simps Let_def)

lemma delivery_move_evolves:
  "delivery_move T a b \<Longrightarrow> db_evolves T a b \<or>
   (\<exists>d. b = a\<lparr>dv_deliveries := dv_deliveries a @ [d]\<rparr> \<and> od_status d = DeliveryStatus.QUEUED \<and>
        od_id d \<notin> od_id ` set (dv_deliveries a))"
  by (induction rule: delivery_move.induct)
     (blast intro: ClaimNextDelivery_evolves BeginDeliveryAttempt_evolves PersistDeliveryOutcome_evolves
        dest: od_new_unclaimed od_new_id)+

lemma delivery_move_keyed:
  "keyed od_id (dv_deliveries a) \<Longrightarrow> delivery_move T a b \<Longrightarrow> keyed od_id (dv_deliveries b)"
  using keyed_evolves by (auto dest!: delivery_move_evolves simp: keyed_def)

lemma delivery_move_owns:
  assumes "delivery_move T a b" and "dl_owns b c"
  shows "dl_owns a c \<or> dc_claim_token c \<in> T"
  using delivery_move_evolves [OF assms(1)]
proof
  assume "db_evolves T a b"
  with assms(2) show ?thesis
    unfolding dl_owns_def od_evolves_def by (blast dest: db_evolves_back [unfolded od_evolves_def])
next
  assume "\<exists>d. b = a\<lparr>dv_deliveries := dv_deliveries a @ [d]\<rparr> \<and> od_status d = DeliveryStatus.QUEUED \<and>
        od_id d \<notin> od_id ` set (dv_deliveries a)"
  with assms(2) show ?thesis
    by (auto simp: dl_owns_def dl_get_def get_row_append get_row_Cons row_owned_def
        split: option.splits if_splits)
qed

interpretation delivery_fence: claim_fence delivery_move dl_owns dc_claim_token dc_delivery_id
  "\<lambda>db. keyed od_id (dv_deliveries db)"
  by unfold_locales
     (erule (1) delivery_move_keyed, erule (1) delivery_move_owns, auto simp: dl_owns_def row_owned_def)

lemma not_owner_fenced:
  assumes "keyed od_id (dv_deliveries db)" and "\<not> dl_owns db c"
  shows "BeginDeliveryAttempt c now a db = Inl (ClaimLost ''dispatch boundary lost claim'')"
    and "PersistDeliveryOutcome call c now db = Inl (ClaimLost ''outcome lost claim'')"
proof -
  let ?P = "\<lambda>d. active_claim (dc_delivery_id c) (dc_worker_id c) (dc_claim_token c)
      (dc_claim_generation c) now d \<and> od_dispatch_started_at d = None"
  have id: "od_id d = dc_delivery_id c" if "?P d" for d using that by (simp add: active_claim_def)
  have "row_count ?P (dv_deliveries db) \<noteq> 1"
  proof
    assume "row_count ?P (dv_deliveries db) = 1"
    from row_count_1 [OF assms(1) id this] obtain d where
      "get_row od_id (dc_delivery_id c) (dv_deliveries db) = Some d" "?P d" .
    with assms(2) show False by (auto simp: dl_owns_def dl_get_def active_claim_def row_owned_def)
  qed
  then show "BeginDeliveryAttempt c now a db = Inl (ClaimLost ''dispatch boundary lost claim'')"
    by (simp add: BeginDeliveryAttempt_def dl_mark_dispatch_started_def dl_update_def)
  show "PersistDeliveryOutcome call c now db = Inl (ClaimLost ''outcome lost claim'')"
    using assms(2)
    by (cases "dl_get (dc_delivery_id c) db")
       (auto simp: PersistDeliveryOutcome_def persist_apply_def dl_owns_def row_owned_def guard_def)
qed

end
