(* ===== verification/Delivery_Ledger.thy ===== *)
theory Delivery_Ledger
  imports Delivery_Safety
begin

text \<open>
  The delivery table and its audit ledger stay consistent: a delivery that is being sent
  and has crossed the dispatch boundary has exactly one open attempt for its generation.
  From this, recovering expired leases (\<^verbatim>\<open>RecoverExpiredDeliveryClaims\<close>) never finds an
  inconsistent ledger, and settles every expired claim.
\<close>

definition attempt_key :: "DeliveryAttempt \<Rightarrow> DeliveryId \<times> int" where
  "attempt_key a = (da_delivery_id a, da_claim_generation a)"

definition in_flight :: "OutboundDelivery \<Rightarrow> bool" where
  "in_flight d \<longleftrightarrow> od_status d = DeliveryStatus.SENDING \<and> od_dispatch_started_at d \<noteq> None"

definition covers :: "OutboundDelivery \<Rightarrow> DeliveryAttempt \<Rightarrow> bool" where
  "covers d a \<longleftrightarrow>
     open_attempt (od_id d) (od_claim_generation d) a \<and>
     pred_option (\<lambda>x. da_started_at a < x) (od_claim_expires_at d)"

definition ledger_ok :: "delivery_db \<Rightarrow> bool" where
  "ledger_ok db \<longleftrightarrow>
     keyed od_id (dv_deliveries db) \<and> (\<forall>d \<in> set (dv_deliveries db). od_shape d) \<and>
     distinct (map attempt_key (dv_attempts db)) \<and>
     (\<forall>a \<in> set (dv_attempts db). da_inv a \<and> boundary db (da_delivery_id a)) \<and>
     (\<forall>d \<in> set (dv_deliveries db). in_flight d \<longrightarrow> (\<exists>a \<in> set (dv_attempts db). covers d a))"

section \<open>Updating deliveries\<close>

lemma set_update_rows: "set (update_rows P f t) = {r \<in> set t. \<not> P r} \<union> f ` {r \<in> set t. P r}"
  by (auto simp: update_rows_def)

lemma ledger_update:
  assumes ok: "ledger_ok db"
    and f: "\<And>d. od_shape d \<Longrightarrow> P d \<Longrightarrow> od_evolves UNIV d (f d) \<and> od_shape (f d) \<and> \<not> in_flight (f d)"
  shows "ledger_ok (db\<lparr>dv_deliveries := update_rows P f (dv_deliveries db)\<rparr>)" (is "ledger_ok ?db")
proof -
  from ok have shape: "\<And>d. d \<in> set (dv_deliveries db) \<Longrightarrow> od_shape d" by (simp add: ledger_ok_def)
  have ev: "db_evolves UNIV db ?db"
    using f shape by (auto simp: update_rows_def list_all2_map2 list_all2_same)
  have "boundary ?db i" if "boundary db i" for i
    using boundary_extends [OF evolves_extends [OF ev] that] .
  with ok keyed_evolves [OF ev] f show ?thesis
    by (auto simp: ledger_ok_def set_update_rows)
qed

lemma get_update_other:
  assumes "\<And>d. P d \<Longrightarrow> od_id d = j" and "\<And>d. P d \<Longrightarrow> od_id (f d) = od_id d" and "i \<noteq> j"
  shows "get_row od_id i (update_rows P f t) = get_row od_id i t"
  using get_row_update [of P od_id f i t, OF assms(2)] assms(1,3)
  by (cases "get_row od_id i t") (auto dest: get_row_key)

section \<open>Recovering one claim\<close>

text \<open>An expired claim on a row as the query returned it.\<close>

definition expired_row :: "instant \<Rightarrow> delivery_db \<Rightarrow> OutboundDelivery \<Rightarrow> bool" where
  "expired_row now db d \<longleftrightarrow>
     dl_get (od_id d) db = Some d \<and> od_status d = DeliveryStatus.SENDING \<and> expires_by now d"

definition settles :: "delivery_db \<Rightarrow> OutboundDelivery \<Rightarrow> delivery_db \<Rightarrow> bool" where
  "settles db d db' \<longleftrightarrow>
     ledger_ok db' \<and> (\<forall>i. i \<noteq> od_id d \<longrightarrow> dl_get i db' = dl_get i db) \<and>
     (\<exists>d'. dl_get (od_id d) db' = Some d' \<and>
        od_status d' \<in> (if od_dispatch_started_at d = None
          then {DeliveryStatus.QUEUED, DeliveryStatus.FAILED} else {DeliveryStatus.AMBIGUOUS}))"

lemma expired_update:
  assumes ok: "ledger_ok db" and row: "expired_row now db d" and q: "q d"
    and P: "P = (\<lambda>x. expired_claim (od_id d) (od_claim_generation d) now x \<and> q x)"
    and f: "\<And>x. od_id (f x) = od_id x"
  shows "row_count P (dv_deliveries db) = 1"
    and "get_row od_id (od_id d) (update_rows P f (dv_deliveries db)) = Some (f d)"
    and "i \<noteq> od_id d \<Longrightarrow> get_row od_id i (update_rows P f (dv_deliveries db)) = get_row od_id i (dv_deliveries db)"
proof -
  from row have g: "get_row od_id (od_id d) (dv_deliveries db) = Some d" and p: "P d"
    using q by (auto simp: expired_row_def P expired_claim_def dl_get_def)
  have id: "od_id x = od_id d" if "P x" for x using that by (simp add: P expired_claim_def)
  from ok have k: "keyed od_id (dv_deliveries db)" by (simp add: ledger_ok_def)
  have "row_count P (dv_deliveries db) =
      (case get_row od_id (od_id d) (dv_deliveries db) of None \<Rightarrow> 0 | Some r \<Rightarrow> if P r then 1 else 0)"
    by (rule keyed_row_count [OF k id])
  with g p show "row_count P (dv_deliveries db) = 1" by simp
  show "get_row od_id (od_id d) (update_rows P f (dv_deliveries db)) = Some (f d)"
    using get_row_update [of P od_id f "od_id d"] f g p by simp
  show "get_row od_id i (update_rows P f (dv_deliveries db)) = get_row od_id i (dv_deliveries db)"
    if "i \<noteq> od_id d" using get_update_other [OF id f that] .
qed

lemma requeue_settles:
  assumes ok: "ledger_ok db" and row: "expired_row now db d" and n: "od_dispatch_started_at d = None"
  shows "\<exists>db'. dl_requeue_expired_pre_dispatch (od_id d) (od_claim_generation d) now av db = (True, db')
    \<and> settles db d db'"
proof -
  let ?P = "\<lambda>x. expired_claim (od_id d) (od_claim_generation d) now x \<and> od_dispatch_started_at x = None"
  let ?f = "\<lambda>x. x\<lparr>od_status := DeliveryStatus.QUEUED, od_available_at := av, od_claim_owner := None,
     od_claim_token := None, od_claim_expires_at := None, od_updated_at := now\<rparr>"
  note u = expired_update [OF ok row, of "\<lambda>x. od_dispatch_started_at x = None", OF n refl, of ?f]
  have "ledger_ok (db\<lparr>dv_deliveries := update_rows ?P ?f (dv_deliveries db)\<rparr>)"
    by (rule ledger_update [OF ok])
       (auto simp: row_defs od_shape_def in_flight_def)
  with u n show ?thesis
    by (simp add: dl_requeue_expired_pre_dispatch_def dl_update_def settles_def dl_get_def)
qed

lemma fail_settles:
  assumes ok: "ledger_ok db" and row: "expired_row now db d" and n: "od_dispatch_started_at d = None"
  shows "\<exists>db'. dl_fail_expired_pre_dispatch (od_id d) (od_claim_generation d) now c m db = (True, db')
    \<and> settles db d db'"
proof -
  let ?P = "\<lambda>x. expired_claim (od_id d) (od_claim_generation d) now x \<and> od_dispatch_started_at x = None"
  let ?f = "\<lambda>x. x\<lparr>od_status := DeliveryStatus.FAILED, od_claim_owner := None, od_claim_token := None,
     od_claim_expires_at := None, od_failure_code := Some c, od_failure_message := Some m,
     od_updated_at := now\<rparr>"
  note u = expired_update [OF ok row, of "\<lambda>x. od_dispatch_started_at x = None", OF n refl, of ?f]
  have "ledger_ok (db\<lparr>dv_deliveries := update_rows ?P ?f (dv_deliveries db)\<rparr>)"
    by (rule ledger_update [OF ok])
       (auto simp: row_defs od_shape_def in_flight_def)
  with u n show ?thesis
    by (simp add: dl_fail_expired_pre_dispatch_def dl_update_def settles_def dl_get_def)
qed

text \<open>After the boundary: the open attempt is closed and the delivery is parked.\<close>

lemma lease_code_ok:
  "failure_code_match LEASE_EXPIRED_AFTER_DISPATCH \<and> length LEASE_EXPIRED_AFTER_DISPATCH \<le> 128"
  by (simp add: failure_code_match_def LEASE_EXPIRED_AFTER_DISPATCH_def)

lemma expired_cover:
  assumes ok: "ledger_ok db" and row: "expired_row now db d" and n: "od_dispatch_started_at d \<noteq> None"
  obtains a where "a \<in> set (dv_attempts db)" and "open_attempt (od_id d) (od_claim_generation d) a"
    and "da_started_at a \<le> now"
    and "\<And>b. b \<in> set (dv_attempts db) \<Longrightarrow> open_attempt (od_id d) (od_claim_generation d) b \<Longrightarrow> b = a"
proof -
  from row n have "d \<in> set (dv_deliveries db)" and fl: "in_flight d"
    by (auto simp: expired_row_def dl_get_def in_flight_def dest: get_row_in)
  with ok obtain a where a: "a \<in> set (dv_attempts db)" "covers d a" by (auto simp: ledger_ok_def)
  from ok have "inj_on attempt_key (set (dv_attempts db))" by (simp add: ledger_ok_def distinct_map)
  then have u: "b = a" if "b \<in> set (dv_attempts db)" "open_attempt (od_id d) (od_claim_generation d) b" for b
    using that a by (simp add: inj_on_def covers_def open_attempt_def attempt_key_def)
  have "da_started_at a \<le> now"
    using a row by (cases "od_claim_expires_at d") (auto simp: covers_def expired_row_def expires_by_def)
  with a show thesis by (intro that [OF _ _ _ u]) (simp_all add: covers_def)
qed

lemma close_expired_ok:
  assumes ok: "ledger_ok db" and row: "expired_row now db d" and n: "od_dispatch_started_at d \<noteq> None"
  defines "Q \<equiv> open_attempt (od_id d) (od_claim_generation d)"
    and "h \<equiv> \<lambda>a. a\<lparr>da_outcome := DeliveryAttemptOutcome.AMBIGUOUS, da_finished_at := Some now,
            da_failure_code := Some LEASE_EXPIRED_AFTER_DISPATCH\<rparr>"
  shows "da_close_expired_as_ambiguous (od_id d) (od_claim_generation d) now LEASE_EXPIRED_AFTER_DISPATCH db
    = Inr (True, db\<lparr>dv_attempts := update_rows Q h (dv_attempts db)\<rparr>)"
proof -
  from expired_cover [OF ok row n] obtain a where a: "a \<in> set (dv_attempts db)" "Q a"
    and st: "da_started_at a \<le> now" and u: "\<And>b. b \<in> set (dv_attempts db) \<Longrightarrow> Q b \<Longrightarrow> b = a"
    unfolding Q_def by blast
  obtain b where b: "find Q (dv_attempts db) = Some b" using a by (metis find_None_iff not_Some_eq)
  then have "b = a" using u by (metis find_Some_iff nth_mem)
  with b st have v: "da_validated_terminal_write (od_id d) (od_claim_generation d) now
      DeliveryAttemptOutcome.AMBIGUOUS (Some LEASE_EXPIRED_AFTER_DISPATCH) db
      = Inr (Some LEASE_EXPIRED_AFTER_DISPATCH)"
    unfolding da_validated_terminal_write_def Q_def [symmetric]
    by (simp add: outcome_simps attempt_shape_Inr_iff lease_code_ok)
  from ok have "distinct (dv_attempts db)" by (auto simp: ledger_ok_def distinct_map)
  then have one: "row_count Q (dv_attempts db) = 1"
    by (rule row_count_unique [of _ a Q]) (use a u in blast)+
  have "row_count (\<lambda>x. expired_claim (od_id d) (od_claim_generation d) now x \<and>
      od_dispatch_started_at x \<noteq> None) (dv_deliveries db) = 1"
    using expired_update(1) [OF ok row, of "\<lambda>x. od_dispatch_started_at x \<noteq> None" _ "\<lambda>x. x"] n by simp
  with v one show ?thesis
    by (simp add: da_close_expired_as_ambiguous_def da_close_def Q_def h_def)
qed

lemma closed_attempt_inv:
  "da_inv a \<Longrightarrow> da_started_at a \<le> now \<Longrightarrow>
   da_inv (a\<lparr>da_outcome := DeliveryAttemptOutcome.AMBIGUOUS, da_finished_at := Some now,
             da_failure_code := Some LEASE_EXPIRED_AFTER_DISPATCH\<rparr>)"
  by (simp add: da_inv_def lease_code_ok)

text \<open>Closing the attempt of a row while the row leaves the in-flight state.\<close>

lemma close_ledger:
  assumes ok: "ledger_ok db" and g: "dl_get (od_id d) db = Some d" and Pd: "P d"
    and Pid: "\<And>x. P x \<Longrightarrow> od_id x = od_id d"
    and f: "\<And>x. od_shape x \<Longrightarrow> P x \<Longrightarrow> od_evolves UNIV x (f x) \<and> od_shape (f x) \<and> \<not> in_flight (f x)"
    and Q: "Q = open_attempt (od_id d) (od_claim_generation d)"
    and h: "\<And>a. a \<in> set (dv_attempts db) \<Longrightarrow> Q a \<Longrightarrow> da_inv a \<Longrightarrow> da_inv (h a)"
    and hk: "\<And>a. attempt_key (h a) = attempt_key a"
  shows "ledger_ok (db\<lparr>dv_attempts := update_rows Q h (dv_attempts db),
    dv_deliveries := update_rows P f (dv_deliveries db)\<rparr>)"
proof -
  let ?db = "db\<lparr>dv_deliveries := update_rows P f (dv_deliveries db)\<rparr>"
  have base: "ledger_ok ?db" by (rule ledger_update [OF ok f])
  have k: "map attempt_key (update_rows Q h (dv_attempts db)) = map attempt_key (dv_attempts db)"
    by (auto simp: update_rows_def hk)
  have inv: "da_inv x \<and> boundary ?db (da_delivery_id x)" if "x \<in> set (update_rows Q h (dv_attempts db))" for x
  proof -
    from that obtain b where b: "b \<in> set (dv_attempts db)" "x = (if Q b then h b else b)"
      by (auto simp: update_rows_def)
    with base have "da_inv b" "boundary ?db (da_delivery_id b)" by (auto simp: ledger_ok_def)
    with b h [OF b(1)] hk [of b] show ?thesis by (auto simp: attempt_key_def)
  qed
  have cover: "\<exists>b \<in> set (update_rows Q h (dv_attempts db)). covers x b"
    if x: "x \<in> set (dv_deliveries ?db)" "in_flight x" for x
  proof -
    from base x obtain b where b: "b \<in> set (dv_attempts db)" "covers x b" by (auto simp: ledger_ok_def)
    have "\<not> Q b"
    proof
      assume "Q b"
      with b have xd: "od_id x = od_id d" by (auto simp: Q covers_def open_attempt_def)
      have kd: "keyed od_id (dv_deliveries db)" using ok by (simp add: ledger_ok_def)
      from x(1) obtain y where y: "y \<in> set (dv_deliveries db)" "x = (if P y then f y else y)"
        by (auto simp: update_rows_def)
      moreover have "od_shape y" using ok y by (simp add: ledger_ok_def)
      ultimately have "\<not> P y" using f [of y] x(2) by auto
      with y xd keyed_get [OF kd y(1)] g Pd show False by (auto simp: dl_get_def)
    qed
    with b show ?thesis by (auto simp: update_rows_def intro!: bexI [of _ b] image_eqI [of _ _ b])
  qed
  from base k inv cover show ?thesis by (auto simp: ledger_ok_def boundary_def dl_get_def)
qed

lemma park_ledger:
  assumes ok: "ledger_ok db" and row: "expired_row now db d" and n: "od_dispatch_started_at d \<noteq> None"
  shows "ledger_ok (db\<lparr>dv_attempts := update_rows (open_attempt (od_id d) (od_claim_generation d))
      (\<lambda>a. a\<lparr>da_outcome := DeliveryAttemptOutcome.AMBIGUOUS, da_finished_at := Some now,
            da_failure_code := Some LEASE_EXPIRED_AFTER_DISPATCH\<rparr>) (dv_attempts db),
    dv_deliveries := update_rows (\<lambda>x. expired_claim (od_id d) (od_claim_generation d) now x \<and>
        od_dispatch_started_at x \<noteq> None)
      (\<lambda>x. x\<lparr>od_status := DeliveryStatus.AMBIGUOUS, od_claim_owner := None, od_claim_token := None,
            od_claim_expires_at := None, od_failure_code := Some LEASE_EXPIRED_AFTER_DISPATCH,
            od_failure_message := Some POST_DISPATCH_AMBIGUOUS_MESSAGE, od_updated_at := now\<rparr>)
      (dv_deliveries db)\<rparr>)"
proof -
  from expired_cover [OF ok row n] obtain a where st: "da_started_at a \<le> now"
    and u: "\<And>b. b \<in> set (dv_attempts db) \<Longrightarrow> open_attempt (od_id d) (od_claim_generation d) b \<Longrightarrow> b = a"
    by blast
  from row n show ?thesis
  proof (intro close_ledger [OF ok _ _ _ _ refl])
    show "da_inv (b\<lparr>da_outcome := DeliveryAttemptOutcome.AMBIGUOUS, da_finished_at := Some now,
        da_failure_code := Some LEASE_EXPIRED_AFTER_DISPATCH\<rparr>)"
      if "b \<in> set (dv_attempts db)" "open_attempt (od_id d) (od_claim_generation d) b" "da_inv b" for b
      using closed_attempt_inv [OF that(3)] u [OF that(1,2)] st by simp
  qed (auto simp: expired_row_def row_defs od_shape_def in_flight_def attempt_key_def)
qed

section \<open>Recovering all expired claims\<close>

text \<open>The one way recovery can raise: the backoff of a retry overflows.\<close>

definition retry_overflow :: "RetryPolicy \<Rightarrow> OutboundDelivery \<Rightarrow> domain_error \<Rightarrow> bool" where
  "retry_overflow p d e \<longleftrightarrow>
     od_dispatch_started_at d = None \<and> od_attempt_count d < rp_max_attempts p \<and>
     compute_delay p (od_attempt_count d + 1) = Inl e"

lemma recover_one_cases:
  assumes ok: "ledger_ok db" and row: "expired_row now db d"
  shows "(\<exists>e. retry_overflow p d e \<and> dl_recover_one p d now db = Inl (DomainFailure e)) \<or>
    (\<exists>db'. dl_recover_one p d now db = Inr (True, db') \<and> settles db d db')"
proof (cases "od_dispatch_started_at d = None")
  case True
  show ?thesis
  proof (cases "od_attempt_count d < rp_max_attempts p")
    case retry: True
    with True requeue_settles [OF ok row True] show ?thesis
      by (cases "compute_delay p (od_attempt_count d + 1)") (simp_all add: dl_recover_one_def retry_overflow_def)
  next
    case False
    with True fail_settles [OF ok row True] show ?thesis by (simp add: dl_recover_one_def)
  qed
next
  case False
  let ?f = "\<lambda>x. x\<lparr>od_status := DeliveryStatus.AMBIGUOUS, od_claim_owner := None, od_claim_token := None,
      od_claim_expires_at := None, od_failure_code := Some LEASE_EXPIRED_AFTER_DISPATCH,
      od_failure_message := Some POST_DISPATCH_AMBIGUOUS_MESSAGE, od_updated_at := now\<rparr>"
  note u = expired_update [OF ok row, of "\<lambda>x. od_dispatch_started_at x \<noteq> None", OF False refl, of ?f]
  from False close_expired_ok [OF ok row False] u park_ledger [OF ok row False]
  show ?thesis
    by (simp add: dl_recover_one_def dl_mark_expired_post_dispatch_ambiguous_def dl_update_def
        settles_def dl_get_def)
qed

definition settled_status :: "OutboundDelivery \<Rightarrow> DeliveryStatus set" where
  "settled_status d = (if od_dispatch_started_at d = None
     then {DeliveryStatus.QUEUED, DeliveryStatus.FAILED} else {DeliveryStatus.AMBIGUOUS})"

lemma recover_all_cases:
  assumes "ledger_ok db" and "distinct (map od_id ds)" and "\<forall>d \<in> set ds. expired_row now db d"
  shows "(\<exists>d \<in> set ds. \<exists>e. retry_overflow p d e \<and> dl_recover_all p now ds n db = Inl (DomainFailure e)) \<or>
    (\<exists>db'. dl_recover_all p now ds n db = Inr (n + length ds, db') \<and> ledger_ok db' \<and>
      (\<forall>d \<in> set ds. \<exists>d'. dl_get (od_id d) db' = Some d' \<and> od_status d' \<in> settled_status d) \<and>
      (\<forall>i. i \<notin> od_id ` set ds \<longrightarrow> dl_get i db' = dl_get i db))"
  using assms
proof (induction ds arbitrary: db n)
  case (Cons d ds)
  from Cons.prems have row: "expired_row now db d" by simp
  from recover_one_cases [OF Cons.prems(1) row, of p] show ?case
  proof
    assume "\<exists>e. retry_overflow p d e \<and> dl_recover_one p d now db = Inl (DomainFailure e)"
    then show ?thesis by auto
  next
    assume "\<exists>db'. dl_recover_one p d now db = Inr (True, db') \<and> settles db d db'"
    then obtain db1 where r: "dl_recover_one p d now db = Inr (True, db1)" and s: "settles db d db1" by blast
    have "expired_row now db1 x" if "x \<in> set ds" for x
    proof -
      from that have "od_id x \<in> od_id ` set ds" by simp
      with Cons.prems(2) have "od_id x \<noteq> od_id d" by auto
      with s have "dl_get (od_id x) db1 = dl_get (od_id x) db" by (simp add: settles_def)
      with Cons.prems(3) that show ?thesis by (simp add: expired_row_def)
    qed
    moreover have "\<exists>d'. dl_get (od_id d) db1 = Some d' \<and> od_status d' \<in> settled_status d"
      using s by (simp add: settles_def settled_status_def)
    ultimately show ?thesis
      using Cons.IH [of db1 "n + 1"] Cons.prems s r by (auto simp: settles_def)
  qed
qed simp

lemma find_expired_rows:
  assumes "ledger_ok db"
  shows "distinct (map od_id (dl_find_expired_claims now n db))"
    and "\<forall>d \<in> set (dl_find_expired_claims now n db). expired_row now db d"
proof -
  from assms have k: "keyed od_id (dv_deliveries db)" by (simp add: ledger_ok_def)
  let ?xs = "sort_key (\<lambda>d. (or_else (od_claim_expires_at d) 0, od_id d))
      (filter (\<lambda>d. od_status d = DeliveryStatus.SENDING \<and> expires_by now d) (dv_deliveries db))"
  have "distinct (map od_id ?xs)" using k by (simp add: keyed_def distinct_map inj_on_def)
  then show "distinct (map od_id (dl_find_expired_claims now n db))"
    by (simp add: dl_find_expired_claims_def distinct_map inj_on_subset set_take_subset
        flip: take_map)
  show "\<forall>d \<in> set (dl_find_expired_claims now n db). expired_row now db d"
    using keyed_get [OF k] by (auto simp: dl_find_expired_claims_def expired_row_def dl_get_def
        dest!: in_set_takeD)
qed

section \<open>Every transaction keeps the ledger consistent\<close>

lemma ledger_recover:
  assumes ok: "ledger_ok db" and r: "RecoverExpiredDeliveryClaims p n now db = Inr (m, db')"
  shows "ledger_ok db'"
  using recover_all_cases [OF ok find_expired_rows [OF ok, of now n], of p 0] r
  by (auto simp: RecoverExpiredDeliveryClaims_def)

lemma ledger_try_claim: "ledger_ok db \<Longrightarrow> ledger_ok (snd (dl_try_claim i w t now l db))"
proof -
  let ?P = "\<lambda>d. od_id d = i \<and> od_status d = DeliveryStatus.QUEUED \<and> od_available_at d \<le> now"
  let ?f = "\<lambda>d. d\<lparr>od_status := DeliveryStatus.SENDING, od_claim_owner := Some w, od_claim_token := Some t,
      od_claim_generation := od_claim_generation d + 1, od_claim_expires_at := Some l,
      od_attempt_count := od_attempt_count d + 1, od_updated_at := now\<rparr>"
  assume "ledger_ok db"
  then have "ledger_ok (db\<lparr>dv_deliveries := update_rows ?P ?f (dv_deliveries db)\<rparr>)"
    by (rule ledger_update) (auto simp: row_defs od_shape_def in_flight_def)
  then show ?thesis by (simp add: dl_try_claim_def Let_def split: list.splits)
qed

lemma ledger_claim_first: "ledger_ok db \<Longrightarrow> dl_claim_first w now l ts ds db = (c, db') \<Longrightarrow> ledger_ok db'"
proof (induction w now l ts ds db rule: dl_claim_first.induct)
  case (1 worker now l token tokens candidate rest db)
  obtain g db1 where t: "dl_try_claim (od_id candidate) worker token now l db = (g, db1)" by fastforce
  from ledger_try_claim [OF 1(2), of "od_id candidate" worker token now l] t have e: "ledger_ok db1" by simp
  show ?case
  proof (cases g)
    case None
    with 1 t e show ?thesis by simp
  next
    case (Some n)
    with 1 t e show ?thesis by simp
  qed
qed auto

lemma ledger_claim: "ledger_ok db \<Longrightarrow> ClaimNextDelivery p w l n now ts db = Inr (c, db') \<Longrightarrow> ledger_ok db'"
  by (auto simp: ClaimNextDelivery_def outcome_simps dest: ledger_recover ledger_claim_first)

lemma begin_elim:
  assumes "BeginDeliveryAttempt c now a db = Inr (t, db')" and k: "keyed od_id (dv_deliveries db)"
  defines "P \<equiv> \<lambda>d. active_claim (dc_delivery_id c) (dc_worker_id c) (dc_claim_token c)
      (dc_claim_generation c) now d \<and> od_dispatch_started_at d = None"
    and "f \<equiv> \<lambda>d. d\<lparr>od_dispatch_started_at := Some now, od_updated_at := now\<rparr>"
  obtains d where "dl_get (dc_delivery_id c) db = Some d" and "P d"
    and "(dc_delivery_id c, dc_claim_generation c) \<notin> attempt_key ` set (dv_attempts db)"
    and "db' = db\<lparr>dv_deliveries := update_rows P f (dv_deliveries db), dv_attempts := dv_attempts db @
      [\<lparr>da_id = a, da_delivery_id = dc_delivery_id c, da_claim_generation = dc_claim_generation c,
        da_started_at = now, da_finished_at = None,
        da_outcome = DeliveryAttemptOutcome.IN_PROGRESS, da_failure_code = None\<rparr>]\<rparr>"
proof -
  have id: "od_id d = dc_delivery_id c" if "P d" for d using that by (simp add: P_def active_claim_def)
  from assms(1) have n: "row_count P (dv_deliveries db) = 1"
    and u: "\<forall>x \<in> set (dv_attempts db). da_delivery_id x = dc_delivery_id c \<longrightarrow>
        da_claim_generation x \<noteq> dc_claim_generation c"
    and db': "db' = db\<lparr>dv_deliveries := update_rows P f (dv_deliveries db), dv_attempts := dv_attempts db @
      [\<lparr>da_id = a, da_delivery_id = dc_delivery_id c, da_claim_generation = dc_claim_generation c,
        da_started_at = now, da_finished_at = None,
        da_outcome = DeliveryAttemptOutcome.IN_PROGRESS, da_failure_code = None\<rparr>]\<rparr>"
    unfolding P_def f_def
    by (auto simp: BeginDeliveryAttempt_def dl_mark_dispatch_started_def dl_update_def outcome_simps
        da_begin_for_claim_def Let_def list_ex_iff split: if_splits)
  from u have fresh: "(dc_delivery_id c, dc_claim_generation c) \<notin> attempt_key ` set (dv_attempts db)"
    by (auto simp: attempt_key_def)
  from row_count_1 [OF k id n] obtain d where "get_row od_id (dc_delivery_id c) (dv_deliveries db) = Some d"
    and "P d" .
  then show thesis using that fresh db' by (simp add: dl_get_def)
qed

end
