(* ===== verification/Delivery_Recovery.thy ===== *)
theory Delivery_Recovery
  imports Delivery_Ledger
begin

text \<open>
  The ledger stays consistent in every reachable state of the dispatchers, so recovery of
  expired leases cannot fail on it.
\<close>

section \<open>Opening and closing an attempt\<close>

lemma shape_dispatch:
  "od_shape d \<Longrightarrow> od_status d = DeliveryStatus.SENDING \<Longrightarrow>
   od_shape (d\<lparr>od_dispatch_started_at := Some t, od_updated_at := now\<rparr>)"
  by (simp add: od_shape_def)

lemma ledger_begin:
  assumes ok: "ledger_ok db" and b: "BeginDeliveryAttempt c now a db = Inr (t, db')"
  shows "ledger_ok db'"
proof -
  from ok have k: "keyed od_id (dv_deliveries db)" by (simp add: ledger_ok_def)
  let ?P = "\<lambda>d. active_claim (dc_delivery_id c) (dc_worker_id c) (dc_claim_token c)
      (dc_claim_generation c) now d \<and> od_dispatch_started_at d = None"
  let ?f = "\<lambda>d. d\<lparr>od_dispatch_started_at := Some now, od_updated_at := now\<rparr>"
  let ?a = "\<lparr>da_id = a, da_delivery_id = dc_delivery_id c, da_claim_generation = dc_claim_generation c,
      da_started_at = now, da_finished_at = None,
      da_outcome = DeliveryAttemptOutcome.IN_PROGRESS, da_failure_code = None\<rparr>"
  from begin_elim [OF b k] obtain d where g: "dl_get (dc_delivery_id c) db = Some d" and P: "?P d"
    and fresh: "(dc_delivery_id c, dc_claim_generation c) \<notin> attempt_key ` set (dv_attempts db)"
    and db': "db' = db\<lparr>dv_deliveries := update_rows ?P ?f (dv_deliveries db),
      dv_attempts := dv_attempts db @ [?a]\<rparr>" by blast
  have ev: "db_evolves UNIV db db'" using BeginDeliveryAttempt_evolves [OF b] .
  have bd: "boundary db' i" if "boundary db i \<or> i = dc_delivery_id c" for i
    using that boundary_extends [OF evolves_extends [OF ev]] Begin_boundary [OF b k] by blast
  have "od_shape d" using g ok by (auto simp: dl_get_def ledger_ok_def dest: get_row_in)
  then have inv: "da_inv ?a" using P by (auto simp: da_inv_def active_claim_def od_shape_def)
  have shape: "od_shape x" if "x \<in> set (dv_deliveries db')" for x
    using that ok shape_dispatch by (auto simp: db' set_update_rows ledger_ok_def active_claim_def)
  have "\<exists>y \<in> set (dv_attempts db'). covers x y" if x: "x \<in> set (dv_deliveries db')" "in_flight x" for x
  proof (cases "x \<in> set (dv_deliveries db)")
    case True
    with x ok show ?thesis by (auto simp: ledger_ok_def db')
  next
    case False
    with x have "covers x ?a"
      by (auto simp: db' set_update_rows covers_def open_attempt_def active_claim_def expires_after_def)
    then show ?thesis by (simp add: db')
  qed
  with ok keyed_evolves [OF ev k] shape inv bd fresh show ?thesis
    by (auto simp: ledger_ok_def db' attempt_key_def)
qed

lemma persist_transition_saved:
  assumes "persist_transition call now d = Done m"
  shows "d\<lparr>od_status := od_status m, od_available_at := od_available_at m,
      od_claim_owner := od_claim_owner m, od_claim_token := od_claim_token m,
      od_claim_expires_at := od_claim_expires_at m, od_provider_message_id := od_provider_message_id m,
      od_failure_code := od_failure_code m, od_failure_message := od_failure_message m,
      od_delivered_at := od_delivered_at m, od_updated_at := od_updated_at m\<rparr> = m"
  using assms by (cases call) (auto simp: od_defs outcome_simps Let_def)

fun persist_od_call :: "persist_call \<Rightarrow> instant \<Rightarrow> od_call" where
  "persist_od_call (PersistDeliver p) now = OdDeliver (utc now) p"
| "persist_od_call (PersistFail c m) now = OdFail (utc now) c m"
| "persist_od_call (PersistMarkAmbiguous c m) now = OdMarkAmbiguous (utc now) c m"
| "persist_od_call (PersistMarkRouteAmbiguous c m) now = OdMarkRouteAmbiguous (utc now) c m"

lemma persist_transition_step: "persist_transition call now = od_step (persist_od_call call now)"
  by (cases call) (simp_all add: fun_eq_iff)

lemma update_rows_single:
  assumes k: "keyed key t" and g: "get_row key i t = Some d" and P: "P d"
    and id: "\<And>x. P x \<Longrightarrow> key x = i"
  shows "update_rows P f t = update_rows ((=) d) (\<lambda>_. f d) t"
proof -
  have "P x = (d = x)" if "x \<in> set t" for x
    using keyed_get [OF k that] g P id [of x] by auto
  then show ?thesis by (simp add: update_rows_def)
qed

lemma persist_row:
  assumes "persist_transition call now d = Done m" and "od_shape d" and "od_status d = DeliveryStatus.SENDING"
  shows "od_evolves UNIV d m \<and> od_shape m \<and> \<not> in_flight m"
proof -
  let ?x = "persist_od_call call now"
  from assms(1) have st: "od_step ?x d = Done m" by (simp add: persist_transition_step)
  have "od_claim_generation m = od_claim_generation d" "od_dispatch_started_at m = od_dispatch_started_at d"
    using arg_cong [OF persist_transition_saved [OF assms(1)], of od_claim_generation]
      arg_cong [OF persist_transition_saved [OF assms(1)], of od_dispatch_started_at] by simp_all
  then show ?thesis
    using od_step_ident [OF st] od_step_shape [OF assms(2) st] persist_transition_status [OF assms(1)] assms(3)
    by (simp add: od_evolves_def in_flight_def od_terminal_def TERMINAL_DELIVERY_STATUSES_def)
qed

text \<open>Saving a claimed outcome replaces exactly the claimed row, by the moved entity.\<close>

lemma saved_rows:
  assumes k: "keyed od_id (dv_deliveries db)" and g: "dl_get (dc_delivery_id c) db = Some d"
    and gen: "dc_claim_generation c = od_claim_generation d"
    and tr: "persist_transition call now d = Done m"
    and save: "dl_save_claimed_lifecycle m (dc_worker_id c) (dc_claim_token c)
      (dc_claim_generation c) now db = (True, db')"
  shows "db' = db\<lparr>dv_deliveries := update_rows ((=) d) (\<lambda>_. m) (dv_deliveries db)\<rparr>"
proof -
  let ?P = "\<lambda>x. active_claim (od_id m) (dc_worker_id c) (dc_claim_token c) (dc_claim_generation c) now x \<and>
     (od_status m = DeliveryStatus.QUEUED \<longrightarrow> od_dispatch_started_at x = None)"
  let ?f = "\<lambda>x. x\<lparr>od_status := od_status m, od_available_at := od_available_at m,
      od_claim_owner := od_claim_owner m, od_claim_token := od_claim_token m,
      od_claim_expires_at := od_claim_expires_at m, od_provider_message_id := od_provider_message_id m,
      od_failure_code := od_failure_code m, od_failure_message := od_failure_message m,
      od_delivered_at := od_delivered_at m, od_updated_at := od_updated_at m\<rparr>"
  have "od_id m = od_id d" using arg_cong [OF persist_transition_saved [OF tr], of od_id] by simp
  also have "\<dots> = dc_delivery_id c" using g by (auto simp: dl_get_def dest: get_row_key)
  finally have i: "od_id m = dc_delivery_id c" .
  have id: "od_id x = dc_delivery_id c" if "?P x" for x using that i by (simp add: active_claim_def)
  from save have n: "row_count ?P (dv_deliveries db) = 1"
    and db': "db' = db\<lparr>dv_deliveries := update_rows ?P ?f (dv_deliveries db)\<rparr>"
    by (simp_all add: dl_save_claimed_lifecycle_def dl_update_def)
  from row_count_1 [OF k id n] obtain y where "get_row od_id (dc_delivery_id c) (dv_deliveries db) = Some y" "?P y" .
  with g have P: "?P d" by (simp add: dl_get_def)
  have "update_rows ?P ?f (dv_deliveries db) = update_rows ((=) d) (\<lambda>_. ?f d) (dv_deliveries db)"
    by (rule update_rows_single [of od_id _ "dc_delivery_id c" d ?P, OF k g [unfolded dl_get_def] P id])
  then show ?thesis by (simp only: db' persist_transition_saved [OF tr])
qed

lemma persist_attempt_elim:
  assumes ok: "ledger_ok db" and p: "persist_attempt c m now db = Inr db1"
    and n: "od_dispatch_started_at m \<noteq> None"
  obtains h where "db1 = db\<lparr>dv_attempts := update_rows
      (open_attempt (dc_delivery_id c) (dc_claim_generation c)) h (dv_attempts db)\<rparr>"
    and "\<And>a. attempt_key (h a) = attempt_key a"
    and "\<And>a. a \<in> set (dv_attempts db) \<Longrightarrow> open_attempt (dc_delivery_id c) (dc_claim_generation c) a \<Longrightarrow>
      da_inv a \<Longrightarrow> da_inv (h a)"
proof -
  let ?Q = "open_attempt (dc_delivery_id c) (dc_claim_generation c)"
  from p n obtain r code db0 where
    v: "da_validated_terminal_write (dc_delivery_id c) (dc_claim_generation c) now r (od_failure_code m) db = Inr code"
    and cl: "da_close (dc_delivery_id c) (dc_claim_generation c) (dl_is_claim_active (dc_delivery_id c)
        (dc_worker_id c) (dc_claim_token c) (dc_claim_generation c) now db) r now code db = (True, db1)"
    by (auto simp: persist_attempt_def da_complete_for_claim_def outcome_simps case_prod_unfold prod_eq_iff)
  let ?h = "\<lambda>a. a\<lparr>da_outcome := r, da_finished_at := Some now, da_failure_code := code\<rparr>"
  from cl have act: "dl_is_claim_active (dc_delivery_id c) (dc_worker_id c) (dc_claim_token c)
      (dc_claim_generation c) now db"
    by (rule contrapos_pp) (simp add: da_close_def row_count_def)
  with cl have db1: "db1 = db\<lparr>dv_attempts := update_rows ?Q ?h (dv_attempts db)\<rparr>"
    by (simp add: da_close_def Let_def)
  have inv: "da_inv (?h a)" if a: "a \<in> set (dv_attempts db)" "?Q a" "da_inv a" for a
  proof -
    obtain b where b: "find ?Q (dv_attempts db) = Some b" using a by (metis find_None_iff not_Some_eq)
    then have "b \<in> set (dv_attempts db)" "?Q b" by (auto simp: find_Some_iff)
    moreover from ok have "inj_on attempt_key (set (dv_attempts db))" by (simp add: ledger_ok_def distinct_map)
    ultimately have "b = a" using a by (simp add: inj_on_def open_attempt_def attempt_key_def)
    with b v a show ?thesis
      by (simp add: da_validated_terminal_write_def outcome_simps attempt_shape_Inr_iff da_inv_def)
  qed
  show thesis by (rule that [OF db1 _ inv]) (simp_all add: attempt_key_def)
qed

lemma ledger_persist:
  assumes ok: "ledger_ok db" and p: "PersistDeliveryOutcome call c now db = Inr (u, db')"
  shows "ledger_ok db'"
proof -
  from p obtain d m db1 where g: "dl_get (dc_delivery_id c) db = Some d"
    and sending: "od_status d = DeliveryStatus.SENDING" and gen: "od_claim_generation d = dc_claim_generation c"
    and tr: "persist_transition call now d = Done m"
    and pa: "persist_attempt c m now db = Inr db1"
    and save: "dl_save_claimed_lifecycle m (dc_worker_id c) (dc_claim_token c)
       (dc_claim_generation c) now db1 = (True, db')"
    unfolding PersistDeliveryOutcome_def by (rule persist_apply_elim)
  have i: "od_id d = dc_delivery_id c" using g by (auto simp: dl_get_def dest: get_row_key)
  have "od_shape d" using g ok by (auto simp: dl_get_def ledger_ok_def dest: get_row_in)
  note row = persist_row [OF tr this sending]
  have same: "dv_deliveries db1 = dv_deliveries db" using persist_attempt_deliveries [OF pa] .
  have k: "keyed od_id (dv_deliveries db1)" using ok same by (simp add: ledger_ok_def)
  have g1: "dl_get (dc_delivery_id c) db1 = Some d" using g same by (simp add: dl_get_def)
  have db': "db' = db1\<lparr>dv_deliveries := update_rows ((=) d) (\<lambda>_. m) (dv_deliveries db)\<rparr>"
    using saved_rows [OF k g1 gen [symmetric] tr save] same by simp
  show ?thesis
  proof (cases "od_dispatch_started_at m = None")
    case True
    with pa have "db1 = db" by (simp add: persist_attempt_def)
    with db' show ?thesis using row by (auto intro!: ledger_update [OF ok])
  next
    case False
    from persist_attempt_elim [OF ok pa False] obtain h where
      h: "db1 = db\<lparr>dv_attempts := update_rows (open_attempt (od_id d) (od_claim_generation d)) h (dv_attempts db)\<rparr>"
        "\<And>a. attempt_key (h a) = attempt_key a"
        "\<And>a. a \<in> set (dv_attempts db) \<Longrightarrow> open_attempt (od_id d) (od_claim_generation d) a \<Longrightarrow>
          da_inv a \<Longrightarrow> da_inv (h a)" unfolding i gen by blast
    show ?thesis unfolding db' h(1)
      using close_ledger [OF ok g [folded i], of "(=) d" "\<lambda>_. m" _ h] row h(2,3) by auto
  qed
qed

section \<open>Reachable states\<close>

lemma ledger_queue:
  assumes ok: "ledger_ok db" and i: "od_id d \<notin> od_id ` set (dv_deliveries db)"
    and d: "od_shape d" "od_status d = DeliveryStatus.QUEUED"
  shows "ledger_ok (db\<lparr>dv_deliveries := dv_deliveries db @ [d]\<rparr>)"
proof -
  have ex: "db_extends db (db\<lparr>dv_deliveries := dv_deliveries db @ [d]\<rparr>)"
    by (auto simp: db_extends_def dl_get_def get_row_append)
  from assms show ?thesis
    by (auto simp: ledger_ok_def keyed_def in_flight_def dest: boundary_extends [OF ex])
qed

lemma od_new_queued:
  "od_new sha i k r tool fire route fp body av cr subj dg = Inr d \<Longrightarrow>
   od_id d = i \<and> od_shape d \<and> od_status d = DeliveryStatus.QUEUED"
  using od_new_inv [of sha i k r tool fire route fp body av cr subj dg d]
  by (auto simp: od_inv_def od_new_def od_post_init_def outcome_simps Let_def)

lemma ledger_next: "dispatch_next s cf ev pc db = (pc', db', m) \<Longrightarrow> ledger_ok db \<Longrightarrow> ledger_ok db'"
  by (cases pc) (auto split: sum.splits prod.splits option.splits app_error.splits
      dest: ledger_claim ledger_begin ledger_persist)

lemma ledger_step: "dispatch_step sha s s' \<Longrightarrow> ledger_ok (sy_db s) \<Longrightarrow> ledger_ok (sy_db s')"
proof (induction rule: dispatch_step.induct)
  case (queue i k r tool fire route fp body av cr subj dg d s)
  then show ?case using od_new_queued [OF queue(1)] ledger_queue by simp
qed (auto dest: ledger_next)

lemma ledger_reachable:
  assumes "(dispatch_step sha)\<^sup>*\<^sup>* dispatch_init s" shows "ledger_ok (sy_db s)"
  using assms
proof (induction rule: rtranclp_induct)
  case base
  show ?case by (simp add: dispatch_init_def ledger_ok_def keyed_def)
qed (rule ledger_step)

end
