(* ===== verification/Rows.thy ===== *)
theory Rows
  imports Task_Entity Run_Entity Step_Entity Approval_Entity Tool_Entity
begin

text \<open>
  The rows of the tables \<^verbatim>\<open>tasks\<close>, \<^verbatim>\<open>runs\<close>, \<^verbatim>\<open>run_steps\<close>, \<^verbatim>\<open>approval_requests\<close> and
  \<^verbatim>\<open>tool_invocations\<close> (\<^verbatim>\<open>src/src/friday/infrastructure/persistence/models.py\<close>), their CHECK
  constraints, and the mappers between rows and entities (\<^verbatim>\<open>mappers.py\<close>). What is shown:
  an entity that is written and read back is the same entity, and every entity its own
  lifecycle can produce satisfies the constraints, so saving it cannot violate them.
\<close>

section \<open>Columns\<close>

text \<open>
  SQLite keeps the wall clock of a datetime and drops its offset; \<^verbatim>\<open>read_back_utc\<close>
  reattaches UTC. A JSON column returns the JSON value that was written to it.
\<close>

primrec sqlite_datetime :: "datetime \<Rightarrow> datetime" where
  "sqlite_datetime (Naive w) = Naive w"
| "sqlite_datetime (Aware w offset) = Naive w"

primrec read_back_utc :: "datetime \<Rightarrow> datetime" where
  "read_back_utc (Naive w) = Aware w 0"
| "read_back_utc (Aware w offset) = Aware w offset"

definition moment :: "datetime \<Rightarrow> instant" where
  "moment d = (case read_back_utc d of Naive w \<Rightarrow> w | Aware w offset \<Rightarrow> w - offset)"

lemma moment_simps [simp]: "moment (Naive t) = t" "moment (Aware w off) = w - off"
  by (simp_all add: moment_def)

lemma moment_stored [simp]: "map_option moment (map_option sqlite_datetime (map_option utc x)) = x"
  by (cases x) simp_all

text \<open>Reading an enumeration: \<^verbatim>\<open>RunStatus(value)\<close> and its like raise \<^verbatim>\<open>ValueError\<close> on an unknown value.\<close>

definition enum_of :: "('a \<Rightarrow> string) \<Rightarrow> 'a list \<Rightarrow> string \<Rightarrow> domain_error + 'a" where
  "enum_of value members s = from_option (PythonError ''ValueError'') (find (\<lambda>x. value x = s) members)"

lemma enum_of_value:
  "inj_on value (set members) \<Longrightarrow> x \<in> set members \<Longrightarrow> enum_of value members (value x) = Inr x"
proof -
  assume inj: "inj_on value (set members)" and x: "x \<in> set members"
  obtain y where y: "find (\<lambda>z. value z = value x) members = Some y"
    using x by (metis (mono_tags, lifting) find_None_iff not_Some_eq)
  then have "y \<in> set members" "value y = value x" by (auto simp: find_Some_iff)
  with inj x have "y = x" by (auto dest: inj_onD)
  with y show ?thesis by (simp add: enum_of_def)
qed

text \<open>\<^verbatim>\<open>XId.parse(v) if v else None\<close>: an empty string counts as absent.\<close>

definition parse_opt :: "string option \<Rightarrow> domain_error + 'k ident option" where
  "parse_opt x = (case x of None \<Rightarrow> Inr None
     | Some s \<Rightarrow> if s = [] then Inr None else ebind (id_post_init s) (\<lambda>i. Inr (Some i)))"

text \<open>Identifier objects only exist if their constructor accepted the string.\<close>

definition id_ok :: "'k ident \<Rightarrow> bool" where
  "id_ok i \<longleftrightarrow> id_post_init (id_str i) = Inr i"

lemma id_ok_parse [simp]: "id_ok i \<Longrightarrow> id_post_init (id_str i) = Inr i"
  by (simp add: id_ok_def)

lemma parse_opt_str [simp]: "pred_option id_ok x \<Longrightarrow> parse_opt (map_option id_str x) = Inr x"
  by (cases x) (auto simp: parse_opt_def id_ok_def id_post_init_def split: if_splits)

section \<open>Failures\<close>

record failure_dict =
  fd_code :: string
  fd_message :: string
  fd_retryable :: bool
  fd_cause :: string
  fd_details :: pyval

fun failure_cause_value :: "FailureCause \<Rightarrow> string" where
  "failure_cause_value FailureCause.VALIDATION = ''validation''"
| "failure_cause_value FailureCause.TOOL = ''tool''"
| "failure_cause_value FailureCause.RUNTIME = ''runtime''"
| "failure_cause_value FailureCause.APPROVAL = ''approval''"
| "failure_cause_value FailureCause.CANCELLED = ''cancelled''"
| "failure_cause_value FailureCause.TIMEOUT = ''timeout''"
| "failure_cause_value FailureCause.INTERNAL = ''internal''"

definition FAILURE_CAUSES :: "FailureCause list" where
  "FAILURE_CAUSES = [FailureCause.VALIDATION, FailureCause.TOOL, FailureCause.RUNTIME,
     FailureCause.APPROVAL, FailureCause.CANCELLED, FailureCause.TIMEOUT, FailureCause.INTERNAL]"

definition failure_to_dict :: "Failure option \<Rightarrow> failure_dict option" where
  "failure_to_dict x = map_option (\<lambda>f. \<lparr>fd_code = fl_code f, fd_message = fl_message f,
     fd_retryable = fl_retryable f, fd_cause = failure_cause_value (fl_cause f),
     fd_details = fl_details f\<rparr>) x"

definition failure_from_dict :: "failure_dict option \<Rightarrow> domain_error + Failure option" where
  "failure_from_dict x = validate_opt (\<lambda>d.
     ebind (enum_of failure_cause_value FAILURE_CAUSES (fd_cause d)) (\<lambda>cause.
     failure_post_init \<lparr>fl_code = fd_code d, fl_message = fd_message d,
       fl_retryable = fd_retryable d, fl_cause = cause, fl_details = fd_details d\<rparr>)) x"

lemma failure_cause_of [simp]: "enum_of failure_cause_value FAILURE_CAUSES (failure_cause_value c) = Inr c"
  by (rule enum_of_value; cases c) (auto simp: FAILURE_CAUSES_def inj_on_def)

lemma failure_round_trip [simp]:
  "pred_option failure_ok x \<Longrightarrow> failure_from_dict (failure_to_dict x) = Inr x"
  by (cases x) (auto simp: failure_from_dict_def failure_to_dict_def failure_post_init_Inr_iff failure_ok_def
      outcome_simps)

section \<open>Enumerations of the statuses\<close>

definition TASK_STATUSES :: "TaskStatus list" where
  "TASK_STATUSES = [TaskStatus.PENDING, TaskStatus.ACTIVE, TaskStatus.COMPLETED, TaskStatus.FAILED,
     TaskStatus.CANCELLED]"

definition RUN_STATUSES :: "RunStatus list" where
  "RUN_STATUSES = [RunStatus.QUEUED, RunStatus.RUNNING, RunStatus.WAITING_FOR_APPROVAL,
     RunStatus.WAITING_FOR_DELEGATION, RunStatus.WAITING_FOR_WORKFLOW, RunStatus.SUCCEEDED,
     RunStatus.FAILED, RunStatus.CANCELLED]"

definition RUN_STEP_STATUSES :: "RunStepStatus list" where
  "RUN_STEP_STATUSES = [RunStepStatus.PENDING, RunStepStatus.RUNNING,
     RunStepStatus.WAITING_FOR_APPROVAL, RunStepStatus.SUCCEEDED, RunStepStatus.FAILED,
     RunStepStatus.SKIPPED, RunStepStatus.CANCELLED]"

definition APPROVAL_STATUSES :: "ApprovalStatus list" where
  "APPROVAL_STATUSES = [ApprovalStatus.PENDING, ApprovalStatus.APPROVED, ApprovalStatus.REJECTED,
     ApprovalStatus.CANCELLED, ApprovalStatus.EXPIRED]"

definition APPROVAL_CATEGORIES :: "ApprovalCategory list" where
  "APPROVAL_CATEGORIES = [ApprovalCategory.TOOL_EXECUTION, ApprovalCategory.FILESYSTEM_WRITE,
     ApprovalCategory.NETWORK_ACCESS, ApprovalCategory.COMPUTER_USE,
     ApprovalCategory.EXTERNAL_COMMUNICATION, ApprovalCategory.OTHER]"

fun subject_kind_value :: "ApprovalSubjectKind \<Rightarrow> string" where
  "subject_kind_value ApprovalSubjectKind.RUN = ''run''"
| "subject_kind_value ApprovalSubjectKind.SKILL_PROMOTION = ''skill_promotion''"
| "subject_kind_value ApprovalSubjectKind.SKILL_ROLLBACK = ''skill_rollback''"

definition APPROVAL_SUBJECT_KINDS :: "ApprovalSubjectKind list" where
  "APPROVAL_SUBJECT_KINDS = [ApprovalSubjectKind.RUN, ApprovalSubjectKind.SKILL_PROMOTION,
     ApprovalSubjectKind.SKILL_ROLLBACK]"

definition TOOL_STATUSES :: "ToolInvocationStatus list" where
  "TOOL_STATUSES = [ToolInvocationStatus.REQUESTED, ToolInvocationStatus.RUNNING,
     ToolInvocationStatus.SUCCEEDED, ToolInvocationStatus.FAILED, ToolInvocationStatus.CANCELLED]"

lemma task_status_of [simp]: "enum_of task_status_value TASK_STATUSES (task_status_value x) = Inr x"
  by (rule enum_of_value; cases x) (auto simp: TASK_STATUSES_def inj_on_def elim!: task_status_value.elims)

lemma run_status_of [simp]: "enum_of run_status_value RUN_STATUSES (run_status_value x) = Inr x"
  by (rule enum_of_value; cases x) (auto simp: RUN_STATUSES_def inj_on_def elim!: run_status_value.elims)

lemma step_status_of [simp]: "enum_of step_status_value RUN_STEP_STATUSES (step_status_value x) = Inr x"
  by (rule enum_of_value; cases x) (auto simp: RUN_STEP_STATUSES_def inj_on_def elim!: step_status_value.elims)

lemma approval_status_of [simp]: "enum_of approval_status_value APPROVAL_STATUSES (approval_status_value x) = Inr x"
  by (rule enum_of_value; cases x) (auto simp: APPROVAL_STATUSES_def inj_on_def elim!: approval_status_value.elims)

lemma approval_category_of [simp]: "enum_of approval_category_value APPROVAL_CATEGORIES (approval_category_value x) = Inr x"
  by (rule enum_of_value; cases x) (auto simp: APPROVAL_CATEGORIES_def inj_on_def elim!: approval_category_value.elims)

lemma subject_kind_of [simp]: "enum_of subject_kind_value APPROVAL_SUBJECT_KINDS (subject_kind_value x) = Inr x"
  by (rule enum_of_value; cases x) (auto simp: APPROVAL_SUBJECT_KINDS_def inj_on_def elim!: subject_kind_value.elims)

lemma tool_status_of [simp]: "enum_of tool_status_value TOOL_STATUSES (tool_status_value x) = Inr x"
  by (rule enum_of_value; cases x) (auto simp: TOOL_STATUSES_def inj_on_def elim!: tool_status_value.elims)

section \<open>Rows and mappers\<close>

record TaskRow =
  tkr_id :: string
  tkr_title :: string
  tkr_description :: string
  tkr_status :: string
  tkr_created_at :: datetime
  tkr_started_at :: "datetime option"
  tkr_completed_at :: "datetime option"
  tkr_failed_at :: "datetime option"
  tkr_cancelled_at :: "datetime option"
  tkr_failure :: "failure_dict option"

definition task_to_row :: "Task \<Rightarrow> TaskRow" where
  "task_to_row v =
     \<lparr>tkr_id = id_str (tk_id v), tkr_title = tk_title v, tkr_description = tk_description v,
      tkr_status = task_status_value (tk_status v), tkr_created_at = utc (tk_created_at v),
      tkr_started_at = map_option utc (tk_started_at v),
      tkr_completed_at = map_option utc (tk_completed_at v),
      tkr_failed_at = map_option utc (tk_failed_at v),
      tkr_cancelled_at = map_option utc (tk_cancelled_at v),
      tkr_failure = failure_to_dict (tk_failure v)\<rparr>"

definition task_from_row :: "TaskRow \<Rightarrow> domain_error + Task" where
  "task_from_row row =
     ebind (id_post_init (tkr_id row)) (\<lambda>i.
     ebind (enum_of task_status_value TASK_STATUSES (tkr_status row)) (\<lambda>status.
     ebind (failure_from_dict (tkr_failure row)) (\<lambda>failure.
     Inr \<lparr>tk_id = i, tk_title = tkr_title row, tk_description = tkr_description row,
          tk_status = status, tk_created_at = moment (tkr_created_at row),
          tk_started_at = map_option moment (tkr_started_at row),
          tk_completed_at = map_option moment (tkr_completed_at row),
          tk_failed_at = map_option moment (tkr_failed_at row),
          tk_cancelled_at = map_option moment (tkr_cancelled_at row), tk_failure = failure\<rparr>)))"

definition task_row_stored :: "TaskRow \<Rightarrow> TaskRow" where
  "task_row_stored row = row\<lparr>tkr_created_at := sqlite_datetime (tkr_created_at row),
     tkr_started_at := map_option sqlite_datetime (tkr_started_at row),
     tkr_completed_at := map_option sqlite_datetime (tkr_completed_at row),
     tkr_failed_at := map_option sqlite_datetime (tkr_failed_at row),
     tkr_cancelled_at := map_option sqlite_datetime (tkr_cancelled_at row)\<rparr>"

record RunRow =
  rnr_id :: string
  rnr_task_id :: string
  rnr_execution_id :: string
  rnr_status :: string
  rnr_created_at :: datetime
  rnr_started_at :: "datetime option"
  rnr_ended_at :: "datetime option"
  rnr_failure :: "failure_dict option"
  rnr_approval_request_id :: "string option"
  rnr_delegation_request_id :: "string option"
  rnr_workflow_execution_id :: "string option"

definition run_to_row :: "Run \<Rightarrow> RunRow" where
  "run_to_row v =
     \<lparr>rnr_id = id_str (rn_id v), rnr_task_id = id_str (rn_task_id v),
      rnr_execution_id = id_str (rn_execution_id v),
      rnr_status = run_status_value (rn_status v), rnr_created_at = utc (rn_created_at v),
      rnr_started_at = map_option utc (rn_started_at v),
      rnr_ended_at = map_option utc (rn_ended_at v),
      rnr_failure = failure_to_dict (rn_failure v),
      rnr_approval_request_id = map_option id_str (rn_approval_request_id v),
      rnr_delegation_request_id = map_option id_str (rn_delegation_request_id v),
      rnr_workflow_execution_id = map_option id_str (rn_workflow_execution_id v)\<rparr>"

definition run_from_row :: "RunRow \<Rightarrow> domain_error + Run" where
  "run_from_row row =
     ebind (id_post_init (rnr_id row)) (\<lambda>i.
     ebind (id_post_init (rnr_task_id row)) (\<lambda>task_id.
     ebind (id_post_init (rnr_execution_id row)) (\<lambda>execution_id.
     ebind (enum_of run_status_value RUN_STATUSES (rnr_status row)) (\<lambda>status.
     ebind (failure_from_dict (rnr_failure row)) (\<lambda>failure.
     ebind (parse_opt (rnr_approval_request_id row)) (\<lambda>approval_request_id.
     ebind (parse_opt (rnr_delegation_request_id row)) (\<lambda>delegation_request_id.
     ebind (parse_opt (rnr_workflow_execution_id row)) (\<lambda>workflow_execution_id.
     Inr \<lparr>rn_id = i, rn_task_id = task_id, rn_execution_id = execution_id, rn_status = status,
          rn_created_at = moment (rnr_created_at row),
          rn_started_at = map_option moment (rnr_started_at row),
          rn_ended_at = map_option moment (rnr_ended_at row), rn_failure = failure,
          rn_approval_request_id = approval_request_id,
          rn_delegation_request_id = delegation_request_id,
          rn_workflow_execution_id = workflow_execution_id\<rparr>))))))))"

definition run_row_stored :: "RunRow \<Rightarrow> RunRow" where
  "run_row_stored row = row\<lparr>rnr_created_at := sqlite_datetime (rnr_created_at row),
     rnr_started_at := map_option sqlite_datetime (rnr_started_at row),
     rnr_ended_at := map_option sqlite_datetime (rnr_ended_at row)\<rparr>"

record RunStepRow =
  rsr_id :: string
  rsr_run_id :: string
  rsr_name :: string
  rsr_position :: int
  rsr_status :: string
  rsr_created_at :: datetime
  rsr_started_at :: "datetime option"
  rsr_ended_at :: "datetime option"
  rsr_failure :: "failure_dict option"
  rsr_approval_request_id :: "string option"

definition run_step_to_row :: "RunStep \<Rightarrow> RunStepRow" where
  "run_step_to_row v =
     \<lparr>rsr_id = id_str (st_id v), rsr_run_id = id_str (st_run_id v), rsr_name = st_name v,
      rsr_position = st_position v, rsr_status = step_status_value (st_status v),
      rsr_created_at = utc (st_created_at v),
      rsr_started_at = map_option utc (st_started_at v),
      rsr_ended_at = map_option utc (st_ended_at v),
      rsr_failure = failure_to_dict (st_failure v),
      rsr_approval_request_id = map_option id_str (st_approval_request_id v)\<rparr>"

definition run_step_from_row :: "RunStepRow \<Rightarrow> domain_error + RunStep" where
  "run_step_from_row row =
     ebind (id_post_init (rsr_id row)) (\<lambda>i.
     ebind (id_post_init (rsr_run_id row)) (\<lambda>run_id.
     ebind (enum_of step_status_value RUN_STEP_STATUSES (rsr_status row)) (\<lambda>status.
     ebind (failure_from_dict (rsr_failure row)) (\<lambda>failure.
     ebind (parse_opt (rsr_approval_request_id row)) (\<lambda>approval_request_id.
     Inr \<lparr>st_id = i, st_run_id = run_id, st_name = rsr_name row,
          st_position = rsr_position row, st_status = status,
          st_created_at = moment (rsr_created_at row),
          st_started_at = map_option moment (rsr_started_at row),
          st_ended_at = map_option moment (rsr_ended_at row), st_failure = failure,
          st_approval_request_id = approval_request_id\<rparr>)))))"

definition run_step_row_stored :: "RunStepRow \<Rightarrow> RunStepRow" where
  "run_step_row_stored row = row\<lparr>rsr_created_at := sqlite_datetime (rsr_created_at row),
     rsr_started_at := map_option sqlite_datetime (rsr_started_at row),
     rsr_ended_at := map_option sqlite_datetime (rsr_ended_at row)\<rparr>"

text \<open>The subject of a run approval is its run: the column \<^verbatim>\<open>subject_id\<close> stays empty.\<close>

definition approval_subject_id :: "ApprovalRequest \<Rightarrow> string" where
  "approval_subject_id a = (case ap_subject_id a of
      Some (c # cs) \<Rightarrow> c # cs
    | _ \<Rightarrow> (case ap_run_id a of None \<Rightarrow> ''None'' | Some r \<Rightarrow> id_str r))"

record ApprovalRequestRow =
  apr_id :: string
  apr_run_id :: "string option"
  apr_step_id :: "string option"
  apr_category :: string
  apr_summary :: string
  apr_reason :: string
  apr_requested_action :: string
  apr_requested_input :: pyval
  apr_status :: string
  apr_requested_at :: datetime
  apr_expires_at :: "datetime option"
  apr_resolved_at :: "datetime option"
  apr_resolution_note :: "string option"
  apr_resolver :: "string option"
  apr_authorization_fingerprint :: "string option"
  apr_consumed_at :: "datetime option"
  apr_subject_kind :: string
  apr_subject_id :: "string option"

definition approval_to_row :: "ApprovalRequest \<Rightarrow> ApprovalRequestRow" where
  "approval_to_row v =
     \<lparr>apr_id = id_str (ap_id v), apr_run_id = map_option id_str (ap_run_id v),
      apr_step_id = map_option id_str (ap_step_id v),
      apr_category = approval_category_value (ap_category v), apr_summary = ap_summary v,
      apr_reason = ap_reason v, apr_requested_action = ap_requested_action v,
      apr_requested_input = ap_requested_input v,
      apr_status = approval_status_value (ap_status v),
      apr_requested_at = utc (ap_requested_at v),
      apr_expires_at = map_option utc (ap_expires_at v),
      apr_resolved_at = map_option utc (ap_resolved_at v),
      apr_resolution_note = ap_resolution_note v, apr_resolver = ap_resolver v,
      apr_authorization_fingerprint = ap_authorization_fingerprint v,
      apr_consumed_at = map_option utc (ap_consumed_at v),
      apr_subject_kind = subject_kind_value (ap_subject_kind v),
      apr_subject_id = (if ap_run_id v = None then Some (approval_subject_id v) else None)\<rparr>"

definition approval_from_row :: "ApprovalRequestRow \<Rightarrow> domain_error + ApprovalRequest" where
  "approval_from_row row =
     ebind (id_post_init (apr_id row)) (\<lambda>i.
     ebind (parse_opt (apr_run_id row)) (\<lambda>run_id.
     ebind (parse_opt (apr_step_id row)) (\<lambda>step_id.
     ebind (enum_of approval_category_value APPROVAL_CATEGORIES (apr_category row)) (\<lambda>category.
     ebind (enum_of approval_status_value APPROVAL_STATUSES (apr_status row)) (\<lambda>status.
     ebind (enum_of subject_kind_value APPROVAL_SUBJECT_KINDS (apr_subject_kind row)) (\<lambda>subject_kind.
     Inr \<lparr>ap_id = i, ap_run_id = run_id, ap_category = category, ap_summary = apr_summary row,
          ap_reason = apr_reason row, ap_requested_action = apr_requested_action row,
          ap_requested_input = apr_requested_input row, ap_status = status,
          ap_requested_at = moment (apr_requested_at row), ap_step_id = step_id,
          ap_expires_at = map_option moment (apr_expires_at row),
          ap_resolved_at = map_option moment (apr_resolved_at row),
          ap_resolution_note = apr_resolution_note row, ap_resolver = apr_resolver row,
          ap_authorization_fingerprint = apr_authorization_fingerprint row,
          ap_consumed_at = map_option moment (apr_consumed_at row),
          ap_subject_kind = subject_kind, ap_subject_id = apr_subject_id row\<rparr>))))))"

definition approval_row_stored :: "ApprovalRequestRow \<Rightarrow> ApprovalRequestRow" where
  "approval_row_stored row = row\<lparr>apr_requested_at := sqlite_datetime (apr_requested_at row),
     apr_expires_at := map_option sqlite_datetime (apr_expires_at row),
     apr_resolved_at := map_option sqlite_datetime (apr_resolved_at row),
     apr_consumed_at := map_option sqlite_datetime (apr_consumed_at row)\<rparr>"

record ToolInvocationRow =
  tir_id :: string
  tir_run_id :: string
  tir_step_id :: "string option"
  tir_approval_request_id :: "string option"
  tir_tool_name :: string
  tir_requested_input :: pyval
  tir_status :: string
  tir_requested_at :: datetime
  tir_started_at :: "datetime option"
  tir_completed_at :: "datetime option"
  tir_output :: pyval
  tir_output_set :: bool
  tir_failure :: "failure_dict option"
  tir_provenance_kind :: "string option"
  tir_provenance_target :: "string option"
  tir_provenance_remote_name :: "string option"
  tir_provenance_binding_fingerprint :: "string option"

definition tool_invocation_to_row :: "ToolInvocation \<Rightarrow> ToolInvocationRow" where
  "tool_invocation_to_row v =
     \<lparr>tir_id = id_str (ti_id v), tir_run_id = id_str (ti_run_id v),
      tir_step_id = map_option id_str (ti_step_id v),
      tir_approval_request_id = map_option id_str (ti_approval_request_id v),
      tir_tool_name = ti_tool_name v, tir_requested_input = ti_requested_input v,
      tir_status = tool_status_value (ti_status v), tir_requested_at = utc (ti_requested_at v),
      tir_started_at = map_option utc (ti_started_at v),
      tir_completed_at = map_option utc (ti_completed_at v), tir_output = ti_output v,
      tir_output_set = ti_output_set v, tir_failure = failure_to_dict (ti_failure v),
      tir_provenance_kind = map_option pv_kind (ti_provenance v),
      tir_provenance_target = map_option pv_target (ti_provenance v),
      tir_provenance_remote_name = map_option pv_remote_name (ti_provenance v),
      tir_provenance_binding_fingerprint = map_option pv_binding_fingerprint (ti_provenance v)\<rparr>"

definition provenance_from_row :: "ToolInvocationRow \<Rightarrow> domain_error + ToolProvenance option" where
  "provenance_from_row row =
     (case (tir_provenance_kind row, tir_provenance_target row, tir_provenance_remote_name row,
            tir_provenance_binding_fingerprint row) of
        (None, None, None, None) \<Rightarrow> Inr None
      | (Some kind, Some target, Some remote_name, Some fingerprint) \<Rightarrow>
          ebind (provenance_post_init \<lparr>pv_kind = kind, pv_target = target,
            pv_remote_name = remote_name, pv_binding_fingerprint = fingerprint\<rparr>) (\<lambda>p. Inr (Some p))
      | _ \<Rightarrow> Inl (PythonError ''ValueError''))"

definition tool_invocation_from_row :: "ToolInvocationRow \<Rightarrow> domain_error + ToolInvocation" where
  "tool_invocation_from_row row =
     ebind (id_post_init (tir_id row)) (\<lambda>i.
     ebind (id_post_init (tir_run_id row)) (\<lambda>run_id.
     ebind (parse_opt (tir_step_id row)) (\<lambda>step_id.
     ebind (parse_opt (tir_approval_request_id row)) (\<lambda>approval_request_id.
     ebind (enum_of tool_status_value TOOL_STATUSES (tir_status row)) (\<lambda>status.
     ebind (failure_from_dict (tir_failure row)) (\<lambda>failure.
     ebind (provenance_from_row row) (\<lambda>provenance.
     Inr \<lparr>ti_id = i, ti_run_id = run_id, ti_tool_name = tir_tool_name row,
          ti_requested_input = tir_requested_input row, ti_status = status,
          ti_requested_at = moment (tir_requested_at row), ti_step_id = step_id,
          ti_approval_request_id = approval_request_id,
          ti_started_at = map_option moment (tir_started_at row),
          ti_completed_at = map_option moment (tir_completed_at row),
          ti_output = tir_output row, ti_output_set = tir_output_set row, ti_failure = failure,
          ti_provenance = provenance\<rparr>)))))))"

definition tool_invocation_row_stored :: "ToolInvocationRow \<Rightarrow> ToolInvocationRow" where
  "tool_invocation_row_stored row = row\<lparr>tir_requested_at := sqlite_datetime (tir_requested_at row),
     tir_started_at := map_option sqlite_datetime (tir_started_at row),
     tir_completed_at := map_option sqlite_datetime (tir_completed_at row)\<rparr>"

section \<open>Reading back what was written\<close>

lemma task_round_trip:
  "id_ok (tk_id v) \<Longrightarrow> pred_option failure_ok (tk_failure v) \<Longrightarrow>
   task_from_row (task_row_stored (task_to_row v)) = Inr v"
  by (simp add: task_from_row_def task_row_stored_def task_to_row_def)

definition run_ids_ok :: "Run \<Rightarrow> bool" where
  "run_ids_ok r \<longleftrightarrow> id_ok (rn_id r) \<and> id_ok (rn_task_id r) \<and> id_ok (rn_execution_id r) \<and>
     pred_option id_ok (rn_approval_request_id r) \<and> pred_option id_ok (rn_delegation_request_id r) \<and>
     pred_option id_ok (rn_workflow_execution_id r)"

lemma run_round_trip:
  "run_ids_ok v \<Longrightarrow> pred_option failure_ok (rn_failure v) \<Longrightarrow>
   run_from_row (run_row_stored (run_to_row v)) = Inr v"
  by (simp add: run_from_row_def run_row_stored_def run_to_row_def run_ids_ok_def)

lemma run_step_round_trip:
  "id_ok (st_id v) \<Longrightarrow> id_ok (st_run_id v) \<Longrightarrow> pred_option id_ok (st_approval_request_id v) \<Longrightarrow>
   pred_option failure_ok (st_failure v) \<Longrightarrow>
   run_step_from_row (run_step_row_stored (run_step_to_row v)) = Inr v"
  by (simp add: run_step_from_row_def run_step_row_stored_def run_step_to_row_def)

text \<open>The row of a run approval has no subject column, so a subject id given to one is not stored.\<close>

lemma approval_round_trip:
  assumes "id_ok (ap_id v)" "pred_option id_ok (ap_run_id v)" "pred_option id_ok (ap_step_id v)"
    and s: "ap_run_id v = None \<Longrightarrow> ap_subject_id v \<noteq> None \<and> ap_subject_id v \<noteq> Some []"
  shows "approval_from_row (approval_row_stored (approval_to_row v)) =
    Inr (v\<lparr>ap_subject_id := (if ap_run_id v = None then ap_subject_id v else None)\<rparr>)"
proof -
  have "(if ap_run_id v = None then Some (approval_subject_id v) else None) =
      (if ap_run_id v = None then ap_subject_id v else None)"
    using s by (auto simp: approval_subject_id_def neq_Nil_conv)
  with assms(1,2,3) show ?thesis
    by (simp add: approval_from_row_def approval_row_stored_def approval_to_row_def del: if_split)
qed

lemma provenance_round_trip:
  "pred_option (\<lambda>p. provenance_post_init p = Inr p) (ti_provenance v) \<Longrightarrow>
   provenance_from_row (tool_invocation_row_stored (tool_invocation_to_row v)) = Inr (ti_provenance v)"
proof (cases "ti_provenance v")
  case (Some p)
  assume "pred_option (\<lambda>p. provenance_post_init p = Inr p) (ti_provenance v)"
  with Some show ?thesis
    by (cases p) (simp add: provenance_from_row_def tool_invocation_row_stored_def tool_invocation_to_row_def)
qed (simp add: provenance_from_row_def tool_invocation_row_stored_def tool_invocation_to_row_def)

lemma tool_invocation_round_trip:
  assumes "id_ok (ti_id v)" "id_ok (ti_run_id v)" "pred_option id_ok (ti_step_id v)"
    "pred_option id_ok (ti_approval_request_id v)" "pred_option failure_ok (ti_failure v)"
    "pred_option (\<lambda>p. provenance_post_init p = Inr p) (ti_provenance v)"
  shows "tool_invocation_from_row (tool_invocation_row_stored (tool_invocation_to_row v)) = Inr v"
  using assms provenance_round_trip [of v]
  by (simp add: tool_invocation_from_row_def) (simp add: tool_invocation_row_stored_def tool_invocation_to_row_def)

section \<open>CHECK constraints\<close>

text \<open>SQLite's \<^verbatim>\<open>length\<close> and \<^verbatim>\<open>GLOB\<close> read a text up to its first NUL character.\<close>

definition sql_text :: "string \<Rightarrow> string" where
  "sql_text s = takeWhile (\<lambda>c. c \<noteq> CHR 0x00) s"

definition sql_hex64 :: "string \<Rightarrow> bool" where
  "sql_hex64 s \<longleftrightarrow> length (sql_text s) = 64 \<and> set (sql_text s) \<subseteq> set ''0123456789abcdef''"

lemma sql_text_id: "CHR 0x00 \<notin> set s \<Longrightarrow> sql_text s = s"
  by (auto simp: sql_text_def takeWhile_eq_all_conv)

lemma lower_hex64_sql:
  assumes "lower_hex64 s" shows "sql_hex64 s"
proof -
  from assms have len: "length s = 64" and sub: "set s \<subseteq> set ''0123456789abcdef''"
    unfolding lower_hex64_def by blast+
  have "CHR 0x00 \<notin> set ''0123456789abcdef''" by simp
  with sub have "CHR 0x00 \<notin> set s" by blast
  then have t: "sql_text s = s" by (rule sql_text_id)
  show ?thesis unfolding sql_hex64_def t using len sub by blast
qed

definition ck_runs_status :: "RunRow \<Rightarrow> bool" where
  "ck_runs_status row \<longleftrightarrow> rnr_status row \<in> set [''queued'', ''running'', ''waiting_for_approval'',
     ''waiting_for_delegation'', ''waiting_for_workflow'', ''succeeded'', ''failed'', ''cancelled'']"

definition ck_runs_wait_marker_shape :: "RunRow \<Rightarrow> bool" where
  "ck_runs_wait_marker_shape row \<longleftrightarrow>
     (rnr_status row = ''waiting_for_approval'' \<and> rnr_approval_request_id row \<noteq> None \<and>
      rnr_delegation_request_id row = None \<and> rnr_workflow_execution_id row = None) \<or>
     (rnr_status row = ''waiting_for_delegation'' \<and> rnr_delegation_request_id row \<noteq> None \<and>
      rnr_approval_request_id row = None \<and> rnr_workflow_execution_id row = None) \<or>
     (rnr_status row = ''waiting_for_workflow'' \<and> rnr_workflow_execution_id row \<noteq> None \<and>
      rnr_approval_request_id row = None \<and> rnr_delegation_request_id row = None) \<or>
     (rnr_status row \<notin> set [''waiting_for_approval'', ''waiting_for_delegation'', ''waiting_for_workflow''] \<and>
      rnr_approval_request_id row = None \<and> rnr_delegation_request_id row = None \<and>
      (rnr_workflow_execution_id row = None \<or>
       rnr_status row \<in> set [''succeeded'', ''failed'', ''cancelled'']))"

definition ck_approval_requests_status :: "ApprovalRequestRow \<Rightarrow> bool" where
  "ck_approval_requests_status row \<longleftrightarrow>
     apr_status row \<in> set [''pending'', ''approved'', ''rejected'', ''cancelled'', ''expired'']"

definition ck_approval_requests_category :: "ApprovalRequestRow \<Rightarrow> bool" where
  "ck_approval_requests_category row \<longleftrightarrow>
     apr_category row \<in> set [''tool_execution'', ''filesystem_write'', ''network_access'',
       ''computer_use'', ''external_communication'', ''other'']"

definition ck_approval_requests_subject_shape :: "ApprovalRequestRow \<Rightarrow> bool" where
  "ck_approval_requests_subject_shape row \<longleftrightarrow>
     (apr_subject_kind row = ''run'' \<and> apr_run_id row \<noteq> None \<and> apr_subject_id row = None) \<or>
     (apr_subject_kind row \<in> set [''skill_promotion'', ''skill_rollback''] \<and> apr_run_id row = None \<and>
      apr_subject_id row \<noteq> None)"

definition ck_approval_authorization_fingerprint_hex :: "ApprovalRequestRow \<Rightarrow> bool" where
  "ck_approval_authorization_fingerprint_hex row \<longleftrightarrow>
     pred_option sql_hex64 (apr_authorization_fingerprint row)"

lemma run_row_checks:
  "run_inv r \<Longrightarrow> ck_runs_status (run_to_row r) \<and> ck_runs_wait_marker_shape (run_to_row r)"
  by (cases "rn_status r")
     (auto simp: run_inv_def run_markers_ok_def ck_runs_status_def ck_runs_wait_marker_shape_def run_to_row_def)

lemma approval_row_checks:
  assumes "approval_inv a"
  shows "ck_approval_requests_status (approval_to_row a)"
    and "ck_approval_requests_category (approval_to_row a)"
    and "ck_approval_requests_subject_shape (approval_to_row a)"
    and "ck_approval_authorization_fingerprint_hex (approval_to_row a)"
proof -
  show "ck_approval_requests_status (approval_to_row a)"
    by (cases "ap_status a") (simp_all add: ck_approval_requests_status_def approval_to_row_def)
  show "ck_approval_requests_category (approval_to_row a)"
    by (cases "ap_category a") (simp_all add: ck_approval_requests_category_def approval_to_row_def)
  show "ck_approval_requests_subject_shape (approval_to_row a)"
    using assms by (cases "ap_subject_kind a"; cases "ap_run_id a")
      (simp_all add: approval_inv_def ck_approval_requests_subject_shape_def approval_to_row_def)
  show "ck_approval_authorization_fingerprint_hex (approval_to_row a)"
    using assms by (cases "ap_authorization_fingerprint a")
      (simp_all add: approval_inv_def ck_approval_authorization_fingerprint_hex_def approval_to_row_def
        lower_hex64_sql)
qed

end
