(* ===== verification/Execution_Rows.thy ===== *)
theory Execution_Rows
  imports Rows Delegation_Entity Workflow_Execution_Entity Delivery_Entity
begin

text \<open>
  Rows, CHECK constraints and mappers of the tables \<^verbatim>\<open>delegation_requests\<close>,
  \<^verbatim>\<open>workflow_executions\<close>, \<^verbatim>\<open>workflow_node_executions\<close>, \<^verbatim>\<open>outbound_deliveries\<close> and
  \<^verbatim>\<open>delivery_attempts\<close>. Reading one of these rows runs the constructor of its class, so
  a stored row that violates the class's rules raises instead of being trusted; the rows
  the lifecycles produce are read back unchanged.
\<close>

section \<open>Enumerations\<close>

fun source_kind_value :: "DeliverySourceKind \<Rightarrow> string" where
  "source_kind_value DeliverySourceKind.AGENT_REQUEST = ''agent_request''"
| "source_kind_value DeliverySourceKind.SCHEDULED_RUN_ANSWER = ''scheduled_run_answer''"

definition DELIVERY_SOURCE_KINDS :: "DeliverySourceKind list" where
  "DELIVERY_SOURCE_KINDS = [DeliverySourceKind.AGENT_REQUEST, DeliverySourceKind.SCHEDULED_RUN_ANSWER]"

definition DELIVERY_STATUSES :: "DeliveryStatus list" where
  "DELIVERY_STATUSES = [DeliveryStatus.QUEUED, DeliveryStatus.SENDING, DeliveryStatus.DELIVERED,
     DeliveryStatus.FAILED, DeliveryStatus.AMBIGUOUS, DeliveryStatus.CANCELLED]"

definition DELIVERY_ATTEMPT_OUTCOMES :: "DeliveryAttemptOutcome list" where
  "DELIVERY_ATTEMPT_OUTCOMES = [DeliveryAttemptOutcome.IN_PROGRESS, DeliveryAttemptOutcome.DELIVERED,
     DeliveryAttemptOutcome.FAILED, DeliveryAttemptOutcome.AMBIGUOUS]"

definition DELEGATION_STATUSES :: "DelegationStatus list" where
  "DELEGATION_STATUSES = [DelegationStatus.REQUESTED, DelegationStatus.DISPATCHED,
     DelegationStatus.SUCCEEDED, DelegationStatus.FAILED, DelegationStatus.CANCELLED]"

definition WORKFLOW_EXECUTION_STATUSES :: "WorkflowExecutionStatus list" where
  "WORKFLOW_EXECUTION_STATUSES = [WorkflowExecutionStatus.RUNNING, WorkflowExecutionStatus.SUCCEEDED,
     WorkflowExecutionStatus.FAILED, WorkflowExecutionStatus.CANCELLED]"

definition WORKFLOW_NODE_EXECUTION_STATUSES :: "WorkflowNodeExecutionStatus list" where
  "WORKFLOW_NODE_EXECUTION_STATUSES = [WorkflowNodeExecutionStatus.PENDING,
     WorkflowNodeExecutionStatus.DISPATCHED, WorkflowNodeExecutionStatus.SUCCEEDED,
     WorkflowNodeExecutionStatus.FAILED, WorkflowNodeExecutionStatus.CANCELLED,
     WorkflowNodeExecutionStatus.BLOCKED]"

lemma source_kind_of [simp]: "enum_of source_kind_value DELIVERY_SOURCE_KINDS (source_kind_value x) = Inr x"
  by (rule enum_of_value; cases x) (auto simp: DELIVERY_SOURCE_KINDS_def inj_on_def elim!: source_kind_value.elims)

lemma delivery_status_of [simp]: "enum_of delivery_status_value DELIVERY_STATUSES (delivery_status_value x) = Inr x"
  by (rule enum_of_value; cases x) (auto simp: DELIVERY_STATUSES_def inj_on_def elim!: delivery_status_value.elims)

lemma attempt_outcome_parse [simp]: "enum_of attempt_outcome_value DELIVERY_ATTEMPT_OUTCOMES (attempt_outcome_value x) = Inr x"
  by (rule enum_of_value; cases x) (auto simp: DELIVERY_ATTEMPT_OUTCOMES_def inj_on_def elim!: attempt_outcome_value.elims)

lemma delegation_status_of [simp]: "enum_of delegation_status_value DELEGATION_STATUSES (delegation_status_value x) = Inr x"
  by (rule enum_of_value; cases x) (auto simp: DELEGATION_STATUSES_def inj_on_def elim!: delegation_status_value.elims)

lemma wx_status_of [simp]: "enum_of wx_status_value WORKFLOW_EXECUTION_STATUSES (wx_status_value x) = Inr x"
  by (rule enum_of_value; cases x) (auto simp: WORKFLOW_EXECUTION_STATUSES_def inj_on_def elim!: wx_status_value.elims)

lemma wne_status_of [simp]: "enum_of wne_status_value WORKFLOW_NODE_EXECUTION_STATUSES (wne_status_value x) = Inr x"
  by (rule enum_of_value; cases x) (auto simp: WORKFLOW_NODE_EXECUTION_STATUSES_def inj_on_def elim!: wne_status_value.elims)

lemma read_back_stored [simp]:
  "map_option read_back_utc (map_option sqlite_datetime (map_option utc x)) = map_option utc x"
  by (cases x) simp_all

lemma ensure_utc_option [simp]: "validate_opt ensure_utc (map_option utc x) = Inr x"
  by (cases x) simp_all

section \<open>Rows and mappers\<close>

record DelegationRequestRow =
  dgr_id :: string
  dgr_parent_run_id :: string
  dgr_parent_run_step_id :: "string option"
  dgr_target_agent_id :: string
  dgr_objective :: string
  dgr_input_payload :: pyval
  dgr_expected_output_contract :: string
  dgr_authorization_fingerprint :: string
  dgr_status :: string
  dgr_child_task_id :: "string option"
  dgr_child_run_id :: "string option"
  dgr_created_at :: datetime
  dgr_started_at :: "datetime option"
  dgr_completed_at :: "datetime option"
  dgr_failure_code :: "string option"
  dgr_root_delegation_id :: string
  dgr_depth :: int

definition delegation_request_to_row :: "DelegationRequest \<Rightarrow> DelegationRequestRow" where
  "delegation_request_to_row v =
     \<lparr>dgr_id = id_str (dg_id v), dgr_parent_run_id = id_str (dg_parent_run_id v),
      dgr_parent_run_step_id = map_option id_str (dg_parent_run_step_id v),
      dgr_target_agent_id = id_str (dg_target_agent_id v), dgr_objective = dg_objective v,
      dgr_input_payload = dg_input_payload v,
      dgr_expected_output_contract = dg_expected_output_contract v,
      dgr_authorization_fingerprint = dg_authorization_fingerprint v,
      dgr_status = delegation_status_value (dg_status v),
      dgr_child_task_id = map_option id_str (dg_child_task_id v),
      dgr_child_run_id = map_option id_str (dg_child_run_id v),
      dgr_created_at = utc (dg_created_at v),
      dgr_started_at = map_option utc (dg_started_at v),
      dgr_completed_at = map_option utc (dg_completed_at v),
      dgr_failure_code = dg_failure_code v,
      dgr_root_delegation_id = id_str (dg_root_delegation_id v), dgr_depth = dg_depth v\<rparr>"

definition delegation_request_from_row :: "(string \<Rightarrow> string) \<Rightarrow> DelegationRequestRow \<Rightarrow> domain_error + DelegationRequest" where
  "delegation_request_from_row sha256 row =
     ebind (id_post_init (dgr_id row)) (\<lambda>i.
     ebind (id_post_init (dgr_parent_run_id row)) (\<lambda>parent_run_id.
     ebind (id_post_init (dgr_target_agent_id row)) (\<lambda>target_agent_id.
     ebind (enum_of delegation_status_value DELEGATION_STATUSES (dgr_status row)) (\<lambda>status.
     ebind (parse_opt (dgr_parent_run_step_id row)) (\<lambda>parent_run_step_id.
     ebind (parse_opt (dgr_child_task_id row)) (\<lambda>child_task_id.
     ebind (parse_opt (dgr_child_run_id row)) (\<lambda>child_run_id.
     ebind (id_post_init (dgr_root_delegation_id row)) (\<lambda>root_delegation_id.
     delegation_post_init sha256
       \<lparr>dd_id = i, dd_parent_run_id = parent_run_id, dd_target_agent_id = target_agent_id,
       dd_objective = dgr_objective row, dd_input_payload = dgr_input_payload row,
       dd_expected_output_contract = dgr_expected_output_contract row,
       dd_authorization_fingerprint = dgr_authorization_fingerprint row, dd_status = status,
       dd_created_at = read_back_utc (dgr_created_at row),
       dd_parent_run_step_id = parent_run_step_id, dd_child_task_id = child_task_id,
       dd_child_run_id = child_run_id,
       dd_started_at = map_option read_back_utc (dgr_started_at row),
       dd_completed_at = map_option read_back_utc (dgr_completed_at row),
       dd_failure_code = dgr_failure_code row, dd_root_delegation_id = Some root_delegation_id,
       dd_depth = Some (dgr_depth row)\<rparr>))))))))"

definition delegation_request_row_stored :: "DelegationRequestRow \<Rightarrow> DelegationRequestRow" where
  "delegation_request_row_stored row = row\<lparr>dgr_created_at := sqlite_datetime (dgr_created_at row),
     dgr_started_at := map_option sqlite_datetime (dgr_started_at row),
     dgr_completed_at := map_option sqlite_datetime (dgr_completed_at row)\<rparr>"

record WorkflowExecutionRow =
  wxr_id :: string
  wxr_root_run_id :: string
  wxr_workflow_id :: string
  wxr_workflow_revision_id :: string
  wxr_workflow_content_sha256 :: string
  wxr_status :: string
  wxr_started_at :: datetime
  wxr_completed_at :: "datetime option"
  wxr_failure_code :: "string option"
  wxr_failure_message :: "string option"

definition workflow_execution_to_row :: "WorkflowExecution \<Rightarrow> WorkflowExecutionRow" where
  "workflow_execution_to_row v =
     \<lparr>wxr_id = id_str (wx_id v), wxr_root_run_id = id_str (wx_root_run_id v),
      wxr_workflow_id = id_str (wx_workflow_id v),
      wxr_workflow_revision_id = id_str (wx_workflow_revision_id v),
      wxr_workflow_content_sha256 = wx_workflow_content_sha256 v,
      wxr_status = wx_status_value (wx_status v), wxr_started_at = utc (wx_started_at v),
      wxr_completed_at = map_option utc (wx_completed_at v),
      wxr_failure_code = wx_failure_code v, wxr_failure_message = wx_failure_message v\<rparr>"

definition workflow_execution_from_row :: "WorkflowExecutionRow \<Rightarrow> domain_error + WorkflowExecution" where
  "workflow_execution_from_row row =
     ebind (id_post_init (wxr_id row)) (\<lambda>i.
     ebind (id_post_init (wxr_root_run_id row)) (\<lambda>root_run_id.
     ebind (id_post_init (wxr_workflow_id row)) (\<lambda>workflow_id.
     ebind (id_post_init (wxr_workflow_revision_id row)) (\<lambda>workflow_revision_id.
     ebind (enum_of wx_status_value WORKFLOW_EXECUTION_STATUSES (wxr_status row)) (\<lambda>status.
     wx_post_init
       \<lparr>wx_id = i, wx_root_run_id = root_run_id, wx_workflow_id = workflow_id,
       wx_workflow_revision_id = workflow_revision_id,
       wx_workflow_content_sha256 = wxr_workflow_content_sha256 row, wx_status = status,
       wx_started_at = 0, wx_completed_at = None, wx_failure_code = wxr_failure_code row,
       wx_failure_message = wxr_failure_message row\<rparr>
       (read_back_utc (wxr_started_at row)) (map_option read_back_utc (wxr_completed_at row)))))))"

definition workflow_execution_row_stored :: "WorkflowExecutionRow \<Rightarrow> WorkflowExecutionRow" where
  "workflow_execution_row_stored row = row\<lparr>wxr_started_at := sqlite_datetime (wxr_started_at row),
     wxr_completed_at := map_option sqlite_datetime (wxr_completed_at row)\<rparr>"

record WorkflowNodeExecutionRow =
  wner_id :: string
  wner_workflow_execution_id :: string
  wner_workflow_node_id :: string
  wner_workflow_revision_id :: string
  wner_node_key :: string
  wner_target_agent_id :: string
  wner_target_agent_revision_id :: string
  wner_target_agent_revision_sha256 :: string
  wner_status :: string
  wner_child_task_id :: "string option"
  wner_child_run_id :: "string option"
  wner_child_execution_id :: "string option"
  wner_result_payload :: pyval
  wner_failure_code :: "string option"
  wner_failure_message :: "string option"
  wner_created_at :: datetime
  wner_started_at :: "datetime option"
  wner_completed_at :: "datetime option"

definition workflow_node_execution_to_row :: "WorkflowNodeExecution \<Rightarrow> WorkflowNodeExecutionRow" where
  "workflow_node_execution_to_row v =
     \<lparr>wner_id = id_str (wne_id v),
      wner_workflow_execution_id = id_str (wne_workflow_execution_id v),
      wner_workflow_node_id = id_str (wne_workflow_node_id v),
      wner_workflow_revision_id = id_str (wne_workflow_revision_id v),
      wner_node_key = wne_node_key v, wner_target_agent_id = id_str (wne_target_agent_id v),
      wner_target_agent_revision_id = id_str (wne_target_agent_revision_id v),
      wner_target_agent_revision_sha256 = wne_target_agent_revision_sha256 v,
      wner_status = wne_status_value (wne_status v),
      wner_child_task_id = map_option id_str (wne_child_task_id v),
      wner_child_run_id = map_option id_str (wne_child_run_id v),
      wner_child_execution_id = map_option id_str (wne_child_execution_id v),
      wner_result_payload = wne_result_payload v, wner_failure_code = wne_failure_code v,
      wner_failure_message = wne_failure_message v, wner_created_at = utc (wne_created_at v),
      wner_started_at = map_option utc (wne_started_at v),
      wner_completed_at = map_option utc (wne_completed_at v)\<rparr>"

definition workflow_node_execution_from_row :: "WorkflowNodeExecutionRow \<Rightarrow> domain_error + WorkflowNodeExecution" where
  "workflow_node_execution_from_row row =
     ebind (id_post_init (wner_id row)) (\<lambda>i.
     ebind (id_post_init (wner_workflow_execution_id row)) (\<lambda>workflow_execution_id.
     ebind (id_post_init (wner_workflow_node_id row)) (\<lambda>workflow_node_id.
     ebind (id_post_init (wner_workflow_revision_id row)) (\<lambda>workflow_revision_id.
     ebind (id_post_init (wner_target_agent_id row)) (\<lambda>target_agent_id.
     ebind (id_post_init (wner_target_agent_revision_id row)) (\<lambda>target_agent_revision_id.
     ebind (enum_of wne_status_value WORKFLOW_NODE_EXECUTION_STATUSES (wner_status row)) (\<lambda>status.
     ebind (parse_opt (wner_child_task_id row)) (\<lambda>child_task_id.
     ebind (parse_opt (wner_child_run_id row)) (\<lambda>child_run_id.
     ebind (parse_opt (wner_child_execution_id row)) (\<lambda>child_execution_id.
     wne_post_init
       \<lparr>wne_id = i, wne_workflow_execution_id = workflow_execution_id,
       wne_workflow_node_id = workflow_node_id,
       wne_workflow_revision_id = workflow_revision_id, wne_node_key = wner_node_key row,
       wne_target_agent_id = target_agent_id,
       wne_target_agent_revision_id = target_agent_revision_id,
       wne_target_agent_revision_sha256 = wner_target_agent_revision_sha256 row,
       wne_status = status, wne_created_at = 0, wne_child_task_id = child_task_id,
       wne_child_run_id = child_run_id, wne_child_execution_id = child_execution_id,
       wne_result_payload = wner_result_payload row, wne_failure_code = wner_failure_code row,
       wne_failure_message = wner_failure_message row, wne_started_at = None,
       wne_completed_at = None\<rparr>
       (read_back_utc (wner_created_at row)) (map_option read_back_utc (wner_started_at row))
       (map_option read_back_utc (wner_completed_at row))))))))))))"

definition workflow_node_execution_row_stored :: "WorkflowNodeExecutionRow \<Rightarrow> WorkflowNodeExecutionRow" where
  "workflow_node_execution_row_stored row = row\<lparr>wner_created_at := sqlite_datetime (wner_created_at row),
     wner_started_at := map_option sqlite_datetime (wner_started_at row),
     wner_completed_at := map_option sqlite_datetime (wner_completed_at row)\<rparr>"

record OutboundDeliveryRow =
  odr_id :: string
  odr_source_kind :: string
  odr_source_run_id :: string
  odr_source_tool_invocation_id :: "string option"
  odr_source_schedule_fire_id :: "string option"
  odr_route_id :: string
  odr_route_fingerprint :: string
  odr_subject :: "string option"
  odr_body :: string
  odr_body_sha256 :: string
  odr_status :: string
  odr_available_at :: datetime
  odr_attempt_count :: int
  odr_claim_owner :: "string option"
  odr_claim_token :: "string option"
  odr_claim_generation :: int
  odr_claim_expires_at :: "datetime option"
  odr_provider_message_id :: "string option"
  odr_failure_code :: "string option"
  odr_failure_message :: "string option"
  odr_created_at :: datetime
  odr_updated_at :: datetime
  odr_delivered_at :: "datetime option"
  odr_dispatch_started_at :: "datetime option"

definition outbound_delivery_to_row :: "OutboundDelivery \<Rightarrow> OutboundDeliveryRow" where
  "outbound_delivery_to_row v =
     \<lparr>odr_id = id_str (od_id v), odr_source_kind = source_kind_value (od_source_kind v),
      odr_source_run_id = id_str (od_source_run_id v),
      odr_source_tool_invocation_id = map_option id_str (od_source_tool_invocation_id v),
      odr_source_schedule_fire_id = map_option id_str (od_source_schedule_fire_id v),
      odr_route_id = od_route_id v, odr_route_fingerprint = od_route_fingerprint v,
      odr_subject = od_subject v, odr_body = od_body v, odr_body_sha256 = od_body_sha256 v,
      odr_status = delivery_status_value (od_status v),
      odr_available_at = utc (od_available_at v), odr_attempt_count = od_attempt_count v,
      odr_claim_owner = od_claim_owner v, odr_claim_token = od_claim_token v,
      odr_claim_generation = od_claim_generation v,
      odr_claim_expires_at = map_option utc (od_claim_expires_at v),
      odr_provider_message_id = od_provider_message_id v, odr_failure_code = od_failure_code v,
      odr_failure_message = od_failure_message v, odr_created_at = utc (od_created_at v),
      odr_updated_at = utc (od_updated_at v),
      odr_delivered_at = map_option utc (od_delivered_at v),
      odr_dispatch_started_at = map_option utc (od_dispatch_started_at v)\<rparr>"

definition outbound_delivery_from_row :: "(string \<Rightarrow> string) \<Rightarrow> OutboundDeliveryRow \<Rightarrow> domain_error + OutboundDelivery" where
  "outbound_delivery_from_row sha256 row =
     ebind (id_post_init (odr_id row)) (\<lambda>i.
     ebind (enum_of source_kind_value DELIVERY_SOURCE_KINDS (odr_source_kind row)) (\<lambda>source_kind.
     ebind (id_post_init (odr_source_run_id row)) (\<lambda>source_run_id.
     ebind (parse_opt (odr_source_tool_invocation_id row)) (\<lambda>source_tool_invocation_id.
     ebind (parse_opt (odr_source_schedule_fire_id row)) (\<lambda>source_schedule_fire_id.
     ebind (enum_of delivery_status_value DELIVERY_STATUSES (odr_status row)) (\<lambda>status.
     od_post_init sha256
       \<lparr>od_id = i, od_source_kind = source_kind, od_source_run_id = source_run_id,
       od_source_tool_invocation_id = source_tool_invocation_id,
       od_source_schedule_fire_id = source_schedule_fire_id, od_route_id = odr_route_id row,
       od_route_fingerprint = odr_route_fingerprint row, od_subject = odr_subject row,
       od_body = odr_body row, od_body_sha256 = odr_body_sha256 row, od_status = status,
       od_available_at = 0, od_attempt_count = odr_attempt_count row,
       od_claim_owner = odr_claim_owner row, od_claim_token = odr_claim_token row,
       od_claim_generation = odr_claim_generation row, od_claim_expires_at = None,
       od_provider_message_id = odr_provider_message_id row,
       od_failure_code = odr_failure_code row, od_failure_message = odr_failure_message row,
       od_created_at = 0, od_updated_at = 0, od_delivered_at = None,
       od_dispatch_started_at = None\<rparr>
       (read_back_utc (odr_available_at row)) (map_option read_back_utc (odr_claim_expires_at row))
       (read_back_utc (odr_created_at row)) (read_back_utc (odr_updated_at row))
       (map_option read_back_utc (odr_delivered_at row))
       (map_option read_back_utc (odr_dispatch_started_at row))))))))"

definition outbound_delivery_row_stored :: "OutboundDeliveryRow \<Rightarrow> OutboundDeliveryRow" where
  "outbound_delivery_row_stored row = row\<lparr>odr_available_at := sqlite_datetime (odr_available_at row),
     odr_claim_expires_at := map_option sqlite_datetime (odr_claim_expires_at row),
     odr_created_at := sqlite_datetime (odr_created_at row),
     odr_updated_at := sqlite_datetime (odr_updated_at row),
     odr_delivered_at := map_option sqlite_datetime (odr_delivered_at row),
     odr_dispatch_started_at := map_option sqlite_datetime (odr_dispatch_started_at row)\<rparr>"

record DeliveryAttemptRow =
  dar_id :: string
  dar_delivery_id :: string
  dar_claim_generation :: int
  dar_started_at :: datetime
  dar_finished_at :: "datetime option"
  dar_outcome :: string
  dar_failure_code :: "string option"

text \<open>Attempts have no \<^verbatim>\<open>to_row\<close> mapper: \<open>delivery_attempt_row\<close> is the row the fenced SQL writes.\<close>

definition delivery_attempt_row :: "DeliveryAttempt \<Rightarrow> DeliveryAttemptRow" where
  "delivery_attempt_row v =
     \<lparr>dar_id = id_str (da_id v), dar_delivery_id = id_str (da_delivery_id v),
      dar_claim_generation = da_claim_generation v, dar_started_at = utc (da_started_at v),
      dar_finished_at = map_option utc (da_finished_at v),
      dar_outcome = attempt_outcome_value (da_outcome v), dar_failure_code = da_failure_code v\<rparr>"

definition delivery_attempt_from_row :: "DeliveryAttemptRow \<Rightarrow> domain_error + DeliveryAttempt" where
  "delivery_attempt_from_row row =
     ebind (id_post_init (dar_id row)) (\<lambda>i.
     ebind (id_post_init (dar_delivery_id row)) (\<lambda>delivery_id.
     ebind (enum_of attempt_outcome_value DELIVERY_ATTEMPT_OUTCOMES (dar_outcome row)) (\<lambda>outcome.
     da_post_init
       \<lparr>da_id = i, da_delivery_id = delivery_id, da_claim_generation = dar_claim_generation row,
       da_started_at = 0, da_finished_at = None, da_outcome = outcome,
       da_failure_code = dar_failure_code row\<rparr>
       (read_back_utc (dar_started_at row)) (map_option read_back_utc (dar_finished_at row)))))"

definition delivery_attempt_row_stored :: "DeliveryAttemptRow \<Rightarrow> DeliveryAttemptRow" where
  "delivery_attempt_row_stored row = row\<lparr>dar_started_at := sqlite_datetime (dar_started_at row),
     dar_finished_at := map_option sqlite_datetime (dar_finished_at row)\<rparr>"

section \<open>CHECK constraints\<close>

definition ck_delegation_requests_status :: "DelegationRequestRow \<Rightarrow> bool" where
  "ck_delegation_requests_status row \<longleftrightarrow>
     dgr_status row \<in> set [''requested'', ''dispatched'', ''succeeded'', ''failed'', ''cancelled'']"

definition ck_delegation_requests_root_shape :: "DelegationRequestRow \<Rightarrow> bool" where
  "ck_delegation_requests_root_shape row \<longleftrightarrow>
     1 \<le> dgr_depth row \<and>
     ((dgr_depth row = 1 \<and> dgr_root_delegation_id row = dgr_id row) \<or>
      (1 < dgr_depth row \<and> dgr_root_delegation_id row \<noteq> dgr_id row))"

definition ck_delegation_requests_fingerprint :: "DelegationRequestRow \<Rightarrow> bool" where
  "ck_delegation_requests_fingerprint row \<longleftrightarrow> sql_hex64 (dgr_authorization_fingerprint row)"

definition ck_delegation_requests_text :: "DelegationRequestRow \<Rightarrow> bool" where
  "ck_delegation_requests_text row \<longleftrightarrow>
     length (sql_text (dgr_objective row)) \<in> {1..4000} \<and>
     length (sql_text (dgr_expected_output_contract row)) \<in> {1..4000}"

definition ck_delegation_requests_state_shape :: "DelegationRequestRow \<Rightarrow> bool" where
  "ck_delegation_requests_state_shape row \<longleftrightarrow>
     (dgr_child_run_id row = None \<or> dgr_child_task_id row \<noteq> None) \<and>
     ((dgr_status row = ''failed'') = (dgr_failure_code row \<noteq> None)) \<and>
     ((dgr_status row = ''requested'' \<and> dgr_child_task_id row = None \<and> dgr_child_run_id row = None \<and>
       dgr_started_at row = None \<and> dgr_completed_at row = None \<and> dgr_failure_code row = None) \<or>
      (dgr_status row = ''dispatched'' \<and> dgr_child_task_id row \<noteq> None \<and> dgr_child_run_id row \<noteq> None \<and>
       dgr_started_at row \<noteq> None \<and> dgr_completed_at row = None \<and> dgr_failure_code row = None) \<or>
      (dgr_status row = ''succeeded'' \<and> dgr_child_task_id row \<noteq> None \<and> dgr_child_run_id row \<noteq> None \<and>
       dgr_started_at row \<noteq> None \<and> dgr_completed_at row \<noteq> None \<and> dgr_failure_code row = None) \<or>
      (dgr_status row = ''failed'' \<and> dgr_child_task_id row \<noteq> None \<and> dgr_child_run_id row \<noteq> None \<and>
       dgr_started_at row \<noteq> None \<and> dgr_completed_at row \<noteq> None \<and> dgr_failure_code row \<noteq> None) \<or>
      (dgr_status row = ''cancelled'' \<and> dgr_failure_code row = None \<and>
       ((dgr_child_task_id row = None \<and> dgr_child_run_id row = None \<and> dgr_started_at row = None) \<or>
        (dgr_child_task_id row \<noteq> None \<and> dgr_child_run_id row \<noteq> None \<and> dgr_started_at row \<noteq> None)) \<and>
       dgr_completed_at row \<noteq> None))"

definition ck_workflow_executions_state_shape :: "WorkflowExecutionRow \<Rightarrow> bool" where
  "ck_workflow_executions_state_shape row \<longleftrightarrow>
     (wxr_status row = ''running'' \<and> wxr_completed_at row = None \<and> wxr_failure_code row = None \<and>
      wxr_failure_message row = None) \<or>
     (wxr_status row = ''succeeded'' \<and> wxr_completed_at row \<noteq> None \<and> wxr_failure_code row = None \<and>
      wxr_failure_message row = None) \<or>
     (wxr_status row = ''failed'' \<and> wxr_completed_at row \<noteq> None \<and> wxr_failure_code row \<noteq> None \<and>
      wxr_failure_message row \<noteq> None) \<or>
     (wxr_status row = ''cancelled'' \<and> wxr_completed_at row \<noteq> None \<and> wxr_failure_code row = None)"

definition ck_workflow_executions_sha256 :: "WorkflowExecutionRow \<Rightarrow> bool" where
  "ck_workflow_executions_sha256 row \<longleftrightarrow> sql_hex64 (wxr_workflow_content_sha256 row)"

definition ck_workflow_node_executions_state_shape :: "WorkflowNodeExecutionRow \<Rightarrow> bool" where
  "ck_workflow_node_executions_state_shape row \<longleftrightarrow>
     (let none = (wner_child_task_id row = None \<and> wner_child_run_id row = None \<and> wner_child_execution_id row = None);
          all = (wner_child_task_id row \<noteq> None \<and> wner_child_run_id row \<noteq> None \<and> wner_child_execution_id row \<noteq> None);
          clean = (wner_failure_code row = None \<and> wner_failure_message row = None);
          failed = (wner_failure_code row \<noteq> None \<and> wner_failure_message row \<noteq> None) in
      (wner_status row = ''pending'' \<and> none \<and> wner_started_at row = None \<and> wner_completed_at row = None \<and> clean) \<or>
      (wner_status row = ''dispatched'' \<and> all \<and> wner_started_at row \<noteq> None \<and> wner_completed_at row = None \<and> clean) \<or>
      (wner_status row = ''succeeded'' \<and> all \<and> wner_started_at row \<noteq> None \<and> wner_completed_at row \<noteq> None \<and> clean) \<or>
      (wner_status row = ''failed'' \<and> all \<and> wner_started_at row \<noteq> None \<and> wner_completed_at row \<noteq> None \<and> failed) \<or>
      (wner_status row = ''cancelled'' \<and> wner_completed_at row \<noteq> None \<and> clean \<and>
       ((none \<and> wner_started_at row = None) \<or> (all \<and> wner_started_at row \<noteq> None))) \<or>
      (wner_status row = ''blocked'' \<and> wner_completed_at row \<noteq> None \<and> none \<and> failed))"

definition ck_workflow_node_executions_sha256 :: "WorkflowNodeExecutionRow \<Rightarrow> bool" where
  "ck_workflow_node_executions_sha256 row \<longleftrightarrow> sql_hex64 (wner_target_agent_revision_sha256 row)"

definition ck_outbound_deliveries :: "OutboundDeliveryRow \<Rightarrow> bool" where
  "ck_outbound_deliveries row \<longleftrightarrow>
     odr_status row \<in> set [''queued'', ''sending'', ''delivered'', ''failed'', ''ambiguous'', ''cancelled''] \<and>
     0 \<le> odr_attempt_count row \<and> 0 \<le> odr_claim_generation row \<and>
     ((odr_source_kind row = ''agent_request'' \<and> odr_source_tool_invocation_id row \<noteq> None \<and>
       odr_source_schedule_fire_id row = None) \<or>
      (odr_source_kind row = ''scheduled_run_answer'' \<and> odr_source_tool_invocation_id row = None \<and>
       odr_source_schedule_fire_id row \<noteq> None)) \<and>
     sql_hex64 (odr_route_fingerprint row) \<and> sql_hex64 (odr_body_sha256 row)"

text \<open>Stored timestamps are compared as SQLite keeps them, by their wall clock.\<close>

primrec wall :: "datetime \<Rightarrow> int" where
  "wall (Naive w) = w"
| "wall (Aware w offset) = w"

definition ck_delivery_attempts :: "DeliveryAttemptRow \<Rightarrow> bool" where
  "ck_delivery_attempts row \<longleftrightarrow>
     0 < dar_claim_generation row \<and>
     ((dar_outcome row = ''in_progress'' \<and> dar_finished_at row = None \<and> dar_failure_code row = None) \<or>
      (dar_outcome row = ''delivered'' \<and> dar_finished_at row \<noteq> None \<and> dar_failure_code row = None) \<or>
      (dar_outcome row \<in> set [''failed'', ''ambiguous''] \<and> dar_finished_at row \<noteq> None \<and>
       dar_failure_code row \<noteq> None)) \<and>
     pred_option (\<lambda>f. wall (dar_started_at row) \<le> wall f) (dar_finished_at row) \<and>
     pred_option (\<lambda>c. length (sql_text c) \<in> {1..128} \<and>
        set (sql_text c) \<subseteq> set ''abcdefghijklmnopqrstuvwxyz0123456789_'') (dar_failure_code row)"

end
