(* ===== verification/Row_Agreement.thy ===== *)
theory Row_Agreement
  imports Execution_Rows
begin

text \<open>
  The entities of the execution tables and their rows agree: what the lifecycle of a class
  produces satisfies every CHECK constraint of its table, and is read back unchanged.
\<close>

section \<open>Delegations\<close>

lemma delegation_failure_shape:
  "delegation_validate_state_shape d = Inr () \<Longrightarrow>
   (dg_failure_code d \<noteq> None) = (dg_status d = DelegationStatus.FAILED)"
  by (cases "dg_status d") (auto simp: delegation_validate_state_shape_def outcome_simps Let_def)

definition delegation_ids_ok :: "DelegationRequest \<Rightarrow> bool" where
  "delegation_ids_ok d \<longleftrightarrow>
     id_ok (dg_id d) \<and> id_ok (dg_parent_run_id d) \<and> id_ok (dg_target_agent_id d) \<and>
     pred_option id_ok (dg_parent_run_step_id d) \<and> pred_option id_ok (dg_child_task_id d) \<and>
     pred_option id_ok (dg_child_run_id d) \<and> id_ok (dg_root_delegation_id d)"

lemma delegation_request_round_trip:
  assumes "delegation_ids_ok d" and inv: "delegation_inv sha256 d"
    and "lower_hex64 (dg_authorization_fingerprint d)"
    and "py_strip (dg_objective d) = dg_objective d"
    and "py_strip (dg_expected_output_contract d) = dg_expected_output_contract d"
  shows "delegation_request_from_row sha256 (delegation_request_row_stored (delegation_request_to_row d)) = Inr d"
proof -
  from inv have "delegation_validate_state_shape d = Inr ()" by (simp add: delegation_inv_def)
  from delegation_failure_shape [OF this] assms show ?thesis
    by (cases d) (auto simp: delegation_request_from_row_def delegation_request_row_stored_def
        delegation_request_to_row_def delegation_ids_ok_def delegation_inv_def delegation_post_init_def
        ensure_json_Inr_iff outcome_simps)
qed

lemma delegation_new_requested:
  "delegation_new sha256 i p t ob pl ct at st root dep = Inr d \<Longrightarrow>
   dg_status d = DelegationStatus.REQUESTED \<and> dg_child_task_id d = None \<and> dg_child_run_id d = None \<and>
   dg_started_at d = None \<and> dg_completed_at d = None \<and> dg_failure_code d = None"
  by (clarsimp simp: delegation_new_def delegation_post_init_def outcome_simps Let_def)

lemma delegation_new_shape:
  assumes "delegation_new sha256 i p t ob pl ct at st root dep = Inr d"
  shows "ck_delegation_requests_state_shape (delegation_request_to_row d)"
  using delegation_new_requested [OF assms]
  by (simp add: ck_delegation_requests_state_shape_def delegation_request_to_row_def)

lemma delegation_shape_iff:
  "ck_delegation_requests_state_shape (delegation_request_to_row d) \<longleftrightarrow>
   (let child = (dg_child_task_id d \<noteq> None \<and> dg_child_run_id d \<noteq> None \<and> dg_started_at d \<noteq> None);
        none = (dg_child_task_id d = None \<and> dg_child_run_id d = None \<and> dg_started_at d = None) in
    (dg_failure_code d \<noteq> None) = (dg_status d = DelegationStatus.FAILED) \<and>
    (dg_completed_at d = None) = (dg_status d \<in> {DelegationStatus.REQUESTED, DelegationStatus.DISPATCHED}) \<and>
    (case dg_status d of DelegationStatus.REQUESTED \<Rightarrow> none
     | DelegationStatus.CANCELLED \<Rightarrow> none \<or> child
     | _ \<Rightarrow> child))"
  by (cases "dg_status d")
     (auto simp: ck_delegation_requests_state_shape_def delegation_request_to_row_def Let_def)

lemma delegation_step_shape:
  assumes "ck_delegation_requests_state_shape (delegation_request_to_row d)"
    and "delegation_step x d = Done d'"
  shows "ck_delegation_requests_state_shape (delegation_request_to_row d')"
  using assms unfolding delegation_shape_iff
  by (cases x) (clarsimp simp: delegation_defs outcome_simps Let_def; auto)+

lemma delegation_reaches_shape:
  "reaches delegation_step d d' \<Longrightarrow> ck_delegation_requests_state_shape (delegation_request_to_row d) \<Longrightarrow>
   ck_delegation_requests_state_shape (delegation_request_to_row d')"
  by (induction rule: reaches.induct) (auto dest: delegation_step_shape)

lemma delegation_row_checks:
  assumes "delegation_inv sha256 d" and "lower_hex64 (dg_authorization_fingerprint d)"
  shows "ck_delegation_requests_status (delegation_request_to_row d)"
    and "ck_delegation_requests_root_shape (delegation_request_to_row d)"
    and "ck_delegation_requests_fingerprint (delegation_request_to_row d)"
proof -
  show "ck_delegation_requests_status (delegation_request_to_row d)"
    by (cases "dg_status d") (simp_all add: ck_delegation_requests_status_def delegation_request_to_row_def)
  show "ck_delegation_requests_root_shape (delegation_request_to_row d)"
    using assms(1) ident.expand [of "dg_root_delegation_id d" "dg_id d"]
    by (auto simp: delegation_inv_def ck_delegation_requests_root_shape_def delegation_request_to_row_def
        ROOT_DELEGATION_DEPTH_def)
  show "ck_delegation_requests_fingerprint (delegation_request_to_row d)"
    using assms(2) by (simp add: ck_delegation_requests_fingerprint_def delegation_request_to_row_def lower_hex64_sql)
qed

text \<open>
  The length checks hold for a text without NUL characters. A text that begins with one
  passes the constructor and fails the check.
\<close>

lemma delegation_text_checks:
  assumes "delegation_inv sha256 d"
    and "CHR 0x00 \<notin> set (dg_objective d)" and "CHR 0x00 \<notin> set (dg_expected_output_contract d)"
  shows "ck_delegation_requests_text (delegation_request_to_row d)"
  using assms by (auto simp: delegation_inv_def ck_delegation_requests_text_def delegation_request_to_row_def
      sql_text_id MAX_OBJECTIVE_LENGTH_def MAX_OUTPUT_CONTRACT_LENGTH_def Suc_le_eq)

section \<open>Workflow executions\<close>

lemma wx_row_checks:
  assumes "wx_inv e"
  shows "ck_workflow_executions_state_shape (workflow_execution_to_row e)"
    and "ck_workflow_executions_sha256 (workflow_execution_to_row e)"
proof -
  show "ck_workflow_executions_state_shape (workflow_execution_to_row e)"
    using assms by (cases "wx_status e")
      (auto simp: wx_inv_def ck_workflow_executions_state_shape_def workflow_execution_to_row_def)
  have "lower_hex64 (wx_workflow_content_sha256 e)" using assms by (simp add: wx_inv_def)
  then show "ck_workflow_executions_sha256 (workflow_execution_to_row e)"
    by (simp add: ck_workflow_executions_sha256_def workflow_execution_to_row_def lower_hex64_sql)
qed

lemma wx_post_init_again:
  assumes "wx_inv e" and "ex = e\<lparr>wx_started_at := sx, wx_completed_at := cx\<rparr>"
  shows "wx_post_init ex (utc (wx_started_at e)) (map_option utc (wx_completed_at e)) = Inr e"
  using assms by (cases "wx_status e")
    (auto simp: wx_post_init_def wx_inv_def outcome_simps validate_sha256_def validate_failure_Inr_iff)

lemma workflow_execution_round_trip:
  assumes "wx_inv e" and "id_ok (wx_id e)" "id_ok (wx_root_run_id e)" "id_ok (wx_workflow_id e)"
    "id_ok (wx_workflow_revision_id e)"
  shows "workflow_execution_from_row (workflow_execution_row_stored (workflow_execution_to_row e)) = Inr e"
  using assms
  by (simp add: workflow_execution_from_row_def)
     (simp add: workflow_execution_row_stored_def workflow_execution_to_row_def
       wx_post_init_again [where sx = 0 and cx = None])

section \<open>Node executions\<close>

definition wne_row_shape :: "WorkflowNodeExecution \<Rightarrow> bool" where
  "wne_row_shape n \<longleftrightarrow> (wne_started_at n \<noteq> None) = wne_all_child n \<and> (wne_has_child n \<longrightarrow> wne_all_child n)"

lemma wne_ck_iff:
  "ck_workflow_node_executions_state_shape (workflow_node_execution_to_row n) \<longleftrightarrow>
   (case wne_status n of
      WorkflowNodeExecutionStatus.PENDING \<Rightarrow> \<not> wne_has_child n \<and> wne_started_at n = None \<and>
        wne_completed_at n = None \<and> wne_no_failure n
    | WorkflowNodeExecutionStatus.DISPATCHED \<Rightarrow> wne_all_child n \<and> wne_started_at n \<noteq> None \<and>
        wne_completed_at n = None \<and> wne_no_failure n
    | WorkflowNodeExecutionStatus.SUCCEEDED \<Rightarrow> wne_all_child n \<and> wne_started_at n \<noteq> None \<and>
        wne_completed_at n \<noteq> None \<and> wne_no_failure n
    | WorkflowNodeExecutionStatus.FAILED \<Rightarrow> wne_all_child n \<and> wne_started_at n \<noteq> None \<and>
        wne_completed_at n \<noteq> None \<and> wne_failure_code n \<noteq> None \<and> wne_failure_message n \<noteq> None
    | WorkflowNodeExecutionStatus.CANCELLED \<Rightarrow> wne_completed_at n \<noteq> None \<and> wne_no_failure n \<and>
        (\<not> wne_has_child n \<and> wne_started_at n = None \<or> wne_all_child n \<and> wne_started_at n \<noteq> None)
    | WorkflowNodeExecutionStatus.BLOCKED \<Rightarrow> wne_completed_at n \<noteq> None \<and> \<not> wne_has_child n \<and>
        wne_failure_code n \<noteq> None \<and> wne_failure_message n \<noteq> None)"
proof -
  let ?r = "workflow_node_execution_to_row n"
  have cols: "wner_status ?r = wne_status_value (wne_status n)"
    "(wner_started_at ?r = None) = (wne_started_at n = None)"
    "(wner_completed_at ?r = None) = (wne_completed_at n = None)"
    "wner_failure_code ?r = wne_failure_code n" "wner_failure_message ?r = wne_failure_message n"
    "(wner_child_task_id ?r = None) = (wne_child_task_id n = None)"
    "(wner_child_run_id ?r = None) = (wne_child_run_id n = None)"
    "(wner_child_execution_id ?r = None) = (wne_child_execution_id n = None)"
    by (simp_all add: workflow_node_execution_to_row_def)
  show ?thesis
    unfolding ck_workflow_node_executions_state_shape_def Let_def cols
    by (cases "wne_status n") (simp_all add: wne_has_child_def wne_all_child_def wne_no_failure_def)
qed

lemma wne_row_checks:
  assumes inv: "wne_inv n" and shape: "wne_row_shape n"
  shows "ck_workflow_node_executions_state_shape (workflow_node_execution_to_row n)"
    and "ck_workflow_node_executions_sha256 (workflow_node_execution_to_row n)"
proof -
  from inv have st: "wne_validate_status_shape n = Inr ()" and hex: "lower_hex64 (wne_target_agent_revision_sha256 n)"
    by (simp_all add: wne_inv_def)
  show "ck_workflow_node_executions_state_shape (workflow_node_execution_to_row n)"
    using st shape unfolding wne_ck_iff
    by (cases "wne_status n")
       (auto simp: wne_validate_status_shape_def wne_row_shape_def validate_failure_Inr_iff outcome_simps)
  show "ck_workflow_node_executions_sha256 (workflow_node_execution_to_row n)"
    using hex by (simp add: ck_workflow_node_executions_sha256_def workflow_node_execution_to_row_def lower_hex64_sql)
qed

lemma wne_pending_shape:
  "wne_inv n \<Longrightarrow> wne_status n = WorkflowNodeExecutionStatus.PENDING \<Longrightarrow> wne_row_shape n"
  by (auto simp: wne_inv_def wne_validate_status_shape_def outcome_simps wne_row_shape_def
      wne_has_child_def wne_all_child_def)

lemma wne_step_child:
  "wne_step x n = Done n' \<Longrightarrow>
   (wne_all_child n' \<and> wne_started_at n' \<noteq> None) \<or>
   (wne_child_task_id n' = wne_child_task_id n \<and> wne_child_run_id n' = wne_child_run_id n \<and>
    wne_child_execution_id n' = wne_child_execution_id n \<and> wne_started_at n' = wne_started_at n)"
  by (cases x) (auto simp: wne_defs outcome_simps wne_all_child_def)

lemma wne_step_shape:
  assumes "wne_row_shape n" and "wne_step x n = Done n'"
  shows "wne_row_shape n'"
  using wne_step_child [OF assms(2)]
proof
  assume "wne_all_child n' \<and> wne_started_at n' \<noteq> None"
  then show ?thesis by (simp add: wne_row_shape_def)
next
  assume same: "wne_child_task_id n' = wne_child_task_id n \<and> wne_child_run_id n' = wne_child_run_id n \<and>
    wne_child_execution_id n' = wne_child_execution_id n \<and> wne_started_at n' = wne_started_at n"
  then have "wne_all_child n' = wne_all_child n" "wne_has_child n' = wne_has_child n"
    by (simp_all add: wne_all_child_def wne_has_child_def)
  with assms(1) same show ?thesis by (simp add: wne_row_shape_def)
qed

lemma wne_reaches_shape: "reaches wne_step n n' \<Longrightarrow> wne_row_shape n \<Longrightarrow> wne_row_shape n'"
  by (induction rule: reaches.induct) (auto dest: wne_step_shape)

lemma wne_post_init_again:
  assumes "wne_inv n"
    and "nx = n\<lparr>wne_created_at := cx, wne_started_at := sx, wne_completed_at := fx\<rparr>"
  shows "wne_post_init nx (utc (wne_created_at n)) (map_option utc (wne_started_at n))
    (map_option utc (wne_completed_at n)) = Inr n"
proof -
  have "key_match (wne_node_key n)" "wne_node_key n \<noteq> []"
    using assms(1) by (auto simp: wne_inv_def simp flip: key_match_language)
  with assms show ?thesis
    by (auto simp: wne_post_init_def wne_inv_def wne_times_ok_def outcome_simps validate_sha256_def
        validate_failure_Inr_iff ensure_json_Inr_iff)
qed

lemma workflow_node_execution_round_trip:
  assumes "wne_inv n" and "id_ok (wne_id n)" "id_ok (wne_workflow_execution_id n)"
    "id_ok (wne_workflow_node_id n)" "id_ok (wne_workflow_revision_id n)" "id_ok (wne_target_agent_id n)"
    "id_ok (wne_target_agent_revision_id n)" "pred_option id_ok (wne_child_task_id n)"
    "pred_option id_ok (wne_child_run_id n)" "pred_option id_ok (wne_child_execution_id n)"
  shows "workflow_node_execution_from_row
      (workflow_node_execution_row_stored (workflow_node_execution_to_row n)) = Inr n"
  using assms
  by (simp add: workflow_node_execution_from_row_def)
     (simp add: workflow_node_execution_row_stored_def workflow_node_execution_to_row_def
       wne_post_init_again [where cx = 0 and sx = None and fx = None])

section \<open>Deliveries and attempts\<close>

lemma od_row_checks:
  assumes "od_inv sha256 d"
  shows "ck_outbound_deliveries (outbound_delivery_to_row d)"
proof -
  from assms have "lower_hex64 (od_route_fingerprint d)" "lower_hex64 (od_body_sha256 d)"
    unfolding od_inv_def od_content_ok_def by blast+
  then have hex: "sql_hex64 (od_route_fingerprint d)" "sql_hex64 (od_body_sha256 d)"
    by (simp_all only: lower_hex64_sql)
  have st: "delivery_status_value (od_status d) \<in>
      set [''queued'', ''sending'', ''delivered'', ''failed'', ''ambiguous'', ''cancelled'']"
    by (cases "od_status d") simp_all
  have src: "od_validate_source_shape d = Inr ()" and n: "0 \<le> od_attempt_count d" "0 \<le> od_claim_generation d"
    using assms by (simp_all add: od_inv_def od_content_ok_def od_shape_def)
  show ?thesis
    using hex st n src by (cases "od_source_kind d")
      (simp_all add: ck_outbound_deliveries_def outbound_delivery_to_row_def od_validate_source_shape_def outcome_simps)
qed

lemma failure_code_sql:
  assumes "failure_code_match c" and "length c \<le> 128"
  shows "length (sql_text c) \<in> {1..128} \<and> set (sql_text c) \<subseteq> set ''abcdefghijklmnopqrstuvwxyz0123456789_''"
proof -
  from assms have sub: "set c \<subseteq> set ''abcdefghijklmnopqrstuvwxyz0123456789_''" and ne: "c \<noteq> []"
    unfolding failure_code_match_def list_all_iff by blast+
  have "CHR 0x00 \<notin> set ''abcdefghijklmnopqrstuvwxyz0123456789_''" by simp
  with sub have "CHR 0x00 \<notin> set c" by blast
  then have t: "sql_text c = c" by (rule sql_text_id)
  have "1 \<le> length c" using ne by (simp add: Suc_le_eq)
  then show ?thesis unfolding t using sub assms(2) by simp
qed

lemma da_row_checks:
  assumes "da_inv a"
  shows "ck_delivery_attempts (delivery_attempt_row a)"
proof -
  have code: "pred_option (\<lambda>c. length (sql_text c) \<in> {1..128} \<and>
      set (sql_text c) \<subseteq> set ''abcdefghijklmnopqrstuvwxyz0123456789_'') (da_failure_code a)"
  proof (cases "da_failure_code a")
    case (Some c)
    with assms have "failure_code_match c" "length c \<le> 128" by (simp_all add: da_inv_def)
    from failure_code_sql [OF this] Some show ?thesis unfolding Some option.pred_inject by blast
  qed simp
  have fin: "pred_option (\<lambda>f. da_started_at a \<le> wall f) (map_option utc (da_finished_at a))"
    using assms by (cases "da_finished_at a") (simp_all add: da_inv_def)
  have shape: "(da_finished_at a = None) = (da_outcome a = DeliveryAttemptOutcome.IN_PROGRESS)"
    "(da_failure_code a \<noteq> None) =
      (da_outcome a \<in> {DeliveryAttemptOutcome.FAILED, DeliveryAttemptOutcome.AMBIGUOUS})"
    "0 < da_claim_generation a"
    using assms unfolding da_inv_def by blast+
  show ?thesis
    unfolding ck_delivery_attempts_def delivery_attempt_row_def DeliveryAttemptRow.simps
    using code fin shape by (cases "da_outcome a") (simp_all only: wall.simps attempt_outcome_value.simps, simp_all)
qed

lemma delivery_attempt_round_trip:
  assumes "da_inv a" and "id_ok (da_id a)" "id_ok (da_delivery_id a)"
  shows "delivery_attempt_from_row (delivery_attempt_row_stored (delivery_attempt_row a)) = Inr a"
  using assms by (cases a)
    (auto simp: delivery_attempt_from_row_def delivery_attempt_row_stored_def delivery_attempt_row_def
      da_post_init_def da_inv_def outcome_simps attempt_shape_Inr_iff)

text \<open>The optional texts of a delivery are within their bounds (what its constructor checks).\<close>

definition text_within :: "nat \<Rightarrow> string option \<Rightarrow> bool" where
  "text_within maximum x \<longleftrightarrow> pred_option (\<lambda>v. py_strip v \<noteq> [] \<and> length v \<le> maximum) x"

lemma od_optional_bounded_ok [simp]:
  "text_within maximum x \<Longrightarrow> od_optional_bounded x field maximum = Inr x"
  by (cases x) (auto simp: text_within_def od_optional_bounded_def od_bounded_def)

definition od_text_ok :: "OutboundDelivery \<Rightarrow> bool" where
  "od_text_ok d \<longleftrightarrow>
     text_within MAX_SUBJECT_LENGTH (od_subject d) \<and>
     text_within MAX_CLAIM_VALUE_LENGTH (od_claim_owner d) \<and>
     text_within MAX_CLAIM_VALUE_LENGTH (od_claim_token d) \<and>
     text_within MAX_PROVIDER_MESSAGE_ID_LENGTH (od_provider_message_id d) \<and>
     text_within MAX_DELIVERY_FAILURE_CODE_LENGTH (od_failure_code d) \<and>
     text_within MAX_FAILURE_MESSAGE_LENGTH (od_failure_message d)"

definition od_ids_ok :: "OutboundDelivery \<Rightarrow> bool" where
  "od_ids_ok d \<longleftrightarrow> id_ok (od_id d) \<and> id_ok (od_source_run_id d) \<and>
     pred_option id_ok (od_source_tool_invocation_id d) \<and> pred_option id_ok (od_source_schedule_fire_id d)"

lemma outbound_delivery_round_trip:
  assumes inv: "od_inv sha256 d" and bounds: "od_text_ok d" and ids: "od_ids_ok d"
  shows "outbound_delivery_from_row sha256 (outbound_delivery_row_stored (outbound_delivery_to_row d)) = Inr d"
proof -
  have "od_bounded (od_route_id d) ''route_id'' MAX_ROUTE_ID_LENGTH = Inr (od_route_id d)"
    using inv by (simp add: od_inv_def od_content_ok_def od_bounded_Inr_iff MAX_ROUTE_ID_LENGTH_def)
  moreover have "(od_claim_owner d = None) = (od_claim_token d = None)" "0 \<le> od_attempt_count d"
    "0 \<le> od_claim_generation d" using inv by (simp_all add: od_inv_def od_shape_def)
  moreover have "od_validate_source_shape x = Inr ()"
    if "od_source_kind x = od_source_kind d" "od_source_tool_invocation_id x = od_source_tool_invocation_id d"
      "od_source_schedule_fire_id x = od_source_schedule_fire_id d" for x
  proof -
    have "od_validate_source_shape x = od_validate_source_shape d"
      by (simp only: od_validate_source_shape_def that)
    then show ?thesis using inv by (simp add: od_inv_def od_content_ok_def)
  qed
  ultimately show ?thesis using assms
    by (cases d) (simp add: outbound_delivery_from_row_def outbound_delivery_row_stored_def
        outbound_delivery_to_row_def od_post_init_def od_inv_def od_content_ok_def od_text_ok_def
        od_ids_ok_def MAX_BODY_LENGTH_def outcome_simps)
qed

end
