(* ===== verification/Delivery_Properties.thy ===== *)
theory Delivery_Properties
  imports Delivery_Fencing Delivery_Recovery Row_Agreement
begin

text \<open>
  What the delivery pipeline promises, stated over the whole system of dispatchers, and a
  concrete run of it that shows the statements are not vacuous: one delivery is queued,
  claimed, checked, dispatched and handed to the transport by worker 0.
\<close>

section \<open>A concrete run\<close>

definition example_sha256 :: "string \<Rightarrow> string" where
  "example_sha256 s = replicate 64 (CHR ''0'')"

definition example_route :: MessagingRoute where
  "example_route = \<lparr>mr_route_id = ''ops'', mr_trusted_description = ''ops room'', mr_enabled = True, mr_transport = ''webhook'',
     mr_principal_id = ''friday'', mr_endpoint_env = ''HOOK'', mr_endpoint = ''https://example'',
     mr_payload_field = ''text'', mr_max_body_chars = 100, mr_timeout_seconds = Finite ''5.0''\<rparr>"

definition example_config :: dispatch_cfg where
  "example_config = \<lparr>cf_policy = \<lparr>rp_max_attempts = 3, rp_base_delay = 10, rp_multiplier = 2,
       rp_max_delay = 100\<rparr>, cf_worker_id = ''w0'', cf_lease_duration = 60,
     cf_candidate_limit = 5, cf_routes = [example_route]\<rparr>"

definition example_env :: dispatch_env where
  "example_env = \<lparr>ev_now = 1000, ev_tokens = [''token''],
     ev_attempt_id = Id ''00000000-0000-0000-0000-0000000000a1'',
     ev_reply = Some \<lparr>tr_outcome = TransportOutcome.DELIVERED, tr_failure_code = None\<rparr>\<rparr>"

definition example_d0 :: OutboundDelivery where
  "example_d0 =
     \<lparr>od_id = Id ''00000000-0000-0000-0000-0000000000d1'', od_source_kind = DeliverySourceKind.AGENT_REQUEST,
      od_source_run_id = Id ''00000000-0000-0000-0000-0000000000e1'',
      od_source_tool_invocation_id = Some (Id ''00000000-0000-0000-0000-0000000000f1''),
      od_source_schedule_fire_id = None, od_route_id = ''ops'',
      od_route_fingerprint = replicate 64 (CHR ''0''), od_subject = None, od_body = ''hello'',
      od_body_sha256 = replicate 64 (CHR ''0''), od_status = DeliveryStatus.QUEUED,
      od_available_at = 900, od_attempt_count = 0, od_claim_owner = None, od_claim_token = None,
      od_claim_generation = 0, od_claim_expires_at = None, od_provider_message_id = None,
      od_failure_code = None, od_failure_message = None, od_created_at = 900, od_updated_at = 900,
      od_delivered_at = None, od_dispatch_started_at = None\<rparr>"

definition example_d1 :: OutboundDelivery where
  "example_d1 = example_d0\<lparr>od_status := DeliveryStatus.SENDING, od_attempt_count := 1,
     od_claim_owner := Some ''w0'', od_claim_token := Some ''token'', od_claim_generation := 1,
     od_claim_expires_at := Some 1060, od_updated_at := 1000\<rparr>"

definition example_d2 :: OutboundDelivery where
  "example_d2 = example_d1\<lparr>od_dispatch_started_at := Some 1000\<rparr>"

definition example_d3 :: OutboundDelivery where
  "example_d3 = example_d2\<lparr>od_status := DeliveryStatus.DELIVERED, od_delivered_at := Some 1000\<rparr>"

definition example_attempt :: DeliveryAttempt where
  "example_attempt = \<lparr>da_id = Id ''00000000-0000-0000-0000-0000000000a1'',
     da_delivery_id = Id ''00000000-0000-0000-0000-0000000000d1'', da_claim_generation = 1,
     da_started_at = 1000, da_finished_at = None, da_outcome = DeliveryAttemptOutcome.IN_PROGRESS,
     da_failure_code = None\<rparr>"

definition example_claim :: "string \<Rightarrow> DeliveryClaim" where
  "example_claim t = \<lparr>dc_delivery_id = Id ''00000000-0000-0000-0000-0000000000d1'', dc_worker_id = ''w0'',
     dc_claim_token = t, dc_claim_generation = 1, dc_acquired_at = 1000, dc_lease_expires_at = 1060\<rparr>"

definition example_db :: "OutboundDelivery \<Rightarrow> DeliveryAttempt list \<Rightarrow> delivery_db" where
  "example_db d as = \<lparr>dv_deliveries = [d], dv_attempts = as\<rparr>"

lemma example_queue:
  "od_new example_sha256 (Id ''00000000-0000-0000-0000-0000000000d1'')
     DeliverySourceKind.AGENT_REQUEST (Id ''00000000-0000-0000-0000-0000000000e1'')
     (Some (Id ''00000000-0000-0000-0000-0000000000f1'')) None ''ops''
     (replicate 64 (CHR ''0'')) ''hello'' (utc 900) (utc 900) None None = Inr example_d0"
  by code_simp

lemma example_step1:
  "dispatch_next example_sha256 example_config example_env DStart (example_db example_d0 []) =
     (DClaimed (example_claim ''token''), example_db example_d1 [], None)"
  by code_simp

lemma example_step2:
  "dispatch_next example_sha256 example_config example_env (DClaimed (example_claim ''token''))
     (example_db example_d1 []) =
     (DReady (example_claim ''token'') example_d1 example_route, example_db example_d1 [], None)"
  by code_simp

lemma example_step3:
  "dispatch_next example_sha256 example_config example_env
     (DReady (example_claim ''token'') example_d1 example_route) (example_db example_d1 []) =
     (DSend (example_claim ''token'') example_d1 example_route, example_db example_d2 [example_attempt], None)"
  by code_simp

lemma example_step4:
  "dispatch_next example_sha256 example_config example_env
     (DSend (example_claim ''token'') example_d1 example_route) (example_db example_d2 [example_attempt]) =
     (DPersist (example_claim ''token'') (PersistDeliver None) DispatchResult.DELIVERED,
      example_db example_d2 [example_attempt],
      Some (Id ''00000000-0000-0000-0000-0000000000d1'', example_route, ''hello''))"
  by (simp add: dispatch_reply_def example_env_def example_d1_def example_d0_def)

lemma example_step5:
  "dispatch_next example_sha256 example_config example_env
     (DPersist (example_claim ''token'') (PersistDeliver None) DispatchResult.DELIVERED)
     (example_db example_d2 [example_attempt]) =
     (DFinished DispatchResult.DELIVERED, example_db example_d3
        [example_attempt\<lparr>da_outcome := DeliveryAttemptOutcome.DELIVERED, da_finished_at := Some 1000\<rparr>], None)"
  by code_simp

text \<open>A worker that runs alone is one interleaving of the system.\<close>

lemma dispatch_run_system:
  "dispatch_run sha cf evs (sy_pc s w) (sy_db s) = (pc, db, ms) \<Longrightarrow>
   (dispatch_step sha)\<^sup>*\<^sup>* s (s\<lparr>sy_db := db, sy_pc := (sy_pc s)(w := pc), sy_sent := rev ms @ sy_sent s\<rparr>)"
proof (induction evs arbitrary: s ms)
  case (Cons ev evs)
  obtain pc' db' m where n: "dispatch_next sha cf ev (sy_pc s w) (sy_db s) = (pc', db', m)"
    by (metis prod_cases3)
  let ?s = "s\<lparr>sy_db := db', sy_pc := (sy_pc s)(w := pc'),
    sy_sent := (case m of None \<Rightarrow> sy_sent s | Some x \<Rightarrow> x # sy_sent s)\<rparr>"
  from Cons.prems n obtain ms' where r: "dispatch_run sha cf evs pc' db' = (pc, db, ms')"
    and ms: "ms = (case m of None \<Rightarrow> ms' | Some x \<Rightarrow> x # ms')"
    by (auto split: prod.splits)
  have "(dispatch_step sha)\<^sup>*\<^sup>* ?s (?s\<lparr>sy_db := db, sy_pc := (sy_pc ?s)(w := pc), sy_sent := rev ms' @ sy_sent ?s\<rparr>)"
    by (rule Cons.IH) (simp add: r)
  then have "(dispatch_step sha)\<^sup>*\<^sup>* s (?s\<lparr>sy_db := db, sy_pc := (sy_pc ?s)(w := pc), sy_sent := rev ms' @ sy_sent ?s\<rparr>)"
    by (rule converse_rtranclp_into_rtranclp [of "dispatch_step sha", OF dispatch_step.work [OF n]])
  moreover have "(sy_pc ?s)(w := pc) = (sy_pc s)(w := pc)" by simp
  moreover have "rev ms' @ sy_sent ?s = rev ms @ sy_sent s" by (cases m) (simp_all add: ms)
  moreover have "?s\<lparr>sy_db := db, sy_pc := A, sy_sent := B\<rparr> = s\<lparr>sy_db := db, sy_pc := A, sy_sent := B\<rparr>"
    for A B by simp
  ultimately show ?case by (simp only:)
next
  case Nil
  then show ?case by (auto simp: fun_upd_idem)
qed

lemma example_queued_step:
  "dispatch_step example_sha256 dispatch_init (dispatch_init\<lparr>sy_db := example_db example_d0 []\<rparr>)"
  using dispatch_step.queue [OF example_queue, of dispatch_init] by (simp add: dispatch_init_def example_db_def)

definition example_run :: "nat \<Rightarrow> dispatch_pc \<times> delivery_db \<times> sent_message list" where
  "example_run n = dispatch_run example_sha256 example_config (replicate n example_env) DStart
     (example_db example_d0 [])"

lemmas example_steps = example_step1 example_step2 example_step3 example_step4 example_step5

lemma example_runs:
  "example_run 1 = (DClaimed (example_claim ''token''), example_db example_d1 [], [])"
  "example_run 3 = (DSend (example_claim ''token'') example_d1 example_route,
     example_db example_d2 [example_attempt], [])"
  "example_run 4 = (DPersist (example_claim ''token'') (PersistDeliver None) DispatchResult.DELIVERED,
     example_db example_d2 [example_attempt],
     [(Id ''00000000-0000-0000-0000-0000000000d1'', example_route, ''hello'')])"
  by (simp_all only: example_run_def numeral_eq_Suc pred_numeral_simps arith_simps One_nat_def
      BitM.simps replicate.simps dispatch_run.simps example_steps prod.case option.case)

lemma example_reachable:
  assumes "example_run n = (pc, db, ms)"
  shows "(dispatch_step example_sha256)\<^sup>*\<^sup>* dispatch_init
    (dispatch_init\<lparr>sy_db := db, sy_pc := (\<lambda>_. DStart)(0 := pc), sy_sent := rev ms\<rparr>)"
proof -
  have "(dispatch_step example_sha256)\<^sup>*\<^sup>* (dispatch_init\<lparr>sy_db := example_db example_d0 []\<rparr>)
    (dispatch_init\<lparr>sy_db := db, sy_pc := (\<lambda>_. DStart)(0 := pc), sy_sent := rev ms\<rparr>)"
    using dispatch_run_system [of example_sha256 example_config "replicate n example_env"
        "dispatch_init\<lparr>sy_db := example_db example_d0 []\<rparr>" 0 pc db ms] assms
    by (simp add: example_run_def dispatch_init_def)
  with example_queued_step show ?thesis by (rule converse_rtranclp_into_rtranclp)
qed

lemmas example_rows = example_d3_def example_d2_def example_d1_def example_d0_def

section \<open>Sending\<close>

text \<open>
  C2: however many dispatchers interleave, crash and restart, a delivery is handed to the
  transport at most once; every message sent carries the stored body of its delivery, goes to
  an enabled route with the id and fingerprint the delivery was authorised for, and its
  dispatch boundary was durable before.
\<close>

theorem delivery_sent_at_most_once:
  assumes "(dispatch_step sha256)\<^sup>*\<^sup>* dispatch_init s"
  shows "distinct (map fst (sy_sent s)) \<and>
    (\<forall>(i, r, body) \<in> set (sy_sent s). \<exists>d. dl_get i (sy_db s) = Some d \<and>
       od_dispatch_started_at d \<noteq> None \<and> od_body d = body \<and> mr_enabled r \<and>
       od_route_id d = mr_route_id r \<and> od_route_fingerprint d = mr_fingerprint sha256 r)"
  using sys_inv_reachable [OF assms] unfolding sys_inv_def boundary_def authorised_def by fastforce

theorem delivery_sent_at_most_once_witness:
  "\<exists>s. (dispatch_step example_sha256)\<^sup>*\<^sup>* dispatch_init s \<and> length (sy_sent s) = 1 \<and> distinct (map fst (sy_sent s))"
  using delivery_sent_at_most_once [OF example_reachable [OF example_runs(3)]]
    example_reachable [OF example_runs(3)] by fastforce

section \<open>Recording the reply\<close>

text \<open>What the reply of the transport says about the delivery; \<open>None\<close> is a call that raised.\<close>

definition reply_report :: "TransportResult option \<Rightarrow> DispatchResult \<times> DeliveryStatus \<times> DeliveryAttemptOutcome \<times> string option" where
  "reply_report reply =
     (case reply of
        None \<Rightarrow> (DispatchResult.AMBIGUOUS, DeliveryStatus.AMBIGUOUS, DeliveryAttemptOutcome.AMBIGUOUS,
          Some ''delivery_transport_exception'')
      | Some r \<Rightarrow>
          (case tr_outcome r of
             TransportOutcome.DELIVERED \<Rightarrow>
               (DispatchResult.DELIVERED, DeliveryStatus.DELIVERED, DeliveryAttemptOutcome.DELIVERED, None)
           | TransportOutcome.AMBIGUOUS \<Rightarrow>
               (DispatchResult.AMBIGUOUS, DeliveryStatus.AMBIGUOUS, DeliveryAttemptOutcome.AMBIGUOUS, Some (transport_code r))
           | TransportOutcome.FAILED \<Rightarrow>
               (DispatchResult.FAILED, DeliveryStatus.FAILED, DeliveryAttemptOutcome.FAILED, Some (transport_code r))))"

definition code_ok :: "string option \<Rightarrow> bool" where
  "code_ok code \<longleftrightarrow> pred_option (\<lambda>v. failure_code_match v \<and> length v \<le> 128) code"

lemma code_match_strip:
  assumes "failure_code_match v" shows "py_strip v \<noteq> []"
proof -
  have "list_all (\<lambda>c. \<not> py_isspace c) ''abcdefghijklmnopqrstuvwxyz0123456789_''" by code_simp
  then have "list_all (\<lambda>c. \<not> py_isspace c) v" using assms unfolding failure_code_match_def list_all_iff by blast
  then show ?thesis using assms by (cases v) (auto simp: py_strip_Nil_iff failure_code_match_def)
qed

lemma persist_attempt_closes:
  assumes ok: "ledger_ok db" and g: "dl_get (dc_delivery_id c) db = Some d"
    and act: "active_claim (dc_delivery_id c) (dc_worker_id c) (dc_claim_token c) (dc_claim_generation c) now d"
    and m: "od_dispatch_started_at m = od_dispatch_started_at d" "od_dispatch_started_at d \<noteq> None"
    and out: "attempt_outcome_of (od_status m) = Some r"
    and code: "(od_failure_code m \<noteq> None) = (r \<in> {DeliveryAttemptOutcome.FAILED, DeliveryAttemptOutcome.AMBIGUOUS})"
      "code_ok (od_failure_code m)"
    and clock: "\<And>a. a \<in> set (dv_attempts db) \<Longrightarrow> open_attempt (dc_delivery_id c) (dc_claim_generation c) a \<Longrightarrow> da_started_at a \<le> now"
  defines "Q \<equiv> open_attempt (dc_delivery_id c) (dc_claim_generation c)"
    and "h \<equiv> \<lambda>a. a\<lparr>da_outcome := r, da_finished_at := Some now, da_failure_code := od_failure_code m\<rparr>"
  shows "persist_attempt c m now db = Inr (db\<lparr>dv_attempts := update_rows Q h (dv_attempts db)\<rparr>) \<and>
    (\<exists>a \<in> set (dv_attempts db). Q a)"
proof -
  have row: "d \<in> set (dv_deliveries db)" "od_id d = dc_delivery_id c" "od_claim_generation d = dc_claim_generation c"
    "in_flight d" using g act m(2) by (auto simp: dl_get_def active_claim_def in_flight_def dest: get_row_in get_row_key)
  with ok obtain a where a: "a \<in> set (dv_attempts db)" "Q a" unfolding ledger_ok_def covers_def Q_def by metis
  from ok have inj: "inj_on attempt_key (set (dv_attempts db))" and dist: "distinct (dv_attempts db)"
    by (simp_all add: ledger_ok_def distinct_map)
  have u: "b = a" if "b \<in> set (dv_attempts db)" "Q b" for b
    using that a inj by (simp add: inj_on_def open_attempt_def attempt_key_def Q_def)
  obtain b where b: "find Q (dv_attempts db) = Some b" using a by (metis find_None_iff not_Some_eq)
  then have "b = a" using u by (metis find_Some_iff nth_mem)
  moreover have "r \<noteq> DeliveryAttemptOutcome.IN_PROGRESS" using out by (cases "od_status m") auto
  ultimately have v: "da_validated_terminal_write (dc_delivery_id c) (dc_claim_generation c) now r (od_failure_code m) db =
      Inr (od_failure_code m)" using b clock a code unfolding da_validated_terminal_write_def Q_def [symmetric]
    by (simp add: outcome_simps attempt_shape_Inr_iff code_ok_def)
  have "row_count Q (dv_attempts db) = 1" by (rule row_count_unique [OF dist, of a Q]) (use a u in blast)+
  moreover have "dl_is_claim_active (dc_delivery_id c) (dc_worker_id c) (dc_claim_token c) (dc_claim_generation c) now db"
    using row(1) act by (auto simp: dl_is_claim_active_def row_count_pos_iff)
  ultimately show ?thesis using v m out a
    by (auto simp: persist_attempt_def da_complete_for_claim_def da_close_def Q_def h_def)
qed

lemma persist_outcome_recorded:
  assumes ok: "ledger_ok db" and g: "dl_get (dc_delivery_id c) db = Some d"
    and act: "active_claim (dc_delivery_id c) (dc_worker_id c) (dc_claim_token c) (dc_claim_generation c) now d"
    and b: "od_dispatch_started_at d \<noteq> None" and tr: "persist_transition call now d = Done m"
    and out: "attempt_outcome_of (od_status m) = Some r"
    and code: "(od_failure_code m \<noteq> None) = (r \<in> {DeliveryAttemptOutcome.FAILED, DeliveryAttemptOutcome.AMBIGUOUS})"
      "code_ok (od_failure_code m)"
    and clock: "\<And>a. a \<in> set (dv_attempts db) \<Longrightarrow> open_attempt (dc_delivery_id c) (dc_claim_generation c) a \<Longrightarrow> da_started_at a \<le> now"
  shows "\<exists>db'. PersistDeliveryOutcome call c now db = Inr ((), db') \<and> dl_get (dc_delivery_id c) db' = Some m \<and>
    (\<exists>a \<in> set (dv_attempts db'). attempt_key a = (dc_delivery_id c, dc_claim_generation c) \<and> da_outcome a = r \<and>
       da_finished_at a = Some now \<and> da_failure_code a = od_failure_code m)"
proof -
  let ?Q = "open_attempt (dc_delivery_id c) (dc_claim_generation c)"
  let ?h = "\<lambda>a. a\<lparr>da_outcome := r, da_finished_at := Some now, da_failure_code := od_failure_code m\<rparr>"
  let ?db = "db\<lparr>dv_attempts := update_rows ?Q ?h (dv_attempts db)\<rparr>"
  note saved = persist_transition_saved [OF tr]
  have i: "od_id d = dc_delivery_id c" using g by (auto simp: dl_get_def dest: get_row_key)
  have same: "od_id m = dc_delivery_id c" "od_dispatch_started_at m = od_dispatch_started_at d"
    using arg_cong [OF saved, of od_id] arg_cong [OF saved, of od_dispatch_started_at] i by simp_all
  from persist_attempt_closes [OF ok g act same(2) b out code clock]
  have p: "persist_attempt c m now db = Inr ?db" and "\<exists>a \<in> set (dv_attempts db). ?Q a" by simp_all
  then obtain a where a: "a \<in> set (dv_attempts db)" "?Q a" by blast
  have k: "keyed od_id (dv_deliveries ?db)" and g': "dl_get (dc_delivery_id c) ?db = Some d"
    using ok g by (simp_all add: ledger_ok_def dl_get_def)
  let ?P = "\<lambda>x. active_claim (od_id m) (dc_worker_id c) (dc_claim_token c) (dc_claim_generation c) now x \<and>
     (od_status m = DeliveryStatus.QUEUED \<longrightarrow> od_dispatch_started_at x = None)"
  have "od_status m \<noteq> DeliveryStatus.QUEUED" using out by auto
  then have "row_count ?P (dv_deliveries ?db) = 1"
    using keyed_row_count [OF k, of ?P "dc_delivery_id c"] g' act same(1) by (simp add: dl_get_def active_claim_def)
  then obtain db' where s: "dl_save_claimed_lifecycle m (dc_worker_id c) (dc_claim_token c) (dc_claim_generation c) now ?db = (True, db')"
    by (simp add: dl_save_claimed_lifecycle_def dl_update_def)
  have gen: "dc_claim_generation c = od_claim_generation d" using act by (simp add: active_claim_def)
  from saved_rows [OF k g' gen tr s] have db': "db' = ?db\<lparr>dv_deliveries := update_rows ((=) d) (\<lambda>_. m) (dv_deliveries ?db)\<rparr>" .
  have "PersistDeliveryOutcome call c now db = Inr ((), db')"
    using g act tr p s by (simp add: PersistDeliveryOutcome_def persist_apply_def active_claim_def call_method_def)
  moreover have "dl_get (dc_delivery_id c) db' = Some m"
    using get_row_update [of "(=) d" od_id "\<lambda>_. m" "dc_delivery_id c" "dv_deliveries db"] g i same(1)
    by (simp add: db' dl_get_def)
  moreover have "?h a \<in> set (dv_attempts db')" using a by (auto simp: db' update_rows_def intro!: image_eqI [of _ _ a])
  ultimately show ?thesis using a by (auto simp: attempt_key_def open_attempt_def intro!: bexI [of _ "?h a"])
qed

text \<open>The transition a reply leads to succeeds on a delivery in flight.\<close>

lemma reply_transition:
  assumes "reply_report reply = (result, status, outcome, code)" and "code_ok code"
    and "od_shape d" and "od_status d = DeliveryStatus.SENDING" and "od_dispatch_started_at d \<noteq> None"
  shows "\<exists>call m. dispatch_reply c reply = DPersist c call result \<and> persist_transition call now d = Done m \<and>
    od_status m = status \<and> od_failure_code m = code \<and> attempt_outcome_of status = Some outcome \<and>
    (code \<noteq> None) = (outcome \<in> {DeliveryAttemptOutcome.FAILED, DeliveryAttemptOutcome.AMBIGUOUS})"
proof -
  have b: "od_bounded v f 128 = Inr v" if "code = Some v" for v f
    using assms(2) that code_match_strip [of v] by (simp add: od_bounded_def code_ok_def)
  have msg: "od_bounded ''Webhook transport failed without a delivery result.'' f 2048 = Inr ''Webhook transport failed without a delivery result.''"
    "od_bounded ''Webhook delivery outcome is unknown.'' f 2048 = Inr ''Webhook delivery outcome is unknown.''"
    "od_bounded ''Webhook delivery failed.'' f 2048 = Inr ''Webhook delivery failed.''" for f
    by (simp_all add: od_bounded_def py_strip_Nil_iff py_isspace_def)
  have n: "od_failure_code d = None" using assms(3,4) by (simp add: od_shape_def)
  show ?thesis
    using assms(1,4,5) b msg n unfolding reply_report_def dispatch_reply_def TRANSPORT_EXCEPTION_def
    by (auto simp: od_defs outcome_simps Let_def od_optional_bounded_def attempt_def MAX_DELIVERY_FAILURE_CODE_LENGTH_def
        MAX_FAILURE_MESSAGE_LENGTH_def split: option.splits TransportOutcome.splits)
qed

text \<open>
  C22: the reply of the transport is recorded. A dispatcher of a reachable system that is about to send
  sends exactly its message, and if its claim is still active and its clock has not gone back behind the
  start of the attempt when it persists the outcome, it finishes with the result that the reply
  reports: the delivery and its attempt end delivered, failed or ambiguous as the transport said, a call
  that raised counts as ambiguous, and both carry the failure code. The codes the transport reports are
  lower-case codes of at most 128 characters.
\<close>

theorem transport_reply_is_recorded:
  assumes "(dispatch_step sha256)\<^sup>*\<^sup>* dispatch_init s" and "sy_pc s w = DSend c d route"
    and "reply_report (ev_reply e1) = (result, status, outcome, code)" and "code_ok code"
    and "dl_is_claim_active (dc_delivery_id c) (dc_worker_id c) (dc_claim_token c) (dc_claim_generation c) (ev_now e2) (sy_db s)"
    and "\<forall>a \<in> set (dv_attempts (sy_db s)). open_attempt (dc_delivery_id c) (dc_claim_generation c) a \<longrightarrow> da_started_at a \<le> ev_now e2"
  shows "\<exists>db' d' a. dispatch_run sha256 cf [e1, e2] (sy_pc s w) (sy_db s) =
      (DFinished result, db', [(od_id d, route, od_body d)]) \<and>
    dl_get (od_id d) db' = Some d' \<and> od_status d' = status \<and> od_failure_code d' = code \<and>
    a \<in> set (dv_attempts db') \<and> da_delivery_id a = od_id d \<and> da_claim_generation a = dc_claim_generation c \<and>
    da_outcome a = outcome \<and> da_finished_at a = Some (ev_now e2) \<and> da_failure_code a = code"
proof -
  let ?db = "sy_db s" and ?now = "ev_now e2"
  note ok = ledger_reachable [OF assms(1)]
  have "pc_ok sha256 ?db (sy_pc s w)" using sys_inv_reachable [OF assms(1)] by (simp add: sys_inv_def)
  then have i: "od_id d = dc_delivery_id c" and bd: "boundary ?db (dc_delivery_id c)" using assms(2) by auto
  obtain row where g: "dl_get (dc_delivery_id c) ?db = Some row" and b: "od_dispatch_started_at row \<noteq> None"
    using bd by (auto simp: boundary_def)
  have k: "keyed od_id (dv_deliveries ?db)" and shape: "od_shape row"
    using ok g by (auto simp: ledger_ok_def dl_get_def dest: get_row_in)
  obtain x where x: "x \<in> set (dv_deliveries ?db)"
    "active_claim (dc_delivery_id c) (dc_worker_id c) (dc_claim_token c) (dc_claim_generation c) ?now x"
    using assms(5) by (auto simp: dl_is_claim_active_def row_count_pos_iff)
  then have "od_id x = dc_delivery_id c" by (simp add: active_claim_def)
  with keyed_get [OF k x(1)] g have "x = row" by (simp add: dl_get_def)
  with x have act: "active_claim (dc_delivery_id c) (dc_worker_id c) (dc_claim_token c) (dc_claim_generation c) ?now row" by simp
  then have "od_status row = DeliveryStatus.SENDING" by (simp add: active_claim_def)
  from reply_transition [OF assms(3,4) shape this b, of c ?now] obtain call m where
    r: "dispatch_reply c (ev_reply e1) = DPersist c call result" and tr: "persist_transition call ?now row = Done m"
    and m: "od_status m = status" "od_failure_code m = code" "attempt_outcome_of status = Some outcome"
      "(code \<noteq> None) = (outcome \<in> {DeliveryAttemptOutcome.FAILED, DeliveryAttemptOutcome.AMBIGUOUS})" by blast
  from persist_outcome_recorded [OF ok g act b tr, of outcome] m assms(4,6) obtain db' a where
    "PersistDeliveryOutcome call c ?now ?db = Inr ((), db')" "dl_get (dc_delivery_id c) db' = Some m"
    "a \<in> set (dv_attempts db')" "attempt_key a = (dc_delivery_id c, dc_claim_generation c)" "da_outcome a = outcome"
    "da_finished_at a = Some ?now" "da_failure_code a = code" by auto
  with r m i show ?thesis using assms(2) by (auto simp: attempt_key_def intro!: exI [of _ a])
qed

definition example_refused :: dispatch_env where
  "example_refused = example_env\<lparr>ev_reply := Some \<lparr>tr_outcome = TransportOutcome.FAILED, tr_failure_code = Some ''webhook_http_400''\<rparr>\<rparr>"

theorem transport_reply_is_recorded_witness:
  "\<exists>s db' d'. (dispatch_step example_sha256)\<^sup>*\<^sup>* dispatch_init s \<and>
     dispatch_run example_sha256 example_config [example_refused, example_env] (sy_pc s 0) (sy_db s) =
       (DFinished DispatchResult.FAILED, db', [(od_id example_d1, example_route, od_body example_d1)]) \<and>
     dl_get (od_id example_d1) db' = Some d' \<and> od_status d' = DeliveryStatus.FAILED \<and>
     od_failure_code d' = Some ''webhook_http_400''"
proof -
  let ?s = "dispatch_init\<lparr>sy_db := example_db example_d2 [example_attempt],
    sy_pc := (\<lambda>_. DStart)(0 := DSend (example_claim ''token'') example_d1 example_route), sy_sent := rev []\<rparr>"
  have r: "reply_report (ev_reply example_refused) =
      (DispatchResult.FAILED, DeliveryStatus.FAILED, DeliveryAttemptOutcome.FAILED, Some ''webhook_http_400'')"
    and c: "code_ok (Some ''webhook_http_400'')"
    by (simp_all add: reply_report_def example_refused_def transport_code_def code_ok_def failure_code_match_def)
  have a: "dl_is_claim_active (dc_delivery_id (example_claim ''token'')) (dc_worker_id (example_claim ''token''))
      (dc_claim_token (example_claim ''token'')) (dc_claim_generation (example_claim ''token'')) (ev_now example_env) (sy_db ?s)"
    by (simp add: dl_is_claim_active_def row_count_def active_claim_def example_claim_def example_env_def example_db_def
        example_rows expires_after_def)
  have t: "\<forall>a \<in> set (dv_attempts (sy_db ?s)). open_attempt (dc_delivery_id (example_claim ''token''))
      (dc_claim_generation (example_claim ''token'')) a \<longrightarrow> da_started_at a \<le> ev_now example_env"
    by (simp add: example_db_def example_attempt_def example_env_def)
  have pc: "sy_pc ?s 0 = DSend (example_claim ''token'') example_d1 example_route" by simp
  from transport_reply_is_recorded [OF example_reachable [OF example_runs(2)] pc r c a t, of example_config]
    example_reachable [OF example_runs(2)] show ?thesis by blast
qed

section \<open>Claims\<close>

lemma example_claimed_owned:
  "keyed od_id (dv_deliveries (example_db example_d1 []))"
  "dl_owns (example_db example_d1 []) (example_claim ''token'')"
  by (simp_all add: dl_owns_def example_claim_def example_db_def row_owned_def example_rows dl_get_def
      get_row_Cons keyed_def)

text \<open>
  C17: once a delivery is claimed under another token, the displaced worker is fenced off for
  good: after any sequence of claims, dispatches, persisted outcomes and newly queued
  deliveries that does not draw its token again, it can neither cross the dispatch boundary
  nor persist an outcome. Both calls raise \<^verbatim>\<open>ClaimLost\<close> and write nothing.
\<close>

theorem displaced_claim_is_fenced:
  assumes "keyed od_id (dv_deliveries db)" and "dl_owns db c'"
    and "dc_delivery_id c = dc_delivery_id c'" and "dc_claim_token c \<noteq> dc_claim_token c'"
    and "fence_path delivery_move T db db'" and "dc_claim_token c \<notin> T"
  shows "BeginDeliveryAttempt c now a db' = Inl (ClaimLost ''dispatch boundary lost claim'') \<and>
    PersistDeliveryOutcome call c now db' = Inl (ClaimLost ''outcome lost claim'')"
  using not_owner_fenced [OF delivery_fence.path_good [OF assms(5,1)]
      delivery_fence.displaced_forever [OF assms(5,1,2,3,4,6)]] by blast

theorem displaced_claim_is_fenced_witness:
  "BeginDeliveryAttempt (example_claim ''stale'') 1000 (Id ''00000000-0000-0000-0000-0000000000a1'') (example_db example_d1 [])
     = Inl (ClaimLost ''dispatch boundary lost claim'') \<and>
   PersistDeliveryOutcome (PersistDeliver None) (example_claim ''stale'') 1000 (example_db example_d1 [])
     = Inl (ClaimLost ''outcome lost claim'')"
  by (rule displaced_claim_is_fenced [OF example_claimed_owned _ _ fence_path.stay])
     (simp_all add: example_claim_def)

lemma delivery_path_terminal:
  assumes "fence_path delivery_move T db db'" and "dl_get i db = Some d" and "od_terminal (od_status d)"
  shows "dl_get i db' = Some d"
  using assms
proof (induction rule: fence_path.induct)
  case (move T s s' U s'')
  then have d: "dl_get i s' = Some d" by simp
  from delivery_move_evolves [OF move.hyps(2)] show ?case
  proof
    assume "db_evolves U s' s''"
    from db_evolves_get [OF this d] move.prems show ?thesis by (auto simp: od_evolves_def)
  next
    assume "\<exists>d. s'' = s'\<lparr>dv_deliveries := dv_deliveries s' @ [d]\<rparr> \<and> od_status d = DeliveryStatus.QUEUED \<and>
        od_id d \<notin> od_id ` set (dv_deliveries s')"
    with d show ?thesis by (auto simp: dl_get_def get_row_append)
  qed
qed

text \<open>
  C21: a delivery that was delivered, failed, parked as ambiguous or cancelled is frozen: no
  later sequence of transactions changes any column of its row.
\<close>

theorem terminal_delivery_is_frozen:
  assumes "dl_get i db = Some d" and "od_status d \<in> set TERMINAL_DELIVERY_STATUSES"
    and "fence_path delivery_move T db db'"
  shows "dl_get i db' = Some d"
  by (rule delivery_path_terminal [OF assms(3,1)]) (simp add: od_terminal_def assms(2))

lemma example_reclaim:
  "ClaimNextDelivery (cf_policy example_config) ''w1'' 60 5 2000 [''token2''] (example_db example_d3 [])
     = Inr (None, example_db example_d3 [])"
  by code_simp

theorem terminal_delivery_is_frozen_witness:
  "fence_path delivery_move {''token2''} (example_db example_d3 []) (example_db example_d3 []) \<and>
   dl_get (Id ''00000000-0000-0000-0000-0000000000d1'') (example_db example_d3 []) = Some example_d3"
proof -
  have "fence_path delivery_move ({} \<union> set [''token2'']) (example_db example_d3 []) (example_db example_d3 [])"
    by (rule fence_path.move [of delivery_move, OF fence_path.stay delivery_move.claim [OF example_reclaim]])
  moreover have "dl_get (Id ''00000000-0000-0000-0000-0000000000d1'') (example_db example_d3 []) = Some example_d3"
    by (rule terminal_delivery_is_frozen [OF _ _ calculation])
       (simp_all add: dl_get_def example_db_def get_row_Cons example_rows TERMINAL_DELIVERY_STATUSES_def)
  ultimately show ?thesis by simp
qed

section \<open>The ledger and recovery\<close>

text \<open>
  C18: in every reachable state the attempt ledger agrees with the deliveries: at most one
  attempt per delivery and claim generation, every attempt well-formed and of a delivery
  whose dispatch boundary is durable, and every delivery that is in flight past the boundary
  covered by an open attempt of its claim generation started before the lease expires.
\<close>

theorem attempt_ledger_is_consistent:
  assumes "(dispatch_step sha256)\<^sup>*\<^sup>* dispatch_init s"
  shows "distinct (map (\<lambda>a. (da_delivery_id a, da_claim_generation a)) (dv_attempts (sy_db s))) \<and>
    (\<forall>a \<in> set (dv_attempts (sy_db s)). da_inv a \<and>
       (\<exists>d. dl_get (da_delivery_id a) (sy_db s) = Some d \<and> od_dispatch_started_at d \<noteq> None)) \<and>
    (\<forall>d \<in> set (dv_deliveries (sy_db s)).
       od_status d = DeliveryStatus.SENDING \<and> od_dispatch_started_at d \<noteq> None \<longrightarrow>
       (\<exists>a \<in> set (dv_attempts (sy_db s)). da_delivery_id a = od_id d \<and>
          da_claim_generation a = od_claim_generation d \<and>
          da_outcome a = DeliveryAttemptOutcome.IN_PROGRESS \<and>
          (\<exists>x. od_claim_expires_at d = Some x \<and> da_started_at a < x)))"
proof -
  note ok = ledger_reachable [OF assms]
  have "\<exists>x. od_claim_expires_at d = Some x \<and> da_started_at a < x"
    if "d \<in> set (dv_deliveries (sy_db s))" "in_flight d" "covers d a" for d a
    using that ok by (auto simp: ledger_ok_def in_flight_def covers_def od_shape_def)
  with ok show ?thesis
    unfolding ledger_ok_def boundary_def attempt_key_def [abs_def] in_flight_def
    by (fastforce simp: covers_def open_attempt_def)
qed

theorem attempt_ledger_is_consistent_witness:
  "\<exists>s. (dispatch_step example_sha256)\<^sup>*\<^sup>* dispatch_init s \<and> length (dv_attempts (sy_db s)) = 1 \<and>
     (\<forall>a \<in> set (dv_attempts (sy_db s)). da_inv a)"
proof -
  let ?s = "dispatch_init\<lparr>sy_db := example_db example_d2 [example_attempt],
    sy_pc := (\<lambda>_. DStart)(0 := DSend (example_claim ''token'') example_d1 example_route), sy_sent := rev []\<rparr>"
  have "length (dv_attempts (sy_db ?s)) = 1" by (simp add: example_db_def)
  with attempt_ledger_is_consistent [OF example_reachable [OF example_runs(2)]]
    example_reachable [OF example_runs(2)] show ?thesis by blast
qed

text \<open>
  C19: recovery always succeeds and settles every expired claim it selects, provided the
  policy's longest backoff is representable: a claim that expired before the dispatch
  boundary is queued again or failed, one that expired after it is parked as ambiguous and
  never retried, and no other delivery changes.
\<close>

theorem expired_claims_are_settled:
  assumes "(dispatch_step sha256)\<^sup>*\<^sup>* dispatch_init s" and "retry_policy_ok p"
    and "compute_delay p (rp_max_attempts p) = Inr m"
    and ds_def: "ds = dl_find_expired_claims now n (sy_db s)"
  shows "\<exists>db'. RecoverExpiredDeliveryClaims p n now (sy_db s) = Inr (length ds, db') \<and>
    (\<forall>d \<in> set ds. \<exists>d'. dl_get (od_id d) db' = Some d' \<and>
       od_status d' \<in> (if od_dispatch_started_at d = None
         then {DeliveryStatus.QUEUED, DeliveryStatus.FAILED} else {DeliveryStatus.AMBIGUOUS})) \<and>
    (\<forall>i. i \<notin> od_id ` set ds \<longrightarrow> dl_get i db' = dl_get i (sy_db s))"
proof -
  note ok = ledger_reachable [OF assms(1)]
  have "\<not> retry_overflow p d e" for d e
    using compute_delay_defined [OF assms(2) _ assms(3), of "od_attempt_count d + 1"]
    by (auto simp: retry_overflow_def)
  with recover_all_cases [OF ok find_expired_rows [OF ok, of now n], of p 0] show ?thesis
    unfolding RecoverExpiredDeliveryClaims_def ds_def settled_status_def by (simp only: add_0) blast
qed

lemma example_expired: "dl_find_expired_claims 2000 5 (example_db example_d2 [example_attempt]) = [example_d2]"
  by (simp add: dl_find_expired_claims_def example_db_def expires_by_def example_rows)

lemma example_policy: "retry_policy_ok (cf_policy example_config) \<and>
  compute_delay (cf_policy example_config) (rp_max_attempts (cf_policy example_config)) = Inr 20"
  by code_simp

theorem expired_claims_are_settled_witness:
  "\<exists>s db'. (dispatch_step example_sha256)\<^sup>*\<^sup>* dispatch_init s \<and>
     RecoverExpiredDeliveryClaims (cf_policy example_config) 5 2000 (sy_db s) = Inr (1, db')"
proof -
  let ?s = "dispatch_init\<lparr>sy_db := example_db example_d2 [example_attempt],
    sy_pc := (\<lambda>_. DStart)(0 := DSend (example_claim ''token'') example_d1 example_route), sy_sent := rev []\<rparr>"
  have "length (dl_find_expired_claims 2000 5 (sy_db ?s)) = 1" by (simp add: example_expired)
  with expired_claims_are_settled [OF example_reachable [OF example_runs(2)] conjunct1 [OF example_policy]
      conjunct2 [OF example_policy] refl, where now = 2000 and n = 5]
  obtain db' where "RecoverExpiredDeliveryClaims (cf_policy example_config) 5 2000 (sy_db ?s) = Inr (1, db')"
    by metis
  with example_reachable [OF example_runs(2)] show ?thesis by blast
qed

lemma recover_all_overflow:
  "d \<in> set ds \<Longrightarrow> retry_overflow p d e \<Longrightarrow> \<exists>e'. dl_recover_all p now ds n db = Inl e'"
proof (induction ds arbitrary: n db)
  case (Cons x ds)
  show ?case
  proof (cases "x = d")
    case True
    with Cons.prems show ?thesis by (simp add: dl_recover_one_def retry_overflow_def)
  next
    case False
    with Cons show ?thesis by (cases "dl_recover_one p x now db") (auto split: prod.splits)
  qed
qed simp

text \<open>
  C20: the backoff is computed before it is capped, so a delivery whose next backoff is not a
  representable duration makes recovery raise, and with it every claim transaction of every
  worker: while that row is among the expired claims, no delivery at all is claimed.
\<close>

theorem backoff_overflow_blocks_claims:
  assumes "d \<in> set (dl_find_expired_claims now n db)" and "od_dispatch_started_at d = None"
    and "od_attempt_count d < rp_max_attempts p" and "compute_delay p (od_attempt_count d + 1) = Inl e"
  shows "\<exists>e'. ClaimNextDelivery p w l n now ts db = Inl e'"
proof -
  have "retry_overflow p d e" unfolding retry_overflow_def using assms(2-4) by blast
  from recover_all_overflow [OF assms(1) this] obtain e' where
    "RecoverExpiredDeliveryClaims p n now db = Inl e'" unfolding RecoverExpiredDeliveryClaims_def by blast
  then show ?thesis by (simp add: ClaimNextDelivery_def)
qed

definition example_patient_policy :: RetryPolicy where
  "example_patient_policy = \<lparr>rp_max_attempts = 100, rp_base_delay = 1000000, rp_multiplier = 2,
     rp_max_delay = 300000000\<rparr>"

definition example_retried :: delivery_db where
  "example_retried = example_db (example_d1\<lparr>od_attempt_count := 70, od_claim_generation := 70\<rparr>) []"

lemma example_backoff: "compute_delay example_patient_policy 71 = Inl (PythonError ''OverflowError'')"
proof -
  have "of_int 1000000 * power_int (2 :: rat) 69 = of_int (1000000 * 2 ^ 69)"
    by (simp add: power_int_def)
  then have "round_half_even (of_int 1000000 * power_int (2 :: rat) 69) = 1000000 * 2 ^ 69"
    by (simp only: round_half_even_of_int)
  then show ?thesis by (simp add: compute_delay_def example_patient_policy_def TIMEDELTA_MAX_def)
qed

lemma example_retried_expired:
  "dl_find_expired_claims 2000 5 example_retried = [example_d1\<lparr>od_attempt_count := 70, od_claim_generation := 70\<rparr>]"
  by (simp add: example_retried_def dl_find_expired_claims_def example_db_def expires_by_def example_rows)

theorem backoff_overflow_blocks_claims_witness:
  "retry_policy_ok example_patient_policy \<and>
   (\<exists>e. ClaimNextDelivery example_patient_policy ''w1'' 60 5 2000 [''token2''] example_retried = Inl e)"
proof -
  have "\<exists>e. ClaimNextDelivery example_patient_policy ''w1'' 60 5 2000 [''token2''] example_retried = Inl e"
    by (rule backoff_overflow_blocks_claims [of "example_d1\<lparr>od_attempt_count := 70, od_claim_generation := 70\<rparr>"])
       (simp_all add: example_retried_expired example_backoff, simp_all add: example_rows example_patient_policy_def)
  then show ?thesis by (simp add: example_patient_policy_def retry_policy_ok_def)
qed

section \<open>Backoff\<close>

text \<open>
  C23: a defined backoff lies between the base delay and the cap, the first retry waits
  exactly the base delay, and later retries never wait less than earlier ones.
\<close>

theorem backoff_is_bounded_and_monotone:
  assumes "retry_policy_post_init p = Inr q" and "2 \<le> m" and "m \<le> n" and "compute_delay p n = Inr e"
  shows "\<exists>d. compute_delay p m = Inr d \<and> rp_base_delay p \<le> d \<and> d \<le> e \<and> e \<le> rp_max_delay p \<and>
    (rp_base_delay p \<le> TIMEDELTA_MAX \<longrightarrow> compute_delay p 2 = Inr (rp_base_delay p))"
proof -
  have ok: "retry_policy_ok p" using assms(1) by (simp add: retry_policy_post_init_Inr_iff)
  from compute_delay_defined [OF ok assms(3,4)] obtain d where d: "compute_delay p m = Inr d" by blast
  show ?thesis
    using d compute_delay_bounds [OF ok assms(2) d] compute_delay_bounds [OF ok _ assms(4)] assms(2,3)
      compute_delay_mono [OF ok assms(3) d assms(4)] compute_delay_first [OF ok] by auto
qed

theorem backoff_is_bounded_and_monotone_witness:
  "\<exists>d. compute_delay (cf_policy example_config) 2 = Inr d \<and> 10 \<le> d \<and> d \<le> 20"
proof -
  have "retry_policy_post_init (cf_policy example_config) = Inr (cf_policy example_config)"
    using example_policy by (simp add: retry_policy_post_init_Inr_iff)
  moreover have "compute_delay (cf_policy example_config) 3 = Inr 20"
    using example_policy by (simp add: example_config_def)
  ultimately show ?thesis
    using backoff_is_bounded_and_monotone [of "cf_policy example_config" "cf_policy example_config" 2 3 20]
    by (auto simp: example_config_def)
qed

section \<open>The stored rows\<close>

lemma content_step:
  assumes "dispatch_step sha s s'" and "\<forall>d \<in> set (dv_deliveries (sy_db s)). od_content_ok sha d"
  shows "\<forall>d \<in> set (dv_deliveries (sy_db s')). od_content_ok sha d"
  using assms
proof (induction rule: dispatch_step.induct)
  case (work cf ev s w pc' db' m)
  note ev = dispatch_next_evolves [OF work.hyps]
  have "od_content_ok sha d'" if d': "d' \<in> set (dv_deliveries db')" for d'
  proof -
    from d' obtain k where k: "k < length (dv_deliveries db')" "dv_deliveries db' ! k = d'"
      by (metis in_set_conv_nth)
    from list_all2_nthD2 [OF ev k(1)] k(2) have "od_ident d' = od_ident (dv_deliveries (sy_db s) ! k)"
      unfolding od_evolves_def by simp
    moreover have "dv_deliveries (sy_db s) ! k \<in> set (dv_deliveries (sy_db s))"
      using k(1) list_all2_lengthD [OF ev] by simp
    ultimately show ?thesis using work.prems od_content_ident by blast
  qed
  then show ?case by simp
next
  case (queue i k r tool fire route fp body av cr subj dg d s)
  then have "od_content_ok sha d" using od_new_inv [OF queue.hyps(1)] unfolding od_inv_def by blast
  with queue.prems show ?case by simp
qed simp

lemma content_reachable:
  "(dispatch_step sha)\<^sup>*\<^sup>* dispatch_init s \<Longrightarrow> \<forall>d \<in> set (dv_deliveries (sy_db s)). od_content_ok sha d"
  by (induction rule: rtranclp_induct) (simp add: dispatch_init_def, erule (1) content_step)

text \<open>
  C24: every delivery and every attempt row of a reachable database satisfies the CHECK
  constraints of its table, so no transaction of the pipeline can fail on one of them; and the
  stored digest is the digest of the stored body.
\<close>

theorem reachable_rows_satisfy_the_schema:
  assumes "(dispatch_step sha256)\<^sup>*\<^sup>* dispatch_init s"
  shows "(\<forall>d \<in> set (dv_deliveries (sy_db s)).
       ck_outbound_deliveries (outbound_delivery_to_row d) \<and> od_body_sha256 d = sha256 (od_body d)) \<and>
    (\<forall>a \<in> set (dv_attempts (sy_db s)). ck_delivery_attempts (delivery_attempt_row a))"
proof -
  have "od_inv sha256 d" if "d \<in> set (dv_deliveries (sy_db s))" for d
    using that content_reachable [OF assms] ledger_reachable [OF assms] by (simp add: od_inv_def ledger_ok_def)
  moreover have "da_inv a" if "a \<in> set (dv_attempts (sy_db s))" for a
    using that ledger_reachable [OF assms] by (simp add: ledger_ok_def)
  ultimately show ?thesis
    by (metis od_row_checks da_row_checks od_inv_def od_content_ok_def)
qed

theorem reachable_rows_satisfy_the_schema_witness:
  "ck_outbound_deliveries (outbound_delivery_to_row example_d2) \<and>
   ck_delivery_attempts (delivery_attempt_row example_attempt)"
  using reachable_rows_satisfy_the_schema [OF example_reachable [OF example_runs(2)]]
  by (simp add: example_db_def)

end
