(* ===== verification/Entity_Properties.thy ===== *)
theory Entity_Properties
  imports Row_Agreement
begin

text \<open>
  What the durable entities promise over whole sequences of calls, and that what they can
  become is what their tables can hold: the invariants, the frozen terminal states, the CHECK
  constraints and the round trips through the rows, entity by entity.
\<close>

section \<open>Sample identifiers\<close>

definition sample_id :: "'k ident" where
  "sample_id = Id ''00000000-0000-0000-0000-000000000001''"

lemma sample_id_ok [simp]: "id_ok sample_id"
proof -
  have "uuid_accepts ''00000000-0000-0000-0000-000000000001''" by code_simp
  then show ?thesis by (simp add: id_ok_def sample_id_def id_post_init_def)
qed

text \<open>Entities that are both atomic and closed: a caller that catches everything cannot move a final one.\<close>

locale settled_lifecycle = closed_lifecycle + atomic_lifecycle
begin

lemma replay_stuck: "final (phase s) \<Longrightarrow> replay step xs s = s"
  using final_stuck replay_reaches by blast

end

interpretation run_settled: settled_lifecycle run_step run_inv run_ident rn_status run_terminal
  by unfold_locales

interpretation task_settled: settled_lifecycle task_step task_inv task_ident tk_status task_terminal
  by unfold_locales

interpretation step_settled: settled_lifecycle step_step step_inv step_ident st_status step_terminal
  by unfold_locales

interpretation wne_settled: settled_lifecycle wne_step wne_inv wne_ident wne_status wne_terminal
  by unfold_locales

section \<open>Runs\<close>

text \<open>
  C26: from a new Run, whatever methods are called in whatever order, with callers that catch
  every exception and carry on, the Run keeps exactly the wait marker its status names, its
  end timestamp and failure record exactly in the statuses that have them, and its identity;
  and once it has ended nothing changes it any more.
\<close>

theorem run_calls_keep_the_invariant:
  assumes "run_new i t at x = Inr r0" and "r = replay run_step calls r0"
  shows "run_markers_ok r \<and> run_times_ok r \<and> run_ident r = run_ident r0 \<and>
    (rn_status r \<in> set TERMINAL_RUN_STATUSES \<longrightarrow> replay run_step later r = r)"
proof -
  have "run_inv r" using run_life.replay_inv [OF run_new_inv [OF assms(1)]] assms(2) by simp
  then show ?thesis
    using run_life.replay_ident [of calls r0] run_settled.replay_stuck [of r later] assms(2)
    unfolding run_inv_def run_terminal_def by simp
qed

definition sample_run :: Run where
  "sample_run = \<lparr>rn_id = sample_id, rn_task_id = sample_id, rn_execution_id = sample_id,
     rn_status = RunStatus.QUEUED, rn_created_at = 0, rn_started_at = None, rn_ended_at = None,
     rn_failure = None, rn_approval_request_id = None, rn_delegation_request_id = None,
     rn_workflow_execution_id = None\<rparr>"

lemma sample_run_new: "run_new sample_id sample_id (utc 0) None = Inr sample_run"
  by (simp add: run_new_def sample_run_def)

definition sample_run_calls :: "run_call list" where
  "sample_run_calls = [RunSucceed (utc 1), RunStart (utc 1), RunWaitForApproval (utc 2) sample_id]"

lemma sample_run_waits:
  "replay run_step sample_run_calls sample_run = sample_run\<lparr>rn_status := RunStatus.WAITING_FOR_APPROVAL,
     rn_started_at := Some 1, rn_approval_request_id := Some sample_id\<rparr>"
  by code_simp

theorem run_calls_keep_the_invariant_witness:
  "run_markers_ok (replay run_step sample_run_calls sample_run) \<and>
   rn_status (replay run_step sample_run_calls sample_run) = RunStatus.WAITING_FOR_APPROVAL"
  using run_calls_keep_the_invariant [OF sample_run_new refl, of sample_run_calls] sample_run_waits by simp

text \<open>
  C27: a Run that its methods can produce is one the \<^verbatim>\<open>runs\<close> table can hold: its row satisfies
  both CHECK constraints, and reading the stored row gives the same Run back.
\<close>

theorem run_rows_are_faithful:
  assumes "run_new i t at x = Inr r0" and "r = replay run_step calls r0"
    and "run_ids_ok r" and "pred_option failure_ok (rn_failure r)"
  shows "ck_runs_status (run_to_row r) \<and> ck_runs_wait_marker_shape (run_to_row r) \<and>
    run_from_row (run_row_stored (run_to_row r)) = Inr r"
  using run_row_checks [OF run_life.replay_inv [OF run_new_inv [OF assms(1)]], of calls]
    run_round_trip [OF assms(3,4)] assms(2) by simp

theorem run_rows_are_faithful_witness:
  "run_from_row (run_row_stored (run_to_row (replay run_step sample_run_calls sample_run)))
     = Inr (replay run_step sample_run_calls sample_run)"
  using run_rows_are_faithful [OF sample_run_new refl, of sample_run_calls] sample_run_waits
  by (simp add: run_ids_ok_def sample_run_def)

section \<open>Tasks, steps and tool invocations\<close>

text \<open>
  C28: a Task keeps its invariant under any calls (one terminal timestamp, in its own status;
  a failure record exactly when failed; a stripped, non-empty title), its terminal statuses
  are final, and it reads back from its row as it was written.
\<close>

theorem task_calls_keep_the_invariant:
  assumes "task_new i title description at = Inr k0" and "k = replay task_step calls k0"
    and "id_ok i" and "pred_option failure_ok (tk_failure k)"
  shows "task_inv k \<and> task_ident k = task_ident k0 \<and>
    (tk_status k \<in> set TERMINAL_TASK_STATUSES \<longrightarrow> replay task_step later k = k) \<and>
    task_from_row (task_row_stored (task_to_row k)) = Inr k"
proof -
  have "task_inv k" using task_life.replay_inv [OF task_new_inv [OF assms(1)]] assms(2) by simp
  moreover have ident: "task_ident k = task_ident k0" using task_life.replay_ident [of calls k0] assms(2) by simp
  moreover have "tk_id k = i" using ident assms(1)
    by (auto simp: task_ident_def task_new_def outcome_simps Let_def)
  ultimately show ?thesis
    using task_settled.replay_stuck [of k later] task_round_trip [of k] assms(3,4)
    unfolding task_terminal_def by simp
qed

definition sample_task :: Task where
  "sample_task = \<lparr>tk_id = sample_id, tk_title = ''t'', tk_description = ''d'', tk_status = TaskStatus.PENDING,
     tk_created_at = 0, tk_started_at = None, tk_completed_at = None, tk_failed_at = None,
     tk_cancelled_at = None, tk_failure = None\<rparr>"

lemma sample_task_new: "task_new sample_id '' t '' ''d'' (utc 0) = Inr sample_task"
  by code_simp

definition sample_task_calls :: "task_call list" where
  "sample_task_calls = [TaskStart (utc 1), TaskComplete (utc 2), TaskCancel (utc 3)]"

lemma sample_task_completes:
  "replay task_step sample_task_calls sample_task = sample_task\<lparr>tk_status := TaskStatus.COMPLETED,
     tk_started_at := Some 1, tk_completed_at := Some 2\<rparr>"
  by code_simp

theorem task_calls_keep_the_invariant_witness:
  "task_inv (replay task_step sample_task_calls sample_task) \<and>
   tk_status (replay task_step sample_task_calls sample_task) = TaskStatus.COMPLETED"
  using task_calls_keep_the_invariant [OF sample_task_new refl, of sample_task_calls] sample_task_completes
  by (simp add: sample_task_def)

text \<open>
  C29: the same for a RunStep: an approval marker exactly while it waits for approval, an end
  timestamp exactly in the terminal statuses and never before its start, a failure exactly
  when failed; terminal steps are frozen; and the row reads back as it was written.
\<close>

theorem step_calls_keep_the_invariant:
  assumes "step_new i run name position at = Inr s0" and "s = replay step_step calls s0"
    and "id_ok i" and "id_ok run" and "pred_option id_ok (st_approval_request_id s)"
    and "pred_option failure_ok (st_failure s)"
  shows "step_inv s \<and> step_ident s = step_ident s0 \<and>
    (st_status s \<in> set TERMINAL_RUN_STEP_STATUSES \<longrightarrow> replay step_step later s = s) \<and>
    run_step_from_row (run_step_row_stored (run_step_to_row s)) = Inr s"
proof -
  have "step_inv s" using step_life.replay_inv [OF step_new_inv [OF assms(1)]] assms(2) by simp
  moreover have ident: "step_ident s = step_ident s0" using step_life.replay_ident [of calls s0] assms(2) by simp
  moreover have "st_id s = i \<and> st_run_id s = run" using ident assms(1)
    by (auto simp: step_ident_def step_new_def outcome_simps Let_def)
  ultimately show ?thesis
    using step_settled.replay_stuck [of s later] run_step_round_trip [of s] assms(3-6)
    unfolding step_terminal_def by simp
qed

definition sample_step :: RunStep where
  "sample_step = \<lparr>st_id = sample_id, st_run_id = sample_id, st_name = ''plan'', st_position = 0,
     st_status = RunStepStatus.PENDING, st_created_at = 0, st_started_at = None, st_ended_at = None,
     st_failure = None, st_approval_request_id = None\<rparr>"

lemma sample_step_new: "step_new sample_id sample_id ''plan'' 0 (utc 0) = Inr sample_step"
  by code_simp

definition sample_step_calls :: "step_call list" where
  "sample_step_calls = [StepStart (utc 1), StepWaitForApproval (utc 2) sample_id, StepSkip (utc 3)]"

lemma sample_step_waits:
  "replay step_step sample_step_calls sample_step = sample_step\<lparr>st_status := RunStepStatus.WAITING_FOR_APPROVAL,
     st_started_at := Some 1, st_approval_request_id := Some sample_id\<rparr>"
  by code_simp

theorem step_calls_keep_the_invariant_witness:
  "step_inv (replay step_step sample_step_calls sample_step) \<and>
   st_approval_request_id (replay step_step sample_step_calls sample_step) \<noteq> None"
  using step_calls_keep_the_invariant [OF sample_step_new refl, of sample_step_calls] sample_step_waits
  by (simp add: sample_step_def)

text \<open>
  C30: calls on a ToolInvocation that return keep its invariant (output exactly when it
  succeeded, failure exactly when it failed, JSON payloads) and never change what was
  authorised: its tool, input, provenance and approval; a finished invocation accepts no
  further call.
\<close>

theorem tool_calls_keep_the_authorisation:
  assumes "tool_new i run name input at step approval provenance = Inr v0"
    and "run_all tool_step calls v0 = Done v"
  shows "tool_inv v \<and> ti_requested_input v = ti_requested_input v0 \<and> ti_tool_name v = ti_tool_name v0 \<and>
    ti_provenance v = provenance \<and> ti_approval_request_id v = approval \<and>
    (ti_status v \<in> set TERMINAL_TOOL_INVOCATION_STATUSES \<longrightarrow> tool_step x v \<noteq> Done v')"
proof -
  have "tool_inv v" by (rule tool_life.run_all_inv [OF tool_new_inv [OF assms(1)] assms(2)])
  moreover have "tool_ident v = tool_ident v0" by (rule tool_life.run_all_ident [OF assms(2)])
  moreover have "ti_provenance v0 = provenance \<and> ti_approval_request_id v0 = approval"
    using assms(1) by (auto simp: tool_new_def outcome_simps Let_def)
  ultimately show ?thesis
    using tool_step_terminal [of v x v'] by (simp add: tool_ident_def tool_terminal_def)
qed

definition sample_tool :: ToolInvocation where
  "sample_tool = \<lparr>ti_id = sample_id, ti_run_id = sample_id, ti_tool_name = ''shell'',
     ti_requested_input = PyNone, ti_status = ToolInvocationStatus.REQUESTED, ti_requested_at = 0,
     ti_step_id = None, ti_approval_request_id = Some sample_id, ti_started_at = None,
     ti_completed_at = None, ti_output = PyNone, ti_output_set = False, ti_failure = None,
     ti_provenance = None\<rparr>"

lemma sample_tool_new: "tool_new sample_id sample_id ''shell'' PyNone (utc 0) None (Some sample_id) None = Inr sample_tool"
  by code_simp

lemma sample_tool_succeeds:
  "run_all tool_step [ToolStart (utc 1), ToolSucceed (utc 2) (Some (PyInt 3))] sample_tool =
     Done (sample_tool\<lparr>ti_status := ToolInvocationStatus.SUCCEEDED, ti_started_at := Some 1,
       ti_completed_at := Some 2, ti_output := PyInt 3, ti_output_set := True\<rparr>)"
  by code_simp

theorem tool_calls_keep_the_authorisation_witness:
  "tool_inv (sample_tool\<lparr>ti_status := ToolInvocationStatus.SUCCEEDED, ti_started_at := Some 1,
       ti_completed_at := Some 2, ti_output := PyInt 3, ti_output_set := True\<rparr>)"
  using tool_calls_keep_the_authorisation [OF sample_tool_new sample_tool_succeeds] by blast

section \<open>Approvals\<close>

lemma approval_consumed_step:
  "approval_step x a = Done a' \<Longrightarrow> ap_consumed_at a \<noteq> None \<Longrightarrow> approval_inv a \<Longrightarrow> a' = a"
  by (cases x) (auto simp: approval_defs outcome_simps approval_inv_def)

lemma approval_consumed_replay:
  "ap_consumed_at a \<noteq> None \<Longrightarrow> approval_inv a \<Longrightarrow> replay approval_step xs a = a"
proof (induction xs)
  case (Cons x xs)
  have "object_of (approval_step x a) = a"
    using approval_life.object_of_step [of x a] approval_consumed_step [OF _ Cons.prems] by metis
  with Cons show ?case by simp
qed simp

text \<open>
  C25: an approval authorises one use of exactly what was requested: whatever calls are made,
  its action, input, fingerprint and subject stay those it was created with; it can only be
  consumed when it was approved by a named resolver; and once consumed no call, a second
  consumption included, changes it.
\<close>

theorem approval_is_single_use:
  assumes "approval_new i r c s re act inp at st ex fp sk si = Inr a0"
    and "a = replay approval_step calls a0" and "ap_consumed_at a \<noteq> None"
  shows "ap_status a = ApprovalStatus.APPROVED \<and> (\<exists>w. ap_resolver a = Some w \<and> w \<noteq> []) \<and>
    approval_ident a = approval_ident a0 \<and> replay approval_step later a = a \<and>
    (\<exists>e. approval_consume t a = Raised e a)"
proof -
  have inv: "approval_inv a" using approval_life.replay_inv [OF approval_new_inv [OF assms(1)]] assms(2) by simp
  with assms(3) have st: "ap_status a = ApprovalStatus.APPROVED" by (simp add: approval_inv_def)
  moreover have "\<exists>w. ap_resolver a = Some w \<and> w \<noteq> []" using inv st by (simp add: approval_inv_def)
  moreover have "\<exists>e. approval_consume t a = Raised e a" using st assms(3) by (auto simp: approval_consume_def require_def)
  ultimately show ?thesis
    using approval_life.replay_ident [of calls a0] approval_consumed_replay [OF assms(3) inv] assms(2) by simp
qed

definition sample_approval :: ApprovalRequest where
  "sample_approval = \<lparr>ap_id = sample_id, ap_run_id = Some sample_id,
     ap_category = ApprovalCategory.TOOL_EXECUTION, ap_summary = ''run it'', ap_reason = [],
     ap_requested_action = ''shell'', ap_requested_input = PyNone, ap_status = ApprovalStatus.PENDING,
     ap_requested_at = 0, ap_step_id = None, ap_expires_at = None, ap_resolved_at = None,
     ap_resolution_note = None, ap_resolver = None, ap_authorization_fingerprint = None,
     ap_consumed_at = None, ap_subject_kind = ApprovalSubjectKind.RUN, ap_subject_id = None\<rparr>"

lemma sample_approval_new:
  "approval_new sample_id (Some sample_id) ApprovalCategory.TOOL_EXECUTION ''run it'' [] ''shell'' PyNone
     (utc 0) None None None ApprovalSubjectKind.RUN None = Inr sample_approval"
  by code_simp

definition sample_approval_calls :: "approval_call list" where
  "sample_approval_calls = [ApprovalConsume (utc 1), ApprovalApprove (utc 2) ''ana'' None, ApprovalConsume (utc 3)]"

lemma sample_approval_consumed:
  "replay approval_step sample_approval_calls sample_approval =
     sample_approval\<lparr>ap_status := ApprovalStatus.APPROVED, ap_resolved_at := Some 2,
       ap_resolver := Some ''ana'', ap_consumed_at := Some 3\<rparr>"
  by code_simp

theorem approval_is_single_use_witness:
  "\<exists>e. approval_consume (utc 4) (replay approval_step sample_approval_calls sample_approval)
     = Raised e (replay approval_step sample_approval_calls sample_approval)"
  using approval_is_single_use [OF sample_approval_new refl, where calls = sample_approval_calls and t = "utc 4"] sample_approval_consumed
  by simp

text \<open>
  C31: an ApprovalRequest that its methods can produce satisfies the four CHECK constraints of
  \<^verbatim>\<open>approval_requests\<close>, and its row reads back as it was written, except that a subject id given to
  an approval of a run is lost: it reads back without one. The constructor accepts such a subject id.
\<close>

theorem approval_rows_are_faithful:
  assumes "approval_new i r c s re act inp at st ex fp sk si = Inr a0"
    and "a = replay approval_step calls a0"
    and "id_ok i" and "pred_option id_ok r" and "pred_option id_ok st"
  shows "ck_approval_requests_status (approval_to_row a) \<and> ck_approval_requests_category (approval_to_row a) \<and>
    ck_approval_requests_subject_shape (approval_to_row a) \<and>
    ck_approval_authorization_fingerprint_hex (approval_to_row a) \<and>
    approval_from_row (approval_row_stored (approval_to_row a)) =
      Inr (a\<lparr>ap_subject_id := (if ap_run_id a = None then ap_subject_id a else None)\<rparr>)"
proof -
  have inv: "approval_inv a" using approval_life.replay_inv [OF approval_new_inv [OF assms(1)]] assms(2) by simp
  have ident: "approval_ident a = approval_ident a0"
    using approval_life.replay_ident [of calls a0] assms(2) by simp
  have new: "ap_id a0 = i \<and> ap_run_id a0 = r \<and> ap_step_id a0 = st"
    "ap_run_id a0 = None \<Longrightarrow> ap_subject_id a0 \<noteq> None \<and> ap_subject_id a0 \<noteq> Some []"
    using assms(1) by (auto simp: approval_new_def outcome_simps Let_def)
  with ident assms(3-5) have ids: "id_ok (ap_id a)" "pred_option id_ok (ap_run_id a)" "pred_option id_ok (ap_step_id a)"
    by (simp_all add: approval_ident_def)
  have "ap_subject_id a \<noteq> None \<and> ap_subject_id a \<noteq> Some []" if "ap_run_id a = None"
    using that ident new(2) by (simp add: approval_ident_def)
  from approval_round_trip [OF ids this] approval_row_checks [OF inv] show ?thesis by blast
qed

theorem approval_rows_are_faithful_witness:
  "approval_from_row (approval_row_stored (approval_to_row (replay approval_step sample_approval_calls sample_approval)))
     = Inr (replay approval_step sample_approval_calls sample_approval)"
  using approval_rows_are_faithful [OF sample_approval_new refl, of sample_approval_calls] sample_approval_consumed
  by (simp add: sample_approval_def)

section \<open>Delegations\<close>

text \<open>
  C32: a delegation that its methods can produce is one the \<^verbatim>\<open>delegation_requests\<close> table can
  hold, and it is the delegation that was authorised: every status has exactly the child,
  timestamp and failure columns the table demands, target, objective, payload and contract
  never change, and the fingerprint stays the hash of them.
\<close>

theorem delegation_calls_keep_the_shape:
  assumes "delegation_new sha256 i p t ob pl ct at st root dep = Inr d0"
    and "run_all delegation_step calls d0 = Done d" and "lower_hex64 (dg_authorization_fingerprint d)"
  shows "ck_delegation_requests_status (delegation_request_to_row d) \<and>
    ck_delegation_requests_root_shape (delegation_request_to_row d) \<and>
    ck_delegation_requests_fingerprint (delegation_request_to_row d) \<and>
    ck_delegation_requests_state_shape (delegation_request_to_row d) \<and>
    delegation_ident d = delegation_ident d0 \<and>
    dg_authorization_fingerprint d = compute_delegation_fingerprint sha256 (dg_id d) (dg_parent_run_id d)
      (dg_parent_run_step_id d) (dg_target_agent_id d) (dg_objective d) (dg_input_payload d)
      (dg_expected_output_contract d)"
proof -
  have inv: "delegation_inv sha256 d"
    by (rule delegation_life.run_all_inv [OF delegation_new_inv [OF assms(1)] assms(2)])
  have "delegation_ident d = delegation_ident d0" by (rule delegation_life.run_all_ident [OF assms(2)])
  moreover have "ck_delegation_requests_state_shape (delegation_request_to_row d)"
    by (rule delegation_reaches_shape [OF run_all_reaches [OF assms(2)] delegation_new_shape [OF assms(1)]])
  moreover have "dg_authorization_fingerprint d = compute_delegation_fingerprint sha256 (dg_id d) (dg_parent_run_id d)
      (dg_parent_run_step_id d) (dg_target_agent_id d) (dg_objective d) (dg_input_payload d)
      (dg_expected_output_contract d)" using inv unfolding delegation_inv_def by blast
  ultimately show ?thesis using delegation_row_checks [OF inv assms(3)] by blast
qed

definition sample_sha256 :: "string \<Rightarrow> string" where
  "sample_sha256 s = replicate 64 (CHR ''0'')"

definition sample_delegation :: DelegationRequest where
  "sample_delegation = \<lparr>dg_id = sample_id, dg_parent_run_id = sample_id, dg_target_agent_id = sample_id,
     dg_objective = ''look'', dg_input_payload = PyNone, dg_expected_output_contract = ''text'',
     dg_authorization_fingerprint = replicate 64 (CHR ''0''), dg_status = DelegationStatus.REQUESTED,
     dg_created_at = 0, dg_parent_run_step_id = None, dg_child_task_id = None, dg_child_run_id = None,
     dg_started_at = None, dg_completed_at = None, dg_failure_code = None,
     dg_root_delegation_id = sample_id, dg_depth = 1\<rparr>"

lemma sample_delegation_new:
  "delegation_new sample_sha256 sample_id sample_id sample_id ''look'' PyNone ''text'' (utc 0) None None None
     = Inr sample_delegation"
  by code_simp

definition sample_failed_delegation :: DelegationRequest where
  "sample_failed_delegation = sample_delegation\<lparr>dg_status := DelegationStatus.FAILED,
     dg_child_task_id := Some sample_id, dg_child_run_id := Some sample_id, dg_started_at := Some 1,
     dg_completed_at := Some 2, dg_failure_code := Some ''boom''\<rparr>"

lemma sample_delegation_fails:
  "run_all delegation_step [DelegationDispatch sample_id sample_id (utc 1), DelegationFail (utc 2) ''boom''] sample_delegation
     = Done sample_failed_delegation"
  by code_simp

theorem delegation_calls_keep_the_shape_witness:
  "ck_delegation_requests_state_shape (delegation_request_to_row sample_failed_delegation)"
proof -
  have "lower_hex64 (dg_authorization_fingerprint sample_failed_delegation)" by code_simp
  with delegation_calls_keep_the_shape [OF sample_delegation_new sample_delegation_fails] show ?thesis by blast
qed

section \<open>Workflow executions\<close>

text \<open>
  C33: a workflow execution built by its constructor and moved by its methods satisfies the
  state CHECK constraints of its table, keeps its revision and content hash, accepts no call
  once it has ended, and reads back from its row as it was written.
\<close>

theorem workflow_execution_rows_are_faithful:
  assumes "wx_post_init e0 s c = Inr e1" and "run_all wx_step calls e1 = Done e"
    and "id_ok (wx_id e)" "id_ok (wx_root_run_id e)" "id_ok (wx_workflow_id e)" "id_ok (wx_workflow_revision_id e)"
  shows "ck_workflow_executions_state_shape (workflow_execution_to_row e) \<and>
    ck_workflow_executions_sha256 (workflow_execution_to_row e) \<and> wx_ident e = wx_ident e1 \<and>
    workflow_execution_from_row (workflow_execution_row_stored (workflow_execution_to_row e)) = Inr e \<and>
    (wx_is_terminal e \<longrightarrow> wx_step x e \<noteq> Done e')"
proof -
  have wx: "wx_inv e" by (rule wx_life.run_all_inv [OF wx_post_init_inv [OF assms(1)] assms(2)])
  from wx_row_checks [OF wx] workflow_execution_round_trip [OF wx assms(3-6)]
    wx_step_terminal [of e x e'] wx_life.run_all_ident [OF assms(2)] show ?thesis
    unfolding wx_is_terminal_def wx_terminal_def by blast
qed

definition sample_wx :: WorkflowExecution where
  "sample_wx = \<lparr>wx_id = sample_id, wx_root_run_id = sample_id, wx_workflow_id = sample_id,
     wx_workflow_revision_id = sample_id, wx_workflow_content_sha256 = replicate 64 (CHR ''0''),
     wx_status = WorkflowExecutionStatus.RUNNING, wx_started_at = 0, wx_completed_at = None,
     wx_failure_code = None, wx_failure_message = None\<rparr>"

lemma sample_wx_new: "wx_post_init sample_wx (utc 0) None = Inr sample_wx" by code_simp

lemma sample_wx_succeeds:
  "run_all wx_step [WxSucceed (utc 5)] sample_wx =
     Done (sample_wx\<lparr>wx_status := WorkflowExecutionStatus.SUCCEEDED, wx_completed_at := Some 5\<rparr>)"
  by code_simp

theorem workflow_execution_rows_are_faithful_witness:
  "ck_workflow_executions_state_shape (workflow_execution_to_row
     (sample_wx\<lparr>wx_status := WorkflowExecutionStatus.SUCCEEDED, wx_completed_at := Some 5\<rparr>))"
  using workflow_execution_rows_are_faithful [OF sample_wx_new sample_wx_succeeds] by (simp add: sample_wx_def)

text \<open>
  C34: a node execution starts pending and, whatever is called on it, its row satisfies the
  CHECK constraints of its table (a child exactly in the statuses that have one, a failure
  exactly when failed or blocked) and reads back as it was written; its terminal states are
  final.
\<close>

theorem node_execution_rows_are_faithful:
  assumes "wne_post_init n0 c s f = Inr n1" and "wne_status n1 = WorkflowNodeExecutionStatus.PENDING"
    and "n = replay wne_step calls n1"
    and "id_ok (wne_id n)" "id_ok (wne_workflow_execution_id n)" "id_ok (wne_workflow_node_id n)"
    "id_ok (wne_workflow_revision_id n)" "id_ok (wne_target_agent_id n)" "id_ok (wne_target_agent_revision_id n)"
    "pred_option id_ok (wne_child_task_id n)" "pred_option id_ok (wne_child_run_id n)"
    "pred_option id_ok (wne_child_execution_id n)"
  shows "ck_workflow_node_executions_state_shape (workflow_node_execution_to_row n) \<and>
    ck_workflow_node_executions_sha256 (workflow_node_execution_to_row n) \<and> wne_ident n = wne_ident n1 \<and>
    workflow_node_execution_from_row (workflow_node_execution_row_stored (workflow_node_execution_to_row n)) = Inr n \<and>
    (wne_is_terminal n \<longrightarrow> replay wne_step later n = n)"
proof -
  have inv1: "wne_inv n1" by (rule wne_post_init_inv [OF assms(1)])
  have ninv: "wne_inv n" using wne_life.replay_inv [OF inv1] assms(3) by simp
  have "wne_row_shape n"
    using wne_reaches_shape [OF wne_life.replay_reaches wne_pending_shape [OF inv1 assms(2)]] assms(3) by simp
  from wne_row_checks [OF ninv this] workflow_node_execution_round_trip [OF ninv assms(4-12)]
    wne_settled.replay_stuck [of n later] wne_life.replay_ident [of calls n1] assms(3) show ?thesis
    unfolding wne_is_terminal_def wne_terminal_def by blast
qed

definition sample_wne :: WorkflowNodeExecution where
  "sample_wne = \<lparr>wne_id = sample_id, wne_workflow_execution_id = sample_id, wne_workflow_node_id = sample_id,
     wne_workflow_revision_id = sample_id, wne_node_key = ''fetch'', wne_target_agent_id = sample_id,
     wne_target_agent_revision_id = sample_id, wne_target_agent_revision_sha256 = replicate 64 (CHR ''0''),
     wne_status = WorkflowNodeExecutionStatus.PENDING, wne_created_at = 0, wne_child_task_id = None,
     wne_child_run_id = None, wne_child_execution_id = None, wne_result_payload = PyNone,
     wne_failure_code = None, wne_failure_message = None, wne_started_at = None, wne_completed_at = None\<rparr>"

lemma sample_wne_new: "wne_post_init sample_wne (utc 0) None None = Inr sample_wne" by code_simp

definition sample_wne_calls :: "wne_call list" where
  "sample_wne_calls = [WneDispatch sample_id sample_id sample_id (utc 1), WneCancel (utc 2)]"

lemma sample_wne_cancelled:
  "replay wne_step sample_wne_calls sample_wne = sample_wne\<lparr>wne_status := WorkflowNodeExecutionStatus.CANCELLED,
     wne_child_task_id := Some sample_id, wne_child_run_id := Some sample_id,
     wne_child_execution_id := Some sample_id, wne_started_at := Some 1, wne_completed_at := Some 2\<rparr>"
  by code_simp

theorem node_execution_rows_are_faithful_witness:
  "ck_workflow_node_executions_state_shape (workflow_node_execution_to_row (replay wne_step sample_wne_calls sample_wne))"
  using node_execution_rows_are_faithful [OF sample_wne_new _ refl, of sample_wne_calls] sample_wne_cancelled
  by (simp add: sample_wne_def)

text \<open>
  C35: one method is not atomic: a \<^verbatim>\<open>WorkflowExecution.succeed\<close> rejected because its end would
  precede its start raises with the completion timestamp already written, and leaves an object
  its own constructor rejects.
\<close>

theorem rejected_succeed_leaves_a_timestamp:
  assumes "wx_status e = WorkflowExecutionStatus.RUNNING" and "t < wx_started_at e"
  shows "(\<exists>err. wx_succeed (utc t) e = Raised err (e\<lparr>wx_completed_at := Some t\<rparr>)) \<and>
    (\<forall>e'. wx_post_init (e\<lparr>wx_completed_at := Some t\<rparr>) (utc (wx_started_at e)) (Some (utc t)) \<noteq> Inr e')"
proof -
  have "wx_post_init (e\<lparr>wx_completed_at := Some t\<rparr>) (utc (wx_started_at e)) (Some (utc t)) \<noteq> Inr e'" for e'
    using assms(2) by (auto simp: wx_post_init_def outcome_simps)
  then show ?thesis using wx_succeed_early [OF assms] by blast
qed

theorem rejected_succeed_leaves_a_timestamp_witness:
  "\<exists>err. wx_succeed (utc (-1)) sample_wx = Raised err (sample_wx\<lparr>wx_completed_at := Some (-1)\<rparr>)"
  using rejected_succeed_leaves_a_timestamp [of sample_wx "-1"] by (simp add: sample_wx_def)

end
