(* ===== verification/Workflow_Properties.thy ===== *)
theory Workflow_Properties
  imports Workflow_Entity
begin

text \<open>
  What workflow definitions promise: which graphs, keys and payloads are accepted, and that a
  revision's content hash identifies its content whatever order nodes and edges are listed in.
\<close>

text \<open>
  C39: a workflow or node key is accepted exactly when it has 1 to 128 characters and is a
  word of \<^verbatim>\<open>[a-z][a-z0-9]*([._-][a-z0-9]+)*\<close>.
\<close>

theorem workflow_key_language:
  "validate_workflow_key k = Inr k' \<longleftrightarrow> k' = k \<and> length k \<in> {1..128} \<and>
     (\<exists>h t segs. k = h # t @ concat (map (\<lambda>(p, w). p # w) segs) \<and> lower_letter h \<and>
        list_all lower_alnum t \<and>
        list_all (\<lambda>(p, w). key_separator p \<and> w \<noteq> [] \<and> list_all lower_alnum w) segs)"
  using key_match_language [of k]
  by (auto simp: validate_workflow_key_def key_language_def MAX_WORKFLOW_KEY_LENGTH_def Suc_le_eq split: if_splits)

text \<open>
  C38: a node payload is accepted, unchanged, exactly when it is JSON, its compact encoding
  has at most 16384 UTF-8 bytes, it nests at most 8 levels deep and has at most 256 values.
\<close>

theorem workflow_input_limits:
  "validate_workflow_input v = Inr w \<longleftrightarrow>
     w = v \<and> is_json v \<and> utf8_length (json_dumps False v) \<le> 16384 \<and> json_depth v \<le> 8 \<and> json_nodes v \<le> 256"
  by (rule validate_workflow_input_Inr_iff)

lemma dag_valid_perm:
  assumes "mset nodes = mset nodes'" and "mset edges = mset edges'" and "dag_valid nodes edges"
  shows "dag_valid nodes' edges'"
proof -
  have sets: "set nodes' = set nodes" "set edges' = set edges"
    using assms(1,2) by (metis mset_eq_setD)+
  have len: "length nodes' = length nodes" "length edges' = length edges"
    using assms(1,2) by (metis mset_eq_length)+
  have dist: "distinct (map f nodes') = distinct (map f nodes)" for f :: "WorkflowNode \<Rightarrow> 'a"
    using assms(1) by (intro mset_eq_imp_distinct_iff) simp
  have diste: "distinct (map edge_pair edges') = distinct (map edge_pair edges)"
    using assms(2) by (intro mset_eq_imp_distinct_iff) simp
  show ?thesis using assms(3) sets len dist diste unfolding dag_valid_def
    by (metis length_0_conv)
qed

text \<open>
  C36: the content hash of a revision does not depend on the order its nodes and edges are
  listed in: if one listing is accepted, every permutation is, with the same hash.
\<close>

theorem revision_hash_ignores_order:
  assumes "workflow_revision_new sha256 i w v nodes edges k at = Inr r"
    and "mset nodes = mset nodes'" and "mset edges = mset edges'"
  shows "\<exists>r'. workflow_revision_new sha256 i w v nodes' edges' k at = Inr r' \<and>
    wr_content_sha256 r' = wr_content_sha256 r \<and> wr_nodes r' = nodes' \<and> wr_edges r' = edges'"
proof -
  from assms(1) obtain t where t: "ensure_utc at = Inr t" and inv: "revision_inv sha256 r"
    and r: "r = \<lparr>wr_id = i, wr_workflow_id = w, wr_version = v,
           wr_content_sha256 = sha256 (the (canonical_workflow_content nodes edges)),
           wr_source_kind = k, wr_nodes = nodes, wr_edges = edges, wr_created_at = t\<rparr>"
    by (auto simp: workflow_revision_new_Inr_iff)
  have valid: "dag_valid nodes edges" using inv r by (simp add: revision_inv_def)
  note same = canonical_content_perm [OF valid assms(2,3)]
  have sets: "set nodes' = set nodes" "set edges' = set edges" using assms(2,3) by (metis mset_eq_setD)+
  let ?r = "r\<lparr>wr_nodes := nodes', wr_edges := edges'\<rparr>"
  have "revision_inv sha256 ?r"
    using inv dag_valid_perm [OF assms(2,3) valid] sets same r by (simp add: revision_inv_def)
  moreover have "canonical_workflow_content nodes' edges' \<noteq> None"
    using inv r same by (simp add: revision_inv_def)
  ultimately have "workflow_revision_new sha256 i w v nodes' edges' k at = Inr ?r"
    using t r same by (simp add: workflow_revision_new_Inr_iff)
  then show ?thesis using r by simp
qed

definition sample_node :: "string \<Rightarrow> string \<Rightarrow> WorkflowNode" where
  "sample_node i key = \<lparr>wn_id = Id i, wn_revision_id = Id ''r'', wn_node_key = key, wn_target_agent_id = Id ''a'',
     wn_objective = ''o'', wn_input_payload = PyNone, wn_expected_output_contract = ''c'', wn_created_at = 0\<rparr>"

definition sample_edge :: WorkflowEdge where
  "sample_edge = \<lparr>we_id = Id ''e'', we_revision_id = Id ''r'', we_from_node_id = Id ''1'',
     we_to_node_id = Id ''2'', we_created_at = 0\<rparr>"

definition sample_hash :: "string \<Rightarrow> string" where
  "sample_hash s = replicate 64 (CHR ''0'')"

definition sample_revision :: "WorkflowNode list \<Rightarrow> domain_error + WorkflowRevision" where
  "sample_revision nodes = workflow_revision_new sample_hash (Id ''r'') (Id ''w'') 1 nodes [sample_edge]
     WorkflowRevisionSourceKind.OPERATOR (utc 0)"

lemma sample_revision_ok: "\<not> isl (sample_revision [sample_node ''1'' ''x'', sample_node ''2'' ''y''])"
  by code_simp

theorem revision_hash_ignores_order_witness:
  "\<exists>r r'. sample_revision [sample_node ''1'' ''x'', sample_node ''2'' ''y''] = Inr r \<and>
     sample_revision [sample_node ''2'' ''y'', sample_node ''1'' ''x''] = Inr r' \<and>
     wr_content_sha256 r' = wr_content_sha256 r"
proof -
  from sample_revision_ok obtain r where "sample_revision [sample_node ''1'' ''x'', sample_node ''2'' ''y''] = Inr r"
    by (cases "sample_revision [sample_node ''1'' ''x'', sample_node ''2'' ''y'']") auto
  with revision_hash_ignores_order [OF this [unfolded sample_revision_def], of "[sample_node ''2'' ''y'', sample_node ''1'' ''x'']" "[sample_edge]"]
  show ?thesis unfolding sample_revision_def by auto
qed

text \<open>
  C37: a stored revision is accepted exactly when its version is positive, \<^verbatim>\<open>validate_workflow_dag\<close>
  accepts its graph, every node and edge belongs to it, and the stored hash is the lower-case hash of
  the stored content. So a revision that was created is accepted again, and one whose content no
  longer has the stored hash is rejected.
\<close>

theorem revision_integrity_is_checked:
  assumes "workflow_revision_new sha256 i w v nodes edges k at = Inr r"
  shows "(\<forall>q. workflow_revision_post_init sha256 q (utc (wr_created_at q)) = Inr q \<longleftrightarrow>
      1 \<le> wr_version q \<and> validate_workflow_dag (wr_nodes q) (wr_edges q) = Inr () \<and>
      (\<forall>n \<in> set (wr_nodes q). wn_revision_id n = wr_id q) \<and> (\<forall>e \<in> set (wr_edges q). we_revision_id e = wr_id q) \<and>
      (\<exists>content. canonical_workflow_content (wr_nodes q) (wr_edges q) = Some content \<and> wr_content_sha256 q = sha256 content) \<and>
      lower_hex64 (wr_content_sha256 q)) \<and>
    workflow_revision_post_init sha256 r (utc (wr_created_at r)) = Inr r \<and>
    (\<forall>nodes' edges'. sha256 (the (canonical_workflow_content nodes' edges')) \<noteq> wr_content_sha256 r \<longrightarrow>
       (\<forall>r'. workflow_revision_post_init sha256 (r\<lparr>wr_nodes := nodes', wr_edges := edges'\<rparr>) at' \<noteq> Inr r'))"
proof -
  have inv: "revision_inv sha256 r" using assms by (auto simp: workflow_revision_new_Inr_iff)
  have "workflow_revision_post_init sha256 r (utc (wr_created_at r)) = Inr r"
    using inv by (simp add: workflow_revision_post_init_Inr_iff)
  moreover have "workflow_revision_post_init sha256 q (utc (wr_created_at q)) = Inr q \<longleftrightarrow> revision_inv sha256 q" for q
    by (simp add: workflow_revision_post_init_Inr_iff)
  moreover have "workflow_revision_post_init sha256 (r\<lparr>wr_nodes := nodes', wr_edges := edges'\<rparr>) at' \<noteq> Inr r'"
    if "sha256 (the (canonical_workflow_content nodes' edges')) \<noteq> wr_content_sha256 r" for nodes' edges' r'
    using that by (auto simp: workflow_revision_post_init_Inr_iff revision_inv_def)
  ultimately show ?thesis by (auto simp: revision_inv_def validate_workflow_dag_iff)
qed

theorem revision_integrity_is_checked_witness:
  "\<exists>r. sample_revision [sample_node ''1'' ''x'', sample_node ''2'' ''y''] = Inr r \<and>
     workflow_revision_post_init sample_hash r (utc (wr_created_at r)) = Inr r"
proof -
  from sample_revision_ok obtain r where "sample_revision [sample_node ''1'' ''x'', sample_node ''2'' ''y''] = Inr r"
    by (cases "sample_revision [sample_node ''1'' ''x'', sample_node ''2'' ''y'']") auto
  with revision_integrity_is_checked [OF this [unfolded sample_revision_def]] show ?thesis by blast
qed

text \<open>
  C40: a value passes \<^verbatim>\<open>ensure_json_value\<close> exactly when it is JSON all the way down (finite
  floats, string keys, no foreign objects), and then it is returned unchanged.
\<close>

theorem json_values_are_checked:
  "ensure_json_value path v = Inr w \<longleftrightarrow> is_json v \<and> w = v"
  by (rule ensure_json_Inr_iff)

end
