(* ===== verification/Schedule_Entity.thy ===== *)
theory Schedule_Entity
  imports Lifecycle Identifiers
begin

text \<open>
  Durable schedules (\<^verbatim>\<open>src/src/friday/domain/schedule.py\<close>). Whether a name is an IANA timezone
  is the parameter \<open>zone_ok\<close> (the \<^verbatim>\<open>zoneinfo\<close> database). Lifecycle: a schedule that has a next
  fire is active or paused, one that has none has ended. \<^verbatim>\<open>complete\<close> and \<^verbatim>\<open>advance_after_fire\<close>
  check no status, so a cancelled schedule can come back; the callers guard them.
\<close>

datatype ScheduleKind = ONCE | CRON

datatype ScheduleStatus = ACTIVE | PAUSED | COMPLETED | CANCELLED

fun schedule_status_value :: "ScheduleStatus \<Rightarrow> string" where
  "schedule_status_value ScheduleStatus.ACTIVE = ''active''"
| "schedule_status_value ScheduleStatus.PAUSED = ''paused''"
| "schedule_status_value ScheduleStatus.COMPLETED = ''completed''"
| "schedule_status_value ScheduleStatus.CANCELLED = ''cancelled''"

definition TERMINAL_SCHEDULE_STATUSES :: "ScheduleStatus list" where
  "TERMINAL_SCHEDULE_STATUSES = [ScheduleStatus.COMPLETED, ScheduleStatus.CANCELLED]"

definition validate_timezone :: "(string \<Rightarrow> bool) \<Rightarrow> string \<Rightarrow> domain_error + string" where
  "validate_timezone zone_ok value =
     (if zone_ok value then Inr value
      else Inl (DomainValidationError ''Schedule.timezone must be an IANA timezone''))"

record Schedule =
  sc_id :: ScheduleId
  sc_task_id :: TaskId
  sc_kind :: ScheduleKind
  sc_cron :: "string option"
  sc_run_at :: "instant option"
  sc_timezone :: string
  sc_status :: ScheduleStatus
  sc_next_fire_at :: "instant option"
  sc_created_at :: instant
  sc_updated_at :: instant

definition fire_status :: "instant option \<Rightarrow> ScheduleStatus" where
  "fire_status next_fire_at = (if next_fire_at \<noteq> None then ScheduleStatus.ACTIVE else ScheduleStatus.COMPLETED)"

definition schedule_new ::
  "(string \<Rightarrow> bool) \<Rightarrow> ScheduleId \<Rightarrow> TaskId \<Rightarrow> ScheduleKind \<Rightarrow> string option \<Rightarrow> datetime option \<Rightarrow> string
   \<Rightarrow> datetime \<Rightarrow> datetime option \<Rightarrow> domain_error + Schedule" where
  "schedule_new zone_ok i task_id kind cron run_at timezone now next_fire_at =
     ebind (ensure_utc now) (\<lambda>t.
     ebind (validate_timezone zone_ok timezone) (\<lambda>zone.
     ebind (case kind of
         ScheduleKind.ONCE \<Rightarrow>
           (if run_at = None \<or> cron \<noteq> None
            then Inl (DomainValidationError ''once schedules require run_at and forbid cron'')
            else ebind (validate_opt ensure_utc run_at) (\<lambda>r. Inr (cron, r)))
       | ScheduleKind.CRON \<Rightarrow>
           (if cron = None \<or> run_at \<noteq> None
            then Inl (DomainValidationError ''cron schedules require cron and forbid run_at'')
            else Inr (map_option py_strip cron, None))) (\<lambda>(c, r).
     ebind (validate_opt ensure_utc next_fire_at) (\<lambda>fire.
     Inr \<lparr>sc_id = i, sc_task_id = task_id, sc_kind = kind, sc_cron = c, sc_run_at = r,
          sc_timezone = zone, sc_status = fire_status fire, sc_next_fire_at = fire,
          sc_created_at = t, sc_updated_at = t\<rparr>))))"

definition schedule_pause :: "datetime \<Rightarrow> Schedule \<Rightarrow> (domain_error, Schedule) outcome" where
  "schedule_pause at s =
     require (sc_status s = ScheduleStatus.ACTIVE)
       (InvalidStateTransition ''Schedule'' (schedule_status_value (sc_status s)) ''paused'') s (
     attempt (ensure_utc at) s (\<lambda>t.
     Done (s\<lparr>sc_status := ScheduleStatus.PAUSED, sc_updated_at := t\<rparr>)))"

text \<open>\<^verbatim>\<open>resume\<close> and \<^verbatim>\<open>advance_after_fire\<close> write the next fire and the status before the timestamp.\<close>

definition schedule_set_fire ::
  "datetime \<Rightarrow> datetime option \<Rightarrow> Schedule \<Rightarrow> (domain_error, Schedule) outcome" where
  "schedule_set_fire at next_fire_at s =
     attempt (validate_opt ensure_utc next_fire_at) s (\<lambda>fire.
     let s1 = s\<lparr>sc_next_fire_at := fire, sc_status := fire_status fire\<rparr> in
     attempt (ensure_utc at) s1 (\<lambda>t. Done (s1\<lparr>sc_updated_at := t\<rparr>)))"

definition schedule_resume ::
  "datetime \<Rightarrow> datetime option \<Rightarrow> Schedule \<Rightarrow> (domain_error, Schedule) outcome" where
  "schedule_resume at next_fire_at s =
     require (sc_status s = ScheduleStatus.PAUSED)
       (InvalidStateTransition ''Schedule'' (schedule_status_value (sc_status s)) ''active'') s
       (schedule_set_fire at next_fire_at s)"

definition schedule_cancel :: "datetime \<Rightarrow> Schedule \<Rightarrow> (domain_error, Schedule) outcome" where
  "schedule_cancel at s =
     require (sc_status s \<notin> set TERMINAL_SCHEDULE_STATUSES)
       (InvalidStateTransition ''Schedule'' (schedule_status_value (sc_status s)) ''cancelled'') s (
     attempt (ensure_utc at) s (\<lambda>t.
     Done (s\<lparr>sc_status := ScheduleStatus.CANCELLED, sc_next_fire_at := None, sc_updated_at := t\<rparr>)))"

definition schedule_complete :: "datetime \<Rightarrow> Schedule \<Rightarrow> (domain_error, Schedule) outcome" where
  "schedule_complete at s =
     attempt (ensure_utc at) s (\<lambda>t.
     Done (s\<lparr>sc_status := ScheduleStatus.COMPLETED, sc_next_fire_at := None, sc_updated_at := t\<rparr>))"

definition schedule_advance_after_fire ::
  "datetime \<Rightarrow> datetime option \<Rightarrow> Schedule \<Rightarrow> (domain_error, Schedule) outcome" where
  "schedule_advance_after_fire now next_fire_at s = schedule_set_fire now next_fire_at s"

section \<open>Invariant\<close>

datatype schedule_call =
    SchedulePause datetime
  | ScheduleResume datetime "datetime option"
  | ScheduleCancel datetime
  | ScheduleComplete datetime
  | ScheduleAdvance datetime "datetime option"

fun schedule_step :: "schedule_call \<Rightarrow> Schedule \<Rightarrow> (domain_error, Schedule) outcome" where
  "schedule_step (SchedulePause at) = schedule_pause at"
| "schedule_step (ScheduleResume at f) = schedule_resume at f"
| "schedule_step (ScheduleCancel at) = schedule_cancel at"
| "schedule_step (ScheduleComplete at) = schedule_complete at"
| "schedule_step (ScheduleAdvance at f) = schedule_advance_after_fire at f"

definition schedule_inv :: "Schedule \<Rightarrow> bool" where
  "schedule_inv s \<longleftrightarrow>
     (sc_next_fire_at s = None) = (sc_status s \<in> set TERMINAL_SCHEDULE_STATUSES) \<and>
     (case sc_kind s of ScheduleKind.ONCE \<Rightarrow> sc_run_at s \<noteq> None \<and> sc_cron s = None
      | ScheduleKind.CRON \<Rightarrow> sc_run_at s = None \<and> sc_cron s \<noteq> None)"

definition schedule_ident where
  "schedule_ident s = (sc_id s, sc_task_id s, sc_kind s, sc_cron s, sc_run_at s, sc_timezone s, sc_created_at s)"

lemmas schedule_defs [step_defs] =
  schedule_pause_def schedule_resume_def schedule_cancel_def schedule_complete_def
  schedule_advance_after_fire_def schedule_set_fire_def fire_status_def

lemma schedule_new_inv:
  "schedule_new z i k kd c r tz now f = Inr s \<Longrightarrow> schedule_inv s"
  by (cases kd) (auto simp: schedule_new_def outcome_simps schedule_inv_def fire_status_def
      TERMINAL_SCHEDULE_STATUSES_def split: if_splits)

lemma schedule_step_inv: "schedule_inv s \<Longrightarrow> schedule_step x s = Done s' \<Longrightarrow> schedule_inv s'"
  by (cases x)
     (auto simp: schedule_defs outcome_simps Let_def schedule_inv_def TERMINAL_SCHEDULE_STATUSES_def
       split: ScheduleKind.splits)

lemma schedule_step_ident: "schedule_step x s = Done s' \<Longrightarrow> schedule_ident s' = schedule_ident s"
  by (cases x) (auto simp: schedule_defs outcome_simps Let_def schedule_ident_def)

interpretation schedule_life: lifecycle schedule_step schedule_inv schedule_ident sc_status "\<lambda>s. False"
  by unfold_locales (erule (1) schedule_step_inv, erule schedule_step_ident, simp)

end
