(* ===== verification/Transactions.thy ===== *)
theory Transactions
  imports Tables
begin

text \<open>
  Unit-of-work transactions as a state monad with errors: \<open>Inl\<close> is a transaction that raised
  and was rolled back, \<open>Inr\<close> one that committed with its result and the new database. The
  combinators are the statements a use case is made of: reading (\<open>tx_get\<close>), writing
  (\<open>tx_put\<close>), raising, a value that may be absent (\<open>tx_found\<close>), a domain method (\<open>tx_call\<close>)
  and a \<^verbatim>\<open>for\<close> loop (\<open>tx_each\<close>). A write that violates a uniqueness constraint raises
  \<^verbatim>\<open>EntityConflict\<close> (\<^verbatim>\<open>_translated\<close> in \<^verbatim>\<open>unit_of_work.py\<close>).

  \<open>tx_rel R\<close> says that a transaction that commits relates the databases before and after by
  \<open>R\<close>; for a reflexive and transitive \<open>R\<close> it is proved statement by statement. \<open>wp\<close> is the
  weakest precondition for facts that depend on the order of the statements.
\<close>

section \<open>Statements\<close>

definition tx_return :: "'a \<Rightarrow> 's \<Rightarrow> app_error + 'a \<times> 's" where
  "tx_return x s = Inr (x, s)"

definition tx_raise :: "app_error \<Rightarrow> 's \<Rightarrow> app_error + 'a \<times> 's" where
  "tx_raise e s = Inl e"

definition tx_bind ::
  "('s \<Rightarrow> app_error + 'a \<times> 's) \<Rightarrow> ('a \<Rightarrow> 's \<Rightarrow> app_error + 'b \<times> 's) \<Rightarrow> 's \<Rightarrow> app_error + 'b \<times> 's" where
  "tx_bind m k s = (case m s of Inl e \<Rightarrow> Inl e | Inr (x, s') \<Rightarrow> k x s')"

definition tx_get :: "('s \<Rightarrow> 'a) \<Rightarrow> 's \<Rightarrow> app_error + 'a \<times> 's" where
  "tx_get f s = Inr (f s, s)"

definition tx_put :: "('s \<Rightarrow> 's) \<Rightarrow> 's \<Rightarrow> app_error + unit \<times> 's" where
  "tx_put g s = Inr ((), g s)"

definition tx_step :: "('s \<Rightarrow> 'a \<times> 's) \<Rightarrow> 's \<Rightarrow> app_error + 'a \<times> 's" where
  "tx_step g s = Inr (g s)"

definition tx_lift :: "app_error + 'a \<Rightarrow> 's \<Rightarrow> app_error + 'a \<times> 's" where
  "tx_lift r s = (case r of Inl e \<Rightarrow> Inl e | Inr x \<Rightarrow> Inr (x, s))"

definition tx_guard :: "bool \<Rightarrow> app_error \<Rightarrow> 's \<Rightarrow> app_error + unit \<times> 's" where
  "tx_guard b e = (if b then tx_return () else tx_raise e)"

definition tx_found :: "app_error \<Rightarrow> 'a option \<Rightarrow> 's \<Rightarrow> app_error + 'a \<times> 's" where
  "tx_found e x = (case x of None \<Rightarrow> tx_raise e | Some v \<Rightarrow> tx_return v)"

definition tx_call :: "(domain_error, 'a) outcome \<Rightarrow> 's \<Rightarrow> app_error + 'a \<times> 's" where
  "tx_call m = tx_lift (call_method m)"

primrec tx_each :: "('x \<Rightarrow> 's \<Rightarrow> app_error + 'a \<times> 's) \<Rightarrow> 'x list \<Rightarrow> 's \<Rightarrow> app_error + 'a list \<times> 's" where
  "tx_each f [] = tx_return []"
| "tx_each f (x # xs) = tx_bind (f x) (\<lambda>y. tx_bind (tx_each f xs) (\<lambda>ys. tx_return (y # ys)))"

definition UNIQUE_VIOLATION :: app_error where
  "UNIQUE_VIOLATION = EntityConflict ''write violated a uniqueness or state constraint''"

section \<open>Weakest preconditions\<close>

definition wp :: "('s \<Rightarrow> app_error + 'a \<times> 's) \<Rightarrow> ('a \<Rightarrow> 's \<Rightarrow> bool) \<Rightarrow> 's \<Rightarrow> bool" where
  "wp m Q s \<longleftrightarrow> (case m s of Inl e \<Rightarrow> True | Inr (x, s') \<Rightarrow> Q x s')"

named_theorems wp_simps \<open>weakest preconditions of statements\<close>

lemma wp_return [wp_simps]: "wp (tx_return x) Q = Q x"
  by (simp add: fun_eq_iff wp_def tx_return_def)

lemma wp_raise [wp_simps]: "wp (tx_raise e) Q = (\<lambda>s. True)"
  by (simp add: fun_eq_iff wp_def tx_raise_def)

lemma wp_bind [wp_simps]: "wp (tx_bind m k) Q = wp m (\<lambda>x. wp (k x) Q)"
  by (auto simp: fun_eq_iff wp_def tx_bind_def split: sum.split)

lemma wp_get [wp_simps]: "wp (tx_get f) Q = (\<lambda>s. Q (f s) s)"
  by (simp add: fun_eq_iff wp_def tx_get_def)

lemma wp_put [wp_simps]: "wp (tx_put g) Q = (\<lambda>s. Q () (g s))"
  by (simp add: fun_eq_iff wp_def tx_put_def)

lemma wp_step [wp_simps]: "wp (tx_step g) Q = (\<lambda>s. Q (fst (g s)) (snd (g s)))"
  by (simp add: fun_eq_iff wp_def tx_step_def split_beta)

lemma wp_lift [wp_simps]: "wp (tx_lift r) Q = (\<lambda>s. \<forall>x. r = Inr x \<longrightarrow> Q x s)"
  by (auto simp: fun_eq_iff wp_def tx_lift_def split: sum.split)

lemma wp_guard [wp_simps]: "wp (tx_guard b e) Q = (\<lambda>s. b \<longrightarrow> Q () s)"
  by (simp add: fun_eq_iff tx_guard_def wp_simps)

lemma wp_found [wp_simps]: "wp (tx_found e x) Q = (\<lambda>s. \<forall>v. x = Some v \<longrightarrow> Q v s)"
  by (cases x) (simp_all add: fun_eq_iff tx_found_def wp_simps)

lemma wp_call [wp_simps]: "wp (tx_call m) Q = (\<lambda>s. \<forall>x. m = Done x \<longrightarrow> Q x s)"
  by (simp add: tx_call_def wp_simps call_method_Inr_iff)

lemma wp_if [wp_simps]: "wp (if b then m else m') Q = (\<lambda>s. if b then wp m Q s else wp m' Q s)"
  by (simp add: fun_eq_iff)

lemma wp_option [wp_simps]:
  "wp (case x of None \<Rightarrow> m | Some v \<Rightarrow> k v) Q = (\<lambda>s. case x of None \<Rightarrow> wp m Q s | Some v \<Rightarrow> wp (k v) Q s)"
  by (cases x) (simp_all add: fun_eq_iff)

lemma wp_mono: "wp m Q s \<Longrightarrow> (\<And>x s'. Q x s' \<Longrightarrow> Q' x s') \<Longrightarrow> wp m Q' s"
  by (auto simp: wp_def split: sum.splits)

lemma wp_conj: "wp m Q s \<Longrightarrow> wp m Q' s \<Longrightarrow> wp m (\<lambda>x s'. Q x s' \<and> Q' x s') s"
  by (auto simp: wp_def split: sum.splits)

lemma wpD: "wp m Q s \<Longrightarrow> m s = Inr (x, s') \<Longrightarrow> Q x s'"
  by (simp add: wp_def)

lemma wpI: "(\<And>x s'. m s = Inr (x, s') \<Longrightarrow> Q x s') \<Longrightarrow> wp m Q s"
  by (auto simp: wp_def split: sum.split)

text \<open>A loop, by an invariant of the statements it repeats.\<close>

lemma wp_each_inv:
  assumes "\<And>x s. x \<in> set xs \<Longrightarrow> I s \<Longrightarrow> wp (f x) (\<lambda>y. I) s" and "I s"
  shows "wp (tx_each f xs) (\<lambda>ys. I) s"
  using assms
proof (induction xs arbitrary: s)
  case (Cons x xs)
  have "wp (f x) (\<lambda>y s. wp (tx_each f xs) (\<lambda>ys. I) s) s"
    by (rule wp_mono [OF Cons.prems(1)]) (use Cons in auto)
  then show ?case by (simp add: wp_simps)
qed (simp add: wp_simps)

section \<open>Relations kept by every statement\<close>

definition tx_rel :: "('s \<Rightarrow> 's \<Rightarrow> bool) \<Rightarrow> ('s \<Rightarrow> app_error + 'a \<times> 's) \<Rightarrow> bool" where
  "tx_rel R m \<longleftrightarrow> (\<forall>s x s'. m s = Inr (x, s') \<longrightarrow> R s s')"

lemma tx_relD: "tx_rel R m \<Longrightarrow> m s = Inr (x, s') \<Longrightarrow> R s s'"
  by (simp add: tx_rel_def)

lemma tx_relI: "(\<And>s x s'. m s = Inr (x, s') \<Longrightarrow> R s s') \<Longrightarrow> tx_rel R m"
  by (simp add: tx_rel_def)

lemma tx_rel_wp: "tx_rel R m \<longleftrightarrow> (\<forall>s. wp m (\<lambda>x. R s) s)"
  by (auto simp: tx_rel_def wp_def split: sum.split)

locale tx_preorder =
  fixes R :: "'s \<Rightarrow> 's \<Rightarrow> bool"
  assumes refl: "R s s" and trans: "R s t \<Longrightarrow> R t u \<Longrightarrow> R s u"
begin

lemma rel_return: "tx_rel R (tx_return x)"
  by (simp add: tx_rel_def tx_return_def refl)

lemma rel_raise: "tx_rel R (tx_raise e)"
  by (simp add: tx_rel_def tx_raise_def)

lemma rel_bind: "tx_rel R m \<Longrightarrow> (\<And>x. tx_rel R (k x)) \<Longrightarrow> tx_rel R (tx_bind m k)"
  unfolding tx_rel_def tx_bind_def by (auto split: sum.splits) (metis trans)

lemma rel_get: "tx_rel R (tx_get f)"
  by (simp add: tx_rel_def tx_get_def refl)

lemma rel_put: "(\<And>s. R s (g s)) \<Longrightarrow> tx_rel R (tx_put g)"
  by (simp add: tx_rel_def tx_put_def)

lemma rel_step: "(\<And>s. R s (snd (g s))) \<Longrightarrow> tx_rel R (tx_step g)"
  unfolding tx_rel_def tx_step_def by (metis snd_conv sum.inject(2))

lemma rel_lift: "tx_rel R (tx_lift r)"
  by (auto simp: tx_rel_def tx_lift_def refl split: sum.splits)

lemma rel_guard: "tx_rel R (tx_guard b e)"
  by (simp add: tx_guard_def rel_return rel_raise)

lemma rel_found: "tx_rel R (tx_found e x)"
  by (cases x) (simp_all add: tx_found_def rel_return rel_raise)

lemma rel_call: "tx_rel R (tx_call m)"
  by (simp add: tx_call_def rel_lift)

lemma rel_each: "(\<And>x. tx_rel R (f x)) \<Longrightarrow> tx_rel R (tx_each f xs)"
  by (induction xs) (simp_all add: rel_return rel_bind)

lemma rel_if: "(b \<Longrightarrow> tx_rel R m) \<Longrightarrow> (\<not> b \<Longrightarrow> tx_rel R m') \<Longrightarrow> tx_rel R (if b then m else m')"
  by simp

lemma rel_option:
  "tx_rel R m \<Longrightarrow> (\<And>v. tx_rel R (k v)) \<Longrightarrow> tx_rel R (case x of None \<Rightarrow> m | Some v \<Rightarrow> k v)"
  by (cases x) simp_all

lemma rel_prod: "(\<And>a b. tx_rel R (f a b)) \<Longrightarrow> tx_rel R (case p of (a, b) \<Rightarrow> f a b)"
  by (cases p) simp

lemma rel_sum:
  "(\<And>a. tx_rel R (f a)) \<Longrightarrow> (\<And>b. tx_rel R (g b)) \<Longrightarrow> tx_rel R (case x of Inl a \<Rightarrow> f a | Inr b \<Rightarrow> g b)"
  by (cases x) simp_all

lemmas rel_rules = rel_return rel_raise rel_bind rel_get rel_lift rel_guard rel_found rel_call rel_each
  rel_if rel_option rel_prod rel_sum

end

end
