(* ===== verification/Work_Queue.thy ===== *)
theory Work_Queue
  imports Tables
begin

text \<open>
  The durable run work queue (\<^verbatim>\<open>src/src/friday/infrastructure/persistence/work_queue.py\<close>, class
  \<^verbatim>\<open>SqlAlchemyRunWorkQueue\<close>, and \<^verbatim>\<open>RunWorkItemRow\<close> in \<^verbatim>\<open>models.py\<close>): one item per run, claimed by
  a worker under a lease. Every operation is a function of the table; the conditional updates
  return whether they hit exactly one row, as the source reads \<^verbatim>\<open>rowcount == 1\<close>. The lemmas give
  the item of a run after each operation, as an update of a finite map.
\<close>

record RunWorkItem =
  wi_run_id :: RunId
  wi_available_at :: instant
  wi_enqueued_at :: instant
  wi_claimed_by :: "string option"
  wi_claim_token :: "string option"
  wi_claim_generation :: int
  wi_claimed_at :: "instant option"
  wi_heartbeat_at :: "instant option"
  wi_lease_expires_at :: "instant option"

type_synonym work_table = "RunWorkItem list"

definition new_item :: "RunId \<Rightarrow> instant \<Rightarrow> instant \<Rightarrow> RunWorkItem" where
  "new_item run_id available_at enqueued_at =
     \<lparr>wi_run_id = run_id, wi_available_at = available_at, wi_enqueued_at = enqueued_at,
      wi_claimed_by = None, wi_claim_token = None, wi_claim_generation = 0, wi_claimed_at = None,
      wi_heartbeat_at = None, wi_lease_expires_at = None\<rparr>"

definition lease_by :: "instant \<Rightarrow> RunWorkItem \<Rightarrow> bool" where
  "lease_by now i \<longleftrightarrow> (case wi_lease_expires_at i of None \<Rightarrow> False | Some t \<Rightarrow> t \<le> now)"

definition lease_after :: "instant \<Rightarrow> RunWorkItem \<Rightarrow> bool" where
  "lease_after now i \<longleftrightarrow> (case wi_lease_expires_at i of None \<Rightarrow> False | Some t \<Rightarrow> now < t)"

text \<open>The four columns a claim is compared on.\<close>

definition claimed_as :: "string \<Rightarrow> string \<Rightarrow> int \<Rightarrow> RunWorkItem \<Rightarrow> bool" where
  "claimed_as worker_id claim_token generation i \<longleftrightarrow>
     wi_claimed_by i = Some worker_id \<and> wi_claim_token i = Some claim_token \<and>
     wi_claim_generation i = generation"

definition unclaim :: "RunWorkItem \<Rightarrow> RunWorkItem" where
  "unclaim i = i\<lparr>wi_claimed_by := None, wi_claim_token := None, wi_claimed_at := None,
                wi_heartbeat_at := None, wi_lease_expires_at := None\<rparr>"

section \<open>Operations\<close>

definition wq_enqueue :: "RunId \<Rightarrow> instant \<Rightarrow> instant \<Rightarrow> work_table \<Rightarrow> work_table" where
  "wq_enqueue run_id available_at enqueued_at t =
     (case get_row wi_run_id run_id t of
        None \<Rightarrow> t @ [new_item run_id available_at enqueued_at]
      | Some row \<Rightarrow> update_rows (\<lambda>i. wi_run_id i = run_id)
          (\<lambda>i. i\<lparr>wi_available_at := available_at, wi_enqueued_at := enqueued_at\<rparr>) t)"

definition wq_get :: "RunId \<Rightarrow> work_table \<Rightarrow> RunWorkItem option" where
  "wq_get run_id t = get_row wi_run_id run_id t"

definition wq_order :: "RunWorkItem \<Rightarrow> instant \<times> instant \<times> RunId" where
  "wq_order i = (wi_available_at i, wi_enqueued_at i, wi_run_id i)"

definition due :: "instant \<Rightarrow> RunWorkItem \<Rightarrow> bool" where
  "due now i \<longleftrightarrow> wi_available_at i \<le> now \<and> (wi_claimed_by i = None \<or> lease_by now i)"

definition wq_find_due_candidates :: "instant \<Rightarrow> nat \<Rightarrow> work_table \<Rightarrow> RunWorkItem list" where
  "wq_find_due_candidates now limit t = take limit (sort_key wq_order (filter (due now) t))"

definition expired :: "instant \<Rightarrow> RunWorkItem \<Rightarrow> bool" where
  "expired now i \<longleftrightarrow> wi_claimed_by i \<noteq> None \<and> lease_by now i"

definition wq_find_expired_claims :: "instant \<Rightarrow> nat \<Rightarrow> work_table \<Rightarrow> RunWorkItem list" where
  "wq_find_expired_claims now limit t = take limit (sort_key wq_order (filter (expired now) t))"

definition wq_remove :: "RunId \<Rightarrow> work_table \<Rightarrow> work_table" where
  "wq_remove run_id t = filter (\<lambda>i. wi_run_id i \<noteq> run_id) t"

definition wq_update ::
  "(RunWorkItem \<Rightarrow> bool) \<Rightarrow> (RunWorkItem \<Rightarrow> RunWorkItem) \<Rightarrow> work_table \<Rightarrow> bool \<times> work_table" where
  "wq_update P f t = (row_count P t = 1, update_rows P f t)"

definition wq_delete :: "(RunWorkItem \<Rightarrow> bool) \<Rightarrow> work_table \<Rightarrow> bool \<times> work_table" where
  "wq_delete P t = (row_count P t = 1, filter (\<lambda>i. \<not> P i) t)"

definition take_claim :: "string \<Rightarrow> string \<Rightarrow> instant \<Rightarrow> instant \<Rightarrow> RunWorkItem \<Rightarrow> RunWorkItem" where
  "take_claim worker_id claim_token now lease_expires_at i =
     i\<lparr>wi_claimed_by := Some worker_id, wi_claim_token := Some claim_token,
       wi_claim_generation := wi_claim_generation i + 1, wi_claimed_at := Some now,
       wi_heartbeat_at := Some now, wi_lease_expires_at := Some lease_expires_at\<rparr>"

definition wq_try_claim ::
  "RunId \<Rightarrow> string \<Rightarrow> string \<Rightarrow> instant \<Rightarrow> instant \<Rightarrow> work_table \<Rightarrow> bool \<times> work_table" where
  "wq_try_claim run_id worker_id claim_token now lease_expires_at =
     wq_update (\<lambda>i. wi_run_id i = run_id \<and> due now i)
       (take_claim worker_id claim_token now lease_expires_at)"

definition held ::
  "RunId \<Rightarrow> string \<Rightarrow> string \<Rightarrow> int \<Rightarrow> instant \<Rightarrow> RunWorkItem \<Rightarrow> bool" where
  "held run_id worker_id claim_token generation now i \<longleftrightarrow>
     wi_run_id i = run_id \<and> claimed_as worker_id claim_token generation i \<and> lease_after now i"

definition wq_renew_lease ::
  "RunId \<Rightarrow> string \<Rightarrow> string \<Rightarrow> int \<Rightarrow> instant \<Rightarrow> instant \<Rightarrow> work_table \<Rightarrow> bool \<times> work_table" where
  "wq_renew_lease run_id worker_id claim_token generation now lease_expires_at =
     wq_update (held run_id worker_id claim_token generation now)
       (\<lambda>i. i\<lparr>wi_heartbeat_at := Some now, wi_lease_expires_at := Some lease_expires_at\<rparr>)"

definition wq_release_claim ::
  "RunId \<Rightarrow> string \<Rightarrow> string \<Rightarrow> int \<Rightarrow> instant \<Rightarrow> work_table \<Rightarrow> bool \<times> work_table" where
  "wq_release_claim run_id worker_id claim_token generation now =
     wq_update (held run_id worker_id claim_token generation now) unclaim"

definition wq_requeue_claimed ::
  "RunId \<Rightarrow> string \<Rightarrow> string \<Rightarrow> int \<Rightarrow> instant \<Rightarrow> instant \<Rightarrow> instant \<Rightarrow> work_table \<Rightarrow> bool \<times> work_table" where
  "wq_requeue_claimed run_id worker_id claim_token generation available_at enqueued_at now =
     wq_update (held run_id worker_id claim_token generation now)
       (\<lambda>i. unclaim (i\<lparr>wi_available_at := available_at, wi_enqueued_at := enqueued_at\<rparr>))"

definition wq_remove_if_claimed ::
  "RunId \<Rightarrow> string \<Rightarrow> string \<Rightarrow> int \<Rightarrow> instant \<Rightarrow> work_table \<Rightarrow> bool \<times> work_table" where
  "wq_remove_if_claimed run_id worker_id claim_token generation now =
     wq_delete (held run_id worker_id claim_token generation now)"

definition wq_clear_expired_claim :: "RunId \<Rightarrow> instant \<Rightarrow> work_table \<Rightarrow> bool \<times> work_table" where
  "wq_clear_expired_claim run_id now = wq_update (\<lambda>i. wi_run_id i = run_id \<and> expired now i) unclaim"

definition wq_remove_if_lease_expired :: "RunId \<Rightarrow> instant \<Rightarrow> work_table \<Rightarrow> bool \<times> work_table" where
  "wq_remove_if_lease_expired run_id now = wq_delete (\<lambda>i. wi_run_id i = run_id \<and> expired now i)"

definition wq_is_claim_active ::
  "RunId \<Rightarrow> string \<Rightarrow> string \<Rightarrow> int \<Rightarrow> instant \<Rightarrow> work_table \<Rightarrow> bool" where
  "wq_is_claim_active run_id worker_id claim_token generation now t \<longleftrightarrow>
     (case wq_get run_id t of
        None \<Rightarrow> False
      | Some row \<Rightarrow> claimed_as worker_id claim_token generation row \<and> lease_after now row)"

section \<open>Claims\<close>

text \<open>An item is unclaimed, or claimed with a token and a lease.\<close>

definition item_ok :: "RunWorkItem \<Rightarrow> bool" where
  "item_ok i \<longleftrightarrow>
     (wi_claimed_by i = None) = (wi_claim_token i = None) \<and>
     (wi_claimed_by i = None) = (wi_lease_expires_at i = None)"

definition enqueued :: "RunId \<Rightarrow> instant \<Rightarrow> instant \<Rightarrow> RunWorkItem option \<Rightarrow> RunWorkItem" where
  "enqueued run_id available_at enqueued_at x =
     (case x of
        None \<Rightarrow> new_item run_id available_at enqueued_at
      | Some i \<Rightarrow> i\<lparr>wi_available_at := available_at, wi_enqueued_at := enqueued_at\<rparr>)"

lemma run_id_unclaim [simp]: "wi_run_id (unclaim i) = wi_run_id i"
  by (simp add: unclaim_def)

lemma run_id_take_claim [simp]: "wi_run_id (take_claim w k now e i) = wi_run_id i"
  by (simp add: take_claim_def)

lemma item_ok_unclaim [simp]: "item_ok (unclaim i)"
  by (simp add: item_ok_def unclaim_def)

lemma item_ok_take_claim [simp]: "item_ok (take_claim w k now e i)"
  by (simp add: item_ok_def take_claim_def)

lemma item_ok_enqueued: "pred_option item_ok x \<Longrightarrow> item_ok (enqueued r a e x)"
  by (cases x) (auto simp: item_ok_def enqueued_def new_item_def)

lemma claimed_by_unclaim [simp]: "wi_claimed_by (unclaim i) = None"
  by (simp add: unclaim_def)

text \<open>A claim that has run out, or no claim at all, is claimable again once it is available.\<close>

lemma due_eventually:
  assumes "item_ok i" and "wi_available_at i \<le> now"
    and "\<And>t. wi_lease_expires_at i = Some t \<Longrightarrow> t \<le> now"
  shows "due now i"
  using assms by (auto simp: item_ok_def due_def lease_by_def split: option.splits)

section \<open>The item of a run after each operation\<close>

lemma wq_get_Some_id: "wq_get r t = Some i \<Longrightarrow> wi_run_id i = r"
  unfolding wq_get_def by (rule get_row_key)

lemma get_row_filter_neq: "get_row key k (filter (\<lambda>x. key x \<noteq> j) t) = (if k = j then None else get_row key k t)"
  by (induction t) (auto simp: get_row_Cons)

lemma wq_get_enqueue:
  "wq_get r (wq_enqueue q a e t) = (if r = q then Some (enqueued q a e (wq_get q t)) else wq_get r t)"
proof (cases "get_row wi_run_id q t")
  case None
  then have e: "wq_enqueue q a e t = t @ [new_item q a e]" by (simp add: wq_enqueue_def)
  have k: "wi_run_id (new_item q a e) = q" by (simp add: new_item_def)
  show ?thesis
  proof (cases "r = q")
    case True
    with None show ?thesis by (simp add: e wq_get_def enqueued_def get_row_append get_row_Cons k)
  next
    case False
    then show ?thesis by (simp add: e wq_get_def get_row_append get_row_Cons k split: option.split)
  qed
next
  case (Some i)
  let ?f = "\<lambda>x. x\<lparr>wi_available_at := a, wi_enqueued_at := e\<rparr>"
  have "wq_get r (wq_enqueue q a e t) = map_option (\<lambda>x. if wi_run_id x = q then ?f x else x) (wq_get r t)"
    by (simp add: wq_get_def wq_enqueue_def Some get_row_update)
  moreover have "wi_run_id i = q" using Some by (rule get_row_key)
  moreover have "r \<noteq> q \<Longrightarrow> wq_get r t = Some x \<Longrightarrow> wi_run_id x \<noteq> q" for x
    by (simp add: wq_get_Some_id)
  ultimately show ?thesis using Some
    by (cases "r = q"; cases "wq_get r t") (simp_all add: wq_get_def enqueued_def)
qed

lemma wq_get_remove: "wq_get r (wq_remove q t) = (if r = q then None else wq_get r t)"
  by (simp add: wq_get_def wq_remove_def get_row_filter_neq)

lemma wq_get_update:
  assumes "\<And>i. P i \<Longrightarrow> wi_run_id i = q" and "\<And>i. wi_run_id (f i) = wi_run_id i"
  shows "wq_get r (snd (wq_update P f t)) =
    (if r = q then map_option (\<lambda>i. if P i then f i else i) (wq_get q t) else wq_get r t)"
proof -
  have "wq_get r (snd (wq_update P f t)) = map_option (\<lambda>i. if P i then f i else i) (wq_get r t)"
    by (simp add: wq_update_def wq_get_def get_row_update assms(2))
  moreover have "r \<noteq> q \<Longrightarrow> wq_get r t = Some i \<Longrightarrow> \<not> P i" for i
    using assms(1) [of i] wq_get_Some_id [of r t i] by blast
  ultimately show ?thesis by (cases "wq_get r t") auto
qed

lemma wq_hit:
  assumes "keyed wi_run_id t" and "\<And>i. P i \<Longrightarrow> wi_run_id i = q"
  shows "row_count P t = 1 \<longleftrightarrow> (\<exists>i. wq_get q t = Some i \<and> P i)"
  using keyed_row_count [OF assms] by (auto simp: wq_get_def split: option.splits)

lemma get_row_filter_keyed:
  assumes "keyed key t" and "\<And>x. P x \<Longrightarrow> key x = q"
  shows "get_row key k (filter (\<lambda>x. \<not> P x) t) =
    (case get_row key k t of None \<Rightarrow> None | Some x \<Rightarrow> if P x then None else Some x)"
  using assms
proof (induction t)
  case (Cons x t)
  from Cons.prems(1) have k: "keyed key t" and n: "key x \<notin> key ` set t" by (simp_all add: keyed_def)
  from n have "get_row key (key x) t = None" by (simp add: get_row_None_iff)
  with Cons.IH [OF k Cons.prems(2)] show ?case by (cases "key x = k") (auto simp: get_row_Cons)
qed simp

lemma wq_get_delete:
  assumes "keyed wi_run_id t" and "\<And>i. P i \<Longrightarrow> wi_run_id i = q"
  shows "wq_get r (snd (wq_delete P t)) =
    (if r = q then (case wq_get q t of None \<Rightarrow> None | Some i \<Rightarrow> if P i then None else Some i)
     else wq_get r t)"
proof -
  have "wq_get r (snd (wq_delete P t)) =
      (case wq_get r t of None \<Rightarrow> None | Some i \<Rightarrow> if P i then None else Some i)"
    by (simp add: wq_delete_def wq_get_def get_row_filter_keyed [OF assms])
  moreover have "r \<noteq> q \<Longrightarrow> wq_get r t = Some i \<Longrightarrow> \<not> P i" for i
    using assms(2) [of i] wq_get_Some_id [of r t i] by blast
  ultimately show ?thesis by (cases "wq_get r t") auto
qed

lemma keyed_filter: "keyed key t \<Longrightarrow> keyed key (filter P t)"
  by (induction t) (auto simp: keyed_def)

lemma keyed_enqueue: "keyed wi_run_id t \<Longrightarrow> keyed wi_run_id (wq_enqueue q a e t)"
proof (cases "get_row wi_run_id q t")
  case None
  assume "keyed wi_run_id t"
  moreover have "q \<notin> wi_run_id ` set t" using None by (simp only: get_row_None_iff not_False_eq_True)
  ultimately show ?thesis by (simp add: wq_enqueue_def None) (simp add: keyed_def new_item_def)
next
  case (Some i)
  assume "keyed wi_run_id t"
  moreover have "keyed wi_run_id (update_rows (\<lambda>i. wi_run_id i = q)
      (\<lambda>i. i\<lparr>wi_available_at := a, wi_enqueued_at := e\<rparr>) t) = keyed wi_run_id t"
    by (rule keyed_update) simp
  ultimately show ?thesis using Some by (simp add: wq_enqueue_def)
qed

lemma keyed_wq_update:
  "keyed wi_run_id t \<Longrightarrow> (\<And>i. wi_run_id (f i) = wi_run_id i) \<Longrightarrow> keyed wi_run_id (snd (wq_update P f t))"
  by (simp add: wq_update_def keyed_update)

end
