(* ===== verification/Run_Records.thy ===== *)
theory Run_Records
  imports Run_Entity Json_Values Retry_Policy "HOL-Library.Log_Nat"
begin

text \<open>
  The immutable records a run leaves behind: its event stream (\<^verbatim>\<open>domain/event.py\<close>), the events
  of its task (\<^verbatim>\<open>domain/task_event.py\<close>), the frozen skill and agent resolutions an attempt was
  started with (\<^verbatim>\<open>domain/skill.py\<close>, \<^verbatim>\<open>domain/agent.py\<close>) and the skill usage ledger
  (\<^verbatim>\<open>domain/skill_usage.py\<close>), all under \<^verbatim>\<open>src/src/friday\<close>.
\<close>

datatype skill_tag = SkillTag
datatype skill_revision_tag = SkillRevisionTag
datatype skill_resolution_tag = SkillResolutionTag
datatype skill_usage_tag = SkillUsageTag
datatype agent_resolution_tag = AgentResolutionTag

type_synonym SkillId = "skill_tag ident"
type_synonym SkillRevisionId = "skill_revision_tag ident"
type_synonym RunSkillResolutionId = "skill_resolution_tag ident"
type_synonym SkillUsageRecordId = "skill_usage_tag ident"
type_synonym RunAgentResolutionId = "agent_resolution_tag ident"

section \<open>Events\<close>

datatype RunEventType =
    RUN_CREATED | RUN_STARTED | RUN_WAITING_FOR_APPROVAL
  | RUN_WAITING_FOR_DELEGATION | RUN_RESUMED | RUN_SUCCEEDED
  | RUN_FAILED | RUN_CANCELLED | STEP_CREATED
  | STEP_STARTED | STEP_SUCCEEDED | STEP_FAILED
  | STEP_SKIPPED | STEP_CANCELLED | APPROVAL_REQUESTED
  | APPROVAL_RESOLVED | TOOL_INVOCATION_REQUESTED | TOOL_INVOCATION_STARTED
  | TOOL_INVOCATION_SUCCEEDED | TOOL_INVOCATION_FAILED | TOOL_INVOCATION_CANCELLED
  | ARTIFACT_CREATED | AGENT_FINISHED | DELEGATION_DISPATCHED
  | DELEGATION_SUCCEEDED | WORKFLOW_EXECUTION_STARTED | WORKFLOW_NODE_DISPATCHED
  | WORKFLOW_NODE_SUCCEEDED | WORKFLOW_NODE_FAILED | WORKFLOW_NODE_CANCELLED
  | WORKFLOW_NODE_BLOCKED | WORKFLOW_EXECUTION_SUCCEEDED | WORKFLOW_EXECUTION_FAILED
  | DELEGATION_FAILED | DELEGATION_CANCELLED | MEMORY_CONTEXT_ATTACHED
  | MEMORY_RETRIEVAL_DEGRADED | MEMORY_WRITE_REQUESTED | MEMORY_WRITE_COMMITTED
  | MEMORY_WRITE_CONFLICTED | MEMORY_INDEX_MARKED_STALE

fun run_event_type_value :: "RunEventType \<Rightarrow> string" where
  "run_event_type_value RUN_CREATED = ''run_created''"
| "run_event_type_value RUN_STARTED = ''run_started''"
| "run_event_type_value RUN_WAITING_FOR_APPROVAL = ''run_waiting_for_approval''"
| "run_event_type_value RUN_WAITING_FOR_DELEGATION = ''run_waiting_for_delegation''"
| "run_event_type_value RUN_RESUMED = ''run_resumed''"
| "run_event_type_value RUN_SUCCEEDED = ''run_succeeded''"
| "run_event_type_value RUN_FAILED = ''run_failed''"
| "run_event_type_value RUN_CANCELLED = ''run_cancelled''"
| "run_event_type_value STEP_CREATED = ''step_created''"
| "run_event_type_value STEP_STARTED = ''step_started''"
| "run_event_type_value STEP_SUCCEEDED = ''step_succeeded''"
| "run_event_type_value STEP_FAILED = ''step_failed''"
| "run_event_type_value STEP_SKIPPED = ''step_skipped''"
| "run_event_type_value STEP_CANCELLED = ''step_cancelled''"
| "run_event_type_value APPROVAL_REQUESTED = ''approval_requested''"
| "run_event_type_value APPROVAL_RESOLVED = ''approval_resolved''"
| "run_event_type_value TOOL_INVOCATION_REQUESTED = ''tool_invocation_requested''"
| "run_event_type_value TOOL_INVOCATION_STARTED = ''tool_invocation_started''"
| "run_event_type_value TOOL_INVOCATION_SUCCEEDED = ''tool_invocation_succeeded''"
| "run_event_type_value TOOL_INVOCATION_FAILED = ''tool_invocation_failed''"
| "run_event_type_value TOOL_INVOCATION_CANCELLED = ''tool_invocation_cancelled''"
| "run_event_type_value ARTIFACT_CREATED = ''artifact_created''"
| "run_event_type_value AGENT_FINISHED = ''agent_finished''"
| "run_event_type_value DELEGATION_DISPATCHED = ''delegation_dispatched''"
| "run_event_type_value DELEGATION_SUCCEEDED = ''delegation_succeeded''"
| "run_event_type_value WORKFLOW_EXECUTION_STARTED = ''workflow_execution_started''"
| "run_event_type_value WORKFLOW_NODE_DISPATCHED = ''workflow_node_dispatched''"
| "run_event_type_value WORKFLOW_NODE_SUCCEEDED = ''workflow_node_succeeded''"
| "run_event_type_value WORKFLOW_NODE_FAILED = ''workflow_node_failed''"
| "run_event_type_value WORKFLOW_NODE_CANCELLED = ''workflow_node_cancelled''"
| "run_event_type_value WORKFLOW_NODE_BLOCKED = ''workflow_node_blocked''"
| "run_event_type_value WORKFLOW_EXECUTION_SUCCEEDED = ''workflow_execution_succeeded''"
| "run_event_type_value WORKFLOW_EXECUTION_FAILED = ''workflow_execution_failed''"
| "run_event_type_value DELEGATION_FAILED = ''delegation_failed''"
| "run_event_type_value DELEGATION_CANCELLED = ''delegation_cancelled''"
| "run_event_type_value MEMORY_CONTEXT_ATTACHED = ''memory_context_attached''"
| "run_event_type_value MEMORY_RETRIEVAL_DEGRADED = ''memory_retrieval_degraded''"
| "run_event_type_value MEMORY_WRITE_REQUESTED = ''memory_write_requested''"
| "run_event_type_value MEMORY_WRITE_COMMITTED = ''memory_write_committed''"
| "run_event_type_value MEMORY_WRITE_CONFLICTED = ''memory_write_conflicted''"
| "run_event_type_value MEMORY_INDEX_MARKED_STALE = ''memory_index_marked_stale''"

record RunEvent =
  ev_id :: RunEventId
  ev_run_id :: RunId
  ev_type :: RunEventType
  ev_sequence :: int
  ev_occurred_at :: instant
  ev_payload :: pyval
  ev_step_id :: "RunStepId option"

definition run_event_post_init ::
  "RunEventId \<Rightarrow> RunId \<Rightarrow> RunEventType \<Rightarrow> int \<Rightarrow> datetime \<Rightarrow> pyval \<Rightarrow> RunStepId option
   \<Rightarrow> domain_error + RunEvent" where
  "run_event_post_init i run_id kind sequence occurred_at payload step_id =
     ebind (guard (\<not> sequence < 1)
       (DomainValidationError ''RunEvent.sequence must be a positive integer'')) (\<lambda>_.
     ebind (ensure_utc occurred_at) (\<lambda>t.
     ebind (ensure_json_value ''RunEvent.payload'' payload) (\<lambda>value.
     Inr \<lparr>ev_id = i, ev_run_id = run_id, ev_type = kind, ev_sequence = sequence,
          ev_occurred_at = t, ev_payload = value, ev_step_id = step_id\<rparr>)))"

datatype TaskEventType = TASK_COMPLETED | TASK_FAILED | TASK_CANCELLED

record TaskEvent =
  te_id :: TaskEventId
  te_task_id :: TaskId
  te_type :: TaskEventType
  te_sequence :: int
  te_occurred_at :: instant
  te_payload :: pyval

definition task_event_post_init ::
  "TaskEventId \<Rightarrow> TaskId \<Rightarrow> TaskEventType \<Rightarrow> int \<Rightarrow> datetime \<Rightarrow> pyval \<Rightarrow> domain_error + TaskEvent" where
  "task_event_post_init i task_id kind sequence occurred_at payload =
     ebind (guard (\<not> sequence < 1)
       (DomainValidationError ''TaskEvent.sequence must be a positive integer'')) (\<lambda>_.
     ebind (ensure_utc occurred_at) (\<lambda>t.
     ebind (ensure_json_value ''TaskEvent.payload'' payload) (\<lambda>value.
     Inr \<lparr>te_id = i, te_task_id = task_id, te_type = kind, te_sequence = sequence,
          te_occurred_at = t, te_payload = value\<rparr>)))"

section \<open>Frozen resolutions\<close>

definition MAX_SKILLS_PER_TASK :: int where "MAX_SKILLS_PER_TASK = 16"

record RunSkillResolution =
  sr_id :: RunSkillResolutionId
  sr_run_id :: RunId
  sr_resolved_at :: instant

record RunSkillBinding =
  sb_run_id :: RunId
  sb_skill_id :: SkillId
  sb_revision_id :: SkillRevisionId
  sb_position :: int

definition skill_binding_post_init :: "RunSkillBinding \<Rightarrow> domain_error + RunSkillBinding" where
  "skill_binding_post_init b =
     ebind (guard (1 \<le> sb_position b \<and> sb_position b \<le> MAX_SKILLS_PER_TASK)
       (DomainValidationError ''RunSkillBinding.position is out of range'')) (\<lambda>_. Inr b)"

record RunAgentResolution =
  ar_id :: RunAgentResolutionId
  ar_run_id :: RunId
  ar_agent_id :: AgentId
  ar_revision_id :: AgentRevisionId
  ar_resolved_at :: instant

section \<open>Skill usage\<close>

datatype SkillUsageOutcome = SUCCEEDED | FAILED | CANCELLED | RESOLUTION_FAILED

record SkillUsageRecord =
  su_id :: SkillUsageRecordId
  su_run_id :: RunId
  su_task_id :: TaskId
  su_skill_id :: SkillId
  su_revision_id :: SkillRevisionId
  su_position :: int
  su_resolution_id :: string
  su_execution_id :: RunId
  su_attempt_number :: int
  su_started_at :: "instant option"
  su_completed_at :: instant
  su_outcome :: SkillUsageOutcome
  su_failure_code :: "string option"
  su_tool_call_count :: int
  su_approval_count :: int
  su_duration_ms :: "int option"
  su_created_at :: instant

definition skill_usage_post_init :: "SkillUsageRecord \<Rightarrow> domain_error + SkillUsageRecord" where
  "skill_usage_post_init u =
     ebind (guard (\<not> (su_position u < 1 \<or> su_attempt_number u < 1))
       (DomainValidationError ''skill usage position and attempt must be positive'')) (\<lambda>_.
     ebind (guard (\<not> (su_tool_call_count u < 0 \<or> su_approval_count u < 0))
       (DomainValidationError ''skill usage counts must be non-negative'')) (\<lambda>_.
     ebind (guard (pred_option (\<lambda>d. \<not> d < 0) (su_duration_ms u))
       (DomainValidationError ''skill usage duration must be non-negative'')) (\<lambda>_.
     ebind (guard (\<not> (su_outcome u = SkillUsageOutcome.FAILED \<and>
             (su_failure_code u = None \<or> su_failure_code u = Some [])))
       (DomainValidationError ''failed skill usage requires a failure code'')) (\<lambda>_.
     ebind (guard (\<not> (su_outcome u \<noteq> SkillUsageOutcome.FAILED \<and> su_failure_code u \<noteq> None))
       (DomainValidationError ''only failed skill usage may have a failure code'')) (\<lambda>_.
     Inr u)))))"

text \<open>
  The duration of a run is computed in binary floating point: \<^verbatim>\<open>total_seconds()\<close> divides the
  microseconds by \<open>10\<^sup>6\<close>, the product with 1000 is rounded again, and \<^verbatim>\<open>int\<close> truncates.
  \<open>double x\<close> is the double nearest to \<open>x\<close>, ties to even (53 significant bits; the exponents
  here are far from the ends of the range).
\<close>

definition binary_exponent :: "rat \<Rightarrow> int" where
  "binary_exponent x =
     (if 1 \<le> x then int (floorlog 2 (nat \<lfloor>x\<rfloor>)) - 1 else - int (floorlog 2 (nat (\<lceil>1 / x\<rceil> - 1))))"

definition double :: "rat \<Rightarrow> rat" where
  "double x =
     (if x = 0 then 0
      else let u = power_int 2 (binary_exponent \<bar>x\<bar> - 52) in of_int (round_half_even (x / u)) * u)"

definition trunc :: "rat \<Rightarrow> int" where
  "trunc x = (if x < 0 then \<lceil>x\<rceil> else \<lfloor>x\<rfloor>)"

definition duration_ms :: "instant \<Rightarrow> instant \<Rightarrow> int" where
  "duration_ms started ended = trunc (double (double (of_int (ended - started) / 1000000) * 1000))"

end
