(* ===== verification/Agent_Entity.thy ===== *)
theory Agent_Entity
  imports Workflow_Entity Run_Records
begin

text \<open>
  Agents and their immutable revisions (\<^verbatim>\<open>src/src/friday/domain/agent.py\<close>). The digest is the
  parameter \<open>sha256\<close>.
\<close>

definition MAX_AGENT_KEY_LENGTH :: nat where "MAX_AGENT_KEY_LENGTH = 96"
definition MAX_AGENT_INSTRUCTIONS_LENGTH :: nat where "MAX_AGENT_INSTRUCTIONS_LENGTH = 32000"
definition MAX_RUNTIME_KIND_LENGTH :: nat where "MAX_RUNTIME_KIND_LENGTH = 64"

datatype AgentStatus = ACTIVE | DISABLED | ARCHIVED
datatype AgentRevisionSourceKind = OPERATOR | IMPORTED

fun agent_status_value :: "AgentStatus \<Rightarrow> string" where
  "agent_status_value ACTIVE = ''active''"
| "agent_status_value DISABLED = ''disabled''"
| "agent_status_value ARCHIVED = ''archived''"

section \<open>Validation\<close>

text \<open>
  The agent key is \<^verbatim>\<open>[a-z][a-z0-9]*(?:[.-][a-z0-9]+)*\<close>: the workflow key without underscores. A
  match is lower case, so the source's test of \<^verbatim>\<open>value.lower()\<close> excludes nothing more.
\<close>

definition agent_key_match :: "string \<Rightarrow> bool" where
  "agent_key_match s \<longleftrightarrow> key_match s \<and> CHR ''_'' \<notin> set s"

definition validate_agent_key :: "string \<Rightarrow> domain_error + string" where
  "validate_agent_key value =
     (if value = [] \<or> MAX_AGENT_KEY_LENGTH < length value \<or> \<not> agent_key_match value
      then Inl (DomainValidationError ''Agent.key must be lowercase dot-or-hyphen separated machine identity'')
      else Inr value)"

definition control_content :: "char \<Rightarrow> bool" where
  "control_content c \<longleftrightarrow>
     (of_char c :: nat) < 32 \<and> c \<notin> {CHR 0x0A, CHR 0x0D, CHR 0x09} \<or> (of_char c :: nat) = 127"

definition validate_agent_instructions :: "string \<Rightarrow> domain_error + string" where
  "validate_agent_instructions value =
     ebind (guard (value \<noteq> [] \<and> length value \<le> MAX_AGENT_INSTRUCTIONS_LENGTH) (DomainValidationError
       ''AgentRevision.instructions must be non-empty and within the maximum length'')) (\<lambda>_.
     ebind (guard (\<not> list_ex control_content value) (DomainValidationError
       ''AgentRevision.instructions contains disallowed control content'')) (\<lambda>_.
     Inr value))"

definition validate_runtime_kind :: "string \<Rightarrow> domain_error + string" where
  "validate_runtime_kind value =
     (if value = [] \<or> MAX_RUNTIME_KIND_LENGTH < length value \<or> \<not> key_match value
      then Inl (DomainValidationError ''AgentRevision.runtime_kind must be a lowercase machine identity'')
      else Inr value)"

definition canonical_revision_content :: "string \<Rightarrow> string \<Rightarrow> pyval \<Rightarrow> string" where
  "canonical_revision_content instructions runtime_kind runtime_config =
     json_dumps True (PyDict [(PyStr ''instructions'', PyStr instructions),
       (PyStr ''runtime_kind'', PyStr runtime_kind), (PyStr ''runtime_config'', runtime_config)])"

section \<open>Revisions\<close>

record AgentRevision =
  av_id :: AgentRevisionId
  av_agent_id :: AgentId
  av_version :: int
  av_instructions :: string
  av_runtime_kind :: string
  av_runtime_config :: pyval
  av_content_sha256 :: string
  av_source_kind :: AgentRevisionSourceKind
  av_created_at :: instant

definition agent_revision_post_init :: "(string \<Rightarrow> string) \<Rightarrow> AgentRevision \<Rightarrow> domain_error + AgentRevision" where
  "agent_revision_post_init sha256 r =
     ebind (validate_agent_instructions (av_instructions r)) (\<lambda>_.
     ebind (validate_runtime_kind (av_runtime_kind r)) (\<lambda>_.
     ebind (ensure_json_value ''AgentRevision.runtime_config'' (av_runtime_config r)) (\<lambda>_.
     ebind (guard (av_content_sha256 r =
         sha256 (canonical_revision_content (av_instructions r) (av_runtime_kind r) (av_runtime_config r)))
       (DomainValidationError ''agent_integrity_failed'')) (\<lambda>_.
     ebind (guard (lower_hex64 (av_content_sha256 r))
       (DomainValidationError ''AgentRevision.content_sha256 must be lowercase sha256'')) (\<lambda>_.
     Inr r)))))"

definition agent_revision_new ::
  "(string \<Rightarrow> string) \<Rightarrow> AgentRevisionId \<Rightarrow> AgentId \<Rightarrow> int \<Rightarrow> string \<Rightarrow> string \<Rightarrow> pyval
   \<Rightarrow> AgentRevisionSourceKind \<Rightarrow> datetime \<Rightarrow> domain_error + AgentRevision" where
  "agent_revision_new sha256 i agent_id version instructions runtime_kind runtime_config source_kind created_at =
     ebind (guard (\<not> version < 1) (DomainValidationError ''AgentRevision.version must be positive'')) (\<lambda>_.
     ebind (validate_agent_instructions instructions) (\<lambda>body.
     ebind (validate_runtime_kind runtime_kind) (\<lambda>kind.
     ebind (ensure_json_value ''AgentRevision.runtime_config'' runtime_config) (\<lambda>config.
     ebind (ensure_utc created_at) (\<lambda>created.
     agent_revision_post_init sha256
       \<lparr>av_id = i, av_agent_id = agent_id, av_version = version, av_instructions = body,
        av_runtime_kind = kind, av_runtime_config = config,
        av_content_sha256 = sha256 (canonical_revision_content body kind config),
        av_source_kind = source_kind, av_created_at = created\<rparr>)))))"

record TaskAgentBinding =
  ta_task_id :: TaskId
  ta_agent_id :: AgentId
  ta_created_at :: instant

section \<open>Agents\<close>

record Agent =
  ag_id :: AgentId
  ag_key :: string
  ag_display_name :: string
  ag_description :: string
  ag_status :: AgentStatus
  ag_active_revision_id :: "AgentRevisionId option"
  ag_created_at :: instant
  ag_updated_at :: instant

definition agent_new :: "AgentId \<Rightarrow> string \<Rightarrow> string \<Rightarrow> string \<Rightarrow> datetime \<Rightarrow> domain_error + Agent" where
  "agent_new i key display_name description created_at =
     ebind (guard (py_strip display_name \<noteq> []) (DomainValidationError ''Agent.display_name must not be empty'')) (\<lambda>_.
     ebind (ensure_utc created_at) (\<lambda>now.
     ebind (validate_agent_key key) (\<lambda>k.
     Inr \<lparr>ag_id = i, ag_key = k, ag_display_name = py_strip display_name,
          ag_description = py_strip description, ag_status = ACTIVE, ag_active_revision_id = None,
          ag_created_at = now, ag_updated_at = now\<rparr>)))"

text \<open>\<^verbatim>\<open>activate\<close> moves the pointer before the timestamp is checked.\<close>

definition agent_activate :: "AgentRevision \<Rightarrow> datetime \<Rightarrow> Agent \<Rightarrow> (domain_error, Agent) outcome" where
  "agent_activate revision now a =
     require (ag_status a \<noteq> ARCHIVED)
       (InvalidStateTransition ''Agent'' (agent_status_value (ag_status a)) ''activate'') a (
     require (av_agent_id revision = ag_id a)
       (DomainValidationError ''Agent revision does not belong to agent'') a (
     let b = a\<lparr>ag_active_revision_id := Some (av_id revision)\<rparr> in
     attempt (ensure_utc now) b (\<lambda>t. Done (b\<lparr>ag_status := ACTIVE, ag_updated_at := t\<rparr>))))"

definition agent_disable :: "datetime \<Rightarrow> Agent \<Rightarrow> (domain_error, Agent) outcome" where
  "agent_disable now a =
     require (ag_status a \<noteq> ARCHIVED)
       (InvalidStateTransition ''Agent'' (agent_status_value (ag_status a)) ''disabled'') a (
     attempt (ensure_utc now) a (\<lambda>t. Done (a\<lparr>ag_status := DISABLED, ag_updated_at := t\<rparr>)))"

definition agent_archive :: "datetime \<Rightarrow> Agent \<Rightarrow> (domain_error, Agent) outcome" where
  "agent_archive now a =
     (if ag_status a = ARCHIVED then Done a
      else attempt (ensure_utc now) a (\<lambda>t. Done (a\<lparr>ag_status := ARCHIVED, ag_updated_at := t\<rparr>)))"

section \<open>Lifecycle\<close>

datatype agent_call = AgentActivate AgentRevision datetime | AgentDisable datetime | AgentArchive datetime

fun agent_step :: "agent_call \<Rightarrow> Agent \<Rightarrow> (domain_error, Agent) outcome" where
  "agent_step (AgentActivate r t) = agent_activate r t"
| "agent_step (AgentDisable t) = agent_disable t"
| "agent_step (AgentArchive t) = agent_archive t"

text \<open>\<open>agent_key_language\<close> is the language the key expression denotes.\<close>

definition agent_separator :: "char \<Rightarrow> bool" where
  "agent_separator c \<longleftrightarrow> c \<in> set ''.-''"

definition agent_key_language :: "string \<Rightarrow> bool" where
  "agent_key_language s \<longleftrightarrow>
     (\<exists>h t segs. s = h # t @ concat (map (\<lambda>(p, w). p # w) segs) \<and> lower_letter h \<and>
        list_all lower_alnum t \<and>
        list_all (\<lambda>(p, w). agent_separator p \<and> w \<noteq> [] \<and> list_all lower_alnum w) segs)"

definition agent_inv :: "Agent \<Rightarrow> bool" where
  "agent_inv a \<longleftrightarrow> agent_key_language (ag_key a) \<and> length (ag_key a) \<le> 96 \<and>
     py_strip (ag_display_name a) = ag_display_name a \<and> ag_display_name a \<noteq> []"

definition agent_ident :: "Agent \<Rightarrow> AgentId \<times> string \<times> string \<times> string \<times> instant" where
  "agent_ident a = (ag_id a, ag_key a, ag_display_name a, ag_description a, ag_created_at a)"

lemmas agent_defs [step_defs] = agent_activate_def agent_disable_def agent_archive_def

lemma not_underscore:
  "lower_letter c \<Longrightarrow> c \<noteq> CHR ''_''" "lower_alnum c \<Longrightarrow> c \<noteq> CHR ''_''" "agent_separator c \<Longrightarrow> c \<noteq> CHR ''_''"
  by (auto simp: lower_letter_def lower_alnum_def agent_separator_def)

lemma key_separator_iff: "key_separator c \<longleftrightarrow> agent_separator c \<or> c = CHR ''_''"
  by (auto simp: key_separator_def agent_separator_def)

lemma segments_iff:
  "list_all (\<lambda>(p, w). key_separator p \<and> w \<noteq> [] \<and> list_all lower_alnum w) segs \<and>
     CHR ''_'' \<notin> set (concat (map (\<lambda>(p, w). p # w) segs)) \<longleftrightarrow>
   list_all (\<lambda>(p, w). agent_separator p \<and> w \<noteq> [] \<and> list_all lower_alnum w) segs"
proof (induction segs)
  case (Cons seg segs)
  obtain p w where "seg = (p, w)" by (cases seg)
  moreover have "CHR ''_'' \<notin> set w" if "list_all lower_alnum w"
    using that not_underscore(2) by (auto simp: list_all_iff)
  ultimately show ?case using Cons not_underscore(3) [of p] by (auto simp: key_separator_iff)
qed simp

lemma no_underscore_prefix:
  "lower_letter h \<Longrightarrow> list_all lower_alnum t \<Longrightarrow> CHR ''_'' \<notin> set (h # t @ r) \<longleftrightarrow> CHR ''_'' \<notin> set r"
  using not_underscore(1) [of h] not_underscore(2) by (auto simp: list_all_iff)

lemma agent_key_match_language: "agent_key_match s \<longleftrightarrow> agent_key_language s"
proof
  assume "agent_key_match s"
  then obtain h t segs where s: "s = h # t @ concat (map (\<lambda>(p, w). p # w) segs)" "lower_letter h"
      "list_all lower_alnum t" "list_all (\<lambda>(p, w). key_separator p \<and> w \<noteq> [] \<and> list_all lower_alnum w) segs"
    and u: "CHR ''_'' \<notin> set s"
    unfolding agent_key_match_def key_match_language key_language_def by blast
  from u have "CHR ''_'' \<notin> set (concat (map (\<lambda>(p, w). p # w) segs))"
    unfolding s(1) no_underscore_prefix [OF s(2,3)] .
  with s show "agent_key_language s" unfolding agent_key_language_def segments_iff [symmetric] by blast
next
  assume "agent_key_language s"
  then obtain h t segs where s: "s = h # t @ concat (map (\<lambda>(p, w). p # w) segs)" "lower_letter h"
      "list_all lower_alnum t" and g: "list_all (\<lambda>(p, w). key_separator p \<and> w \<noteq> [] \<and> list_all lower_alnum w) segs"
      "CHR ''_'' \<notin> set (concat (map (\<lambda>(p, w). p # w) segs))"
    unfolding agent_key_language_def segments_iff [symmetric] by blast
  from g(2) have "CHR ''_'' \<notin> set s" unfolding s(1) no_underscore_prefix [OF s(2,3)] .
  with s g(1) show "agent_key_match s" unfolding agent_key_match_def key_match_language key_language_def by blast
qed

lemma agent_new_inv: "agent_new i k n d t = Inr a \<Longrightarrow> agent_inv a"
  by (auto simp: agent_new_def agent_inv_def outcome_simps py_strip_idem validate_agent_key_def
      MAX_AGENT_KEY_LENGTH_def agent_key_match_language split: if_splits)

lemma agent_step_ident: "agent_step x a = Done a' \<Longrightarrow> agent_ident a' = agent_ident a"
  by (cases x) (auto simp: agent_defs outcome_simps agent_ident_def Let_def split: if_splits)

lemma agent_step_inv: "agent_inv a \<Longrightarrow> agent_step x a = Done a' \<Longrightarrow> agent_inv a'"
  by (drule agent_step_ident) (simp add: agent_inv_def agent_ident_def)

lemma agent_step_archived: "ag_status a = ARCHIVED \<Longrightarrow> agent_step x a = Done a' \<Longrightarrow> a' = a"
  by (cases x) (auto simp: agent_defs outcome_simps)

interpretation agent_life: lifecycle agent_step agent_inv agent_ident ag_status "\<lambda>s. s = ARCHIVED"
  by unfold_locales (erule (1) agent_step_inv, erule agent_step_ident, drule (1) agent_step_archived, simp)

end
