(* ===== verification/Run_Db.thy ===== *)
theory Run_Db
  imports Transactions Work_Queue Run_Records Schedule_Entity Task_Entity Step_Entity Approval_Entity
    Tool_Entity Delegation_Entity Workflow_Execution_Entity Agent_Entity
begin

text \<open>
  The tables behind the run side of \<^verbatim>\<open>UnitOfWork\<close> and the repository methods the use cases call
  (\<^verbatim>\<open>infrastructure/persistence/repositories.py\<close>). A method that only reads is a function of
  \<open>run_db\<close>; one that writes is a transaction statement. \<^verbatim>\<open>add\<close> checks the primary key and the
  unique constraints of its table and raises \<^verbatim>\<open>EntityConflict\<close> where the flush would; \<^verbatim>\<open>save\<close> is
  \<^verbatim>\<open>Session.merge\<close>. The no-op \<^verbatim>\<open>UPDATE\<close> that takes a write lock is the test of its row count:
  transactions are serialised, so the lock itself has no effect on the model.

  Fresh identifiers (\<^verbatim>\<open>uuid.uuid4()\<close>) come from a supply \<open>rd_uuid\<close> that is read in order; a
  rolled back transaction gives its draws back, which no stored row can notice.
\<close>

section \<open>Equality of JSON values\<close>

text \<open>
  Python's \<^verbatim>\<open>==\<close> on JSON values: dictionaries compare without their order, a boolean is the number
  0 or 1, and a float equals the integer it denotes (a finite float is known by its \<^verbatim>\<open>repr\<close>, which is
  \<^verbatim>\<open>n.0\<close> for an integral float below \<open>10\<^sup>1\<^sup>6\<close>).
\<close>

definition float_key :: "string \<Rightarrow> string" where
  "float_key r = (if r = ''-0.0'' then ''0.0'' else r)"

definition as_number :: "pyval \<Rightarrow> string option" where
  "as_number v =
     (case v of
        PyBool b \<Rightarrow> Some (if b then ''1.0'' else ''0.0'')
      | PyInt i \<Rightarrow> Some (show_int i @ ''.0'')
      | PyFloat (Finite r) \<Rightarrow> Some (float_key r)
      | _ \<Rightarrow> None)"

fun py_eq :: "pyval \<Rightarrow> pyval \<Rightarrow> bool"
  and py_eq_items :: "pyval list \<Rightarrow> pyval list \<Rightarrow> bool"
  and py_eq_entries :: "(pyval \<times> pyval) list \<Rightarrow> (pyval \<times> pyval) list \<Rightarrow> bool" where
  "py_eq (PyList xs) w = (case w of PyList ys \<Rightarrow> py_eq_items xs ys | _ \<Rightarrow> False)"
| "py_eq (PyDict es) w =
     (case w of PyDict fs \<Rightarrow> length es = length fs \<and> py_eq_entries es fs | _ \<Rightarrow> False)"
| "py_eq v w = (if as_number v \<noteq> None then as_number v = as_number w else v = w)"
| "py_eq_items [] ys = (ys = [])"
| "py_eq_items (x # xs) ys = (case ys of [] \<Rightarrow> False | y # zs \<Rightarrow> py_eq x y \<and> py_eq_items xs zs)"
| "py_eq_entries [] fs = True"
| "py_eq_entries ((k, v) # es) fs =
     ((case map_of fs k of None \<Rightarrow> False | Some w \<Rightarrow> py_eq v w) \<and> py_eq_entries es fs)"

definition failure_eq :: "Failure \<Rightarrow> Failure \<Rightarrow> bool" where
  "failure_eq a b \<longleftrightarrow> fl_code a = fl_code b \<and> fl_message a = fl_message b \<and>
     fl_retryable a = fl_retryable b \<and> fl_cause a = fl_cause b \<and> py_eq (fl_details a) (fl_details b)"

definition same_failure :: "Failure option \<Rightarrow> Failure \<Rightarrow> bool" where
  "same_failure x f = (case x of None \<Rightarrow> False | Some g \<Rightarrow> failure_eq g f)"

section \<open>Artifacts\<close>

datatype ArtifactKind = TEXT | FILE | DIRECTORY | URL | JSON | IMAGE | OTHER

fun artifact_kind_value :: "ArtifactKind \<Rightarrow> string" where
  "artifact_kind_value TEXT = ''text''"
| "artifact_kind_value FILE = ''file''"
| "artifact_kind_value DIRECTORY = ''directory''"
| "artifact_kind_value URL = ''url''"
| "artifact_kind_value JSON = ''json''"
| "artifact_kind_value IMAGE = ''image''"
| "artifact_kind_value OTHER = ''other''"

record Artifact =
  af_id :: ArtifactId
  af_run_id :: RunId
  af_kind :: ArtifactKind
  af_name :: string
  af_media_type :: string
  af_location :: string
  af_created_at :: instant
  af_step_id :: "RunStepId option"
  af_size :: "int option"
  af_checksum :: "string option"
  af_metadata :: pyval

definition artifact_post_init :: "Artifact \<Rightarrow> domain_error + Artifact" where
  "artifact_post_init a =
     ebind (guard (py_strip (af_name a) \<noteq> []) (DomainValidationError ''Artifact.name must not be empty'')) (\<lambda>_.
     ebind (guard (py_strip (af_location a) \<noteq> [])
       (DomainValidationError ''Artifact.location must not be empty'')) (\<lambda>_.
     ebind (guard (pred_option (\<lambda>n. \<not> n < 0) (af_size a))
       (DomainValidationError ''Artifact.size must not be negative'')) (\<lambda>_.
     ebind (ensure_json_value ''Artifact.metadata'' (af_metadata a)) (\<lambda>m.
     Inr (a\<lparr>af_metadata := m\<rparr>)))))"

section \<open>Tables\<close>

record run_db =
  rd_tasks :: "Task list"
  rd_runs :: "Run list"
  rd_steps :: "RunStep list"
  rd_approvals :: "ApprovalRequest list"
  rd_tools :: "ToolInvocation list"
  rd_artifacts :: "Artifact list"
  rd_work :: work_table
  rd_events :: "RunEvent list"
  rd_event_counters :: "(RunId \<times> int) list"
  rd_task_events :: "TaskEvent list"
  rd_task_counters :: "(TaskId \<times> int) list"
  rd_delegations :: "DelegationRequest list"
  rd_executions :: "WorkflowExecution list"
  rd_nodes :: "WorkflowNodeExecution list"
  rd_schedules :: "Schedule list"
  rd_skill_resolutions :: "RunSkillResolution list"
  rd_skill_bindings :: "RunSkillBinding list"
  rd_agent_resolutions :: "RunAgentResolution list"
  rd_usage :: "SkillUsageRecord list"
  rd_agents :: "Agent list"
  rd_agent_revisions :: "AgentRevision list"
  rd_task_agents :: "TaskAgentBinding list"
  rd_task_workflows :: "TaskWorkflowBinding list"
  rd_uuid :: "nat \<Rightarrow> string"
  rd_drawn :: nat

type_synonym 'a tx = "run_db \<Rightarrow> app_error + 'a \<times> run_db"

definition fresh_id :: "'k ident tx" where
  "fresh_id = tx_step (\<lambda>db. (Id (rd_uuid db (rd_drawn db)), db\<lparr>rd_drawn := rd_drawn db + 1\<rparr>))"

text \<open>A flush that inserts a row: \<open>clash\<close> says which rows violate a constraint of the new one.\<close>

definition insert_row ::
  "(run_db \<Rightarrow> 'r list) \<Rightarrow> (('r list \<Rightarrow> 'r list) \<Rightarrow> run_db \<Rightarrow> run_db) \<Rightarrow> ('r \<Rightarrow> 'r \<Rightarrow> bool) \<Rightarrow> 'r \<Rightarrow> unit tx" where
  "insert_row table upd clash r =
     tx_bind (tx_get table) (\<lambda>t.
     tx_bind (tx_guard (\<not> list_ex (clash r) t) UNIQUE_VIOLATION) (\<lambda>_.
     tx_put (upd (\<lambda>t. t @ [r]))))"

section \<open>Repositories\<close>

subsection \<open>Tasks\<close>

definition tasks_get :: "TaskId \<Rightarrow> run_db \<Rightarrow> Task option" where
  "tasks_get i db = get_row tk_id i (rd_tasks db)"

definition tasks_add :: "Task \<Rightarrow> unit tx" where
  "tasks_add = insert_row rd_tasks rd_tasks_update (\<lambda>r x. tk_id x = tk_id r)"

definition tasks_save :: "Task \<Rightarrow> unit tx" where
  "tasks_save r = tx_put (rd_tasks_update (merge_row tk_id r))"

subsection \<open>Runs\<close>

definition runs_get :: "RunId \<Rightarrow> run_db \<Rightarrow> Run option" where
  "runs_get i db = get_row rn_id i (rd_runs db)"

definition runs_add :: "Run \<Rightarrow> unit tx" where
  "runs_add = insert_row rd_runs rd_runs_update (\<lambda>r x. rn_id x = rn_id r)"

definition runs_save :: "Run \<Rightarrow> unit tx" where
  "runs_save r = tx_put (rd_runs_update (merge_row rn_id r))"

definition runs_lock :: "RunId \<Rightarrow> run_db \<Rightarrow> bool" where
  "runs_lock i db \<longleftrightarrow> row_count (\<lambda>r. rn_id r = i) (rd_runs db) = 1"

definition runs_lock_execution_lineage :: "RunId \<Rightarrow> run_db \<Rightarrow> bool" where
  "runs_lock_execution_lineage e db \<longleftrightarrow> 0 < row_count (\<lambda>r. rn_execution_id r = e) (rd_runs db)"

definition run_order :: "Run \<Rightarrow> instant \<times> RunId" where
  "run_order r = (rn_created_at r, rn_id r)"

definition runs_list_for_task :: "TaskId \<Rightarrow> run_db \<Rightarrow> Run list" where
  "runs_list_for_task i db = sort_key run_order (filter (\<lambda>r. rn_task_id r = i) (rd_runs db))"

definition runs_list_for_execution :: "RunId \<Rightarrow> run_db \<Rightarrow> Run list" where
  "runs_list_for_execution e db = sort_key run_order (filter (\<lambda>r. rn_execution_id r = e) (rd_runs db))"

fun position_from :: "nat \<Rightarrow> 'a \<Rightarrow> 'a list \<Rightarrow> nat" where
  "position_from n x [] = 0"
| "position_from n x (y # ys) = (if y = x then n else position_from (Suc n) x ys)"

definition runs_ordinal_for_execution :: "RunId \<Rightarrow> run_db \<Rightarrow> int" where
  "runs_ordinal_for_execution i db =
     (case runs_get i db of
        None \<Rightarrow> 0
      | Some r \<Rightarrow> int (position_from 1 i (map rn_id (runs_list_for_execution (rn_execution_id r) db))))"

definition runs_get_latest_for_execution :: "RunId \<Rightarrow> run_db \<Rightarrow> Run option" where
  "runs_get_latest_for_execution e db =
     (case rev (runs_list_for_execution e db) of [] \<Rightarrow> None | r # _ \<Rightarrow> Some r)"

subsection \<open>Steps\<close>

definition steps_get :: "RunStepId \<Rightarrow> run_db \<Rightarrow> RunStep option" where
  "steps_get i db = get_row st_id i (rd_steps db)"

definition steps_add :: "RunStep \<Rightarrow> unit tx" where
  "steps_add = insert_row rd_steps rd_steps_update
     (\<lambda>r x. st_id x = st_id r \<or> st_run_id x = st_run_id r \<and> st_position x = st_position r)"

definition steps_save :: "RunStep \<Rightarrow> unit tx" where
  "steps_save r = tx_put (rd_steps_update (merge_row st_id r))"

definition steps_list_for_run :: "RunId \<Rightarrow> run_db \<Rightarrow> RunStep list" where
  "steps_list_for_run i db =
     sort_key (\<lambda>s. (st_position s, st_id s)) (filter (\<lambda>s. st_run_id s = i) (rd_steps db))"

definition steps_has_non_terminal_for_run :: "RunId \<Rightarrow> run_db \<Rightarrow> bool" where
  "steps_has_non_terminal_for_run i db \<longleftrightarrow>
     list_ex (\<lambda>s. st_run_id s = i \<and> st_status s \<notin> set TERMINAL_RUN_STEP_STATUSES) (rd_steps db)"

subsection \<open>Approvals\<close>

definition approvals_get :: "ApprovalRequestId \<Rightarrow> run_db \<Rightarrow> ApprovalRequest option" where
  "approvals_get i db = get_row ap_id i (rd_approvals db)"

definition approvals_add :: "ApprovalRequest \<Rightarrow> unit tx" where
  "approvals_add = insert_row rd_approvals rd_approvals_update (\<lambda>r x. ap_id x = ap_id r)"

definition approvals_save :: "ApprovalRequest \<Rightarrow> unit tx" where
  "approvals_save r = tx_put (rd_approvals_update (merge_row ap_id r))"

definition approval_order :: "ApprovalRequest \<Rightarrow> instant \<times> ApprovalRequestId" where
  "approval_order a = (ap_requested_at a, ap_id a)"

definition approvals_list_for_run :: "RunId \<Rightarrow> run_db \<Rightarrow> ApprovalRequest list" where
  "approvals_list_for_run i db =
     sort_key approval_order (filter (\<lambda>a. ap_run_id a = Some i) (rd_approvals db))"

definition approvals_list_pending_for_run :: "RunId \<Rightarrow> run_db \<Rightarrow> ApprovalRequest list" where
  "approvals_list_pending_for_run i db =
     sort_key approval_order
       (filter (\<lambda>a. ap_run_id a = Some i \<and> ap_status a = ApprovalStatus.PENDING) (rd_approvals db))"

definition approvals_has_pending_for_run :: "RunId \<Rightarrow> run_db \<Rightarrow> bool" where
  "approvals_has_pending_for_run i db \<longleftrightarrow>
     list_ex (\<lambda>a. ap_run_id a = Some i \<and> ap_status a = ApprovalStatus.PENDING) (rd_approvals db)"

definition approvals_list_due_for_expiry :: "instant \<Rightarrow> nat \<Rightarrow> run_db \<Rightarrow> ApprovalRequest list" where
  "approvals_list_due_for_expiry now limit db =
     take limit (sort_key approval_order
       (filter (\<lambda>a. ap_status a = ApprovalStatus.PENDING \<and>
          (case ap_expires_at a of None \<Rightarrow> False | Some t \<Rightarrow> t \<le> now)) (rd_approvals db)))"

subsection \<open>Tool invocations and artifacts\<close>

definition tools_get :: "ToolInvocationId \<Rightarrow> run_db \<Rightarrow> ToolInvocation option" where
  "tools_get i db = get_row ti_id i (rd_tools db)"

definition tools_add :: "ToolInvocation \<Rightarrow> unit tx" where
  "tools_add = insert_row rd_tools rd_tools_update (\<lambda>r x. ti_id x = ti_id r)"

definition tools_save :: "ToolInvocation \<Rightarrow> unit tx" where
  "tools_save r = tx_put (rd_tools_update (merge_row ti_id r))"

definition tool_order :: "ToolInvocation \<Rightarrow> instant \<times> ToolInvocationId" where
  "tool_order t = (ti_requested_at t, ti_id t)"

definition tools_list_for_run :: "RunId \<Rightarrow> run_db \<Rightarrow> ToolInvocation list" where
  "tools_list_for_run i db = sort_key tool_order (filter (\<lambda>t. ti_run_id t = i) (rd_tools db))"

definition tools_list_for_step :: "RunStepId \<Rightarrow> run_db \<Rightarrow> ToolInvocation list" where
  "tools_list_for_step i db = sort_key tool_order (filter (\<lambda>t. ti_step_id t = Some i) (rd_tools db))"

definition tools_has_non_terminal_for_run :: "RunId \<Rightarrow> run_db \<Rightarrow> bool" where
  "tools_has_non_terminal_for_run i db \<longleftrightarrow>
     list_ex (\<lambda>t. ti_run_id t = i \<and> ti_status t \<notin> set TERMINAL_TOOL_INVOCATION_STATUSES) (rd_tools db)"

definition artifacts_get :: "ArtifactId \<Rightarrow> run_db \<Rightarrow> Artifact option" where
  "artifacts_get i db = get_row af_id i (rd_artifacts db)"

definition artifacts_add :: "Artifact \<Rightarrow> unit tx" where
  "artifacts_add = insert_row rd_artifacts rd_artifacts_update (\<lambda>r x. af_id x = af_id r)"

subsection \<open>Delegations and workflow executions\<close>

definition delegations_get :: "DelegationRequestId \<Rightarrow> run_db \<Rightarrow> DelegationRequest option" where
  "delegations_get i db = get_row dg_id i (rd_delegations db)"

definition delegations_add :: "DelegationRequest \<Rightarrow> unit tx" where
  "delegations_add = insert_row rd_delegations rd_delegations_update
     (\<lambda>r x. dg_id x = dg_id r \<or> dg_authorization_fingerprint x = dg_authorization_fingerprint r \<or>
            dg_child_task_id r \<noteq> None \<and> dg_child_task_id x = dg_child_task_id r \<or>
            dg_child_run_id r \<noteq> None \<and> dg_child_run_id x = dg_child_run_id r)"

definition delegations_finalize_if_dispatched ::
  "DelegationRequestId \<Rightarrow> DelegationStatus \<Rightarrow> instant \<Rightarrow> string option \<Rightarrow> bool tx" where
  "delegations_finalize_if_dispatched i status completed_at failure_code =
     tx_step (\<lambda>db.
       let P = (\<lambda>d. dg_id d = i \<and> dg_status d = DelegationStatus.DISPATCHED) in
       (row_count P (rd_delegations db) = 1,
        rd_delegations_update (update_rows P (\<lambda>d. d\<lparr>dg_status := status,
          dg_completed_at := Some completed_at, dg_failure_code := failure_code\<rparr>)) db))"

definition delegations_has_dispatched_for_run :: "RunId \<Rightarrow> run_db \<Rightarrow> bool" where
  "delegations_has_dispatched_for_run i db \<longleftrightarrow>
     list_ex (\<lambda>d. dg_parent_run_id d = i \<and> dg_status d = DelegationStatus.DISPATCHED) (rd_delegations db)"

definition delegations_get_for_child_execution :: "RunId \<Rightarrow> run_db \<Rightarrow> DelegationRequest option" where
  "delegations_get_for_child_execution e db =
     (case sort_key (\<lambda>d. (dg_created_at d, dg_id d))
         (filter (\<lambda>d. case dg_child_run_id d of
              None \<Rightarrow> False
            | Some c \<Rightarrow> list_ex (\<lambda>r. rn_id r = c \<and> rn_execution_id r = e) (rd_runs db)) (rd_delegations db)) of
        [] \<Rightarrow> None | d # _ \<Rightarrow> Some d)"

definition delegations_get_for_child_task :: "TaskId \<Rightarrow> run_db \<Rightarrow> DelegationRequest option" where
  "delegations_get_for_child_task i db =
     (case sort_key (\<lambda>d. (dg_created_at d, dg_id d)) (filter (\<lambda>d. dg_child_task_id d = Some i) (rd_delegations db)) of
        [] \<Rightarrow> None | d # _ \<Rightarrow> Some d)"

definition delegations_list_for_run :: "RunId \<Rightarrow> run_db \<Rightarrow> DelegationRequest list" where
  "delegations_list_for_run i db =
     sort_key (\<lambda>d. (dg_created_at d, dg_id d)) (filter (\<lambda>d. dg_parent_run_id d = i) (rd_delegations db))"

definition delegations_count_materialized_for_run :: "RunId \<Rightarrow> run_db \<Rightarrow> nat" where
  "delegations_count_materialized_for_run i db =
     row_count (\<lambda>d. dg_parent_run_id d = i \<and> dg_child_run_id d \<noteq> None) (rd_delegations db)"

definition delegations_count_materialized_for_tree :: "DelegationRequestId \<Rightarrow> run_db \<Rightarrow> nat" where
  "delegations_count_materialized_for_tree i db =
     row_count (\<lambda>d. dg_root_delegation_id d = i \<and> dg_child_run_id d \<noteq> None) (rd_delegations db)"

definition delegations_lock_tree_for_dispatch :: "DelegationRequestId \<Rightarrow> run_db \<Rightarrow> bool" where
  "delegations_lock_tree_for_dispatch i db \<longleftrightarrow> row_count (\<lambda>d. dg_id d = i) (rd_delegations db) = 1"

definition executions_list_by_root_run_id :: "RunId \<Rightarrow> run_db \<Rightarrow> WorkflowExecution list" where
  "executions_list_by_root_run_id i db =
     sort_key (\<lambda>x. (wx_started_at x, wx_id x)) (filter (\<lambda>x. wx_root_run_id x = i) (rd_executions db))"

definition nodes_get_by_child_execution_id :: "RunId \<Rightarrow> run_db \<Rightarrow> WorkflowNodeExecution option" where
  "nodes_get_by_child_execution_id e db = find (\<lambda>n. wne_child_execution_id n = Some e) (rd_nodes db)"

definition nodes_get_by_child_task_id :: "TaskId \<Rightarrow> run_db \<Rightarrow> WorkflowNodeExecution option" where
  "nodes_get_by_child_task_id i db = find (\<lambda>n. wne_child_task_id n = Some i) (rd_nodes db)"

definition task_workflows_get_by_task_id :: "TaskId \<Rightarrow> run_db \<Rightarrow> TaskWorkflowBinding option" where
  "task_workflows_get_by_task_id i db = get_row twb_task_id i (rd_task_workflows db)"

definition schedules_complete_for_task :: "TaskId \<Rightarrow> instant \<Rightarrow> bool \<Rightarrow> unit tx" where
  "schedules_complete_for_task i now cancelled =
     tx_put (rd_schedules_update (update_rows
       (\<lambda>s. sc_task_id s = i \<and> (sc_status s = ScheduleStatus.ACTIVE \<or> sc_status s = ScheduleStatus.PAUSED))
       (\<lambda>s. s\<lparr>sc_status := (if cancelled then ScheduleStatus.CANCELLED else ScheduleStatus.COMPLETED),
              sc_next_fire_at := None, sc_updated_at := now\<rparr>)))"

subsection \<open>Frozen resolutions and skill usage\<close>

definition skill_resolutions_get :: "RunId \<Rightarrow> run_db \<Rightarrow> RunSkillResolution option" where
  "skill_resolutions_get i db = get_row sr_run_id i (rd_skill_resolutions db)"

definition skill_resolutions_add :: "RunSkillResolution \<Rightarrow> unit tx" where
  "skill_resolutions_add = insert_row rd_skill_resolutions rd_skill_resolutions_update
     (\<lambda>r x. sr_id x = sr_id r \<or> sr_run_id x = sr_run_id r)"

definition skill_bindings_list_for_run :: "RunId \<Rightarrow> run_db \<Rightarrow> RunSkillBinding list" where
  "skill_bindings_list_for_run i db =
     sort_key sb_position (filter (\<lambda>b. sb_run_id b = i) (rd_skill_bindings db))"

definition skill_bindings_add :: "RunSkillBinding \<Rightarrow> unit tx" where
  "skill_bindings_add = insert_row rd_skill_bindings rd_skill_bindings_update
     (\<lambda>r x. sb_run_id x = sb_run_id r \<and> (sb_skill_id x = sb_skill_id r \<or> sb_position x = sb_position r))"

definition agent_resolutions_get :: "RunId \<Rightarrow> run_db \<Rightarrow> RunAgentResolution option" where
  "agent_resolutions_get i db = get_row ar_run_id i (rd_agent_resolutions db)"

definition agent_resolutions_add :: "RunAgentResolution \<Rightarrow> unit tx" where
  "agent_resolutions_add = insert_row rd_agent_resolutions rd_agent_resolutions_update
     (\<lambda>r x. ar_id x = ar_id r \<or> ar_run_id x = ar_run_id r)"

definition usage_get_for_run_skill :: "RunId \<Rightarrow> SkillId \<Rightarrow> run_db \<Rightarrow> SkillUsageRecord option" where
  "usage_get_for_run_skill i k db = find (\<lambda>u. su_run_id u = i \<and> su_skill_id u = k) (rd_usage db)"

text \<open>\<^verbatim>\<open>ON CONFLICT (run_id, skill_id) DO NOTHING\<close>; a clash of the primary key still raises.\<close>

definition usage_add :: "SkillUsageRecord \<Rightarrow> unit tx" where
  "usage_add u =
     tx_bind (tx_get (usage_get_for_run_skill (su_run_id u) (su_skill_id u))) (\<lambda>prior.
     case prior of
       Some p \<Rightarrow> tx_return ()
     | None \<Rightarrow> insert_row rd_usage rd_usage_update (\<lambda>r x. su_id x = su_id r) u)"

subsection \<open>Agents\<close>

definition agents_get :: "AgentId \<Rightarrow> run_db \<Rightarrow> Agent option" where
  "agents_get i db = get_row ag_id i (rd_agents db)"

definition agents_get_by_key :: "string \<Rightarrow> run_db \<Rightarrow> Agent option" where
  "agents_get_by_key k db = find (\<lambda>a. ag_key a = k) (rd_agents db)"

definition agents_add :: "Agent \<Rightarrow> unit tx" where
  "agents_add = insert_row rd_agents rd_agents_update (\<lambda>r x. ag_id x = ag_id r \<or> ag_key x = ag_key r)"

definition agents_save :: "Agent \<Rightarrow> unit tx" where
  "agents_save r = tx_put (rd_agents_update (merge_row ag_id r))"

text \<open>The mapper rebuilds the revision, so a row whose digest does not match raises when it is read.\<close>

definition agent_revisions_get ::
  "(string \<Rightarrow> string) \<Rightarrow> AgentRevisionId \<Rightarrow> run_db \<Rightarrow> domain_error + AgentRevision option" where
  "agent_revisions_get sha256 i db =
     (case get_row av_id i (rd_agent_revisions db) of
        None \<Rightarrow> Inr None
      | Some row \<Rightarrow> ebind (agent_revision_post_init sha256 row) (\<lambda>r. Inr (Some r)))"

definition agent_revisions_add :: "AgentRevision \<Rightarrow> unit tx" where
  "agent_revisions_add = insert_row rd_agent_revisions rd_agent_revisions_update
     (\<lambda>r x. av_id x = av_id r \<or> av_agent_id x = av_agent_id r \<and> av_version x = av_version r)"

definition agent_revisions_next_version :: "AgentId \<Rightarrow> run_db \<Rightarrow> int" where
  "agent_revisions_next_version i db =
     fold max (map av_version (filter (\<lambda>r. av_agent_id r = i) (rd_agent_revisions db))) 0 + 1"

definition task_agents_get :: "TaskId \<Rightarrow> run_db \<Rightarrow> TaskAgentBinding option" where
  "task_agents_get i db = get_row ta_task_id i (rd_task_agents db)"

definition task_agents_replace :: "TaskId \<Rightarrow> TaskAgentBinding option \<Rightarrow> unit tx" where
  "task_agents_replace i binding =
     tx_bind (tx_put (rd_task_agents_update (filter (\<lambda>b. ta_task_id b \<noteq> i)))) (\<lambda>_.
     case binding of
       None \<Rightarrow> tx_return ()
     | Some b \<Rightarrow> insert_row rd_task_agents rd_task_agents_update (\<lambda>r x. ta_task_id x = ta_task_id r) b)"

text \<open>The conditional insert reads the work item under the exact claim; a marker that is there wins.\<close>

definition agent_resolutions_add_if_claimed ::
  "RunAgentResolution \<Rightarrow> string \<Rightarrow> string \<Rightarrow> int \<Rightarrow> instant \<Rightarrow> bool tx" where
  "agent_resolutions_add_if_claimed r worker_id claim_token generation now =
     tx_bind (tx_get (\<lambda>db. list_ex (held (ar_run_id r) worker_id claim_token generation now) (rd_work db))) (\<lambda>claimed.
     tx_bind (tx_get (agent_resolutions_get (ar_run_id r))) (\<lambda>prior.
     if \<not> claimed \<or> prior \<noteq> None then tx_return False
     else tx_bind (agent_resolutions_add r) (\<lambda>_. tx_return True)))"

subsection \<open>The work queue\<close>

definition work_enqueue :: "RunId \<Rightarrow> instant \<Rightarrow> instant \<Rightarrow> unit tx" where
  "work_enqueue i available_at enqueued_at = tx_put (rd_work_update (wq_enqueue i available_at enqueued_at))"

definition work_remove :: "RunId \<Rightarrow> unit tx" where
  "work_remove i = tx_put (rd_work_update (wq_remove i))"

definition work_step :: "(work_table \<Rightarrow> bool \<times> work_table) \<Rightarrow> bool tx" where
  "work_step f = tx_step (\<lambda>db. (fst (f (rd_work db)), rd_work_update (\<lambda>t. snd (f t)) db))"

subsection \<open>Event streams\<close>

text \<open>
  \<^verbatim>\<open>reserve_sequences\<close> inserts the counter at 1 unless it is there, adds the count and returns the
  first of the reserved numbers.
\<close>

definition bump :: "'k \<Rightarrow> int \<Rightarrow> ('k \<times> int) list \<Rightarrow> int \<times> ('k \<times> int) list" where
  "bump k n t =
     (let t1 = (if k \<in> fst ` set t then t else t @ [(k, 1)]);
          t2 = update_rows (\<lambda>r. fst r = k) (\<lambda>r. (fst r, snd r + n)) t1
      in (the (map_of t2 k) - n, t2))"

definition events_reserve_sequences :: "RunId \<Rightarrow> int \<Rightarrow> int tx" where
  "events_reserve_sequences i n =
     tx_step (\<lambda>db. (fst (bump i n (rd_event_counters db)),
       rd_event_counters_update (\<lambda>t. snd (bump i n t)) db))"

definition events_append :: "RunEvent \<Rightarrow> unit tx" where
  "events_append = insert_row rd_events rd_events_update
     (\<lambda>r x. ev_id x = ev_id r \<or> ev_run_id x = ev_run_id r \<and> ev_sequence x = ev_sequence r)"

definition task_events_reserve_sequences :: "TaskId \<Rightarrow> int \<Rightarrow> int tx" where
  "task_events_reserve_sequences i n =
     tx_step (\<lambda>db. (fst (bump i n (rd_task_counters db)),
       rd_task_counters_update (\<lambda>t. snd (bump i n t)) db))"

definition task_events_append :: "TaskEvent \<Rightarrow> unit tx" where
  "task_events_append = insert_row rd_task_events rd_task_events_update
     (\<lambda>r x. te_id x = te_id r \<or> te_task_id x = te_task_id r \<and> te_sequence x = te_sequence r)"

end
