(* ===== verification/Run_Lifecycle.thy ===== *)
theory Run_Lifecycle
  imports Run_Db
begin

text \<open>
  The transactions that start, finish, cancel and retry runs: \<^verbatim>\<open>lifecycle_events.py\<close>,
  \<^verbatim>\<open>run_lifecycle.py\<close>, \<^verbatim>\<open>delegation_reconciliation.py\<close>, \<^verbatim>\<open>retry_inheritance.py\<close>,
  \<^verbatim>\<open>skill_usage.py\<close>, \<^verbatim>\<open>start_run.py\<close> and \<^verbatim>\<open>create_task.py\<close> of \<^verbatim>\<open>src/src/friday/application\<close>. The clock
  reading of a transaction is its argument \<open>now\<close>. A use case that returns a snapshot returns the
  entity it is taken from.
\<close>

type_synonym event_spec = "RunEventType \<times> pyval \<times> RunStepId option"

definition payload :: "(string \<times> pyval) list \<Rightarrow> pyval" where
  "payload es = PyDict (map (\<lambda>(k, v). (PyStr k, v)) es)"

definition id_value :: "'k ident \<Rightarrow> pyval" where
  "id_value i = PyStr (id_str i)"

section \<open>Event batches\<close>

definition append_run_event :: "RunId \<Rightarrow> instant \<Rightarrow> int \<times> event_spec \<Rightarrow> unit tx" where
  "append_run_event run_id now = (\<lambda>(sequence, kind, value, step_id).
     tx_bind fresh_id (\<lambda>i.
     tx_bind (tx_lift (lift_domain (run_event_post_init i run_id kind sequence (utc now) value step_id)))
       events_append))"

definition append_run_events :: "Run \<Rightarrow> instant \<Rightarrow> event_spec list \<Rightarrow> unit tx" where
  "append_run_events run now specs =
     tx_bind (events_reserve_sequences (rn_id run) (int (length specs))) (\<lambda>start.
     tx_bind (tx_each (append_run_event (rn_id run) now)
       (zip (map (\<lambda>offset. start + int offset) [0..<length specs]) specs)) (\<lambda>_.
     tx_return ()))"

definition append_task_event :: "Task \<Rightarrow> instant \<Rightarrow> TaskEventType \<Rightarrow> pyval \<Rightarrow> unit tx" where
  "append_task_event task now kind value =
     tx_bind fresh_id (\<lambda>i.
     tx_bind (task_events_reserve_sequences (tk_id task) 1) (\<lambda>sequence.
     tx_bind (tx_lift (lift_domain (task_event_post_init i (tk_id task) kind sequence (utc now) value)))
       task_events_append))"

definition cancel_tool :: "instant \<Rightarrow> ToolInvocation \<Rightarrow> event_spec list tx" where
  "cancel_tool now tool =
     (if ti_status tool \<notin> set TERMINAL_TOOL_INVOCATION_STATUSES
      then tx_bind (tx_call (tool_cancel (utc now) tool)) (\<lambda>t.
           tx_bind (tools_save t) (\<lambda>_.
           tx_return [(TOOL_INVOCATION_CANCELLED, payload [(''tool_invocation_id'', id_value (ti_id t))],
                       ti_step_id t)]))
      else tx_return [])"

definition cancel_tools :: "ToolInvocation list \<Rightarrow> instant \<Rightarrow> event_spec list tx" where
  "cancel_tools tools now = tx_bind (tx_each (cancel_tool now) tools) (\<lambda>specs. tx_return (concat specs))"

text \<open>The loop over the steps of a run, and the tools that belong to no open step.\<close>

definition cancel_step :: "instant \<Rightarrow> RunStep \<Rightarrow> event_spec list tx" where
  "cancel_step now step =
     (if st_status step \<notin> set TERMINAL_RUN_STEP_STATUSES
      then tx_bind (tx_call (step_cancel (utc now) step)) (\<lambda>s.
           tx_bind (steps_save s) (\<lambda>_.
           tx_bind (tx_get (tools_list_for_step (st_id s))) (\<lambda>tools.
           tx_bind (cancel_tools tools now) (\<lambda>specs.
           tx_return ((STEP_CANCELLED, payload [(''step_id'', id_value (st_id s))], Some (st_id s)) # specs)))))
      else tx_return [])"

definition cancel_children :: "RunId \<Rightarrow> instant \<Rightarrow> event_spec list tx" where
  "cancel_children run_id now =
     tx_bind (tx_get (steps_list_for_run run_id)) (\<lambda>steps.
     tx_bind (tx_each (cancel_step now) steps) (\<lambda>specs.
     tx_bind (tx_get (tools_list_for_run run_id)) (\<lambda>tools.
     tx_bind (cancel_tools tools now) (\<lambda>more_specs.
     tx_return (concat specs @ more_specs)))))"

section \<open>Skill usage\<close>

fun usage_outcome :: "RunStatus \<Rightarrow> app_error + SkillUsageOutcome" where
  "usage_outcome RunStatus.SUCCEEDED = Inr SkillUsageOutcome.SUCCEEDED"
| "usage_outcome RunStatus.FAILED = Inr SkillUsageOutcome.FAILED"
| "usage_outcome RunStatus.CANCELLED = Inr SkillUsageOutcome.CANCELLED"
| "usage_outcome _ = Inl (DomainFailure (PythonError ''KeyError''))"

definition usage_record ::
  "Run \<Rightarrow> RunSkillResolution \<Rightarrow> int \<Rightarrow> int \<Rightarrow> int \<Rightarrow> instant \<Rightarrow> RunSkillBinding \<Rightarrow> SkillUsageRecord tx" where
  "usage_record run resolution attempts tool_count approval_count now binding =
     tx_bind (tx_get (usage_get_for_run_skill (rn_id run) (sb_skill_id binding))) (\<lambda>prior.
     case prior of
       Some p \<Rightarrow> tx_return p
     | None \<Rightarrow>
        (let ended = or_else (rn_ended_at run) now in
         tx_bind fresh_id (\<lambda>i.
         tx_bind (tx_lift (usage_outcome (rn_status run))) (\<lambda>outcome.
         tx_bind (tx_lift (lift_domain (skill_usage_post_init
           \<lparr>su_id = i, su_run_id = rn_id run, su_task_id = rn_task_id run,
            su_skill_id = sb_skill_id binding, su_revision_id = sb_revision_id binding,
            su_position = sb_position binding, su_resolution_id = id_str (sr_id resolution),
            su_execution_id = rn_execution_id run, su_attempt_number = attempts,
            su_started_at = rn_started_at run, su_completed_at = ended, su_outcome = outcome,
            su_failure_code = map_option fl_code (rn_failure run), su_tool_call_count = tool_count,
            su_approval_count = approval_count,
            su_duration_ms = map_option (\<lambda>t. duration_ms t ended) (rn_started_at run),
            su_created_at = now\<rparr>))) (\<lambda>u.
         tx_bind (usage_add u) (\<lambda>_. tx_return u))))))"

definition materialize_skill_usage_in_uow :: "RunId \<Rightarrow> instant \<Rightarrow> SkillUsageRecord list tx" where
  "materialize_skill_usage_in_uow run_id now =
     tx_bind (tx_get (runs_get run_id)) (\<lambda>found.
     tx_bind (tx_found (RunNotFound run_id) found) (\<lambda>run.
     tx_bind (tx_guard (rn_status run \<in> set TERMINAL_RUN_STATUSES)
       (EntityConflict ''skill usage is materialized only for terminal runs'')) (\<lambda>_.
     tx_bind (tx_get (skill_resolutions_get (rn_id run))) (\<lambda>resolution.
     case resolution of
       None \<Rightarrow> tx_return []
     | Some r \<Rightarrow>
        tx_bind (tx_get (\<lambda>db. int (length (tools_list_for_run (rn_id run) db)))) (\<lambda>tool_count.
        tx_bind (tx_get (\<lambda>db. int (length (approvals_list_for_run (rn_id run) db)))) (\<lambda>approval_count.
        tx_bind (tx_get (runs_ordinal_for_execution (rn_id run))) (\<lambda>attempts.
        tx_bind (tx_guard (\<not> attempts < 1)
          (EntityConflict ''terminal Run is missing its execution ordinal'')) (\<lambda>_.
        tx_bind (tx_get (skill_bindings_list_for_run (rn_id run))) (\<lambda>bindings.
        tx_each (usage_record run r attempts tool_count approval_count now) bindings)))))))))"

section \<open>Frozen resolutions of a retry\<close>

definition inherit_skills :: "Run \<Rightarrow> Run \<Rightarrow> unit tx" where
  "inherit_skills source retry =
     tx_bind (tx_get (skill_resolutions_get (rn_id source))) (\<lambda>resolution.
     case resolution of
       None \<Rightarrow> tx_return ()
     | Some r \<Rightarrow>
        tx_bind fresh_id (\<lambda>i.
        tx_bind (skill_resolutions_add
          \<lparr>sr_id = i, sr_run_id = rn_id retry, sr_resolved_at = sr_resolved_at r\<rparr>) (\<lambda>_.
        tx_bind (tx_get (skill_bindings_list_for_run (rn_id source))) (\<lambda>bindings.
        tx_bind (tx_each (\<lambda>b. tx_lift (lift_domain (skill_binding_post_init
          \<lparr>sb_run_id = rn_id retry, sb_skill_id = sb_skill_id b, sb_revision_id = sb_revision_id b,
           sb_position = sb_position b\<rparr>))) bindings) (\<lambda>copies.
        tx_bind (tx_each skill_bindings_add copies) (\<lambda>_. tx_return ()))))))"

definition inherit_agent :: "Run \<Rightarrow> Run \<Rightarrow> unit tx" where
  "inherit_agent source retry =
     tx_bind (tx_get (agent_resolutions_get (rn_id source))) (\<lambda>resolution.
     case resolution of
       None \<Rightarrow> tx_return ()
     | Some r \<Rightarrow>
        tx_bind fresh_id (\<lambda>i.
        agent_resolutions_add
          \<lparr>ar_id = i, ar_run_id = rn_id retry, ar_agent_id = ar_agent_id r,
           ar_revision_id = ar_revision_id r, ar_resolved_at = ar_resolved_at r\<rparr>))"

definition inherit_frozen_resolutions_in_uow :: "Run \<Rightarrow> Run \<Rightarrow> unit tx" where
  "inherit_frozen_resolutions_in_uow source retry =
     tx_bind (inherit_skills source retry) (\<lambda>_. inherit_agent source retry)"

section \<open>Delegation reconciliation\<close>

text \<open>The terminal status, event and failure code the latest attempt of a child gives its delegation.\<close>

definition delegation_verdict :: "Run \<Rightarrow> DelegationStatus \<times> RunEventType \<times> string option" where
  "delegation_verdict latest =
     (case rn_status latest of
        RunStatus.SUCCEEDED \<Rightarrow> (DelegationStatus.SUCCEEDED, DELEGATION_SUCCEEDED, None)
      | RunStatus.FAILED \<Rightarrow> (DelegationStatus.FAILED, DELEGATION_FAILED,
          Some (case rn_failure latest of None \<Rightarrow> ''child_run_failed'' | Some f \<Rightarrow> fl_code f))
      | _ \<Rightarrow> (DelegationStatus.CANCELLED, DELEGATION_CANCELLED, None))"

definition delegation_payload :: "DelegationRequest \<Rightarrow> Run \<Rightarrow> DelegationStatus \<Rightarrow> string option \<Rightarrow> pyval" where
  "delegation_payload request latest status failure_code =
     payload ([(''delegation_request_id'', id_value (dg_id request)),
               (''child_run_id'', id_value (rn_id latest)),
               (''status'', PyStr (delegation_status_value status))] @
              (case failure_code of None \<Rightarrow> [] | Some c \<Rightarrow> [(''failure_code'', PyStr c)]))"

definition settle_request ::
  "instant \<Rightarrow> DelegationStatus \<Rightarrow> string option \<Rightarrow> DelegationRequest \<Rightarrow> (domain_error, DelegationRequest) outcome" where
  "settle_request now status failure_code request =
     (case status of
        DelegationStatus.SUCCEEDED \<Rightarrow> delegation_succeed (utc now) request
      | DelegationStatus.FAILED \<Rightarrow> delegation_fail (utc now) (or_else failure_code []) request
      | _ \<Rightarrow> delegation_cancel (utc now) request)"

definition wake_parent :: "DelegationRequest \<Rightarrow> RunEventType \<Rightarrow> pyval \<Rightarrow> instant \<Rightarrow> unit tx" where
  "wake_parent request kind value now =
     tx_bind (tx_get (runs_get (dg_parent_run_id request))) (\<lambda>found.
     case found of
       None \<Rightarrow> tx_return ()
     | Some parent \<Rightarrow>
        if rn_status parent \<noteq> RunStatus.WAITING_FOR_DELEGATION \<or>
           rn_delegation_request_id parent \<noteq> Some (dg_id request)
        then tx_return ()
        else tx_bind (tx_call (run_resume_from_delegation (utc now) parent)) (\<lambda>resumed.
             tx_bind (runs_save resumed) (\<lambda>_.
             tx_bind (work_enqueue (rn_id resumed) now now) (\<lambda>_.
             append_run_events resumed now
               [(kind, value, None),
                (RUN_RESUMED, payload [(''run_id'', id_value (rn_id resumed)),
                   (''delegation_request_id'', id_value (dg_id request))], None)]))))"

definition reconcile_child_terminal_in_uow :: "Run \<Rightarrow> instant \<Rightarrow> unit tx" where
  "reconcile_child_terminal_in_uow child_run now =
     tx_bind (tx_get (runs_lock_execution_lineage (rn_execution_id child_run))) (\<lambda>locked.
     if \<not> locked then tx_return () else
     tx_bind (tx_get (delegations_get_for_child_execution (rn_execution_id child_run))) (\<lambda>found.
     case found of
       None \<Rightarrow> tx_return ()
     | Some request \<Rightarrow>
        if dg_status request \<noteq> DelegationStatus.DISPATCHED then tx_return () else
        tx_bind (tx_get (runs_get_latest_for_execution (rn_execution_id child_run))) (\<lambda>last_run.
        case last_run of
          None \<Rightarrow> tx_return ()
        | Some latest \<Rightarrow>
           if rn_status latest \<notin> {RunStatus.SUCCEEDED, RunStatus.FAILED, RunStatus.CANCELLED}
           then tx_return () else
           (case delegation_verdict latest of (status, kind, failure_code) \<Rightarrow>
              tx_bind (delegations_finalize_if_dispatched (dg_id request) status now failure_code) (\<lambda>won.
              if \<not> won then tx_return () else
              tx_bind (tx_call (settle_request now status failure_code request)) (\<lambda>settled.
              wake_parent settled kind (delegation_payload request latest status failure_code) now))))))"

section \<open>Starting\<close>

definition CreateTask :: "string \<Rightarrow> string \<Rightarrow> instant \<Rightarrow> TaskId tx" where
  "CreateTask title description now =
     tx_bind fresh_id (\<lambda>i.
     tx_bind (tx_lift (lift_domain (task_new i title description (utc now)))) (\<lambda>task.
     tx_bind (tasks_add task) (\<lambda>_. tx_return (tk_id task))))"

definition ensure_task_can_own_a_run :: "Task \<Rightarrow> instant \<Rightarrow> unit tx" where
  "ensure_task_can_own_a_run task now =
     (if tk_status task = TaskStatus.PENDING
      then tx_bind (tx_call (task_start (utc now) task)) tasks_save
      else tx_guard (tk_status task = TaskStatus.ACTIVE)
        (EntityConflict (''Task '' @ id_str (tk_id task) @ '' is '' @ [CHR 0x27] @
           task_status_value (tk_status task) @ [CHR 0x27] @ '' and cannot start a run'')))"

definition start_run_in_uow :: "Task \<Rightarrow> instant \<Rightarrow> RunId tx" where
  "start_run_in_uow task now =
     tx_bind (ensure_task_can_own_a_run task now) (\<lambda>_.
     tx_bind fresh_id (\<lambda>i.
     tx_bind (tx_lift (lift_domain (run_new i (tk_id task) (utc now) None))) (\<lambda>run.
     tx_bind (runs_add run) (\<lambda>_.
     tx_bind (work_enqueue (rn_id run) now now) (\<lambda>_.
     tx_bind (append_run_events run now
       [(RUN_CREATED, payload [(''task_id'', id_value (tk_id task))], None)]) (\<lambda>_.
     tx_return (rn_id run)))))))"

definition StartRun :: "TaskId \<Rightarrow> instant \<Rightarrow> RunId tx" where
  "StartRun task_id now =
     tx_bind (tx_get (tasks_get task_id)) (\<lambda>found.
     tx_bind (tx_found (TaskNotFound task_id) found) (\<lambda>task.
     start_run_in_uow task now))"

definition StartQueuedRun :: "RunId \<Rightarrow> instant \<Rightarrow> Run tx" where
  "StartQueuedRun run_id now =
     tx_bind (tx_get (runs_get run_id)) (\<lambda>found.
     tx_bind (tx_found (RunNotFound run_id) found) (\<lambda>run.
     if rn_status run = RunStatus.RUNNING then tx_return run else
     tx_bind (tx_guard (rn_status run = RunStatus.QUEUED) (EntityConflict ''run cannot start'')) (\<lambda>_.
     tx_bind (tx_get (tasks_get (rn_task_id run))) (\<lambda>owner.
     tx_bind (tx_found (TaskNotFound (rn_task_id run)) owner) (\<lambda>task.
     tx_bind (tx_guard (tk_status task = TaskStatus.ACTIVE)
       (EntityConflict ''owning task is not active'')) (\<lambda>_.
     tx_bind (tx_call (run_start (utc now) run)) (\<lambda>started.
     tx_bind (runs_save started) (\<lambda>_.
     tx_bind (append_run_events started now
       [(RUN_STARTED, payload [(''run_id'', id_value (rn_id started))], None)]) (\<lambda>_.
     tx_return started)))))))))"

section \<open>Finishing\<close>

definition fail_run_event_specs :: "Run \<Rightarrow> instant \<Rightarrow> Failure \<Rightarrow> (Run \<times> event_spec list) tx" where
  "fail_run_event_specs run now failure =
     tx_bind (tx_call (run_fail (utc now) failure run)) (\<lambda>failed.
     tx_bind (runs_save failed) (\<lambda>_.
     tx_bind (cancel_children (rn_id failed) now) (\<lambda>specs.
     tx_return (failed, specs @ [(RUN_FAILED, payload [(''run_id'', id_value (rn_id failed)),
       (''failure_code'', PyStr (fl_code failure))], None)]))))"

definition succeed_run_event_specs :: "Run \<Rightarrow> instant \<Rightarrow> (Run \<times> event_spec list) tx" where
  "succeed_run_event_specs run now =
     tx_bind (tx_call (run_succeed (utc now) run)) (\<lambda>done.
     tx_bind (runs_save done) (\<lambda>_.
     tx_return (done, [(RUN_SUCCEEDED, payload [(''run_id'', id_value (rn_id done))], None)])))"

definition CompleteRun :: "RunId \<Rightarrow> instant \<Rightarrow> Run tx" where
  "CompleteRun run_id now =
     tx_bind (tx_get (runs_get run_id)) (\<lambda>found.
     tx_bind (tx_found (RunNotFound run_id) found) (\<lambda>run.
     if rn_status run = RunStatus.SUCCEEDED then tx_return run else
     tx_bind (tx_guard (rn_status run \<notin> set TERMINAL_RUN_STATUSES) (EntityConflict ''run is terminal'')) (\<lambda>_.
     tx_bind (tx_guard (rn_status run = RunStatus.RUNNING) (EntityConflict ''run cannot complete'')) (\<lambda>_.
     tx_bind (tx_get (steps_list_for_run (rn_id run))) (\<lambda>steps.
     tx_bind (tx_guard (\<not> list_ex (\<lambda>s. st_status s \<notin> set TERMINAL_RUN_STEP_STATUSES) steps)
       (EntityConflict ''run has non-terminal steps'')) (\<lambda>_.
     tx_bind (tx_get (tools_list_for_run (rn_id run))) (\<lambda>tools.
     tx_bind (tx_guard (\<not> list_ex (\<lambda>t. ti_status t \<notin> set TERMINAL_TOOL_INVOCATION_STATUSES) tools)
       (EntityConflict ''run has non-terminal tool invocations'')) (\<lambda>_.
     tx_bind (tx_get (delegations_has_dispatched_for_run (rn_id run))) (\<lambda>busy.
     tx_bind (tx_guard (\<not> busy) (EntityConflict ''run has an active delegation'')) (\<lambda>_.
     tx_bind (succeed_run_event_specs run now) (\<lambda>(done, specs).
     tx_bind (work_remove (rn_id done)) (\<lambda>_.
     tx_bind (append_run_events done now specs) (\<lambda>_.
     tx_bind (reconcile_child_terminal_in_uow done now) (\<lambda>_.
     tx_bind (materialize_skill_usage_in_uow (rn_id done) now) (\<lambda>_.
     tx_return done)))))))))))))))"

definition FailRun :: "RunId \<Rightarrow> Failure \<Rightarrow> instant \<Rightarrow> Run tx" where
  "FailRun run_id failure now =
     tx_bind (tx_get (runs_get run_id)) (\<lambda>found.
     tx_bind (tx_found (RunNotFound run_id) found) (\<lambda>run.
     if rn_status run = RunStatus.FAILED
     then tx_bind (tx_guard (same_failure (rn_failure run) failure) (EntityConflict ''run failure is immutable'')) (\<lambda>_.
          tx_return run)
     else
     tx_bind (tx_guard (rn_status run \<notin> set TERMINAL_RUN_STATUSES) (EntityConflict ''run is terminal'')) (\<lambda>_.
     tx_bind (tx_guard (rn_status run = RunStatus.RUNNING) (EntityConflict ''run cannot fail'')) (\<lambda>_.
     tx_bind (fail_run_event_specs run now failure) (\<lambda>(failed, specs).
     tx_bind (append_run_events failed now specs) (\<lambda>_.
     tx_bind (work_remove (rn_id failed)) (\<lambda>_.
     tx_bind (reconcile_child_terminal_in_uow failed now) (\<lambda>_.
     tx_bind (materialize_skill_usage_in_uow (rn_id failed) now) (\<lambda>_.
     tx_return failed)))))))))"

section \<open>Cancelling\<close>

definition cancel_pending_approval :: "instant \<Rightarrow> ApprovalRequest \<Rightarrow> event_spec tx" where
  "cancel_pending_approval now approval =
     tx_bind (tx_call (approval_cancel (utc now) (Some ''run cancelled'') approval)) (\<lambda>a.
     tx_bind (approvals_save a) (\<lambda>_.
     tx_return (APPROVAL_RESOLVED, payload [(''approval_request_id'', id_value (ap_id a)),
       (''status'', PyStr (approval_status_value (ap_status a)))], ap_step_id a)))"

definition cancel_pending_approvals :: "RunId \<Rightarrow> instant \<Rightarrow> event_spec list tx" where
  "cancel_pending_approvals run_id now =
     tx_bind (tx_get (approvals_list_pending_for_run run_id)) (tx_each (cancel_pending_approval now))"

definition cancel_run_in_uow :: "Run \<Rightarrow> instant \<Rightarrow> Run tx" where
  "cancel_run_in_uow run now =
     tx_bind (tx_call (run_cancel (utc now) run)) (\<lambda>cancelled.
     tx_bind (runs_save cancelled) (\<lambda>_.
     tx_bind (cancel_pending_approvals (rn_id cancelled) now) (\<lambda>approval_specs.
     tx_bind (work_remove (rn_id cancelled)) (\<lambda>_.
     tx_bind (cancel_children (rn_id cancelled) now) (\<lambda>child_specs.
     tx_bind (append_run_events cancelled now
       ((RUN_CANCELLED, payload [(''run_id'', id_value (rn_id cancelled))], None) #
        approval_specs @ child_specs)) (\<lambda>_.
     tx_bind (reconcile_child_terminal_in_uow cancelled now) (\<lambda>_.
     tx_bind (materialize_skill_usage_in_uow (rn_id cancelled) now) (\<lambda>_.
     tx_return cancelled))))))))"

definition CancelRun :: "RunId \<Rightarrow> instant \<Rightarrow> Run tx" where
  "CancelRun run_id now =
     tx_bind (tx_get (runs_get run_id)) (\<lambda>found.
     tx_bind (tx_found (RunNotFound run_id) found) (\<lambda>run.
     if rn_status run = RunStatus.CANCELLED then tx_return run
     else if rn_status run \<in> set TERMINAL_RUN_STATUSES then
       tx_bind (tx_get (runs_get_latest_for_execution (rn_execution_id run))) (\<lambda>last_run.
       case last_run of
         None \<Rightarrow> tx_raise (EntityConflict ''run is terminal'')
       | Some latest \<Rightarrow>
          if rn_status latest \<notin> set TERMINAL_RUN_STATUSES then cancel_run_in_uow latest now
          else tx_raise (EntityConflict ''run is terminal''))
     else
       tx_bind (tx_get (executions_list_by_root_run_id (rn_id run))) (\<lambda>executions.
       tx_bind (tx_guard (\<not> (list_ex (\<lambda>x. wx_status x = WorkflowExecutionStatus.RUNNING) executions \<and>
           rn_status run = RunStatus.WAITING_FOR_WORKFLOW)) WorkflowCancelNotSupportedWhileActive) (\<lambda>_.
       cancel_run_in_uow run now))))"

section \<open>Retrying\<close>

definition RetryFailedRun :: "RunId \<Rightarrow> instant \<Rightarrow> Run tx" where
  "RetryFailedRun run_id now =
     tx_bind (tx_get (runs_get run_id)) (\<lambda>found.
     tx_bind (tx_found (RunNotFound run_id) found) (\<lambda>source.
     tx_bind (tx_guard (rn_status source = RunStatus.FAILED)
       (EntityConflict ''only failed runs may be retried'')) (\<lambda>_.
     tx_bind (tx_get (nodes_get_by_child_execution_id (rn_execution_id source))) (\<lambda>node.
     tx_bind (tx_guard (node = None) WorkflowNodeManualRetryForbidden) (\<lambda>_.
     tx_bind (tx_get (delegations_get_for_child_execution (rn_execution_id source))) (\<lambda>request.
     tx_bind (tx_guard (request = None) DelegatedManualRetryForbidden) (\<lambda>_.
     tx_bind (tx_get (tasks_get (rn_task_id source))) (\<lambda>owner.
     tx_bind (tx_found (TaskNotFound (rn_task_id source)) owner) (\<lambda>task.
     tx_bind (tx_get (runs_list_for_task (tk_id task))) (\<lambda>runs.
     tx_bind (tx_guard (map rn_id (take 1 (rev runs)) = [rn_id source])
       (EntityConflict ''only latest attempt may be retried'')) (\<lambda>_.
     tx_bind (tx_guard (\<not> list_ex (\<lambda>r. rn_status r \<notin> set TERMINAL_RUN_STATUSES) runs)
       (EntityConflict ''task already has non-terminal run'')) (\<lambda>_.
     tx_bind (tx_guard (tk_status task = TaskStatus.ACTIVE) (EntityConflict ''task is not retryable'')) (\<lambda>_.
     tx_bind fresh_id (\<lambda>i.
     tx_bind (tx_lift (lift_domain (run_new i (tk_id task) (utc now) (Some (rn_execution_id source))))) (\<lambda>retry.
     tx_bind (runs_add retry) (\<lambda>_.
     tx_bind (inherit_frozen_resolutions_in_uow source retry) (\<lambda>_.
     tx_bind (work_enqueue (rn_id retry) now now) (\<lambda>_.
     tx_bind (append_run_events retry now
       [(RUN_CREATED, payload [(''task_id'', id_value (tk_id task)), (''retry_of'', id_value (rn_id source))], None)])
       (\<lambda>_. tx_return retry)))))))))))))))))))"

end
