(* ===== verification/Worker_Coordination.thy ===== *)
theory Worker_Coordination
  imports Run_Lifecycle
begin

text \<open>
  The transactions of a worker (\<^verbatim>\<open>src/src/friday/application/worker_coordination.py\<close>) and the recovery
  of expired leases (\<^verbatim>\<open>worker_maintenance.py\<close>). A claim is the quadruple a worker got from
  \<^verbatim>\<open>ClaimNextRun\<close>; every later transaction of the worker compares all of it. \<open>tokens\<close> are the
  fresh claim tokens \<^verbatim>\<open>uuid.uuid4().hex\<close>, one per candidate that is tried. A transaction that commits
  nothing and then raises is \<open>Inl\<close>, like one that is rolled back.
\<close>

record RunClaim =
  rc_run_id :: RunId
  rc_worker_id :: string
  rc_claim_token :: string
  rc_claim_generation :: int

record RunClaimResult =
  cr_claim :: RunClaim
  cr_task_id :: TaskId
  cr_attempt_number :: int
  cr_acquired_at :: instant
  cr_lease_expires_at :: instant

definition parked :: "RunStatus \<Rightarrow> bool" where
  "parked s \<longleftrightarrow> s \<in> set TERMINAL_RUN_STATUSES \<or>
     s \<in> {RunStatus.WAITING_FOR_APPROVAL, RunStatus.WAITING_FOR_DELEGATION, RunStatus.WAITING_FOR_WORKFLOW}"

section \<open>Claiming\<close>

definition start_claimed_run :: "Run \<Rightarrow> instant \<Rightarrow> Run tx" where
  "start_claimed_run run now =
     (if rn_status run = RunStatus.QUEUED
      then tx_bind (tx_call (run_start (utc now) run)) (\<lambda>started.
           tx_bind (runs_save started) (\<lambda>_.
           tx_bind (append_run_events started now
             [(RUN_STARTED, payload [(''run_id'', id_value (rn_id started))], None)]) (\<lambda>_.
           tx_return started)))
      else tx_return run)"

fun claim_first ::
  "string \<Rightarrow> instant \<Rightarrow> instant \<Rightarrow> string list \<Rightarrow> RunWorkItem list \<Rightarrow> RunClaimResult option tx" where
  "claim_first worker_id now lease_expires_at (token # tokens) (candidate # rest) =
     tx_bind (work_step (wq_try_claim (wi_run_id candidate) worker_id token now lease_expires_at)) (\<lambda>claimed.
     if \<not> claimed then claim_first worker_id now lease_expires_at tokens rest else
     tx_bind (tx_get (runs_get (wi_run_id candidate))) (\<lambda>found.
     case found of
       None \<Rightarrow> tx_bind (work_remove (wi_run_id candidate)) (\<lambda>_.
                claim_first worker_id now lease_expires_at tokens rest)
     | Some run \<Rightarrow>
        if parked (rn_status run)
        then tx_bind (work_remove (wi_run_id candidate)) (\<lambda>_.
             claim_first worker_id now lease_expires_at tokens rest)
        else tx_bind (start_claimed_run run now) (\<lambda>started.
             tx_bind (tx_get (\<lambda>db. wq_get (wi_run_id candidate) (rd_work db))) (\<lambda>row.
             tx_bind (tx_found (DomainFailure (PythonError ''AssertionError'')) row) (\<lambda>item.
             tx_bind (tx_get (runs_ordinal_for_execution (rn_id started))) (\<lambda>ordinal.
             tx_return (Some
               \<lparr>cr_claim = \<lparr>rc_run_id = rn_id started, rc_worker_id = worker_id, rc_claim_token = token,
                            rc_claim_generation = wi_claim_generation item\<rparr>,
                cr_task_id = rn_task_id started, cr_attempt_number = ordinal, cr_acquired_at = now,
                cr_lease_expires_at = lease_expires_at\<rparr>)))))))"
| "claim_first worker_id now lease_expires_at tokens candidates = tx_return None"

definition ClaimNextRun ::
  "string \<Rightarrow> int \<Rightarrow> nat \<Rightarrow> string list \<Rightarrow> instant \<Rightarrow> RunClaimResult option tx" where
  "ClaimNextRun worker_id lease_duration candidate_limit tokens now =
     tx_bind (tx_get (\<lambda>db. wq_find_due_candidates now candidate_limit (rd_work db))) (\<lambda>candidates.
     claim_first worker_id now (now + lease_duration) tokens candidates)"

section \<open>Keeping and giving up a claim\<close>

definition claim_step ::
  "(RunId \<Rightarrow> string \<Rightarrow> string \<Rightarrow> int \<Rightarrow> work_table \<Rightarrow> bool \<times> work_table) \<Rightarrow> RunClaim \<Rightarrow> bool tx" where
  "claim_step f c = work_step (f (rc_run_id c) (rc_worker_id c) (rc_claim_token c) (rc_claim_generation c))"

definition remove_if_claimed :: "RunClaim \<Rightarrow> instant \<Rightarrow> bool tx" where
  "remove_if_claimed c now = claim_step (\<lambda>i w k g. wq_remove_if_claimed i w k g now) c"

definition RenewRunLease :: "int \<Rightarrow> RunClaim \<Rightarrow> instant \<Rightarrow> instant tx" where
  "RenewRunLease lease_duration c now =
     tx_bind (claim_step (\<lambda>i w k g. wq_renew_lease i w k g now (now + lease_duration)) c) (\<lambda>renewed.
     tx_bind (tx_guard renewed (ClaimLost (''lease renewal lost for run '' @ id_str (rc_run_id c)))) (\<lambda>_.
     tx_return (now + lease_duration)))"

definition ReleaseRunClaim :: "RunClaim \<Rightarrow> instant \<Rightarrow> unit tx" where
  "ReleaseRunClaim c now =
     tx_bind (claim_step (\<lambda>i w k g. wq_release_claim i w k g now) c) (\<lambda>released.
     tx_guard released (ClaimLost (''claim release lost for run '' @ id_str (rc_run_id c))))"

definition RequeueClaimedRun :: "RunClaim \<Rightarrow> instant \<Rightarrow> instant \<Rightarrow> unit tx" where
  "RequeueClaimedRun c available_at now =
     tx_bind (claim_step (\<lambda>i w k g. wq_requeue_claimed i w k g available_at now now) c) (\<lambda>requeued.
     tx_guard requeued (ClaimLost (''requeue lost claim for run '' @ id_str (rc_run_id c))))"

definition CompleteRunWorkItem :: "RunClaim \<Rightarrow> instant \<Rightarrow> unit tx" where
  "CompleteRunWorkItem c now =
     tx_bind (remove_if_claimed c now) (\<lambda>removed.
     tx_guard removed (ClaimLost (''work item completion lost claim for run '' @ id_str (rc_run_id c))))"

definition is_claim_active :: "RunClaim \<Rightarrow> instant \<Rightarrow> run_db \<Rightarrow> bool" where
  "is_claim_active c now db \<longleftrightarrow> wq_is_claim_active (rc_run_id c) (rc_worker_id c) (rc_claim_token c)
     (rc_claim_generation c) now (rd_work db)"

definition VerifyRunClaim :: "RunClaim \<Rightarrow> instant \<Rightarrow> bool tx" where
  "VerifyRunClaim c now = tx_get (is_claim_active c now)"

section \<open>Outcomes\<close>

definition materialize_retry :: "RetryPolicy \<Rightarrow> Run \<Rightarrow> int \<Rightarrow> instant \<Rightarrow> unit tx" where
  "materialize_retry policy run attempt_number now =
     tx_bind fresh_id (\<lambda>i.
     tx_bind (tx_lift (lift_domain (run_new i (rn_task_id run) (utc now) (Some (rn_execution_id run))))) (\<lambda>retry.
     tx_bind (runs_add retry) (\<lambda>_.
     tx_bind (inherit_frozen_resolutions_in_uow run retry) (\<lambda>_.
     tx_bind (tx_lift (lift_domain (compute_delay policy (attempt_number + 1)))) (\<lambda>delay.
     tx_bind (work_enqueue (rn_id retry) (now + delay) now) (\<lambda>_.
     append_run_events retry now
       [(RUN_CREATED, payload [(''task_id'', id_value (rn_task_id run)), (''retry_of'', id_value (rn_id run))], None)]))))))"

definition ApplyFailedOutcome :: "RetryPolicy \<Rightarrow> RunClaim \<Rightarrow> Failure \<Rightarrow> instant \<Rightarrow> Run tx" where
  "ApplyFailedOutcome policy c failure now =
     tx_bind (tx_get (runs_get (rc_run_id c))) (\<lambda>found.
     tx_bind (tx_found (RunNotFound (rc_run_id c)) found) (\<lambda>run.
     tx_bind (tx_get (runs_lock_execution_lineage (rn_execution_id run))) (\<lambda>locked.
     tx_bind (tx_guard locked (RunNotFound (rc_run_id c))) (\<lambda>_.
     tx_bind (remove_if_claimed c now) (\<lambda>removed.
     tx_bind (tx_guard removed (ClaimLost (''failed outcome lost claim for run '' @ id_str (rc_run_id c)))) (\<lambda>_.
     tx_bind (fail_run_event_specs run now failure) (\<lambda>(failed, specs).
     tx_bind (append_run_events failed now specs) (\<lambda>_.
     tx_bind (materialize_skill_usage_in_uow (rn_id failed) now) (\<lambda>_.
     tx_bind (tx_get (runs_ordinal_for_execution (rn_id failed))) (\<lambda>attempt_number.
     tx_bind (if is_retry_allowed policy attempt_number failure
              then materialize_retry policy failed attempt_number now
              else reconcile_child_terminal_in_uow failed now) (\<lambda>_.
     tx_return failed)))))))))))"

definition final_response_specs :: "(string \<times> pyval) option \<Rightarrow> event_spec list" where
  "final_response_specs final_response =
     (case final_response of
        None \<Rightarrow> []
      | Some (summary, details) \<Rightarrow>
          [(AGENT_FINISHED, payload [(''summary'', PyStr (take 4000 summary)), (''details'', details)], None)])"

definition ApplySucceededOutcome :: "RunClaim \<Rightarrow> (string \<times> pyval) option \<Rightarrow> instant \<Rightarrow> Run tx" where
  "ApplySucceededOutcome c final_response now =
     tx_bind (tx_get (runs_get (rc_run_id c))) (\<lambda>found.
     tx_bind (tx_found (RunNotFound (rc_run_id c)) found) (\<lambda>run.
     tx_bind (tx_get (steps_list_for_run (rn_id run))) (\<lambda>steps.
     tx_bind (tx_guard (\<not> list_ex (\<lambda>s. st_status s \<notin> set TERMINAL_RUN_STEP_STATUSES) steps)
       (EntityConflict ''run has non-terminal steps'')) (\<lambda>_.
     tx_bind (tx_get (tools_list_for_run (rn_id run))) (\<lambda>tools.
     tx_bind (tx_guard (\<not> list_ex (\<lambda>t. ti_status t \<notin> set TERMINAL_TOOL_INVOCATION_STATUSES) tools)
       (EntityConflict ''run has non-terminal tool invocations'')) (\<lambda>_.
     tx_bind (tx_get (\<lambda>db. steps_has_non_terminal_for_run (rc_run_id c) db \<or>
       tools_has_non_terminal_for_run (rc_run_id c) db)) (\<lambda>open_children.
     tx_bind (tx_guard (\<not> open_children) (EntityConflict ''run has non-terminal children'')) (\<lambda>_.
     tx_bind (tx_get (approvals_has_pending_for_run (rc_run_id c))) (\<lambda>pending.
     tx_bind (tx_guard (\<not> pending) (EntityConflict ''run has pending approvals'')) (\<lambda>_.
     tx_bind (tx_get (delegations_has_dispatched_for_run (rc_run_id c))) (\<lambda>busy.
     tx_bind (tx_guard (\<not> busy) (EntityConflict ''run has an active delegation'')) (\<lambda>_.
     tx_bind (remove_if_claimed c now) (\<lambda>removed.
     tx_bind (tx_guard removed (ClaimLost (''successful outcome lost claim for run '' @ id_str (rc_run_id c)))) (\<lambda>_.
     tx_bind (succeed_run_event_specs run now) (\<lambda>(done, specs).
     tx_bind (append_run_events done now (final_response_specs final_response @ specs)) (\<lambda>_.
     tx_bind (reconcile_child_terminal_in_uow done now) (\<lambda>_.
     tx_bind (materialize_skill_usage_in_uow (rn_id done) now) (\<lambda>_.
     tx_return done))))))))))))))))))"

text \<open>
  What both waiting outcomes do once the run and the thing it waits for are loaded: \<open>resolved\<close> says
  that it is settled, \<open>checks\<close> are the checks on a run that does wait.
\<close>

definition apply_waiting ::
  "RunClaim \<Rightarrow> Run \<Rightarrow> bool \<Rightarrow> app_error \<Rightarrow> app_error \<Rightarrow> unit tx \<Rightarrow> app_error \<Rightarrow> instant \<Rightarrow> Run tx" where
  "apply_waiting c run resolved stale late checks lost now =
     tx_bind (tx_get (\<lambda>db. wq_get (rc_run_id c) (rd_work db))) (\<lambda>item.
     if rn_status run = RunStatus.RUNNING \<and> resolved then
       (case item of
          None \<Rightarrow> tx_return run
        | Some i \<Rightarrow>
            tx_bind (tx_guard (claimed_as (rc_worker_id c) (rc_claim_token c) (rc_claim_generation c) i) stale)
              (\<lambda>_. tx_raise late))
     else
       tx_bind checks (\<lambda>_.
       case item of
         None \<Rightarrow> tx_return run
       | Some i \<Rightarrow>
           tx_bind (remove_if_claimed c now) (\<lambda>removed.
           tx_bind (tx_guard removed lost) (\<lambda>_. tx_return run))))"

definition ApplyWaitingOutcome :: "RunClaim \<Rightarrow> ApprovalRequestId \<Rightarrow> instant \<Rightarrow> Run tx" where
  "ApplyWaitingOutcome c approval_request_id now =
     tx_bind (tx_get (runs_get (rc_run_id c))) (\<lambda>found.
     tx_bind (tx_found (RunNotFound (rc_run_id c)) found) (\<lambda>run.
     tx_bind (tx_get (approvals_get approval_request_id)) (\<lambda>request.
     tx_bind (tx_found (ApprovalNotFound approval_request_id) request) (\<lambda>approval.
     tx_bind (tx_guard (ap_run_id approval = Some (rn_id run))
       (EntityConflict ''approval request does not belong to run'')) (\<lambda>_.
     apply_waiting c run (ap_status approval \<in> set TERMINAL_APPROVAL_STATUSES)
       (ClaimLost (''stale waiting outcome for run '' @ id_str (rc_run_id c)))
       (EntityConflict ''processor reported waiting_for_approval after approval resolution'')
       (tx_bind (tx_guard (rn_status run = RunStatus.WAITING_FOR_APPROVAL)
          (EntityConflict ''processor reported waiting_for_approval but the run is not waiting'')) (\<lambda>_.
        tx_bind (tx_guard (rn_approval_request_id run = Some (ap_id approval))
          (EntityConflict ''run is waiting for a different approval request'')) (\<lambda>_.
        tx_guard (ap_status approval = ApprovalStatus.PENDING \<or>
            ap_status approval \<in> set TERMINAL_APPROVAL_STATUSES)
          (EntityConflict ''approval request has an invalid status''))))
       (ClaimLost (''waiting outcome lost claim for run '' @ id_str (rc_run_id c))) now)))))"

definition ApplyWaitingForDelegationOutcome :: "RunClaim \<Rightarrow> DelegationRequestId \<Rightarrow> instant \<Rightarrow> Run tx" where
  "ApplyWaitingForDelegationOutcome c delegation_request_id now =
     tx_bind (tx_get (runs_get (rc_run_id c))) (\<lambda>found.
     tx_bind (tx_found (RunNotFound (rc_run_id c)) found) (\<lambda>run.
     tx_bind (tx_get (delegations_get delegation_request_id)) (\<lambda>row.
     tx_bind (tx_found (DelegationRequestNotFound delegation_request_id) row) (\<lambda>request.
     tx_bind (tx_guard (dg_parent_run_id request = rn_id run)
       (EntityConflict ''delegation request does not belong to run'')) (\<lambda>_.
     apply_waiting c run
       (dg_status request \<in> {DelegationStatus.SUCCEEDED, DelegationStatus.FAILED, DelegationStatus.CANCELLED})
       (ClaimLost (''stale waiting delegation outcome for run '' @ id_str (rc_run_id c)))
       (EntityConflict ''processor reported waiting_for_delegation after delegation resolution'')
       (tx_bind (tx_guard (rn_status run = RunStatus.WAITING_FOR_DELEGATION)
          (EntityConflict ''processor reported waiting_for_delegation but the run is not waiting'')) (\<lambda>_.
        tx_bind (tx_guard (rn_delegation_request_id run = Some (dg_id request))
          (EntityConflict ''run is waiting for a different delegation request'')) (\<lambda>_.
        tx_guard (dg_status request = DelegationStatus.DISPATCHED)
          (EntityConflict ''delegation request has an invalid status''))))
       (ClaimLost (''waiting delegation outcome lost claim for run '' @ id_str (rc_run_id c))) now)))))"

section \<open>Recovery of expired leases\<close>

definition recover_item :: "instant \<Rightarrow> RunWorkItem \<Rightarrow> bool tx" where
  "recover_item now item =
     tx_bind (tx_get (runs_get (wi_run_id item))) (\<lambda>found.
     if (case found of None \<Rightarrow> True | Some run \<Rightarrow> parked (rn_status run))
     then work_step (wq_remove_if_lease_expired (wi_run_id item) now)
     else work_step (wq_clear_expired_claim (wi_run_id item) now))"

definition RecoverExpiredLeases :: "nat \<Rightarrow> instant \<Rightarrow> nat tx" where
  "RecoverExpiredLeases batch_size now =
     tx_bind (tx_get (\<lambda>db. wq_find_expired_claims now batch_size (rd_work db))) (\<lambda>expired_items.
     tx_bind (tx_each (recover_item now) expired_items) (\<lambda>hits.
     tx_return (length (filter (\<lambda>b. b) hits))))"

end
