(* ===== verification/Run_Core.thy ===== *)
theory Run_Core
  imports Worker_Coordination Claim_Fence
begin

text \<open>
  The abstract specification of run coordination. A \<open>run_core\<close> is what matters of the database for
  it: the runs, their work items, the approvals and the delegations, each by identifier.
  \<open>core_step\<close> is what a transaction may do to it, one rule per kind of change; it carries the claim
  tokens the change introduces. \<open>core_inv\<close> says that every unfinished run is tracked: a queued or running run
  has a work item, and a waiting run waits for something that is still open. Every rule keeps it, and
  a terminal run, a resolved approval and a settled delegation never change again.
\<close>

section \<open>The abstract state machine\<close>

record run_core =
  co_runs :: "RunId \<Rightarrow> Run option"
  co_work :: "RunId \<Rightarrow> RunWorkItem option"
  co_approvals :: "ApprovalRequestId \<Rightarrow> ApprovalRequest option"
  co_delegations :: "DelegationRequestId \<Rightarrow> DelegationRequest option"

definition put_run :: "Run \<Rightarrow> run_core \<Rightarrow> run_core" where
  "put_run r c = c\<lparr>co_runs := (co_runs c)(rn_id r \<mapsto> r)\<rparr>"

definition put_item :: "RunId \<Rightarrow> RunWorkItem option \<Rightarrow> run_core \<Rightarrow> run_core" where
  "put_item i w c = c\<lparr>co_work := (co_work c)(i := w)\<rparr>"

definition put_approval :: "ApprovalRequest \<Rightarrow> run_core \<Rightarrow> run_core" where
  "put_approval a c = c\<lparr>co_approvals := (co_approvals c)(ap_id a \<mapsto> a)\<rparr>"

definition put_delegation :: "DelegationRequest \<Rightarrow> run_core \<Rightarrow> run_core" where
  "put_delegation d c = c\<lparr>co_delegations := (co_delegations c)(dg_id d \<mapsto> d)\<rparr>"

definition enqueue_run :: "RunId \<Rightarrow> instant \<Rightarrow> instant \<Rightarrow> run_core \<Rightarrow> run_core" where
  "enqueue_run i a e c = put_item i (Some (enqueued i a e (co_work c i))) c"

lemmas core_put = put_run_def put_item_def put_approval_def put_delegation_def enqueue_run_def

definition waits_for_approval :: "Run \<Rightarrow> ApprovalRequestId \<Rightarrow> bool" where
  "waits_for_approval r a \<longleftrightarrow>
     rn_status r = RunStatus.WAITING_FOR_APPROVAL \<and> rn_approval_request_id r = Some a"

definition waits_for_delegation :: "Run \<Rightarrow> DelegationRequestId \<Rightarrow> bool" where
  "waits_for_delegation r d \<longleftrightarrow>
     rn_status r = RunStatus.WAITING_FOR_DELEGATION \<and> rn_delegation_request_id r = Some d"

text \<open>The changes of a run that concern nothing else.\<close>

fun quiet :: "run_call \<Rightarrow> bool" where
  "quiet (RunStart t) \<longleftrightarrow> True"
| "quiet (RunSucceed t) \<longleftrightarrow> True"
| "quiet (RunFail t f) \<longleftrightarrow> True"
| "quiet (RunCancel t) \<longleftrightarrow> True"
| "quiet _ \<longleftrightarrow> False"

text \<open>A delegation as a settlement leaves it.\<close>

definition settled :: "DelegationRequest \<Rightarrow> DelegationRequest \<Rightarrow> bool" where
  "settled d d' \<longleftrightarrow> dg_status d = DelegationStatus.DISPATCHED \<and>
     (\<exists>s t f. s \<in> set TERMINAL_DELEGATION_STATUSES \<and>
        d' = d\<lparr>dg_status := s, dg_completed_at := Some t, dg_failure_code := f\<rparr>)"

definition resolves :: "ApprovalRequest \<Rightarrow> ApprovalRequest \<Rightarrow> bool" where
  "resolves a a' \<longleftrightarrow> (\<exists>target t who note.
     target \<in> set TERMINAL_APPROVAL_STATUSES \<and> approval_resolve target t who note a = Done a')"

inductive core_step :: "string set \<Rightarrow> run_core \<Rightarrow> run_core \<Rightarrow> bool" where
  create: "co_runs c (rn_id r) = None \<Longrightarrow> run_inv r \<Longrightarrow> rn_status r = RunStatus.QUEUED \<Longrightarrow>
    core_step {} c (enqueue_run (rn_id r) a e (put_run r c))"
| advance: "co_runs c i = Some r \<Longrightarrow> quiet x \<Longrightarrow> run_step x r = Done r' \<Longrightarrow>
    core_step {} c (put_run r' c)"
| claim: "co_runs c i = Some r \<Longrightarrow> rn_status r = RunStatus.RUNNING \<Longrightarrow> co_work c i = Some w \<Longrightarrow>
    core_step {token} c (put_item i (Some (take_claim worker token now e w)) c)"
| claim_start: "co_runs c i = Some r \<Longrightarrow> run_start t r = Done r' \<Longrightarrow> co_work c i = Some w \<Longrightarrow>
    core_step {token} c (put_run r' (put_item i (Some (take_claim worker token now e w)) c))"
| discard: "(\<And>r. co_runs c i = Some r \<Longrightarrow> parked (rn_status r)) \<Longrightarrow> core_step {} c (put_item i None c)"
| renew: "co_work c i = Some w \<Longrightarrow> wi_claimed_by w \<noteq> None \<Longrightarrow>
    core_step {} c (put_item i (Some (w\<lparr>wi_heartbeat_at := Some now, wi_lease_expires_at := Some e\<rparr>)) c)"
| release: "co_work c i = Some w \<Longrightarrow>
    core_step {} c (put_item i (Some (unclaim (w\<lparr>wi_available_at := a, wi_enqueued_at := e\<rparr>))) c)"
| park: "co_runs c i = Some r \<Longrightarrow> run_wait_for_approval t (ap_id p) r = Done r' \<Longrightarrow>
    co_approvals c (ap_id p) = None \<Longrightarrow> ap_status p = ApprovalStatus.PENDING \<Longrightarrow> ap_run_id p = Some i \<Longrightarrow>
    core_step {} c (put_run r' (put_approval p c))"
| resolve_idle: "co_approvals c a = Some p \<Longrightarrow> resolves p p' \<Longrightarrow>
    (\<And>i r. ap_run_id p = Some i \<Longrightarrow> co_runs c i = Some r \<Longrightarrow> \<not> waits_for_approval r a) \<Longrightarrow>
    core_step {} c (put_approval p' c)"
| resolve_waking: "co_approvals c a = Some p \<Longrightarrow> resolves p p' \<Longrightarrow> co_runs c i = Some r \<Longrightarrow>
    waits_for_approval r a \<Longrightarrow> run_resume t r = Done r' \<Longrightarrow>
    core_step {} c (enqueue_run i av e (put_run r' (put_approval p' c)))"
| consume: "co_approvals c a = Some p \<Longrightarrow> approval_consume t p = Done p' \<Longrightarrow>
    core_step {} c (put_approval p' c)"
| request: "co_delegations c (dg_id d) = None \<Longrightarrow> core_step {} c (put_delegation d c)"
| dispatch: "co_runs c i = Some r \<Longrightarrow> run_wait_for_delegation t (dg_id d) r = Done r' \<Longrightarrow>
    co_delegations c (dg_id d) = None \<Longrightarrow> dg_status d = DelegationStatus.DISPATCHED \<Longrightarrow>
    dg_parent_run_id d = i \<Longrightarrow> core_step {} c (put_run r' (put_delegation d c))"
| settle_idle: "co_delegations c g = Some d \<Longrightarrow> settled d d' \<Longrightarrow>
    (\<And>r. co_runs c (dg_parent_run_id d) = Some r \<Longrightarrow> \<not> waits_for_delegation r g) \<Longrightarrow>
    core_step {} c (put_delegation d' c)"
| settle_waking: "co_delegations c g = Some d \<Longrightarrow> settled d d' \<Longrightarrow> co_runs c i = Some r \<Longrightarrow>
    waits_for_delegation r g \<Longrightarrow> run_resume_from_delegation t r = Done r' \<Longrightarrow>
    core_step {} c (enqueue_run i av e (put_run r' (put_delegation d' c)))"

section \<open>Invariant\<close>

definition core_keys :: "run_core \<Rightarrow> bool" where
  "core_keys c \<longleftrightarrow>
     (\<forall>i r. co_runs c i = Some r \<longrightarrow> rn_id r = i) \<and> (\<forall>i w. co_work c i = Some w \<longrightarrow> wi_run_id w = i) \<and>
     (\<forall>a p. co_approvals c a = Some p \<longrightarrow> ap_id p = a) \<and>
     (\<forall>g d. co_delegations c g = Some d \<longrightarrow> dg_id d = g)"

definition runs_ok :: "run_core \<Rightarrow> bool" where
  "runs_ok c \<longleftrightarrow> (\<forall>i r. co_runs c i = Some r \<longrightarrow> run_inv r)"

definition items_ok :: "run_core \<Rightarrow> bool" where
  "items_ok c \<longleftrightarrow> (\<forall>i w. co_work c i = Some w \<longrightarrow> item_ok w \<and> co_runs c i \<noteq> None)"

definition runnable_ok :: "run_core \<Rightarrow> bool" where
  "runnable_ok c \<longleftrightarrow> (\<forall>i r. co_runs c i = Some r \<longrightarrow>
     (rn_status r = RunStatus.QUEUED \<longrightarrow> (\<exists>w. co_work c i = Some w \<and> wi_claimed_by w = None)) \<and>
     (rn_status r = RunStatus.RUNNING \<longrightarrow> co_work c i \<noteq> None))"

definition approval_waits_ok :: "run_core \<Rightarrow> bool" where
  "approval_waits_ok c \<longleftrightarrow> (\<forall>i r a. co_runs c i = Some r \<longrightarrow> waits_for_approval r a \<longrightarrow>
     (\<exists>p. co_approvals c a = Some p \<and> ap_status p = ApprovalStatus.PENDING \<and> ap_run_id p = Some i))"

definition delegation_waits_ok :: "run_core \<Rightarrow> bool" where
  "delegation_waits_ok c \<longleftrightarrow> (\<forall>i r g. co_runs c i = Some r \<longrightarrow> waits_for_delegation r g \<longrightarrow>
     (\<exists>d. co_delegations c g = Some d \<and> dg_status d = DelegationStatus.DISPATCHED \<and> dg_parent_run_id d = i))"

definition core_inv :: "run_core \<Rightarrow> bool" where
  "core_inv c \<longleftrightarrow> core_keys c \<and> runs_ok c \<and> items_ok c \<and> runnable_ok c \<and> approval_waits_ok c \<and>
     delegation_waits_ok c"

lemma resolves_ident: "resolves a a' \<Longrightarrow> ap_id a' = ap_id a \<and> ap_run_id a' = ap_run_id a"
  by (auto simp: resolves_def approval_resolve_def outcome_simps)

lemma resolves_status:
  "resolves a a' \<Longrightarrow> ap_status a = ApprovalStatus.PENDING \<and> ap_status a' \<in> set TERMINAL_APPROVAL_STATUSES"
  by (auto simp: resolves_def approval_resolve_def approval_require_status_def outcome_simps)

lemma settled_ident: "settled d d' \<Longrightarrow> dg_id d' = dg_id d \<and> dg_parent_run_id d' = dg_parent_run_id d"
  by (auto simp: settled_def)

lemma consume_ident:
  "approval_consume t p = Done p' \<Longrightarrow>
   ap_id p' = ap_id p \<and> ap_run_id p' = ap_run_id p \<and> ap_status p' = ap_status p \<and> ap_status p = ApprovalStatus.APPROVED"
  by (auto simp: approval_consume_def outcome_simps)

lemma run_step_id: "run_step x r = Done r' \<Longrightarrow> rn_id r' = rn_id r"
  using run_step_ident [of x r r'] by (simp add: run_ident_def)

text \<open>The methods the rules name, as calls of the lifecycle.\<close>

lemma named_run_steps:
  "run_start t r = Done r' \<Longrightarrow> run_step (RunStart t) r = Done r'"
  "run_wait_for_approval t a r = Done r' \<Longrightarrow> run_step (RunWaitForApproval t a) r = Done r'"
  "run_resume t r = Done r' \<Longrightarrow> run_step (RunResume t) r = Done r'"
  "run_wait_for_delegation t g r = Done r' \<Longrightarrow> run_step (RunWaitForDelegation t g) r = Done r'"
  "run_resume_from_delegation t r = Done r' \<Longrightarrow> run_step (RunResumeFromDelegation t) r = Done r'"
  by simp_all

lemma run_status_after:
  "run_start t r = Done r' \<Longrightarrow> rn_status r = RunStatus.QUEUED \<and> rn_status r' = RunStatus.RUNNING"
  "run_wait_for_approval t a r = Done r' \<Longrightarrow>
     rn_status r = RunStatus.RUNNING \<and> rn_status r' = RunStatus.WAITING_FOR_APPROVAL \<and> rn_approval_request_id r' = Some a"
  "run_resume t r = Done r' \<Longrightarrow>
     rn_status r \<in> {RunStatus.WAITING_FOR_APPROVAL, RunStatus.WAITING_FOR_DELEGATION} \<and> rn_status r' = RunStatus.RUNNING"
  "run_wait_for_delegation t g r = Done r' \<Longrightarrow>
     rn_status r = RunStatus.RUNNING \<and> rn_status r' = RunStatus.WAITING_FOR_DELEGATION \<and> rn_delegation_request_id r' = Some g"
  "run_resume_from_delegation t r = Done r' \<Longrightarrow>
     rn_status r = RunStatus.WAITING_FOR_DELEGATION \<and> rn_status r' = RunStatus.RUNNING"
  by (auto simp: run_defs outcome_simps)

lemma quiet_status_after:
  "quiet x \<Longrightarrow> run_step x r = Done r' \<Longrightarrow>
   rn_status r = RunStatus.QUEUED \<and> rn_status r' = RunStatus.RUNNING \<or> rn_status r' \<in> set TERMINAL_RUN_STATUSES"
  by (cases x) (auto simp: run_defs outcome_simps TERMINAL_RUN_STATUSES_def)

section \<open>Every step keeps the invariant\<close>

lemma enqueued_id: "(\<And>w. x = Some w \<Longrightarrow> wi_run_id w = i) \<Longrightarrow> wi_run_id (enqueued i a e x) = i"
  by (cases x) (simp_all add: enqueued_def new_item_def)

lemma keys_put:
  "core_keys c \<Longrightarrow> core_keys (put_run r c)"
  "core_keys c \<Longrightarrow> core_keys (put_approval p c)"
  "core_keys c \<Longrightarrow> core_keys (put_delegation d c)"
  "core_keys c \<Longrightarrow> (\<And>w. x = Some w \<Longrightarrow> wi_run_id w = i) \<Longrightarrow> core_keys (put_item i x c)"
  "core_keys c \<Longrightarrow> core_keys (enqueue_run i a e c)"
  by (simp_all add: core_keys_def core_put enqueued_id)

lemma core_step_keys: "core_step T c c' \<Longrightarrow> core_keys c \<Longrightarrow> core_keys c'"
  by (induction rule: core_step.induct) (auto intro!: keys_put, auto simp: core_keys_def)

lemma runs_ok_put:
  "runs_ok c \<Longrightarrow> run_inv r \<Longrightarrow> runs_ok (put_run r c)"
  "runs_ok (put_approval p c) = runs_ok c"
  "runs_ok (put_delegation d c) = runs_ok c"
  "runs_ok (put_item i x c) = runs_ok c"
  "runs_ok (enqueue_run i a e c) = runs_ok c"
  by (simp_all add: runs_ok_def core_put)

lemma runs_okD: "runs_ok c \<Longrightarrow> co_runs c i = Some r \<Longrightarrow> run_step x r = Done r' \<Longrightarrow> run_inv r'"
  by (auto simp: runs_ok_def intro: run_step_inv)

lemma core_step_runs_ok: "core_step T c c' \<Longrightarrow> runs_ok c \<Longrightarrow> runs_ok c'"
  by (induction rule: core_step.induct)
     (auto simp: runs_ok_put(2-) intro!: runs_ok_put(1) intro: runs_okD named_run_steps)

lemma items_ok_put:
  "items_ok c \<Longrightarrow> items_ok (put_run r c)"
  "items_ok (put_approval p c) = items_ok c"
  "items_ok (put_delegation d c) = items_ok c"
  "items_ok c \<Longrightarrow> (\<And>w. x = Some w \<Longrightarrow> item_ok w \<and> co_runs c i \<noteq> None) \<Longrightarrow> items_ok (put_item i x c)"
  by (auto simp: items_ok_def core_put)

lemma items_ok_enqueue: "items_ok c \<Longrightarrow> co_runs c i \<noteq> None \<Longrightarrow> items_ok (enqueue_run i a e c)"
  unfolding enqueue_run_def
  by (rule items_ok_put(4)) (auto simp: items_ok_def pred_option_def intro!: item_ok_enqueued)

lemma co_runs_put [simp]:
  "co_runs (put_run r c) = (co_runs c)(rn_id r \<mapsto> r)"
  "co_runs (put_item i x c) = co_runs c"
  "co_runs (put_approval p c) = co_runs c"
  "co_runs (put_delegation d c) = co_runs c"
  "co_runs (enqueue_run i a e c) = co_runs c"
  by (simp_all add: core_put)

lemma co_work_put [simp]:
  "co_work (put_run r c) = co_work c"
  "co_work (put_item i x c) = (co_work c)(i := x)"
  "co_work (put_approval p c) = co_work c"
  "co_work (put_delegation d c) = co_work c"
  "co_work (enqueue_run i a e c) = (co_work c)(i \<mapsto> enqueued i a e (co_work c i))"
  by (simp_all add: core_put)

lemma co_approvals_put [simp]:
  "co_approvals (put_run r c) = co_approvals c"
  "co_approvals (put_item i x c) = co_approvals c"
  "co_approvals (put_approval p c) = (co_approvals c)(ap_id p \<mapsto> p)"
  "co_approvals (put_delegation d c) = co_approvals c"
  "co_approvals (enqueue_run i a e c) = co_approvals c"
  by (simp_all add: core_put)

lemma co_delegations_put [simp]:
  "co_delegations (put_run r c) = co_delegations c"
  "co_delegations (put_item i x c) = co_delegations c"
  "co_delegations (put_approval p c) = co_delegations c"
  "co_delegations (put_delegation d c) = (co_delegations c)(dg_id d \<mapsto> d)"
  "co_delegations (enqueue_run i a e c) = co_delegations c"
  by (simp_all add: core_put)

lemma item_ok_renew: "item_ok w \<Longrightarrow> wi_claimed_by w \<noteq> None \<Longrightarrow>
   item_ok (w\<lparr>wi_heartbeat_at := h, wi_lease_expires_at := Some e\<rparr>)"
  by (auto simp: item_ok_def)

lemma core_step_items_ok: "core_step T c c' \<Longrightarrow> items_ok c \<Longrightarrow> items_ok c'"
  by (induction rule: core_step.induct)
     (auto intro!: items_ok_put items_ok_enqueue item_ok_renew simp: items_ok_put(2,3), auto simp: items_ok_def)

lemma items_okD: "items_ok c \<Longrightarrow> co_work c i = Some w \<Longrightarrow> item_ok w \<and> co_runs c i \<noteq> None"
  by (simp add: items_ok_def)

lemma parked_status:
  "parked s \<longleftrightarrow> s \<noteq> RunStatus.QUEUED \<and> s \<noteq> RunStatus.RUNNING"
  by (cases s) (simp_all add: parked_def TERMINAL_RUN_STATUSES_def)

lemma claimed_by_enqueued: "wi_claimed_by (enqueued i a e None) = None"
  by (simp add: enqueued_def new_item_def)

lemma runnable_queued:
  "runnable_ok c \<Longrightarrow> co_runs c i = Some r \<Longrightarrow> rn_status r = RunStatus.QUEUED \<Longrightarrow>
   \<exists>w. co_work c i = Some w \<and> wi_claimed_by w = None"
  by (simp add: runnable_ok_def)

lemma runnable_put:
  "runnable_ok c \<Longrightarrow> parked (rn_status r) \<Longrightarrow> runnable_ok (put_run r c)"
  "runnable_ok (put_approval p c) = runnable_ok c"
  "runnable_ok (put_delegation d c) = runnable_ok c"
  by (auto simp: runnable_ok_def parked_status)

lemma runnable_running:
  "runnable_ok c \<Longrightarrow> co_work c (rn_id r) \<noteq> None \<Longrightarrow> rn_status r = RunStatus.RUNNING \<Longrightarrow>
   runnable_ok (put_run r c)"
  by (auto simp: runnable_ok_def)

lemma runnable_item:
  "runnable_ok c \<Longrightarrow> (\<And>r. co_runs c i = Some r \<Longrightarrow> rn_status r \<noteq> RunStatus.QUEUED) \<Longrightarrow>
   runnable_ok (put_item i (Some w) c)"
  "runnable_ok c \<Longrightarrow> wi_claimed_by w = None \<Longrightarrow> runnable_ok (put_item i (Some w) c)"
  "runnable_ok c \<Longrightarrow> (\<And>r. co_runs c i = Some r \<Longrightarrow> parked (rn_status r)) \<Longrightarrow> runnable_ok (put_item i None c)"
  by (auto simp: runnable_ok_def parked_status)

lemma runnable_enqueue_running:
  "runnable_ok c \<Longrightarrow> rn_status r = RunStatus.RUNNING \<Longrightarrow> runnable_ok (enqueue_run (rn_id r) a e (put_run r c))"
  by (auto simp: runnable_ok_def)

lemma core_step_runnable:
  "core_step T c c' \<Longrightarrow> core_keys c \<Longrightarrow> items_ok c \<Longrightarrow> runnable_ok c \<Longrightarrow> runnable_ok c'"
proof (induction rule: core_step.induct)
  case (create c r a e)
  then have "co_work c (rn_id r) = None" using items_okD by (metis option.exhaust)
  with create show ?case by (auto simp: runnable_ok_def claimed_by_enqueued)
next
  case (advance c i r x r')
  then have i: "rn_id r' = i" by (auto simp: core_keys_def dest: run_step_id)
  from quiet_status_after [OF advance(2,3)] show ?case
  proof
    assume s: "rn_status r = RunStatus.QUEUED \<and> rn_status r' = RunStatus.RUNNING"
    with advance have "co_work c i \<noteq> None" by (auto simp: runnable_ok_def)
    with s i advance show ?thesis by (auto intro!: runnable_running)
  next
    assume "rn_status r' \<in> set TERMINAL_RUN_STATUSES"
    then show ?thesis using advance by (auto intro!: runnable_put simp: parked_def)
  qed
next
  case (claim c i r w token worker now e)
  then show ?case by (auto intro!: runnable_item(1))
next
  case (claim_start c i r t r' w token worker now e)
  then have "rn_id r' = i" using run_step_id [OF named_run_steps(1)] by (auto simp: core_keys_def)
  with claim_start show ?case by (auto simp: runnable_ok_def dest: run_status_after)
next
  case (discard c i)
  then show ?case by (auto intro!: runnable_item(3))
next
  case (renew c i w now e)
  show ?case
  proof (rule runnable_item(1))
    fix r
    assume "co_runs c i = Some r"
    with renew runnable_queued [of c i r] show "rn_status r \<noteq> RunStatus.QUEUED" by auto
  qed (use renew in simp)
next
  case (release c i w a e)
  then show ?case by (auto intro!: runnable_item(2))
next
  case (park c i r t p r')
  then show ?case by (auto intro!: runnable_put(1) simp: runnable_put(2) parked_status dest: run_status_after)
next
  case (resolve_waking c a p p' i r t r' av e)
  then have "rn_id r' = i" using run_step_id [OF named_run_steps(3)] by (auto simp: core_keys_def)
  with resolve_waking show ?case using run_status_after(3) [of t r r']
    by (auto intro!: runnable_enqueue_running simp: runnable_put(2))
next
  case (dispatch c i r t d r')
  then show ?case by (auto intro!: runnable_put(1) simp: runnable_put(3) parked_status dest: run_status_after)
next
  case (settle_waking c g d d' i r t r' av e)
  then have "rn_id r' = i" using run_step_id [OF named_run_steps(5)] by (auto simp: core_keys_def)
  with settle_waking show ?case using run_status_after(5) [of t r r']
    by (auto intro!: runnable_enqueue_running simp: runnable_put(3))
qed (simp_all add: runnable_put)


text \<open>Waiting runs.\<close>

lemma not_waiting:
  "rn_status r \<noteq> RunStatus.WAITING_FOR_APPROVAL \<Longrightarrow> \<not> waits_for_approval r a"
  "rn_status r \<noteq> RunStatus.WAITING_FOR_DELEGATION \<Longrightarrow> \<not> waits_for_delegation r g"
  by (simp_all add: waits_for_approval_def waits_for_delegation_def)

lemma approval_waitsD:
  "approval_waits_ok c \<Longrightarrow> co_runs c i = Some r \<Longrightarrow> waits_for_approval r a \<Longrightarrow>
   \<exists>p. co_approvals c a = Some p \<and> ap_status p = ApprovalStatus.PENDING \<and> ap_run_id p = Some i"
  by (simp add: approval_waits_ok_def)

lemma delegation_waitsD:
  "delegation_waits_ok c \<Longrightarrow> co_runs c i = Some r \<Longrightarrow> waits_for_delegation r g \<Longrightarrow>
   \<exists>d. co_delegations c g = Some d \<and> dg_status d = DelegationStatus.DISPATCHED \<and> dg_parent_run_id d = i"
  by (simp add: delegation_waits_ok_def)

lemma approval_waits_put:
  "approval_waits_ok c \<Longrightarrow> (\<And>a. \<not> waits_for_approval r a) \<Longrightarrow> approval_waits_ok (put_run r c)"
  "approval_waits_ok (put_item i x c) = approval_waits_ok c"
  "approval_waits_ok (put_delegation d c) = approval_waits_ok c"
  "approval_waits_ok (enqueue_run i av e c) = approval_waits_ok c"
  "approval_waits_ok c \<Longrightarrow> (\<And>i r. co_runs c i = Some r \<Longrightarrow> \<not> waits_for_approval r (ap_id p)) \<Longrightarrow>
     approval_waits_ok (put_approval p c)"
  by (auto simp: approval_waits_ok_def)

lemma delegation_waits_put:
  "delegation_waits_ok c \<Longrightarrow> (\<And>g. \<not> waits_for_delegation r g) \<Longrightarrow> delegation_waits_ok (put_run r c)"
  "delegation_waits_ok (put_item i x c) = delegation_waits_ok c"
  "delegation_waits_ok (put_approval p c) = delegation_waits_ok c"
  "delegation_waits_ok (enqueue_run i av e c) = delegation_waits_ok c"
  "delegation_waits_ok c \<Longrightarrow> (\<And>i r. co_runs c i = Some r \<Longrightarrow> \<not> waits_for_delegation r (dg_id d)) \<Longrightarrow>
     delegation_waits_ok (put_delegation d c)"
  by (auto simp: delegation_waits_ok_def)

lemma quiet_not_waiting:
  "quiet x \<Longrightarrow> run_step x r = Done r' \<Longrightarrow> \<not> waits_for_approval r' a \<and> \<not> waits_for_delegation r' g"
  by (cases x) (auto simp: run_defs outcome_simps waits_for_approval_def waits_for_delegation_def)

lemma method_not_waiting:
  "run_start t r = Done r' \<Longrightarrow> \<not> waits_for_approval r' a \<and> \<not> waits_for_delegation r' g"
  "run_resume t r = Done r' \<Longrightarrow> \<not> waits_for_approval r' a \<and> \<not> waits_for_delegation r' g"
  "run_resume_from_delegation t r = Done r' \<Longrightarrow> \<not> waits_for_approval r' a \<and> \<not> waits_for_delegation r' g"
  "run_wait_for_approval t b r = Done r' \<Longrightarrow> \<not> waits_for_delegation r' g"
  "run_wait_for_delegation t h r = Done r' \<Longrightarrow> \<not> waits_for_approval r' a"
  by (auto simp: run_defs outcome_simps waits_for_approval_def waits_for_delegation_def)

lemma core_step_approval_waits:
  "core_step T c c' \<Longrightarrow> core_keys c \<Longrightarrow> approval_waits_ok c \<Longrightarrow> approval_waits_ok c'"
proof (induction rule: core_step.induct)
  case (create c r a e)
  then show ?case by (auto simp: approval_waits_put not_waiting)
next
  case (park c i r t p r')
  then have i: "rn_id r' = i" using run_step_id [OF named_run_steps(2)] by (auto simp: core_keys_def)
  from park(2) have s: "waits_for_approval r' x \<Longrightarrow> x = ap_id p" for x
    by (auto simp: waits_for_approval_def dest: run_status_after)
  from park have "approval_waits_ok (put_approval p c)"
    by (intro approval_waits_put(5)) (auto dest: approval_waitsD)
  with park s i show ?case by (auto simp: approval_waits_ok_def)
next
  case (resolve_idle c a p p')
  then have "ap_id p' = a" by (auto simp: core_keys_def dest!: resolves_ident)
  with resolve_idle show ?case
    by (intro approval_waits_put(5)) (auto dest: approval_waitsD)
next
  case (resolve_waking c a p p' i r t r' av e)
  then have i: "rn_id r' = i" using run_step_id [OF named_run_steps(3)] by (auto simp: core_keys_def)
  from resolve_waking have a: "ap_id p' = a" by (auto simp: core_keys_def dest!: resolves_ident)
  have only: "j = i" if "co_runs c j = Some s" "waits_for_approval s a" for j s
    using approval_waitsD [OF resolve_waking(7) that] approval_waitsD [OF resolve_waking(7,3,4)] resolve_waking(1)
    by simp
  show ?case unfolding approval_waits_put
    unfolding approval_waits_ok_def
  proof (intro allI impI)
    fix j s b
    assume j: "co_runs (put_run r' (put_approval p' c)) j = Some s" and w: "waits_for_approval s b"
    have "j \<noteq> i" using j w i method_not_waiting(2) [OF resolve_waking(5)] by (auto split: if_splits)
    with j i have s: "co_runs c j = Some s" by simp
    then have "b \<noteq> a" using w only \<open>j \<noteq> i\<close> by blast
    with approval_waitsD [OF resolve_waking(7) s w] a
    show "\<exists>q. co_approvals (put_run r' (put_approval p' c)) b = Some q \<and>
        ap_status q = ApprovalStatus.PENDING \<and> ap_run_id q = Some j"
      by simp
  qed
next
  case (consume c a p t p')
  then have "ap_id p' = a" "ap_status p \<noteq> ApprovalStatus.PENDING" by (auto simp: core_keys_def dest!: consume_ident)
  with consume show ?case
    by (intro approval_waits_put(5)) (auto dest: approval_waitsD)
qed (auto simp: approval_waits_put(2-4) dest: quiet_not_waiting method_not_waiting intro!: approval_waits_put(1))


lemma core_step_delegation_waits:
  "core_step T c c' \<Longrightarrow> core_keys c \<Longrightarrow> delegation_waits_ok c \<Longrightarrow> delegation_waits_ok c'"
proof (induction rule: core_step.induct)
  case (create c r a e)
  then show ?case by (auto simp: delegation_waits_put not_waiting)
next
  case (request c d)
  then show ?case by (intro delegation_waits_put(5)) (auto dest: delegation_waitsD)
next
  case (dispatch c i r t d r')
  then have i: "rn_id r' = i" using run_step_id [OF named_run_steps(4)] by (auto simp: core_keys_def)
  from dispatch(2) have s: "waits_for_delegation r' x \<Longrightarrow> x = dg_id d" for x
    by (auto simp: waits_for_delegation_def dest: run_status_after)
  from dispatch have "delegation_waits_ok (put_delegation d c)"
    by (intro delegation_waits_put(5)) (auto dest: delegation_waitsD)
  with dispatch s i show ?case by (auto simp: delegation_waits_ok_def)
next
  case (settle_idle c g d d')
  then have "dg_id d' = g" by (auto simp: core_keys_def dest!: settled_ident)
  with settle_idle show ?case
    by (intro delegation_waits_put(5)) (auto dest: delegation_waitsD)
next
  case (settle_waking c g d d' i r t r' av e)
  then have i: "rn_id r' = i" using run_step_id [OF named_run_steps(5)] by (auto simp: core_keys_def)
  from settle_waking have g: "dg_id d' = g" by (auto simp: core_keys_def dest!: settled_ident)
  have only: "j = i" if "co_runs c j = Some s" "waits_for_delegation s g" for j s
    using delegation_waitsD [OF settle_waking(7) that] delegation_waitsD [OF settle_waking(7,3,4)] by auto
  show ?case unfolding delegation_waits_put
    unfolding delegation_waits_ok_def
  proof (intro allI impI)
    fix j s h
    assume j: "co_runs (put_run r' (put_delegation d' c)) j = Some s" and w: "waits_for_delegation s h"
    have "j \<noteq> i" using j w i method_not_waiting(3) [OF settle_waking(5)] by (auto split: if_splits)
    with j i have s: "co_runs c j = Some s" by simp
    then have "h \<noteq> g" using w only \<open>j \<noteq> i\<close> by blast
    with delegation_waitsD [OF settle_waking(7) s w] g
    show "\<exists>q. co_delegations (put_run r' (put_delegation d' c)) h = Some q \<and>
        dg_status q = DelegationStatus.DISPATCHED \<and> dg_parent_run_id q = j"
      by simp
  qed
qed (auto simp: delegation_waits_put(2-4) dest: quiet_not_waiting method_not_waiting intro!: delegation_waits_put(1))

lemma core_step_inv: "core_step T c c' \<Longrightarrow> core_inv c \<Longrightarrow> core_inv c'"
  unfolding core_inv_def
  by (blast intro: core_step_keys core_step_runs_ok core_step_items_ok core_step_runnable
      core_step_approval_waits core_step_delegation_waits)

section \<open>What never changes again\<close>

definition keeps :: "('a \<Rightarrow> bool) \<Rightarrow> ('k \<Rightarrow> 'a option) \<Rightarrow> ('k \<Rightarrow> 'a option) \<Rightarrow> bool" where
  "keeps P m m' \<longleftrightarrow> (\<forall>k x. m k = Some x \<longrightarrow> P x \<longrightarrow> m' k = Some x)"

lemma keeps_refl [simp]: "keeps P m m"
  by (simp add: keeps_def)

lemma keeps_trans: "keeps P m m' \<Longrightarrow> keeps P m' m'' \<Longrightarrow> keeps P m m''"
  by (simp add: keeps_def)

lemma keeps_upd: "(\<And>x. m k = Some x \<Longrightarrow> \<not> P x) \<Longrightarrow> keeps P m (m(k := v))"
  by (auto simp: keeps_def)

definition run_over :: "Run \<Rightarrow> bool" where
  "run_over r \<longleftrightarrow> rn_status r \<in> set TERMINAL_RUN_STATUSES"

definition delegation_over :: "DelegationRequest \<Rightarrow> bool" where
  "delegation_over d \<longleftrightarrow> dg_status d \<in> set TERMINAL_DELEGATION_STATUSES"

text \<open>An approval is over when it was refused, or when it was granted and used.\<close>

definition approval_over :: "ApprovalRequest \<Rightarrow> bool" where
  "approval_over a \<longleftrightarrow> ap_status a \<in> set TERMINAL_APPROVAL_STATUSES \<and>
     (ap_status a = ApprovalStatus.APPROVED \<longrightarrow> ap_consumed_at a \<noteq> None)"

definition core_final :: "run_core \<Rightarrow> run_core \<Rightarrow> bool" where
  "core_final c c' \<longleftrightarrow> keeps run_over (co_runs c) (co_runs c') \<and>
     keeps approval_over (co_approvals c) (co_approvals c') \<and>
     keeps delegation_over (co_delegations c) (co_delegations c')"

lemma run_step_not_over: "run_step x r = Done r' \<Longrightarrow> \<not> run_over r"
  by (cases x) (auto simp: run_defs outcome_simps run_over_def TERMINAL_RUN_STATUSES_def)

lemma resolves_not_over: "resolves a a' \<Longrightarrow> \<not> approval_over a"
  using resolves_status [of a a'] by (auto simp: approval_over_def TERMINAL_APPROVAL_STATUSES_def)

lemma consume_not_over: "approval_consume t a = Done a' \<Longrightarrow> \<not> approval_over a"
  by (auto simp: approval_over_def approval_consume_def outcome_simps)

lemma settled_not_over: "settled d d' \<Longrightarrow> \<not> delegation_over d"
  by (auto simp: settled_def delegation_over_def TERMINAL_DELEGATION_STATUSES_def)

lemma keeps_run:
  "core_keys c \<Longrightarrow> co_runs c i = Some r \<Longrightarrow> run_step x r = Done r' \<Longrightarrow>
   keeps run_over (co_runs c) ((co_runs c)(rn_id r' \<mapsto> r'))"
  using run_step_id [of x r r'] run_step_not_over [of x r r']
  by (auto simp: core_keys_def intro!: keeps_upd)

lemma keeps_approval:
  "core_keys c \<Longrightarrow> co_approvals c a = Some p \<Longrightarrow> resolves p p' \<or> approval_consume t p = Done p' \<Longrightarrow>
   keeps approval_over (co_approvals c) ((co_approvals c)(ap_id p' \<mapsto> p'))"
  using resolves_ident [of p p'] consume_ident [of t p p'] resolves_not_over [of p p'] consume_not_over [of t p p']
  by (auto simp: core_keys_def intro!: keeps_upd)

lemma keeps_delegation:
  "core_keys c \<Longrightarrow> co_delegations c g = Some d \<Longrightarrow> settled d d' \<Longrightarrow>
   keeps delegation_over (co_delegations c) ((co_delegations c)(dg_id d' \<mapsto> d'))"
  using settled_ident [of d d'] settled_not_over [of d d'] by (auto simp: core_keys_def intro!: keeps_upd)

lemma keeps_new: "m k = None \<Longrightarrow> keeps P m (m(k := v))"
  by (rule keeps_upd) simp

lemma core_step_final: "core_step T c c' \<Longrightarrow> core_keys c \<Longrightarrow> core_final c c'"
  by (induction rule: core_step.induct)
     (auto simp: core_final_def keeps_new
       intro: keeps_run named_run_steps keeps_approval keeps_delegation)

section \<open>Paths\<close>

text \<open>\<open>moves T\<close>: any number of steps that introduce no claim token outside \<open>T\<close>.\<close>

definition moves :: "string set \<Rightarrow> run_core \<Rightarrow> run_core \<Rightarrow> bool" where
  "moves T c c' \<longleftrightarrow> (\<exists>U. U \<subseteq> T \<and> fence_path core_step U c c')"

lemma fence_path_trans:
  "fence_path m U s' s'' \<Longrightarrow> fence_path m T s s' \<Longrightarrow> fence_path m (T \<union> U) s s''"
proof (induction rule: fence_path.induct)
  case (move U s1 s2 V s3)
  then show ?case using fence_path.move [of m "T \<union> U" s s2 V s3] by (simp add: Un_assoc)
qed simp

lemma moves_refl [simp]: "moves T c c"
  unfolding moves_def by (blast intro: fence_path.stay)

lemma moves_trans: "moves T c c' \<Longrightarrow> moves T c' c'' \<Longrightarrow> moves T c c''"
  unfolding moves_def by (meson Un_least fence_path_trans)

lemma moves_step: "core_step U c c' \<Longrightarrow> U \<subseteq> T \<Longrightarrow> moves T c c'"
  unfolding moves_def using fence_path.move [OF fence_path.stay, of core_step U c c'] by auto

lemma moves_mono: "moves T c c' \<Longrightarrow> T \<subseteq> T' \<Longrightarrow> moves T' c c'"
  unfolding moves_def by blast

lemma moves_induct [consumes 1, case_names refl step]:
  assumes "moves T c c'" and "P c" and "\<And>U d d'. P d \<Longrightarrow> core_step U d d' \<Longrightarrow> U \<subseteq> T \<Longrightarrow> P d'"
  shows "P c'"
proof -
  from assms(1) obtain U where "U \<subseteq> T" "fence_path core_step U c c'" by (auto simp: moves_def)
  from this(2,1) assms(2) show ?thesis
    by (induction rule: fence_path.induct) (auto intro: assms(3))
qed

lemma moves_inv: "moves T c c' \<Longrightarrow> core_inv c \<Longrightarrow> core_inv c'"
  by (induction rule: moves_induct) (auto intro: core_step_inv)

lemma moves_keys: "moves T c c' \<Longrightarrow> core_keys c \<Longrightarrow> core_keys c'"
  by (induction rule: moves_induct) (auto intro: core_step_keys)

lemma moves_final: "moves T c c' \<Longrightarrow> core_keys c \<Longrightarrow> core_final c c'"
proof -
  assume "moves T c c'" and k: "core_keys c"
  then have "core_final c c' \<and> core_keys c'"
  proof (induction rule: moves_induct)
    case refl
    with k show ?case by (simp add: core_final_def)
  next
    case (step U d d')
    then have "core_final d d'" "core_keys d'" by (auto intro: core_step_final core_step_keys)
    with step(1) [OF k] show ?case by (auto simp: core_final_def intro: keeps_trans)
  qed
  then show ?thesis ..
qed

section \<open>Claims are fenced\<close>

definition core_owns :: "run_core \<Rightarrow> RunClaim \<Rightarrow> bool" where
  "core_owns c k \<longleftrightarrow> (\<exists>w. co_work c (rc_run_id k) = Some w \<and>
     claimed_as (rc_worker_id k) (rc_claim_token k) (rc_claim_generation k) w)"

lemma claimed_as_simps [simp]:
  "claimed_as w k g (unclaim i) = False"
  "claimed_as w k g (i\<lparr>wi_heartbeat_at := h, wi_lease_expires_at := l\<rparr>) = claimed_as w k g i"
  "claimed_as w k g (take_claim w' k' now e i) \<longleftrightarrow> w' = w \<and> k' = k \<and> g = wi_claim_generation i + 1"
  by (auto simp: claimed_as_def unclaim_def take_claim_def)

lemma claimed_as_enqueued: "claimed_as w k g (enqueued i a e x) \<longleftrightarrow> (\<exists>y. x = Some y \<and> claimed_as w k g y)"
  by (cases x) (simp_all add: enqueued_def new_item_def claimed_as_def)

lemma core_step_owns: "core_step T c c' \<Longrightarrow> core_owns c' k \<Longrightarrow> core_owns c k \<or> rc_claim_token k \<in> T"
  by (induction rule: core_step.induct)
     (auto simp: core_owns_def claimed_as_enqueued split: if_splits)

interpretation run_fence: claim_fence core_step core_owns rc_claim_token rc_run_id "\<lambda>c. True"
  by unfold_locales (auto dest: core_step_owns, auto simp: core_owns_def claimed_as_def)

end
