(* ===== verification/Approval_Workflow.thy ===== *)
theory Approval_Workflow
  imports Worker_Coordination
begin

text \<open>
  Approvals: requesting one parks the run (\<^verbatim>\<open>approval_workflow.py\<close>, and the claim-aware variant of
  \<^verbatim>\<open>tool_authorization.py\<close>), resolving it wakes the run that waits for it. Expiry is driven by
  \<^verbatim>\<open>ExpireDueApprovals\<close> of \<^verbatim>\<open>worker_maintenance.py\<close>. All under \<^verbatim>\<open>src/src/friday/application\<close>.
\<close>

record RequestApprovalCommand =
  rq_run_id :: RunId
  rq_category :: ApprovalCategory
  rq_summary :: string
  rq_reason :: string
  rq_requested_action :: string
  rq_requested_input :: pyval
  rq_step_id :: "RunStepId option"
  rq_expires_at :: "datetime option"
  rq_authorization_fingerprint :: "string option"

section \<open>Requesting\<close>

definition approval_payload :: "ApprovalRequest \<Rightarrow> pyval" where
  "approval_payload a =
     payload [(''approval_request_id'', id_value (ap_id a)),
       (''category'', PyStr (approval_category_value (ap_category a))),
       (''step_id'', case ap_step_id a of None \<Rightarrow> PyNone | Some i \<Rightarrow> id_value i)]"

text \<open>The step of a request: none, or a running step of the run.\<close>

definition load_running_step :: "Run \<Rightarrow> RunStepId option \<Rightarrow> string \<Rightarrow> RunStep option tx" where
  "load_running_step run step_id refusal =
     (case step_id of
        None \<Rightarrow> tx_return None
      | Some i \<Rightarrow>
          tx_bind (tx_get (steps_get i)) (\<lambda>found.
          tx_bind (tx_found (RunStepNotFound i) found) (\<lambda>step.
          tx_bind (tx_guard (st_run_id step = rn_id run) (EntityConflict ''step does not belong to run'')) (\<lambda>_.
          tx_bind (tx_guard (st_status step = RunStepStatus.RUNNING) (EntityConflict refusal)) (\<lambda>_.
          tx_return (Some step))))))"

definition park_step :: "RunStep option \<Rightarrow> ApprovalRequestId \<Rightarrow> instant \<Rightarrow> unit tx" where
  "park_step step approval_id now =
     (case step of
        None \<Rightarrow> tx_return ()
      | Some s \<Rightarrow> tx_bind (tx_call (step_wait_for_approval (utc now) approval_id s)) steps_save)"

text \<open>\<open>drop_item\<close> is how the work item goes: unconditionally, or only under the worker's claim.\<close>

definition park_for_approval :: "RequestApprovalCommand \<Rightarrow> unit tx \<Rightarrow> instant \<Rightarrow> ApprovalRequest tx" where
  "park_for_approval cmd drop_item now =
     tx_bind (tx_get (runs_get (rq_run_id cmd))) (\<lambda>found.
     tx_bind (tx_found (RunNotFound (rq_run_id cmd)) found) (\<lambda>run.
     tx_bind (tx_guard (rn_status run = RunStatus.RUNNING) (EntityConflict ''run cannot wait for approval'')) (\<lambda>_.
     tx_bind (load_running_step run (rq_step_id cmd) ''step cannot wait for approval'') (\<lambda>step.
     tx_bind (tx_get (approvals_list_pending_for_run (rn_id run))) (\<lambda>pending.
     tx_bind (tx_guard (pending = []) (EntityConflict ''run already has a pending approval'')) (\<lambda>_.
     tx_bind fresh_id (\<lambda>i.
     tx_bind (tx_lift (lift_domain (approval_new i (Some (rn_id run)) (rq_category cmd) (rq_summary cmd)
       (rq_reason cmd) (rq_requested_action cmd) (rq_requested_input cmd) (utc now) (rq_step_id cmd)
       (rq_expires_at cmd) (rq_authorization_fingerprint cmd) ApprovalSubjectKind.RUN None))) (\<lambda>approval.
     tx_bind (approvals_add approval) (\<lambda>_.
     tx_bind (tx_call (run_wait_for_approval (utc now) (ap_id approval) run)) (\<lambda>waiting_run.
     tx_bind (runs_save waiting_run) (\<lambda>_.
     tx_bind drop_item (\<lambda>_.
     tx_bind (park_step step (ap_id approval) now) (\<lambda>_.
     tx_bind (append_run_events waiting_run now
       [(APPROVAL_REQUESTED, approval_payload approval, ap_step_id approval),
        (RUN_WAITING_FOR_APPROVAL, payload [(''run_id'', id_value (rn_id waiting_run)),
           (''approval_request_id'', id_value (ap_id approval))], ap_step_id approval)]) (\<lambda>_.
     tx_return approval))))))))))))))"

definition RequestApproval :: "RequestApprovalCommand \<Rightarrow> instant \<Rightarrow> ApprovalRequest tx" where
  "RequestApproval cmd now = park_for_approval cmd (work_remove (rq_run_id cmd)) now"

definition RequestToolApproval ::
  "RequestApprovalCommand \<Rightarrow> string \<Rightarrow> string \<Rightarrow> int \<Rightarrow> instant \<Rightarrow> ApprovalRequest tx" where
  "RequestToolApproval cmd worker_id claim_token claim_generation now =
     (let c = \<lparr>rc_run_id = rq_run_id cmd, rc_worker_id = worker_id, rc_claim_token = claim_token,
              rc_claim_generation = claim_generation\<rparr> in
      tx_bind (tx_get (is_claim_active c now)) (\<lambda>active.
      tx_bind (tx_guard active (ClaimLost ''claim is no longer active; refusing to request approval'')) (\<lambda>_.
      park_for_approval cmd
        (tx_bind (remove_if_claimed c now) (\<lambda>removed.
         tx_guard removed (ClaimLost ''claim lost while parking the run for approval''))) now)))"

section \<open>Resolving\<close>

definition transition_approval_in_transaction ::
  "ApprovalRequest \<Rightarrow> ApprovalStatus \<Rightarrow> instant \<Rightarrow> string option \<Rightarrow> string option \<Rightarrow> ApprovalRequest tx" where
  "transition_approval_in_transaction approval target now resolver note =
     (if ap_status approval = target then tx_return approval else
      tx_bind (tx_guard (ap_status approval = ApprovalStatus.PENDING)
        (EntityConflict ''approval request is terminal'')) (\<lambda>_.
      tx_bind (case target of
          ApprovalStatus.APPROVED \<Rightarrow>
            tx_bind (tx_found (EntityConflict ''approved approval requires a resolver'') resolver) (\<lambda>who.
            tx_call (approval_approve (utc now) who note approval))
        | ApprovalStatus.REJECTED \<Rightarrow>
            tx_bind (tx_found (EntityConflict ''rejected approval requires a resolver'') resolver) (\<lambda>who.
            tx_call (approval_reject (utc now) who note approval))
        | ApprovalStatus.CANCELLED \<Rightarrow> tx_call (approval_cancel (utc now) note approval)
        | ApprovalStatus.EXPIRED \<Rightarrow> tx_call (approval_expire (utc now) approval)
        | _ \<Rightarrow> tx_raise (EntityConflict ''approval request transition is not terminal'')) (\<lambda>resolved.
      tx_bind (approvals_save resolved) (\<lambda>_. tx_return resolved))))"

definition load_approval_run :: "ApprovalRequest \<Rightarrow> Run option tx" where
  "load_approval_run approval =
     (case ap_run_id approval of
        None \<Rightarrow> tx_return None
      | Some i \<Rightarrow>
          tx_bind (tx_get (runs_get i)) (\<lambda>found.
          tx_bind (tx_found (RunNotFound i) found) (\<lambda>run. tx_return (Some run))))"

definition load_approval_step :: "ApprovalRequest \<Rightarrow> Run option \<Rightarrow> RunStep option tx" where
  "load_approval_step approval run =
     (case ap_step_id approval of
        None \<Rightarrow> tx_return None
      | Some i \<Rightarrow>
          tx_bind (tx_found (EntityConflict ''non-run approval cannot reference a step'') run) (\<lambda>r.
          tx_bind (tx_get (steps_get i)) (\<lambda>found.
          tx_bind (tx_found (RunStepNotFound i) found) (\<lambda>step.
          tx_bind (tx_guard (st_run_id step = rn_id r) (EntityConflict ''step does not belong to run'')) (\<lambda>_.
          tx_return (Some step))))))"

definition resume_step :: "RunStep option \<Rightarrow> ApprovalRequestId \<Rightarrow> instant \<Rightarrow> unit tx" where
  "resume_step step approval_id now =
     (case step of
        None \<Rightarrow> tx_return ()
      | Some s \<Rightarrow>
          if st_status s = RunStepStatus.WAITING_FOR_APPROVAL \<and> st_approval_request_id s = Some approval_id
          then tx_bind (tx_call (step_resume (utc now) s)) steps_save
          else tx_return ())"

definition resume_run :: "Run \<Rightarrow> ApprovalRequest \<Rightarrow> instant \<Rightarrow> (Run \<times> event_spec list) tx" where
  "resume_run run approval now =
     (if rn_status run = RunStatus.WAITING_FOR_APPROVAL \<and> rn_approval_request_id run = Some (ap_id approval)
      then tx_bind (tx_call (run_resume (utc now) run)) (\<lambda>resumed.
           tx_bind (runs_save resumed) (\<lambda>_.
           tx_bind (work_enqueue (rn_id resumed) now now) (\<lambda>_.
           tx_return (resumed, [(RUN_RESUMED, payload [(''run_id'', id_value (rn_id resumed)),
             (''approval_request_id'', id_value (ap_id approval))], ap_step_id approval)]))))
      else tx_return (run, []))"

definition resolve_approval ::
  "ApprovalRequest \<Rightarrow> ApprovalStatus \<Rightarrow> instant \<Rightarrow> string option \<Rightarrow> string option \<Rightarrow> ApprovalRequest tx" where
  "resolve_approval approval target now resolver note =
     (if ap_status approval = target then tx_return approval else
      tx_bind (tx_guard (ap_status approval = ApprovalStatus.PENDING)
        (EntityConflict ''approval request is terminal'')) (\<lambda>_.
      tx_bind (load_approval_run approval) (\<lambda>run.
      tx_bind (load_approval_step approval run) (\<lambda>step.
      tx_bind (transition_approval_in_transaction approval target now resolver note) (\<lambda>resolved.
      case run of
        None \<Rightarrow> tx_return resolved
      | Some r \<Rightarrow>
          tx_bind (resume_step step (ap_id resolved) now) (\<lambda>_.
          tx_bind (resume_run r resolved now) (\<lambda>(r', specs).
          tx_bind (append_run_events r' now
            ((APPROVAL_RESOLVED, payload [(''approval_request_id'', id_value (ap_id resolved)),
               (''resolution'', PyStr (approval_status_value (ap_status resolved)))], ap_step_id resolved) # specs))
            (\<lambda>_. tx_return resolved))))))))"

definition load_approval :: "ApprovalRequestId \<Rightarrow> ApprovalRequest tx" where
  "load_approval approval_id =
     tx_bind (tx_get (approvals_get approval_id)) (tx_found (ApprovalNotFound approval_id))"

definition ApproveRequest :: "ApprovalRequestId \<Rightarrow> string \<Rightarrow> string option \<Rightarrow> instant \<Rightarrow> ApprovalRequest tx" where
  "ApproveRequest approval_id resolver note now =
     tx_bind (load_approval approval_id) (\<lambda>approval.
     resolve_approval approval ApprovalStatus.APPROVED now (Some resolver) note)"

definition RejectRequest :: "ApprovalRequestId \<Rightarrow> string \<Rightarrow> string option \<Rightarrow> instant \<Rightarrow> ApprovalRequest tx" where
  "RejectRequest approval_id resolver note now =
     tx_bind (load_approval approval_id) (\<lambda>approval.
     resolve_approval approval ApprovalStatus.REJECTED now (Some resolver) note)"

definition CancelApproval :: "ApprovalRequestId \<Rightarrow> string option \<Rightarrow> instant \<Rightarrow> ApprovalRequest tx" where
  "CancelApproval approval_id note now =
     tx_bind (load_approval approval_id) (\<lambda>approval.
     resolve_approval approval ApprovalStatus.CANCELLED now None note)"

definition ExpireApproval :: "ApprovalRequestId \<Rightarrow> instant \<Rightarrow> ApprovalRequest tx" where
  "ExpireApproval approval_id now =
     tx_bind (load_approval approval_id) (\<lambda>approval.
     tx_bind (if ap_status approval = ApprovalStatus.PENDING
              then tx_bind (tx_found (EntityConflict ''approval request has no expiry deadline'')
                     (ap_expires_at approval)) (\<lambda>deadline.
                   tx_guard (\<not> now < deadline) (EntityConflict ''approval request expiry is not due''))
              else tx_return ()) (\<lambda>_.
     resolve_approval approval ApprovalStatus.EXPIRED now None None))"

text \<open>
  \<^verbatim>\<open>ExpireDueApprovals\<close> reads the due approvals in one transaction and expires each in one of its
  own; an \<^verbatim>\<open>EntityConflict\<close> (or a subclass) skips the approval, any other error ends the loop.
\<close>

fun is_entity_conflict :: "app_error \<Rightarrow> bool" where
  "is_entity_conflict (EntityConflict m) \<longleftrightarrow> True"
| "is_entity_conflict DelegatedManualRetryForbidden \<longleftrightarrow> True"
| "is_entity_conflict WorkflowNodeManualRetryForbidden \<longleftrightarrow> True"
| "is_entity_conflict WorkflowCancelNotSupportedWhileActive \<longleftrightarrow> True"
| "is_entity_conflict _ \<longleftrightarrow> False"

fun expire_each :: "(ApprovalRequestId \<times> instant) list \<Rightarrow> run_db \<Rightarrow> (app_error + ApprovalRequest list) \<times> run_db" where
  "expire_each [] db = (Inr [], db)"
| "expire_each ((i, now) # due_ids) db =
     (case ExpireApproval i now db of
        Inl e \<Rightarrow> if is_entity_conflict e then expire_each due_ids db else (Inl e, db)
      | Inr (a, db') \<Rightarrow>
          (case expire_each due_ids db' of
             (Inl e, db'') \<Rightarrow> (Inl e, db'')
           | (Inr as, db'') \<Rightarrow> (Inr (a # as), db'')))"

text \<open>\<open>clock\<close> gives the reading of the clock for each approval that is expired.\<close>

definition ExpireDueApprovals ::
  "nat \<Rightarrow> instant \<Rightarrow> (nat \<Rightarrow> instant) \<Rightarrow> run_db \<Rightarrow> (app_error + ApprovalRequest list) \<times> run_db" where
  "ExpireDueApprovals batch_size now clock db =
     (let due_ids = map ap_id (approvals_list_due_for_expiry now batch_size db)
      in expire_each (zip due_ids (map clock [0..<length due_ids])) db)"

end
