(* ===== verification/Child_Lifecycle.thy ===== *)
theory Child_Lifecycle
  imports Approval_Workflow
begin

text \<open>
  What happens inside a run and to its task: ordered steps (\<^verbatim>\<open>run_step_lifecycle.py\<close>), tool
  invocation records (\<^verbatim>\<open>tool_invocation_lifecycle.py\<close>), artifacts (\<^verbatim>\<open>artifact_use_cases.py\<close>) and tasks
  (\<^verbatim>\<open>task_lifecycle.py\<close>) of \<^verbatim>\<open>src/src/friday/application\<close>.
\<close>

section \<open>Steps\<close>

definition next_position :: "RunStep list \<Rightarrow> int" where
  "next_position steps = fold max (map st_position steps) (-1) + 1"

definition CreateOrderedStep :: "RunId \<Rightarrow> string \<Rightarrow> instant \<Rightarrow> RunStep tx" where
  "CreateOrderedStep run_id name now =
     tx_bind (tx_get (runs_get run_id)) (\<lambda>found.
     tx_bind (tx_found (RunNotFound run_id) found) (\<lambda>run.
     tx_bind (tx_guard (rn_status run \<in> {RunStatus.QUEUED, RunStatus.RUNNING})
       (EntityConflict ''run cannot accept steps'')) (\<lambda>_.
     tx_bind (tx_get (steps_list_for_run (rn_id run))) (\<lambda>steps.
     tx_bind fresh_id (\<lambda>i.
     tx_bind (tx_lift (lift_domain (step_new i (rn_id run) name (next_position steps) (utc now)))) (\<lambda>step.
     tx_bind (steps_add step) (\<lambda>_.
     tx_bind (append_run_events run now
       [(STEP_CREATED, payload [(''step_id'', id_value (st_id step)),
          (''position'', PyInt (next_position steps))], Some (st_id step))]) (\<lambda>_.
     tx_return step))))))))"

definition load_step :: "RunStepId \<Rightarrow> (RunStep \<times> Run) tx" where
  "load_step step_id =
     tx_bind (tx_get (steps_get step_id)) (\<lambda>found.
     tx_bind (tx_found (RunStepNotFound step_id) found) (\<lambda>step.
     tx_bind (tx_get (runs_get (st_run_id step))) (\<lambda>owner.
     tx_bind (tx_found (RunNotFound (st_run_id step)) owner) (\<lambda>run.
     tx_return (step, run)))))"

definition step_event :: "RunEventType \<Rightarrow> RunStep \<Rightarrow> event_spec" where
  "step_event kind step = (kind, payload [(''step_id'', id_value (st_id step))], Some (st_id step))"

definition StartStep :: "RunStepId \<Rightarrow> instant \<Rightarrow> RunStep tx" where
  "StartStep step_id now =
     tx_bind (load_step step_id) (\<lambda>(step, run).
     if st_status step = RunStepStatus.RUNNING then tx_return step else
     tx_bind (tx_guard (st_status step = RunStepStatus.PENDING \<and> rn_status run = RunStatus.RUNNING)
       (EntityConflict ''step cannot start'')) (\<lambda>_.
     tx_bind (tx_call (step_start (utc now) step)) (\<lambda>s.
     tx_bind (steps_save s) (\<lambda>_.
     tx_bind (append_run_events run now [step_event STEP_STARTED s]) (\<lambda>_.
     tx_return s)))))"

definition CompleteStep :: "RunStepId \<Rightarrow> instant \<Rightarrow> RunStep tx" where
  "CompleteStep step_id now =
     tx_bind (load_step step_id) (\<lambda>(step, run).
     if st_status step = RunStepStatus.SUCCEEDED then tx_return step else
     tx_bind (tx_guard (st_status step = RunStepStatus.RUNNING) (EntityConflict ''step cannot complete'')) (\<lambda>_.
     tx_bind (tx_call (step_succeed (utc now) step)) (\<lambda>s.
     tx_bind (steps_save s) (\<lambda>_.
     tx_bind (append_run_events run now [step_event STEP_SUCCEEDED s]) (\<lambda>_.
     tx_return s)))))"

definition FailStep :: "RunStepId \<Rightarrow> Failure \<Rightarrow> instant \<Rightarrow> RunStep tx" where
  "FailStep step_id failure now =
     tx_bind (load_step step_id) (\<lambda>(step, run).
     if st_status step = RunStepStatus.FAILED
     then tx_bind (tx_guard (same_failure (st_failure step) failure)
            (EntityConflict ''step failure is immutable'')) (\<lambda>_. tx_return step)
     else
     tx_bind (tx_guard (st_status step = RunStepStatus.RUNNING) (EntityConflict ''step cannot fail'')) (\<lambda>_.
     tx_bind (tx_call (step_fail (utc now) failure step)) (\<lambda>s.
     tx_bind (steps_save s) (\<lambda>_.
     tx_bind (tx_get (tools_list_for_step (st_id s))) (\<lambda>tools.
     tx_bind (cancel_tools tools now) (\<lambda>specs.
     tx_bind (append_run_events run now (specs @ [(STEP_FAILED,
       payload [(''step_id'', id_value (st_id s)), (''failure_code'', PyStr (fl_code failure))],
       Some (st_id s))])) (\<lambda>_.
     tx_return s)))))))"

definition SkipPendingStep :: "RunStepId \<Rightarrow> instant \<Rightarrow> RunStep tx" where
  "SkipPendingStep step_id now =
     tx_bind (load_step step_id) (\<lambda>(step, run).
     if st_status step = RunStepStatus.SKIPPED then tx_return step else
     tx_bind (tx_guard (st_status step = RunStepStatus.PENDING) (EntityConflict ''step cannot skip'')) (\<lambda>_.
     tx_bind (tx_call (step_skip (utc now) step)) (\<lambda>s.
     tx_bind (steps_save s) (\<lambda>_.
     tx_bind (append_run_events run now [step_event STEP_SKIPPED s]) (\<lambda>_.
     tx_return s)))))"

definition CancelStep :: "RunStepId \<Rightarrow> instant \<Rightarrow> RunStep tx" where
  "CancelStep step_id now =
     tx_bind (load_step step_id) (\<lambda>(step, run).
     if st_status step = RunStepStatus.CANCELLED then tx_return step else
     tx_bind (tx_guard (st_status step \<notin> set TERMINAL_RUN_STEP_STATUSES)
       (EntityConflict ''step is terminal'')) (\<lambda>_.
     tx_bind (tx_call (step_cancel (utc now) step)) (\<lambda>s.
     tx_bind (steps_save s) (\<lambda>_.
     tx_bind (tx_get (tools_list_for_step (st_id s))) (\<lambda>tools.
     tx_bind (cancel_tools tools now) (\<lambda>specs.
     tx_bind (append_run_events run now (step_event STEP_CANCELLED s # specs)) (\<lambda>_.
     tx_return s)))))))"

section \<open>Tool invocations\<close>

record RequestToolInvocationCommand =
  tc_run_id :: RunId
  tc_tool_name :: string
  tc_requested_input :: pyval
  tc_step_id :: "RunStepId option"
  tc_approval_request_id :: "ApprovalRequestId option"

definition check_invocation_approval ::
  "Run \<Rightarrow> RunStepId option \<Rightarrow> ApprovalRequestId option \<Rightarrow> unit tx" where
  "check_invocation_approval run step_id approval_id =
     (case approval_id of
        None \<Rightarrow> tx_return ()
      | Some i \<Rightarrow>
          tx_bind (tx_get (approvals_get i)) (\<lambda>found.
          tx_bind (tx_found (EntityConflict ''referenced approval request does not exist'') found) (\<lambda>a.
          tx_bind (tx_guard (ap_run_id a = Some (rn_id run))
            (EntityConflict ''approval request does not belong to run'')) (\<lambda>_.
          tx_bind (tx_guard (ap_step_id a = None \<or> ap_step_id a = step_id)
            (EntityConflict ''approval request is scoped to a different step'')) (\<lambda>_.
          tx_guard (ap_status a = ApprovalStatus.APPROVED)
            (EntityConflict ''only an approved request may authorize an invocation''))))))"

definition RequestToolInvocation :: "RequestToolInvocationCommand \<Rightarrow> instant \<Rightarrow> ToolInvocation tx" where
  "RequestToolInvocation cmd now =
     tx_bind (tx_get (runs_get (tc_run_id cmd))) (\<lambda>found.
     tx_bind (tx_found (RunNotFound (tc_run_id cmd)) found) (\<lambda>run.
     tx_bind (tx_guard (rn_status run = RunStatus.RUNNING)
       (EntityConflict ''run cannot accept tool invocations'')) (\<lambda>_.
     tx_bind (load_running_step run (tc_step_id cmd) ''step cannot accept tool invocations'') (\<lambda>_.
     tx_bind (check_invocation_approval run (tc_step_id cmd) (tc_approval_request_id cmd)) (\<lambda>_.
     tx_bind fresh_id (\<lambda>i.
     tx_bind (tx_lift (lift_domain (tool_new i (rn_id run) (tc_tool_name cmd) (tc_requested_input cmd)
       (utc now) (tc_step_id cmd) (tc_approval_request_id cmd) None))) (\<lambda>invocation.
     tx_bind (tools_add invocation) (\<lambda>_.
     tx_bind (append_run_events run now
       [(TOOL_INVOCATION_REQUESTED, payload [(''tool_invocation_id'', id_value (ti_id invocation)),
          (''tool_name'', PyStr (ti_tool_name invocation)),
          (''approval_request_id'', case tc_approval_request_id cmd of None \<Rightarrow> PyNone | Some a \<Rightarrow> id_value a)],
         ti_step_id invocation)]) (\<lambda>_.
     tx_return invocation)))))))))"

definition load_invocation :: "ToolInvocationId \<Rightarrow> (ToolInvocation \<times> Run) tx" where
  "load_invocation invocation_id =
     tx_bind (tx_get (tools_get invocation_id)) (\<lambda>found.
     tx_bind (tx_found (ToolInvocationNotFound invocation_id) found) (\<lambda>invocation.
     tx_bind (tx_get (runs_get (ti_run_id invocation))) (\<lambda>owner.
     tx_bind (tx_found (RunNotFound (ti_run_id invocation)) owner) (\<lambda>run.
     tx_return (invocation, run)))))"

definition commit_with_event ::
  "Run \<Rightarrow> ToolInvocation \<Rightarrow> RunEventType \<Rightarrow> (string \<times> pyval) list \<Rightarrow> instant \<Rightarrow> ToolInvocation tx" where
  "commit_with_event run invocation kind extra now =
     tx_bind (tools_save invocation) (\<lambda>_.
     tx_bind (append_run_events run now
       [(kind, payload ((''tool_invocation_id'', id_value (ti_id invocation)) # extra), ti_step_id invocation)]) (\<lambda>_.
     tx_return invocation))"

text \<open>The transition reads the clock before the event does: \<open>moved\<close>, then \<open>now\<close>.\<close>

definition MarkToolInvocationRunning :: "ToolInvocationId \<Rightarrow> instant \<Rightarrow> instant \<Rightarrow> ToolInvocation tx" where
  "MarkToolInvocationRunning invocation_id moved now =
     tx_bind (load_invocation invocation_id) (\<lambda>(invocation, run).
     if ti_status invocation = ToolInvocationStatus.RUNNING then tx_return invocation else
     tx_bind (tx_guard (ti_status invocation = ToolInvocationStatus.REQUESTED)
       (EntityConflict ''tool invocation cannot start'')) (\<lambda>_.
     tx_bind (tx_call (tool_start (utc moved) invocation)) (\<lambda>t.
     commit_with_event run t TOOL_INVOCATION_STARTED [] now)))"

definition MarkToolInvocationSucceeded ::
  "ToolInvocationId \<Rightarrow> pyval \<Rightarrow> instant \<Rightarrow> instant \<Rightarrow> ToolInvocation tx" where
  "MarkToolInvocationSucceeded invocation_id result moved now =
     tx_bind (load_invocation invocation_id) (\<lambda>(invocation, run).
     if ti_status invocation = ToolInvocationStatus.SUCCEEDED
     then tx_bind (tx_guard (py_eq (ti_output invocation) result)
            (EntityConflict ''tool invocation output is immutable'')) (\<lambda>_. tx_return invocation)
     else
     tx_bind (tx_guard (ti_status invocation \<notin> set TERMINAL_TOOL_INVOCATION_STATUSES)
       (EntityConflict ''tool invocation is terminal'')) (\<lambda>_.
     tx_bind (tx_guard (ti_status invocation = ToolInvocationStatus.RUNNING)
       (EntityConflict ''tool invocation cannot succeed'')) (\<lambda>_.
     tx_bind (tx_call (tool_succeed (utc moved) (Some result) invocation)) (\<lambda>t.
     commit_with_event run t TOOL_INVOCATION_SUCCEEDED [] now))))"

definition MarkToolInvocationFailed ::
  "ToolInvocationId \<Rightarrow> Failure \<Rightarrow> instant \<Rightarrow> instant \<Rightarrow> ToolInvocation tx" where
  "MarkToolInvocationFailed invocation_id failure moved now =
     tx_bind (load_invocation invocation_id) (\<lambda>(invocation, run).
     if ti_status invocation = ToolInvocationStatus.FAILED
     then tx_bind (tx_guard (same_failure (ti_failure invocation) failure)
            (EntityConflict ''tool invocation failure is immutable'')) (\<lambda>_. tx_return invocation)
     else
     tx_bind (tx_guard (ti_status invocation \<notin> set TERMINAL_TOOL_INVOCATION_STATUSES)
       (EntityConflict ''tool invocation is terminal'')) (\<lambda>_.
     tx_bind (tx_guard (ti_status invocation = ToolInvocationStatus.RUNNING)
       (EntityConflict ''tool invocation cannot fail'')) (\<lambda>_.
     tx_bind (tx_call (tool_fail (utc moved) failure invocation)) (\<lambda>t.
     commit_with_event run t TOOL_INVOCATION_FAILED [(''failure_code'', PyStr (fl_code failure))] now))))"

definition CancelToolInvocation :: "ToolInvocationId \<Rightarrow> instant \<Rightarrow> instant \<Rightarrow> ToolInvocation tx" where
  "CancelToolInvocation invocation_id moved now =
     tx_bind (load_invocation invocation_id) (\<lambda>(invocation, run).
     if ti_status invocation = ToolInvocationStatus.CANCELLED then tx_return invocation else
     tx_bind (tx_guard (ti_status invocation \<notin> set TERMINAL_TOOL_INVOCATION_STATUSES)
       (EntityConflict ''tool invocation is terminal'')) (\<lambda>_.
     tx_bind (tx_call (tool_cancel (utc moved) invocation)) (\<lambda>t.
     commit_with_event run t TOOL_INVOCATION_CANCELLED [] now)))"

section \<open>Artifacts\<close>

definition same_recording :: "Artifact \<Rightarrow> Artifact \<Rightarrow> bool" where
  "same_recording existing candidate \<longleftrightarrow>
     af_run_id existing = af_run_id candidate \<and> af_step_id existing = af_step_id candidate \<and>
     af_kind existing = af_kind candidate \<and> af_name existing = af_name candidate \<and>
     af_media_type existing = af_media_type candidate \<and> af_location existing = af_location candidate \<and>
     af_size existing = af_size candidate \<and> af_checksum existing = af_checksum candidate \<and>
     py_eq (af_metadata existing) (af_metadata candidate)"

record RecordArtifactCommand =
  rac_run_id :: RunId
  rac_kind :: ArtifactKind
  rac_name :: string
  rac_media_type :: string
  rac_location :: string
  rac_step_id :: "RunStepId option"
  rac_size :: "int option"
  rac_checksum :: "string option"
  rac_metadata :: pyval
  rac_artifact_id :: "ArtifactId option"

definition artifact_event :: "Artifact \<Rightarrow> event_spec" where
  "artifact_event a = (ARTIFACT_CREATED, payload [(''artifact_id'', id_value (af_id a)),
     (''kind'', PyStr (artifact_kind_value (af_kind a))), (''location'', PyStr (af_location a))], af_step_id a)"

definition check_artifact_step :: "Run \<Rightarrow> RunStepId option \<Rightarrow> unit tx" where
  "check_artifact_step run step_id =
     (case step_id of
        None \<Rightarrow> tx_return ()
      | Some i \<Rightarrow>
          tx_bind (tx_get (steps_get i)) (\<lambda>found.
          tx_bind (tx_found (RunStepNotFound i) found) (\<lambda>step.
          tx_guard (st_run_id step = rn_id run) (EntityConflict ''step does not belong to run''))))"

definition RecordArtifact :: "RecordArtifactCommand \<Rightarrow> instant \<Rightarrow> Artifact tx" where
  "RecordArtifact cmd now =
     tx_bind (tx_get (runs_get (rac_run_id cmd))) (\<lambda>found.
     tx_bind (tx_found (RunNotFound (rac_run_id cmd)) found) (\<lambda>run.
     tx_bind (tx_guard (rn_status run = RunStatus.RUNNING) (EntityConflict ''run cannot record artifacts'')) (\<lambda>_.
     tx_bind (check_artifact_step run (rac_step_id cmd)) (\<lambda>_.
     tx_bind (case rac_artifact_id cmd of None \<Rightarrow> fresh_id | Some i \<Rightarrow> tx_return i) (\<lambda>i.
     tx_bind (tx_lift (lift_domain (artifact_post_init
       \<lparr>af_id = i, af_run_id = rn_id run, af_kind = rac_kind cmd, af_name = rac_name cmd,
        af_media_type = rac_media_type cmd, af_location = rac_location cmd, af_created_at = now,
        af_step_id = rac_step_id cmd, af_size = rac_size cmd, af_checksum = rac_checksum cmd,
        af_metadata = rac_metadata cmd\<rparr>))) (\<lambda>artifact.
     tx_bind (case rac_artifact_id cmd of
         None \<Rightarrow> tx_return None
       | Some j \<Rightarrow> tx_get (artifacts_get j)) (\<lambda>existing.
     case existing of
       Some old \<Rightarrow>
         tx_bind (tx_guard (same_recording old artifact)
           (EntityConflict ''artifact identity is immutable'')) (\<lambda>_. tx_return old)
     | None \<Rightarrow>
         tx_bind (artifacts_add artifact) (\<lambda>_.
         tx_bind (append_run_events run now [artifact_event artifact]) (\<lambda>_.
         tx_return artifact)))))))))"

section \<open>Tasks\<close>

text \<open>Task cancellation leaves the approvals, the work item and the delegation of the run alone.\<close>

definition task_cancel_run :: "instant \<Rightarrow> Run \<Rightarrow> unit tx" where
  "task_cancel_run now run =
     (if rn_status run \<in> set TERMINAL_RUN_STATUSES then tx_return () else
      tx_bind (tx_call (run_cancel (utc now) run)) (\<lambda>cancelled.
      tx_bind (runs_save cancelled) (\<lambda>_.
      tx_bind (cancel_children (rn_id cancelled) now) (\<lambda>specs.
      tx_bind (append_run_events cancelled now
        ((RUN_CANCELLED, payload [(''run_id'', id_value (rn_id cancelled))], None) # specs)) (\<lambda>_.
      tx_bind (materialize_skill_usage_in_uow (rn_id cancelled) now) (\<lambda>_.
      tx_return ()))))))"

definition has_active_workflow :: "run_db \<Rightarrow> Run \<Rightarrow> bool" where
  "has_active_workflow db run \<longleftrightarrow> rn_status run \<notin> set TERMINAL_RUN_STATUSES \<and>
     list_ex (\<lambda>x. wx_status x = WorkflowExecutionStatus.RUNNING) (executions_list_by_root_run_id (rn_id run) db)"

definition CancelTask :: "TaskId \<Rightarrow> instant \<Rightarrow> Task tx" where
  "CancelTask task_id now =
     tx_bind (tx_get (tasks_get task_id)) (\<lambda>found.
     tx_bind (tx_found (TaskNotFound task_id) found) (\<lambda>task.
     if tk_status task = TaskStatus.CANCELLED then tx_return task else
     tx_bind (tx_guard (tk_status task \<notin> set TERMINAL_TASK_STATUSES) (EntityConflict ''task is terminal'')) (\<lambda>_.
     tx_bind (tx_get (\<lambda>db. list_ex (has_active_workflow db) (runs_list_for_task (tk_id task) db))) (\<lambda>busy.
     tx_bind (tx_guard (\<not> busy) WorkflowCancelNotSupportedWhileActive) (\<lambda>_.
     tx_bind (tx_call (task_cancel (utc now) task)) (\<lambda>cancelled.
     tx_bind (tasks_save cancelled) (\<lambda>_.
     tx_bind (schedules_complete_for_task (tk_id cancelled) now True) (\<lambda>_.
     tx_bind (append_task_event cancelled now TASK_CANCELLED
       (payload [(''task_id'', id_value (tk_id cancelled))])) (\<lambda>_.
     tx_bind (tx_get (runs_list_for_task (tk_id cancelled))) (\<lambda>runs.
     tx_bind (tx_each (task_cancel_run now) runs) (\<lambda>_.
     tx_return cancelled)))))))))))"

definition CompleteTask :: "TaskId \<Rightarrow> instant \<Rightarrow> Task tx" where
  "CompleteTask task_id now =
     tx_bind (tx_get (tasks_get task_id)) (\<lambda>found.
     tx_bind (tx_found (TaskNotFound task_id) found) (\<lambda>task.
     if tk_status task = TaskStatus.COMPLETED then tx_return task else
     tx_bind (tx_guard (tk_status task \<notin> set TERMINAL_TASK_STATUSES) (EntityConflict ''task is terminal'')) (\<lambda>_.
     tx_bind (tx_guard (tk_status task = TaskStatus.ACTIVE) (EntityConflict ''task cannot complete'')) (\<lambda>_.
     tx_bind (tx_get (runs_list_for_task (tk_id task))) (\<lambda>runs.
     tx_bind (tx_guard (\<not> list_ex (\<lambda>r. rn_status r \<notin> set TERMINAL_RUN_STATUSES) runs)
       (EntityConflict ''task has non-terminal runs'')) (\<lambda>_.
     tx_bind (tx_get (\<lambda>db. list_ex (\<lambda>s. st_status s \<notin> set TERMINAL_RUN_STEP_STATUSES)
       (concat (map (\<lambda>r. steps_list_for_run (rn_id r) db) runs)))) (\<lambda>open_steps.
     tx_bind (tx_guard (\<not> open_steps) (EntityConflict ''task has non-terminal steps'')) (\<lambda>_.
     tx_bind (tx_get (\<lambda>db. list_ex (\<lambda>t. ti_status t \<notin> set TERMINAL_TOOL_INVOCATION_STATUSES)
       (concat (map (\<lambda>r. tools_list_for_run (rn_id r) db) runs)))) (\<lambda>open_tools.
     tx_bind (tx_guard (\<not> open_tools) (EntityConflict ''task has non-terminal tool invocations'')) (\<lambda>_.
     tx_bind (tx_call (task_complete (utc now) task)) (\<lambda>completed.
     tx_bind (tasks_save completed) (\<lambda>_.
     tx_bind (schedules_complete_for_task (tk_id completed) now False) (\<lambda>_.
     tx_bind (append_task_event completed now TASK_COMPLETED
       (payload [(''task_id'', id_value (tk_id completed))])) (\<lambda>_.
     tx_return completed))))))))))))))"

definition FailTask :: "TaskId \<Rightarrow> Failure \<Rightarrow> instant \<Rightarrow> Task tx" where
  "FailTask task_id failure now =
     tx_bind (tx_get (tasks_get task_id)) (\<lambda>found.
     tx_bind (tx_found (TaskNotFound task_id) found) (\<lambda>task.
     if tk_status task = TaskStatus.FAILED
     then tx_bind (tx_guard (same_failure (tk_failure task) failure)
            (EntityConflict ''task failure is immutable'')) (\<lambda>_. tx_return task)
     else
     tx_bind (tx_guard (tk_status task \<notin> set TERMINAL_TASK_STATUSES) (EntityConflict ''task is terminal'')) (\<lambda>_.
     tx_bind (tx_call (task_fail (utc now) failure task)) (\<lambda>failed.
     tx_bind (tasks_save failed) (\<lambda>_.
     tx_bind (schedules_complete_for_task (tk_id failed) now False) (\<lambda>_.
     tx_bind (append_task_event failed now TASK_FAILED
       (payload [(''task_id'', id_value (tk_id failed)), (''failure_code'', PyStr (fl_code failure))])) (\<lambda>_.
     tx_return failed)))))))"

end
