(* ===== verification/Tool_Execution.thy ===== *)
theory Tool_Execution
  imports Child_Lifecycle
begin

text \<open>
  Tool calls (\<^verbatim>\<open>tool_gateway.py\<close>), the fingerprint that binds an approval to one exact action
  (\<^verbatim>\<open>tool_authorization.py\<close>) and the path from a proposed action to its side effect
  (\<^verbatim>\<open>claim_aware_tool_execution.py\<close>), all under \<^verbatim>\<open>src/src/friday/application\<close>. The gateway itself is
  outside: its \<^verbatim>\<open>assess\<close> is an argument, its answers are arbitrary values. SHA-256 is an argument.
\<close>

section \<open>The gateway's models\<close>

definition name_part :: "string \<Rightarrow> bool" where
  "name_part s = (case s of
       [] \<Rightarrow> False
     | c # cs \<Rightarrow> c \<in> set ''abcdefghijklmnopqrstuvwxyz'' \<and>
         list_all (\<lambda>x. x \<in> set ''abcdefghijklmnopqrstuvwxyz0123456789_'') cs)"

text \<open>\<^verbatim>\<open>^[a-z][a-z0-9_]*\.[a-z][a-z0-9_]*$\<close> with \<^verbatim>\<open>match\<close>: the dollar also matches before a final line feed.\<close>

definition tool_name_match :: "string \<Rightarrow> bool" where
  "tool_name_match s =
     (let t = (if s \<noteq> [] \<and> last s = CHR 0x0A then butlast s else s) in
      name_part (takeWhile (\<lambda>c. c \<noteq> CHR ''.'') t) \<and>
      (case dropWhile (\<lambda>c. c \<noteq> CHR ''.'') t of [] \<Rightarrow> False | d # rest \<Rightarrow> name_part rest))"

definition is_py_dict :: "pyval \<Rightarrow> bool" where
  "is_py_dict v = (case v of PyDict es \<Rightarrow> True | _ \<Rightarrow> False)"

record ToolDescriptor =
  td_name :: string
  td_description :: string
  td_read_only :: bool
  td_approval_required :: bool
  td_input_schema :: pyval

definition tool_descriptor_post_init :: "ToolDescriptor \<Rightarrow> app_error + ToolDescriptor" where
  "tool_descriptor_post_init d =
     ebind (guard (tool_name_match (td_name d)) (PyValueError ''tool name does not match the required pattern'')) (\<lambda>_.
     ebind (guard (py_strip (td_description d) \<noteq> []) (PyValueError ''tool description must not be empty'')) (\<lambda>_.
     ebind (guard (td_input_schema d = PyNone \<or> is_py_dict (td_input_schema d))
       (PyValueError ''tool input_schema must be a JSON object when present'')) (\<lambda>_.
     ebind (lift_domain (ensure_json_value ''$.input_schema'' (td_input_schema d))) (\<lambda>_. Inr d))))"

record ToolCall =
  tl_tool :: string
  tl_tool_input :: pyval

definition tool_call_post_init :: "ToolCall \<Rightarrow> app_error + ToolCall" where
  "tool_call_post_init call =
     ebind (guard (tool_name_match (tl_tool call)) (ToolInputInvalid ''tool name does not match the required pattern'')) (\<lambda>_.
     ebind (guard (is_py_dict (tl_tool_input call)) (ToolInputInvalid ''tool input must be a JSON object'')) (\<lambda>_.
     ebind (lift_domain (ensure_json_value ''$.tool_input'' (tl_tool_input call))) (\<lambda>_. Inr call)))"

record ToolRiskAssessment =
  tk_tool :: string
  tk_read_only :: bool
  tk_approval_required :: bool
  tk_category :: ApprovalCategory
  tk_summary :: string
  tk_authorization_scope :: "string option"
  tk_provenance :: "ToolProvenance option"

definition tool_risk_post_init :: "ToolRiskAssessment \<Rightarrow> app_error + ToolRiskAssessment" where
  "tool_risk_post_init r =
     ebind (guard (py_strip (tk_summary r) \<noteq> []) (PyValueError ''risk assessment summary must not be empty'')) (\<lambda>_.
     ebind (guard (tk_provenance r = None \<or> py_strip (or_else (tk_authorization_scope r) []) \<noteq> [])
       (PyValueError ''a risk assessment with external provenance must carry an authorization scope'')) (\<lambda>_. Inr r))"

record ArtifactCandidate =
  ac_kind :: ArtifactKind
  ac_name :: string
  ac_media_type :: string
  ac_location :: string
  ac_size :: "int option"
  ac_checksum :: "string option"

definition artifact_candidate_post_init :: "ArtifactCandidate \<Rightarrow> app_error + ArtifactCandidate" where
  "artifact_candidate_post_init a =
     ebind (guard (py_strip (ac_name a) \<noteq> []) (PyValueError ''artifact candidate name must not be empty'')) (\<lambda>_.
     ebind (guard (py_strip (ac_media_type a) \<noteq> []) (PyValueError ''artifact candidate media_type must not be empty'')) (\<lambda>_.
     ebind (guard (py_strip (ac_location a) \<noteq> []) (PyValueError ''artifact candidate location must not be empty'')) (\<lambda>_.
     ebind (guard (take 1 (ac_location a) \<noteq> ''/'' \<and> take 2 (ac_location a) \<noteq> ''..'')
       (PyValueError ''artifact candidate location must be workspace-relative'')) (\<lambda>_.
     ebind (guard (pred_option (\<lambda>n. \<not> n < 0) (ac_size a)) (PyValueError ''artifact candidate size must be non-negative'')) (\<lambda>_.
     Inr a)))))"

datatype tool_result_status = ToolSucceeded | ToolFailed

record ToolExecutionResult =
  tr_status :: tool_result_status
  tr_output :: pyval
  tr_failure :: "Failure option"
  tr_artifacts :: "ArtifactCandidate list"

definition tool_result_post_init :: "ToolExecutionResult \<Rightarrow> app_error + ToolExecutionResult" where
  "tool_result_post_init r =
     ebind (guard (tr_status r \<noteq> ToolFailed \<or> tr_failure r \<noteq> None) (PyValueError ''a failed result requires a failure'')) (\<lambda>_.
     ebind (guard (tr_status r \<noteq> ToolSucceeded \<or> tr_failure r = None)
       (PyValueError ''a succeeded result must not carry a failure'')) (\<lambda>_.
     ebind (lift_domain (ensure_json_value ''$.output'' (tr_output r))) (\<lambda>_. Inr r)))"

definition tool_result_succeeded :: "pyval \<Rightarrow> ArtifactCandidate list \<Rightarrow> app_error + ToolExecutionResult" where
  "tool_result_succeeded output artifacts = tool_result_post_init
     \<lparr>tr_status = ToolSucceeded, tr_output = output, tr_failure = None, tr_artifacts = artifacts\<rparr>"

definition tool_result_failed :: "Failure \<Rightarrow> pyval \<Rightarrow> app_error + ToolExecutionResult" where
  "tool_result_failed failure output = tool_result_post_init
     \<lparr>tr_status = ToolFailed, tr_output = output, tr_failure = Some failure, tr_artifacts = []\<rparr>"

section \<open>Exact-action fingerprints\<close>

definition newline :: string where "newline = [CHR 0x0A]"

definition FINGERPRINT_VERSION :: nat where "FINGERPRINT_VERSION = 2"

definition authorization_material :: "RunId \<Rightarrow> RunStepId option \<Rightarrow> ToolCall \<Rightarrow> string option \<Rightarrow> string" where
  "authorization_material run_id step_id call scope =
     show_nat FINGERPRINT_VERSION @ newline @ id_str run_id @ newline @
     (case step_id of None \<Rightarrow> [] | Some s \<Rightarrow> id_str s) @ newline @ tl_tool call @ newline @
     json_dumps True (tl_tool_input call) @ newline @ or_else scope []"

definition compute_authorization_fingerprint ::
  "(string \<Rightarrow> string) \<Rightarrow> RunId \<Rightarrow> RunStepId option \<Rightarrow> ToolCall \<Rightarrow> string option \<Rightarrow> string" where
  "compute_authorization_fingerprint sha256 run_id step_id call scope =
     sha256 (authorization_material run_id step_id call scope)"

definition legacy_material :: "RunId \<Rightarrow> RunStepId option \<Rightarrow> ToolCall \<Rightarrow> string" where
  "legacy_material run_id step_id call =
     ''1'' @ newline @ id_str run_id @ newline @ (case step_id of None \<Rightarrow> [] | Some s \<Rightarrow> id_str s) @ newline @
     tl_tool call @ newline @ json_dumps True (tl_tool_input call)"

definition compute_legacy_authorization_fingerprint ::
  "(string \<Rightarrow> string) \<Rightarrow> RunId \<Rightarrow> RunStepId option \<Rightarrow> ToolCall \<Rightarrow> string" where
  "compute_legacy_authorization_fingerprint sha256 run_id step_id call = sha256 (legacy_material run_id step_id call)"

definition authorizes :: "string \<Rightarrow> ApprovalRequest \<Rightarrow> bool" where
  "authorizes fingerprint a \<longleftrightarrow> ap_status a = ApprovalStatus.APPROVED \<and>
     ap_authorization_fingerprint a = Some fingerprint \<and> ap_consumed_at a = None"

definition find_authorizing_approval :: "ApprovalRequest list \<Rightarrow> string \<Rightarrow> ApprovalRequest option" where
  "find_authorizing_approval approvals fingerprint = List.find (authorizes fingerprint) approvals"

lemma find_authorizing_approval_SomeD:
  "find_authorizing_approval xs f = Some p \<Longrightarrow> p \<in> set xs \<and> authorizes f p"
  unfolding find_authorizing_approval_def by (induction xs) (auto split: if_splits)

section \<open>Outcomes of one proposed action\<close>

datatype tool_outcome_kind = ActionExecuted | ActionApprovalRequired

record ToolActionOutcome =
  to_kind :: tool_outcome_kind
  to_risk :: ToolRiskAssessment
  to_fingerprint :: string
  to_invocation_id :: "ToolInvocationId option"
  to_result :: "ToolExecutionResult option"
  to_replayed :: bool

definition outcome_approval_required :: "ToolRiskAssessment \<Rightarrow> string \<Rightarrow> ToolActionOutcome" where
  "outcome_approval_required risk fingerprint =
     \<lparr>to_kind = ActionApprovalRequired, to_risk = risk, to_fingerprint = fingerprint, to_invocation_id = None,
      to_result = None, to_replayed = False\<rparr>"

definition outcome_executed ::
  "ToolRiskAssessment \<Rightarrow> string \<Rightarrow> ToolInvocationId \<Rightarrow> ToolExecutionResult \<Rightarrow> bool \<Rightarrow> ToolActionOutcome" where
  "outcome_executed risk fingerprint invocation_id result replayed =
     \<lparr>to_kind = ActionExecuted, to_risk = risk, to_fingerprint = fingerprint, to_invocation_id = Some invocation_id,
      to_result = Some result, to_replayed = replayed\<rparr>"

section \<open>Replay detection\<close>

fun replay_invocations ::
  "string \<Rightarrow> ApprovalRequest \<Rightarrow> ToolInvocation list \<Rightarrow> app_error + (ToolInvocationId \<times> ToolExecutionResult) option" where
  "replay_invocations legacy a [] = Inr None"
| "replay_invocations legacy a (t # ts) =
     (if ti_approval_request_id t \<noteq> Some (ap_id a) then replay_invocations legacy a ts
      else if ap_authorization_fingerprint a = Some legacy \<and> ti_provenance t \<noteq> None
      then replay_invocations legacy a ts
      else if ti_status t = ToolInvocationStatus.SUCCEEDED
      then ebind (tool_result_succeeded (ti_output t) []) (\<lambda>r. Inr (Some (ti_id t, r)))
      else if ti_status t = ToolInvocationStatus.FAILED
      then (case ti_failure t of
              None \<Rightarrow> Inl (PyAssertionError ''invocation.failure is not None'')
            | Some f \<Rightarrow> ebind (tool_result_failed f PyNone) (\<lambda>r. Inr (Some (ti_id t, r))))
      else Inl (ToolExecutionAmbiguous ''a prior protected execution for this exact action is not terminal''))"

fun replay_approvals ::
  "string \<Rightarrow> run_db \<Rightarrow> ApprovalRequest list \<Rightarrow> app_error + (ToolInvocationId \<times> ToolExecutionResult) option" where
  "replay_approvals legacy db [] = Inr None"
| "replay_approvals legacy db (a # as) =
     (case ap_run_id a of
        None \<Rightarrow> replay_approvals legacy db as
      | Some i \<Rightarrow>
          ebind (replay_invocations legacy a (tools_list_for_run i db)) (\<lambda>found.
          case found of None \<Rightarrow> replay_approvals legacy db as | Some x \<Rightarrow> Inr (Some x)))"

definition spent :: "string \<Rightarrow> string \<Rightarrow> ApprovalRequest \<Rightarrow> bool" where
  "spent fingerprint legacy a \<longleftrightarrow> ap_status a = ApprovalStatus.APPROVED \<and> ap_is_consumed a \<and>
     (ap_authorization_fingerprint a = Some fingerprint \<or> ap_authorization_fingerprint a = Some legacy)"

definition find_replay ::
  "(string \<Rightarrow> string) \<Rightarrow> ApprovalRequest list \<Rightarrow> string \<Rightarrow> RunId \<Rightarrow> RunStepId option \<Rightarrow> ToolCall \<Rightarrow> run_db
   \<Rightarrow> app_error + (ToolInvocationId \<times> ToolExecutionResult) option" where
  "find_replay sha256 approvals fingerprint run_id step_id call db =
     (let legacy = compute_legacy_authorization_fingerprint sha256 run_id step_id call in
      replay_approvals legacy db (filter (spent fingerprint legacy) approvals))"

section \<open>The transactions\<close>

definition require_claim :: "RunClaim \<Rightarrow> instant \<Rightarrow> unit tx" where
  "require_claim c now =
     tx_bind (tx_get (is_claim_active c now)) (\<lambda>active.
     tx_guard active (ClaimLost ''claim is no longer active; refusing tool execution step''))"

text \<open>A proposed action: the worker's claim on the run, the step, the call and the gateway's verdict.\<close>

record tool_action =
  ta_claim :: RunClaim
  ta_step_id :: "RunStepId option"
  ta_call :: ToolCall
  ta_risk :: ToolRiskAssessment

definition action_fingerprint :: "(string \<Rightarrow> string) \<Rightarrow> tool_action \<Rightarrow> string" where
  "action_fingerprint sha256 a = compute_authorization_fingerprint sha256 (rc_run_id (ta_claim a)) (ta_step_id a)
     (ta_call a) (tk_authorization_scope (ta_risk a))"

text \<open>The protected branch: an outcome that ends the use case, or the approval it consumed.\<close>

definition authorize_protected ::
  "(string \<Rightarrow> string) \<Rightarrow> tool_action \<Rightarrow> instant \<Rightarrow> (ToolActionOutcome + ApprovalRequestId option) tx" where
  "authorize_protected sha256 a now =
     (let run_id = rc_run_id (ta_claim a); fingerprint = action_fingerprint sha256 a in
      tx_bind (tx_get (approvals_list_for_run run_id)) (\<lambda>approvals.
      tx_bind (tx_get (find_replay sha256 approvals fingerprint run_id (ta_step_id a) (ta_call a))) (\<lambda>search.
      tx_bind (tx_lift search) (\<lambda>replay.
      case replay of
        Some (i, r) \<Rightarrow> tx_return (Inl (outcome_executed (ta_risk a) fingerprint i r True))
      | None \<Rightarrow>
          (case find_authorizing_approval approvals fingerprint of
             None \<Rightarrow> tx_return (Inl (outcome_approval_required (ta_risk a) fingerprint))
           | Some authorizing \<Rightarrow>
               tx_bind (tx_call (approval_consume (utc now) authorizing)) (\<lambda>consumed.
               tx_bind (approvals_save consumed) (\<lambda>_.
               tx_return (Inr (Some (ap_id consumed))))))))))"

definition start_invocation ::
  "Run \<Rightarrow> tool_action \<Rightarrow> ApprovalRequestId option \<Rightarrow> instant \<Rightarrow> ToolInvocationId tx" where
  "start_invocation run a approval_id now =
     tx_bind fresh_id (\<lambda>i.
     tx_bind (tx_lift (lift_domain (tool_new i (rc_run_id (ta_claim a)) (tl_tool (ta_call a)) (tl_tool_input (ta_call a))
       (utc now) (ta_step_id a) approval_id (tk_provenance (ta_risk a))))) (\<lambda>invocation.
     tx_bind (tools_add invocation) (\<lambda>_.
     tx_bind (tx_call (tool_start (utc now) invocation)) (\<lambda>started.
     tx_bind (tools_save started) (\<lambda>_.
     tx_bind (append_run_events run now
       [(TOOL_INVOCATION_REQUESTED, payload [(''tool_invocation_id'', id_value (ti_id started)),
          (''tool_name'', PyStr (ti_tool_name started))], ta_step_id a),
        (TOOL_INVOCATION_STARTED, payload [(''tool_invocation_id'', id_value (ti_id started))], ta_step_id a)]) (\<lambda>_.
     tx_return (ti_id started)))))))"

text \<open>The first transaction: authorise the action and create its running invocation.\<close>

definition begin_tool_action ::
  "(string \<Rightarrow> string) \<Rightarrow> tool_action \<Rightarrow> instant \<Rightarrow> (ToolActionOutcome + ToolInvocationId) tx" where
  "begin_tool_action sha256 a now =
     (let run_id = rc_run_id (ta_claim a) in
      tx_bind (require_claim (ta_claim a) now) (\<lambda>_.
      tx_bind (tx_get (runs_get run_id)) (\<lambda>found.
      tx_bind (tx_found (RunNotFound run_id) found) (\<lambda>run.
      tx_bind (tx_guard (rn_status run = RunStatus.RUNNING) (EntityConflict ''run is not running'')) (\<lambda>_.
      tx_bind (if tk_approval_required (ta_risk a) then authorize_protected sha256 a now else tx_return (Inr None)) (\<lambda>decision.
      case decision of
        Inl reply \<Rightarrow> tx_return (Inl reply)
      | Inr approval_id \<Rightarrow>
          tx_bind (start_invocation run a approval_id now) (\<lambda>i. tx_return (Inr i))))))))"

definition record_candidate ::
  "RunId \<Rightarrow> RunStepId option \<Rightarrow> instant \<Rightarrow> ArtifactCandidate \<Rightarrow> event_spec tx" where
  "record_candidate run_id step_id now candidate =
     tx_bind fresh_id (\<lambda>i.
     tx_bind (tx_lift (lift_domain (artifact_post_init
       \<lparr>af_id = i, af_run_id = run_id, af_kind = ac_kind candidate, af_name = ac_name candidate,
        af_media_type = ac_media_type candidate, af_location = ac_location candidate, af_created_at = now,
        af_step_id = step_id, af_size = ac_size candidate, af_checksum = ac_checksum candidate,
        af_metadata = PyNone\<rparr>))) (\<lambda>artifact.
     tx_bind (artifacts_add artifact) (\<lambda>_. tx_return (artifact_event artifact))))"

definition settle_invocation ::
  "instant \<Rightarrow> RunStepId option \<Rightarrow> ToolExecutionResult \<Rightarrow> ToolInvocation \<Rightarrow> (ToolInvocation \<times> event_spec) tx" where
  "settle_invocation now step_id result persisted =
     (if tr_status result = ToolSucceeded
      then tx_bind (tx_call (tool_succeed (utc now) (Some (tr_output result)) persisted)) (\<lambda>t.
           tx_return (t, (TOOL_INVOCATION_SUCCEEDED,
             payload [(''tool_invocation_id'', id_value (ti_id persisted))], step_id)))
      else tx_bind (tx_found (PyAssertionError ''result.failure is not None'') (tr_failure result)) (\<lambda>failure.
           tx_bind (tx_call (tool_fail (utc now) failure persisted)) (\<lambda>t.
           tx_return (t, (TOOL_INVOCATION_FAILED,
             payload [(''tool_invocation_id'', id_value (ti_id persisted)),
               (''failure_code'', PyStr (fl_code failure))], step_id)))))"

text \<open>The last transaction: persist the gateway's answer under a claim that is still valid.\<close>

definition finish_tool_action ::
  "tool_action \<Rightarrow> ToolInvocationId \<Rightarrow> ToolExecutionResult \<Rightarrow> instant \<Rightarrow> unit tx" where
  "finish_tool_action a invocation_id result now =
     (let run_id = rc_run_id (ta_claim a) in
      tx_bind (require_claim (ta_claim a) now) (\<lambda>_.
      tx_bind (tx_get (runs_get run_id)) (\<lambda>found.
      tx_bind (tx_found (RunNotFound run_id) found) (\<lambda>run.
      tx_bind (tx_get (tools_get invocation_id)) (\<lambda>stored.
      tx_bind (tx_found (EntityConflict ''tool invocation is no longer running'') stored) (\<lambda>persisted.
      tx_bind (tx_guard (ti_status persisted = ToolInvocationStatus.RUNNING)
        (EntityConflict ''tool invocation is no longer running'')) (\<lambda>_.
      tx_bind (settle_invocation now (ta_step_id a) result persisted) (\<lambda>(t, spec).
      tx_bind (tools_save t) (\<lambda>_.
      tx_bind (tx_each (record_candidate run_id (ta_step_id a) now) (tr_artifacts result)) (\<lambda>specs.
      append_run_events run now (spec # specs)))))))))))"

section \<open>The use case as a sequence of steps\<close>

text \<open>
  Between the transactions no unit of work is open: other transactions may commit, the process may
  stop. \<open>tool_next\<close> is the next step of one \<^verbatim>\<open>ExecuteToolAction.execute\<close>; its third component is the
  call the gateway gets, and \<open>answer\<close> what the gateway replies to it.\<close>

datatype tool_pc =
    ToolIdle
  | Proposed RunClaim "RunStepId option" ToolCall
  | Begun tool_action ToolInvocationId
  | Verified tool_action ToolInvocationId
  | Answered tool_action ToolInvocationId ToolExecutionResult
  | ToolReturned ToolActionOutcome
  | ToolRaised app_error

fun tool_next ::
  "(string \<Rightarrow> string) \<Rightarrow> (ToolCall \<Rightarrow> app_error + ToolRiskAssessment) \<Rightarrow> instant \<Rightarrow> ToolExecutionResult
   \<Rightarrow> tool_pc \<Rightarrow> run_db \<Rightarrow> tool_pc \<times> run_db \<times> (tool_action \<times> ToolInvocationId) option" where
  "tool_next sha256 assess now answer (Proposed c step_id call) db =
     (case assess call of
        Inl e \<Rightarrow> (ToolRaised e, db, None)
      | Inr risk \<Rightarrow>
          (let a = \<lparr>ta_claim = c, ta_step_id = step_id, ta_call = call, ta_risk = risk\<rparr> in
           case begin_tool_action sha256 a now db of
             Inl e \<Rightarrow> (ToolRaised e, db, None)
           | Inr (Inl reply, db') \<Rightarrow> (ToolReturned reply, db', None)
           | Inr (Inr i, db') \<Rightarrow> (Begun a i, db', None)))"
| "tool_next sha256 assess now answer (Begun a i) db =
     (case require_claim (ta_claim a) now db of
        Inl e \<Rightarrow> (ToolRaised e, db, None)
      | Inr (u, db') \<Rightarrow> (Verified a i, db', None))"
| "tool_next sha256 assess now answer (Verified a i) db = (Answered a i answer, db, Some (a, i))"
| "tool_next sha256 assess now answer (Answered a i result) db =
     (case finish_tool_action a i result now db of
        Inl e \<Rightarrow> (ToolRaised e, db, None)
      | Inr (u, db') \<Rightarrow>
          (ToolReturned (outcome_executed (ta_risk a) (action_fingerprint sha256 a) i result False), db', None))"
| "tool_next sha256 assess now answer pc db = (pc, db, None)"

end
