(* ===== verification/Agent_Registry.thy ===== *)
theory Agent_Registry
  imports Worker_Coordination
begin

text \<open>
  The agent registry (\<^verbatim>\<open>src/src/friday/application/agent_registry.py\<close>) and the code-owned policy for
  runtime configurations (\<^verbatim>\<open>src/src/friday/application/brain_runtime_registry.py\<close>). The registered
  runtime kinds are the parameter \<open>kinds\<close>: the composition root registers them, and \<^verbatim>\<open>register\<close>
  accepts only kinds that have a policy. The one policy there is admits only the empty object.
\<close>

section \<open>Runtime configurations\<close>

definition DEFAULT_RUNTIME_KIND :: string where "DEFAULT_RUNTIME_KIND = ''claude_cli''"
definition MAX_RUNTIME_CONFIG_BYTES :: nat where "MAX_RUNTIME_CONFIG_BYTES = 512"
definition MAX_RUNTIME_CONFIG_NODES :: nat where "MAX_RUNTIME_CONFIG_NODES = 32"
definition MAX_RUNTIME_CONFIG_DEPTH :: nat where "MAX_RUNTIME_CONFIG_DEPTH = 4"

text \<open>Structural node count and nesting depth.\<close>

fun config_complexity :: "nat \<Rightarrow> pyval \<Rightarrow> nat \<times> nat" where
  "config_complexity depth (PyDict es) =
     fold (\<lambda>(k, n, d) (nodes, deepest). (nodes + 1 + length (key_str k) + n, max deepest d))
       (map (\<lambda>(k, v). (k, config_complexity (depth + 1) v)) es) (1, depth)"
| "config_complexity depth (PyList xs) =
     fold (\<lambda>(n, d) (nodes, deepest). (nodes + 1 + n, max deepest d))
       (map (config_complexity (depth + 1)) xs) (1, depth)"
| "config_complexity depth v = (1, depth)"

definition register :: "string \<Rightarrow> string list \<Rightarrow> domain_error + string list" where
  "register runtime_kind kinds =
     ebind (guard (runtime_kind \<noteq> []) (PythonError ''ValueError'')) (\<lambda>_.
     ebind (guard (runtime_kind = DEFAULT_RUNTIME_KIND) (PythonError ''ValueError'')) (\<lambda>_.
     Inr (List.insert runtime_kind kinds)))"

definition require_empty_claude_cli_config :: "pyval \<Rightarrow> string \<Rightarrow> app_error + pyval" where
  "require_empty_claude_cli_config value runtime_kind =
     (if value = PyDict [] then Inr value else Inl (InvalidBrainRuntimeConfig runtime_kind))"

definition validate_runtime_config :: "string list \<Rightarrow> string \<Rightarrow> pyval \<Rightarrow> app_error + pyval" where
  "validate_runtime_config kinds runtime_kind runtime_config =
     (if runtime_kind \<notin> set kinds then Inl (UnknownBrainRuntimeKind runtime_kind) else
      case ensure_json_value ''AgentRevision.runtime_config'' runtime_config of
        Inl e \<Rightarrow> Inl (InvalidBrainRuntimeConfig runtime_kind)
      | Inr normalized \<Rightarrow>
          (case config_complexity 0 normalized of (nodes, depth) \<Rightarrow>
           if MAX_RUNTIME_CONFIG_BYTES < length (json_dumps True normalized) \<or>
              MAX_RUNTIME_CONFIG_NODES < nodes \<or> MAX_RUNTIME_CONFIG_DEPTH < depth
           then Inl (InvalidBrainRuntimeConfig runtime_kind)
           else require_empty_claude_cli_config normalized runtime_kind))"

section \<open>Agents and revisions\<close>

definition CreateAgent :: "string \<Rightarrow> string \<Rightarrow> string \<Rightarrow> instant \<Rightarrow> Agent tx" where
  "CreateAgent key display_name description now =
     tx_bind fresh_id (\<lambda>i.
     tx_bind (tx_lift (lift_domain (agent_new i key display_name description (utc now)))) (\<lambda>agent.
     tx_bind (agents_add agent) (\<lambda>_. tx_return agent)))"

definition CreateAgentRevision ::
  "(string \<Rightarrow> string) \<Rightarrow> string list \<Rightarrow> AgentId \<Rightarrow> string \<Rightarrow> string \<Rightarrow> pyval \<Rightarrow> AgentRevisionSourceKind
   \<Rightarrow> instant \<Rightarrow> AgentRevision tx" where
  "CreateAgentRevision sha256 kinds agent_id instructions runtime_kind runtime_config source_kind now =
     tx_bind (tx_guard (runtime_kind \<in> set kinds) (UnknownBrainRuntimeKind runtime_kind)) (\<lambda>_.
     tx_bind (tx_lift (validate_runtime_config kinds runtime_kind runtime_config)) (\<lambda>config.
     tx_bind (tx_get (agents_get agent_id)) (\<lambda>found.
     tx_bind (tx_found (AgentNotFound agent_id) found) (\<lambda>agent.
     tx_bind (tx_guard (ag_status agent \<noteq> AgentStatus.ARCHIVED)
       (EntityConflict ''archived agent cannot receive revisions'')) (\<lambda>_.
     tx_bind fresh_id (\<lambda>i.
     tx_bind (tx_get (agent_revisions_next_version agent_id)) (\<lambda>version.
     tx_bind (tx_lift (lift_domain (agent_revision_new sha256 i agent_id version instructions runtime_kind
       config source_kind (utc now)))) (\<lambda>revision.
     tx_bind (agent_revisions_add revision) (\<lambda>_. tx_return revision)))))))))"

definition load_revision :: "(string \<Rightarrow> string) \<Rightarrow> AgentRevisionId \<Rightarrow> AgentRevision option tx" where
  "load_revision sha256 i = tx_bind (tx_get (agent_revisions_get sha256 i)) (\<lambda>r. tx_lift (lift_domain r))"

definition as_conflict :: "(domain_error, 'a) outcome \<Rightarrow> app_error + 'a" where
  "as_conflict m =
     (case call_method m of
        Inl (DomainFailure (InvalidStateTransition entity old new)) \<Rightarrow>
          Inl (EntityConflict (entity @ '' cannot transition from '' @ [CHR 0x27] @ old @ [CHR 0x27] @
            '' to '' @ [CHR 0x27] @ new @ [CHR 0x27]))
      | r \<Rightarrow> r)"

definition ActivateAgentRevision ::
  "(string \<Rightarrow> string) \<Rightarrow> AgentId \<Rightarrow> AgentRevisionId \<Rightarrow> instant \<Rightarrow> Agent tx" where
  "ActivateAgentRevision sha256 agent_id revision_id now =
     tx_bind (tx_get (agents_get agent_id)) (\<lambda>found.
     tx_bind (tx_found (AgentNotFound agent_id) found) (\<lambda>agent.
     tx_bind (load_revision sha256 revision_id) (\<lambda>row.
     tx_bind (tx_found (AgentRevisionNotFound revision_id) row) (\<lambda>revision.
     tx_bind (tx_lift (as_conflict (agent_activate revision (utc now) agent))) (\<lambda>active.
     tx_bind (agents_save active) (\<lambda>_. tx_return active))))))"

definition change_agent :: "(Agent \<Rightarrow> (domain_error, Agent) outcome) \<Rightarrow> AgentId \<Rightarrow> Agent tx" where
  "change_agent action agent_id =
     tx_bind (tx_get (agents_get agent_id)) (\<lambda>found.
     tx_bind (tx_found (AgentNotFound agent_id) found) (\<lambda>agent.
     tx_bind (tx_call (action agent)) (\<lambda>changed.
     tx_bind (agents_save changed) (\<lambda>_. tx_return changed))))"

definition DisableAgent :: "AgentId \<Rightarrow> instant \<Rightarrow> Agent tx" where
  "DisableAgent agent_id now = change_agent (agent_disable (utc now)) agent_id"

definition ArchiveAgent :: "AgentId \<Rightarrow> instant \<Rightarrow> Agent tx" where
  "ArchiveAgent agent_id now = change_agent (agent_archive (utc now)) agent_id"

section \<open>Task bindings\<close>

definition resolvable :: "Agent \<Rightarrow> bool" where
  "resolvable a \<longleftrightarrow> ag_status a = AgentStatus.ACTIVE \<and> ag_active_revision_id a \<noteq> None"

definition ReplaceTaskAgent :: "TaskId \<Rightarrow> AgentId option \<Rightarrow> instant \<Rightarrow> TaskAgentBinding option tx" where
  "ReplaceTaskAgent task_id agent_id now =
     tx_bind (tx_get (tasks_get task_id)) (\<lambda>found.
     tx_bind (tx_found (TaskNotFound task_id) found) (\<lambda>_.
     tx_bind (tx_get (nodes_get_by_child_task_id task_id)) (\<lambda>node.
     tx_bind (tx_guard (node = None)
       (WorkflowBindingError ''workflow child Task Agent binding is frozen'')) (\<lambda>_.
     tx_bind (tx_get (task_workflows_get_by_task_id task_id)) (\<lambda>workflow.
     tx_bind (tx_guard (\<not> (agent_id \<noteq> None \<and> workflow \<noteq> None)) (WorkflowBindingError
       ''a Task cannot have both TaskAgentBinding and TaskWorkflowBinding'')) (\<lambda>_.
     tx_bind (tx_get (delegations_get_for_child_task task_id)) (\<lambda>delegation.
     tx_bind (tx_guard (case delegation of None \<Rightarrow> True | Some d \<Rightarrow>
         dg_status d \<notin> {DelegationStatus.DISPATCHED, DelegationStatus.SUCCEEDED, DelegationStatus.FAILED,
           DelegationStatus.CANCELLED})
       (EntityConflict ''delegated_task_agent_binding_frozen'')) (\<lambda>_.
     tx_bind (case agent_id of
         None \<Rightarrow> tx_return None
       | Some i \<Rightarrow>
           tx_bind (tx_get (agents_get i)) (\<lambda>row.
           tx_bind (tx_found (AgentNotFound i) row) (\<lambda>agent.
           tx_bind (tx_guard (resolvable agent)
             (EntityConflict ''task bindings require active agents with an active revision'')) (\<lambda>_.
           tx_return (Some \<lparr>ta_task_id = task_id, ta_agent_id = i, ta_created_at = now\<rparr>))))) (\<lambda>binding.
     tx_bind (task_agents_replace task_id binding) (\<lambda>_.
     tx_return binding))))))))))"

section \<open>Freezing the agent of a run\<close>

text \<open>
  The clock is read four times: for the first claim check, for the marker, for its publication and
  for the last claim check (\<open>clock 0\<close> to \<open>clock 3\<close>).
\<close>

definition conflict_if :: "bool \<Rightarrow> string \<Rightarrow> unit tx" where
  "conflict_if b message = tx_guard (\<not> b) (EntityConflict message)"

definition check_frozen ::
  "Run \<Rightarrow> RunAgentResolution \<Rightarrow> DelegationRequest option \<Rightarrow> WorkflowNodeExecution option \<Rightarrow> unit tx" where
  "check_frozen run existing incoming node =
     tx_bind (case node of
         None \<Rightarrow> tx_return ()
       | Some n \<Rightarrow>
           tx_bind (conflict_if (wne_child_task_id n \<noteq> Some (rn_task_id run) \<or>
               ar_agent_id existing \<noteq> wne_target_agent_id n \<or>
               ar_revision_id existing \<noteq> wne_target_agent_revision_id n) ''workflow_target_agent_mismatch'') (\<lambda>_.
           tx_bind (tx_get (task_agents_get (rn_task_id run))) (\<lambda>binding.
           conflict_if (map_option ta_agent_id binding \<noteq> Some (wne_target_agent_id n))
             ''workflow_target_agent_mismatch''))) (\<lambda>_.
     case incoming of
       None \<Rightarrow> tx_return ()
     | Some d \<Rightarrow> conflict_if (ar_agent_id existing \<noteq> dg_target_agent_id d) ''delegation_target_agent_mismatch'')"

definition load_for_resolution :: "(string \<Rightarrow> string) \<Rightarrow> AgentRevisionId \<Rightarrow> AgentRevision option tx" where
  "load_for_resolution sha256 i =
     tx_bind (tx_get (agent_revisions_get sha256 i)) (\<lambda>r.
     case r of
       Inl (DomainValidationError m) \<Rightarrow> tx_raise AgentIntegrityFailed
     | Inl e \<Rightarrow> tx_raise (DomainFailure e)
     | Inr v \<Rightarrow> tx_return v)"

definition check_runtime :: "string list \<Rightarrow> AgentRevision \<Rightarrow> unit tx" where
  "check_runtime kinds revision =
     tx_bind (tx_guard (av_runtime_kind revision \<in> set kinds)
       (UnknownBrainRuntimeKind (av_runtime_kind revision))) (\<lambda>_.
     tx_bind (tx_lift (validate_runtime_config kinds (av_runtime_kind revision) (av_runtime_config revision))) (\<lambda>_.
     tx_return ()))"

definition publish_resolution ::
  "RunClaim \<Rightarrow> AgentId \<Rightarrow> AgentRevision \<Rightarrow> (nat \<Rightarrow> instant) \<Rightarrow> RunAgentResolution tx" where
  "publish_resolution c agent_id revision clock =
     tx_bind fresh_id (\<lambda>i.
     let r = \<lparr>ar_id = i, ar_run_id = rc_run_id c, ar_agent_id = agent_id, ar_revision_id = av_id revision,
              ar_resolved_at = clock 1\<rparr> in
     tx_bind (agent_resolutions_add_if_claimed r (rc_worker_id c) (rc_claim_token c) (rc_claim_generation c)
       (clock 2)) (\<lambda>added.
     tx_bind (tx_get (agent_resolutions_get (rc_run_id c))) (\<lambda>winner.
     tx_bind (tx_guard (added \<or> winner = None) (EntityConflict ''another resolver won the freeze race'')) (\<lambda>_.
     tx_bind (tx_guard added (ClaimLost ''agent resolution claim is stale or expired'')) (\<lambda>_.
     tx_bind (tx_get (is_claim_active c (clock 3))) (\<lambda>active.
     tx_bind (tx_guard active (ClaimLost ''agent resolution claim expired before commit'')) (\<lambda>_.
     tx_return r)))))))"

definition resolve_workflow_child ::
  "(string \<Rightarrow> string) \<Rightarrow> string list \<Rightarrow> RunClaim \<Rightarrow> Run \<Rightarrow> TaskAgentBinding \<Rightarrow> WorkflowNodeExecution
   \<Rightarrow> (nat \<Rightarrow> instant) \<Rightarrow> RunAgentResolution tx" where
  "resolve_workflow_child sha256 kinds c run binding n clock =
     tx_bind (conflict_if (wne_child_task_id n \<noteq> Some (rn_task_id run) \<or>
       ta_agent_id binding \<noteq> wne_target_agent_id n) ''workflow_target_agent_mismatch'') (\<lambda>_.
     tx_bind (load_for_resolution sha256 (wne_target_agent_revision_id n)) (\<lambda>row.
     case row of
       None \<Rightarrow> tx_raise (EntityConflict ''workflow_target_revision_mismatch'')
     | Some revision \<Rightarrow>
         tx_bind (conflict_if (av_agent_id revision \<noteq> wne_target_agent_id n \<or>
           av_content_sha256 revision \<noteq> wne_target_agent_revision_sha256 n) ''workflow_target_revision_mismatch'') (\<lambda>_.
         tx_bind (check_runtime kinds revision) (\<lambda>_.
         publish_resolution c (wne_target_agent_id n) revision clock))))"

definition resolve_bound_agent ::
  "(string \<Rightarrow> string) \<Rightarrow> string list \<Rightarrow> RunClaim \<Rightarrow> TaskAgentBinding \<Rightarrow> (nat \<Rightarrow> instant) \<Rightarrow> RunAgentResolution tx" where
  "resolve_bound_agent sha256 kinds c binding clock =
     tx_bind (tx_get (agents_get (ta_agent_id binding))) (\<lambda>row.
     case row of
       None \<Rightarrow> tx_raise (EntityConflict ''bound agent is no longer resolvable'')
     | Some agent \<Rightarrow>
         tx_bind (conflict_if (ag_status agent \<noteq> AgentStatus.ACTIVE) ''bound agent is no longer resolvable'') (\<lambda>_.
         case ag_active_revision_id agent of
           None \<Rightarrow> tx_raise (EntityConflict ''bound agent is no longer resolvable'')
         | Some revision_id \<Rightarrow>
             tx_bind (load_for_resolution sha256 revision_id) (\<lambda>found.
             tx_bind (tx_found (EntityConflict ''active agent revision does not exist'') found) (\<lambda>revision.
             tx_bind (conflict_if (av_agent_id revision \<noteq> ag_id agent)
               ''active agent revision ownership mismatch'') (\<lambda>_.
             tx_bind (check_runtime kinds revision) (\<lambda>_.
             publish_resolution c (ag_id agent) revision clock))))))"

definition resolve_run_agent ::
  "(string \<Rightarrow> string) \<Rightarrow> string list \<Rightarrow> RunClaim \<Rightarrow> (nat \<Rightarrow> instant) \<Rightarrow> RunAgentResolution option tx" where
  "resolve_run_agent sha256 kinds c clock =
     tx_bind (tx_get (runs_get (rc_run_id c))) (\<lambda>found.
     tx_bind (tx_found (RunNotFound (rc_run_id c)) found) (\<lambda>run.
     tx_bind (tx_get (is_claim_active c (clock 0))) (\<lambda>active.
     tx_bind (tx_guard active (ClaimLost ''agent resolution requires an exact active worker claim'')) (\<lambda>_.
     tx_bind (tx_get (agent_resolutions_get (rn_id run))) (\<lambda>frozen.
     tx_bind (tx_get (delegations_get_for_child_execution (rn_execution_id run))) (\<lambda>incoming.
     tx_bind (tx_get (nodes_get_by_child_execution_id (rn_execution_id run))) (\<lambda>node.
     case frozen of
       Some existing \<Rightarrow> tx_bind (check_frozen run existing incoming node) (\<lambda>_. tx_return (Some existing))
     | None \<Rightarrow>
         tx_bind (tx_get (task_agents_get (rn_task_id run))) (\<lambda>bound.
         case bound of
           None \<Rightarrow>
             tx_bind (conflict_if (node \<noteq> None) ''workflow_child_agent_binding_missing'') (\<lambda>_.
             tx_bind (conflict_if (incoming \<noteq> None) ''delegated_child_agent_binding_missing'') (\<lambda>_.
             tx_return None))
         | Some binding \<Rightarrow>
             (case node of
                Some n \<Rightarrow> tx_bind (resolve_workflow_child sha256 kinds c run binding n clock) (\<lambda>r. tx_return (Some r))
              | None \<Rightarrow>
                  tx_bind (case incoming of
                      None \<Rightarrow> tx_return ()
                    | Some d \<Rightarrow> conflict_if (ta_agent_id binding \<noteq> dg_target_agent_id d)
                        ''delegation_target_agent_mismatch'') (\<lambda>_.
                  tx_bind (resolve_bound_agent sha256 kinds c binding clock) (\<lambda>r. tx_return (Some r))))))))))))"

definition PROVENANCE_CONFLICTS :: "string list" where
  "PROVENANCE_CONFLICTS =
     [''delegation_target_agent_mismatch'', ''delegated_child_agent_binding_missing'',
      ''workflow_target_agent_mismatch'', ''workflow_target_revision_mismatch'',
      ''workflow_child_agent_binding_missing'']"

text \<open>A conflict that is not about provenance reloads the winner's marker in a transaction of its own.\<close>

definition ResolveRunAgent ::
  "(string \<Rightarrow> string) \<Rightarrow> string list \<Rightarrow> RunClaim \<Rightarrow> (nat \<Rightarrow> instant) \<Rightarrow> instant \<Rightarrow> RunAgentResolution option tx" where
  "ResolveRunAgent sha256 kinds c clock later db =
     (case resolve_run_agent sha256 kinds c clock db of
        Inl (EntityConflict m) \<Rightarrow>
          if m \<in> set PROVENANCE_CONFLICTS then Inl (EntityConflict m)
          else tx_bind (tx_get (is_claim_active c later)) (\<lambda>active.
               tx_bind (tx_guard active (ClaimLost ''agent resolution claim is stale or expired'')) (\<lambda>_.
               tx_bind (tx_get (agent_resolutions_get (rc_run_id c))) (\<lambda>winner.
               case winner of
                 None \<Rightarrow> tx_raise (EntityConflict m)
               | Some w \<Rightarrow> tx_return (Some w)))) db
      | r \<Rightarrow> r)"

text \<open>A resolution commits what the first transaction wrote, or nothing.\<close>

lemma ResolveRunAgent_cases:
  assumes "ResolveRunAgent sha256 kinds c clock later s = Inr (x, s')"
  shows "resolve_run_agent sha256 kinds c clock s = Inr (x, s') \<or> s' = s"
proof (cases "resolve_run_agent sha256 kinds c clock s")
  case (Inl e)
  with assms show ?thesis
    by (auto simp: ResolveRunAgent_def tx_bind_def tx_get_def tx_guard_def tx_return_def tx_raise_def
        split: app_error.splits if_splits option.splits)
next
  case (Inr y)
  with assms show ?thesis by (simp add: ResolveRunAgent_def)
qed

end
