(* ===== verification/Delegation_Dispatch.thy ===== *)
theory Delegation_Dispatch
  imports Agent_Registry
begin

text \<open>
  Delegation requests and their dispatch (\<^verbatim>\<open>src/src/friday/application/delegation.py\<close>): one transaction
  creates the child task, binds it to the target agent, starts the child run, parks the parent on
  the request and removes the parent's work item under the worker's claim. The three budgets of the
  constructor are the arguments \<open>per_run\<close>, \<open>per_tree\<close> and \<open>max_depth\<close>.
\<close>

definition MAX_DISPATCH_INPUT_BYTES :: nat where "MAX_DISPATCH_INPUT_BYTES = 16384"

definition check_parent_step :: "RunId \<Rightarrow> RunStepId option \<Rightarrow> unit tx" where
  "check_parent_step run_id step_id =
     (case step_id of
        None \<Rightarrow> tx_return ()
      | Some i \<Rightarrow>
          tx_bind (tx_get (steps_get i)) (\<lambda>found.
          tx_bind (tx_found (RunStepNotFound i) found) (\<lambda>step.
          conflict_if (st_run_id step \<noteq> run_id) ''parent_run_step_id must belong to the parent run'')))"

definition CreateDelegationRequest ::
  "(string \<Rightarrow> string) \<Rightarrow> RunId \<Rightarrow> AgentId \<Rightarrow> string \<Rightarrow> pyval \<Rightarrow> string \<Rightarrow> RunStepId option \<Rightarrow> instant
   \<Rightarrow> DelegationRequest tx" where
  "CreateDelegationRequest sha256 parent_run_id target_agent_id objective input_payload expected_output_contract
      parent_run_step_id now =
     tx_bind (tx_get (runs_get parent_run_id)) (\<lambda>found.
     tx_bind (tx_found (RunNotFound parent_run_id) found) (\<lambda>_.
     tx_bind (check_parent_step parent_run_id parent_run_step_id) (\<lambda>_.
     tx_bind (tx_get (agents_get target_agent_id)) (\<lambda>row.
     tx_bind (tx_found (AgentNotFound target_agent_id) row) (\<lambda>agent.
     tx_bind (conflict_if (\<not> resolvable agent)
       ''delegation target requires an active agent with an active revision'') (\<lambda>_.
     tx_bind fresh_id (\<lambda>i.
     tx_bind (tx_lift (lift_domain (delegation_new sha256 i parent_run_id target_agent_id objective input_payload
       expected_output_contract (utc now) parent_run_step_id None None))) (\<lambda>request.
     tx_bind (delegations_add request) (\<lambda>_.
     tx_return request)))))))))"

definition GetDelegationRequest :: "DelegationRequestId \<Rightarrow> DelegationRequest tx" where
  "GetDelegationRequest i =
     tx_bind (tx_get (delegations_get i)) (tx_found (DelegationRequestNotFound i))"

definition ListDelegationsForRun :: "RunId \<Rightarrow> DelegationRequest list tx" where
  "ListDelegationsForRun run_id =
     tx_bind (tx_get (runs_get run_id)) (\<lambda>found.
     tx_bind (tx_found (RunNotFound run_id) found) (\<lambda>_.
     tx_get (delegations_list_for_run run_id)))"

section \<open>Dispatch\<close>

record DispatchCommand =
  dc_target_agent_key :: string
  dc_objective :: string
  dc_input_payload :: pyval
  dc_expected_output_contract :: string
  dc_parent_run_step_id :: "RunStepId option"

text \<open>The root and the depth a new request inherits from the delegation its parent run executes.\<close>

definition delegation_lineage ::
  "int \<Rightarrow> DelegationRequest option \<Rightarrow> (DelegationRequestId option \<times> int) tx" where
  "delegation_lineage max_depth incoming =
     (case incoming of
        None \<Rightarrow> tx_return (None, 1)
      | Some d \<Rightarrow>
          tx_bind (conflict_if (max_depth < dg_depth d + 1) ''delegation_depth_exhausted'') (\<lambda>_.
          tx_return (Some (dg_root_delegation_id d), dg_depth d + 1)))"

definition check_budgets :: "nat \<Rightarrow> nat \<Rightarrow> RunId \<Rightarrow> DelegationRequestId option \<Rightarrow> unit tx" where
  "check_budgets per_run per_tree parent_id root_id =
     tx_bind (case root_id of
         None \<Rightarrow> tx_return ()
       | Some r \<Rightarrow>
           tx_bind (tx_get (delegations_lock_tree_for_dispatch r)) (\<lambda>locked.
           conflict_if (\<not> locked) ''delegation_lineage_invalid'')) (\<lambda>_.
     tx_bind (tx_get (runs_lock parent_id)) (\<lambda>locked.
     tx_bind (tx_guard locked (RunNotFound parent_id)) (\<lambda>_.
     tx_bind (tx_get (delegations_count_materialized_for_run parent_id)) (\<lambda>used.
     tx_bind (conflict_if (per_run \<le> used) ''delegation_budget_exhausted'') (\<lambda>_.
     case root_id of
       None \<Rightarrow> tx_return ()
     | Some r \<Rightarrow>
         tx_bind (tx_get (delegations_count_materialized_for_tree r)) (\<lambda>tree_used.
         conflict_if (per_tree \<le> tree_used) ''delegation_budget_exhausted''))))))"

definition check_dispatch_input :: "pyval \<Rightarrow> pyval tx" where
  "check_dispatch_input input_payload =
     tx_bind (tx_lift (lift_domain (ensure_json_value ''DelegationRequest.input_payload'' input_payload))) (\<lambda>normalized.
     tx_bind (conflict_if (MAX_DISPATCH_INPUT_BYTES < utf8_length (json_dumps False normalized))
       ''delegation_input_too_large'') (\<lambda>_.
     tx_return normalized))"

definition load_target_agent :: "(string \<Rightarrow> string) \<Rightarrow> string list \<Rightarrow> string \<Rightarrow> Agent tx" where
  "load_target_agent sha256 kinds key =
     tx_bind (tx_get (agents_get_by_key key)) (\<lambda>row.
     tx_bind (tx_found (EntityConflict ''delegation_target_not_found'') row) (\<lambda>agent.
     tx_bind (conflict_if (ag_status agent \<noteq> AgentStatus.ACTIVE) ''delegation_target_unavailable'') (\<lambda>_.
     tx_bind (tx_found (EntityConflict ''delegation_target_unavailable'') (ag_active_revision_id agent)) (\<lambda>revision_id.
     tx_bind (load_revision sha256 revision_id) (\<lambda>found.
     tx_bind (tx_found (EntityConflict ''delegation_target_revision_unavailable'') found) (\<lambda>revision.
     tx_bind (conflict_if (av_agent_id revision \<noteq> ag_id agent) ''delegation_target_revision_unavailable'') (\<lambda>_.
     tx_bind (conflict_if (av_runtime_kind revision \<notin> set kinds) ''delegation_target_runtime_unavailable'') (\<lambda>_.
     tx_bind (conflict_if (case validate_runtime_config kinds (av_runtime_kind revision) (av_runtime_config revision) of
         Inl e \<Rightarrow> True | Inr v \<Rightarrow> False) ''delegation_target_runtime_unavailable'') (\<lambda>_.
     tx_return agent)))))))))"

definition create_child :: "DelegationRequest \<Rightarrow> AgentId \<Rightarrow> instant \<Rightarrow> (TaskId \<times> RunId) tx" where
  "create_child request agent_id now =
     tx_bind fresh_id (\<lambda>i.
     tx_bind (tx_lift (lift_domain (task_new i (take 4000 (''Delegated: '' @ dg_objective request))
       (dg_objective request) (utc now)))) (\<lambda>child_task.
     tx_bind (tasks_add child_task) (\<lambda>_.
     tx_bind (task_agents_replace (tk_id child_task)
       (Some \<lparr>ta_task_id = tk_id child_task, ta_agent_id = agent_id, ta_created_at = now\<rparr>)) (\<lambda>_.
     tx_bind (start_run_in_uow child_task now) (\<lambda>child_run_id.
     tx_return (tk_id child_task, child_run_id))))))"

definition DispatchDelegation ::
  "(string \<Rightarrow> string) \<Rightarrow> string list \<Rightarrow> nat \<Rightarrow> nat \<Rightarrow> int \<Rightarrow> RunClaim \<Rightarrow> DispatchCommand \<Rightarrow> instant
   \<Rightarrow> DelegationRequest tx" where
  "DispatchDelegation sha256 kinds per_run per_tree max_depth c cmd now =
     tx_bind (tx_get (is_claim_active c now)) (\<lambda>active.
     tx_bind (tx_guard active (ClaimLost (''delegation dispatch requires an exact active claim for run '' @
       id_str (rc_run_id c)))) (\<lambda>_.
     tx_bind (tx_get (runs_get (rc_run_id c))) (\<lambda>found.
     tx_bind (tx_found (RunNotFound (rc_run_id c)) found) (\<lambda>parent.
     tx_bind (conflict_if (rn_status parent \<noteq> RunStatus.RUNNING) ''delegation parent must be running'') (\<lambda>_.
     tx_bind (tx_get (delegations_get_for_child_execution (rn_execution_id parent))) (\<lambda>incoming.
     tx_bind (delegation_lineage max_depth incoming) (\<lambda>(root_id, depth).
     tx_bind (check_budgets per_run per_tree (rn_id parent) root_id) (\<lambda>_.
     tx_bind (check_dispatch_input (dc_input_payload cmd)) (\<lambda>input_value.
     tx_bind (check_parent_step (rn_id parent) (dc_parent_run_step_id cmd)) (\<lambda>_.
     tx_bind (load_target_agent sha256 kinds (dc_target_agent_key cmd)) (\<lambda>agent.
     tx_bind fresh_id (\<lambda>i.
     tx_bind (tx_lift (lift_domain (delegation_new sha256 i (rn_id parent) (ag_id agent) (dc_objective cmd)
       input_value (dc_expected_output_contract cmd) (utc now) (dc_parent_run_step_id cmd) root_id
       (Some depth)))) (\<lambda>request.
     tx_bind (create_child request (ag_id agent) now) (\<lambda>(child_task_id, child_run_id).
     tx_bind (tx_call (delegation_dispatch child_task_id child_run_id (utc now) request)) (\<lambda>dispatched.
     tx_bind (delegations_add dispatched) (\<lambda>_.
     tx_bind (tx_call (run_wait_for_delegation (utc now) (dg_id dispatched) parent)) (\<lambda>waiting_parent.
     tx_bind (runs_save waiting_parent) (\<lambda>_.
     tx_bind (remove_if_claimed c now) (\<lambda>removed.
     tx_bind (tx_guard removed (ClaimLost (''delegation dispatch lost claim for run '' @
       id_str (rn_id waiting_parent)))) (\<lambda>_.
     tx_bind (append_run_events waiting_parent now
       [(DELEGATION_DISPATCHED, payload [(''delegation_request_id'', id_value (dg_id dispatched)),
           (''child_task_id'', id_value child_task_id), (''child_run_id'', id_value child_run_id),
           (''target_agent_id'', id_value (ag_id agent)),
           (''status'', PyStr (delegation_status_value (dg_status dispatched)))], None),
        (RUN_WAITING_FOR_DELEGATION, payload [(''run_id'', id_value (rn_id waiting_parent)),
           (''delegation_request_id'', id_value (dg_id dispatched))], None)]) (\<lambda>_.
     tx_return dispatched)))))))))))))))))))))"

end
