(* ===== verification/Run_Refinement.thy ===== *)
theory Run_Refinement
  imports Run_Core Tool_Execution Delegation_Dispatch
begin

text \<open>
  Every transaction of the run side refines the abstract steps of \<open>Run_Core\<close>. \<open>core_of\<close> reads the
  abstract state off the tables. Statements that touch other tables leave it alone (\<open>framed\<close>); the
  statements that change it are collected into blocks that each perform abstract steps (\<open>refined\<close>).
  Both are preorders on databases, so sequences, branches and loops compose by \<open>tx_preorder\<close>.
\<close>

section \<open>Abstraction\<close>

definition core_of :: "run_db \<Rightarrow> run_core" where
  "core_of db = \<lparr>co_runs = (\<lambda>i. runs_get i db), co_work = (\<lambda>i. wq_get i (rd_work db)),
     co_approvals = (\<lambda>a. approvals_get a db), co_delegations = (\<lambda>g. delegations_get g db)\<rparr>"

definition db_keyed :: "run_db \<Rightarrow> bool" where
  "db_keyed db \<longleftrightarrow> keyed rn_id (rd_runs db) \<and> keyed wi_run_id (rd_work db) \<and>
     keyed ap_id (rd_approvals db) \<and> keyed dg_id (rd_delegations db)"

definition framed :: "run_db \<Rightarrow> run_db \<Rightarrow> bool" where
  "framed s s' \<longleftrightarrow> rd_runs s' = rd_runs s \<and> rd_work s' = rd_work s \<and>
     rd_approvals s' = rd_approvals s \<and> rd_delegations s' = rd_delegations s"

definition refined :: "string set \<Rightarrow> run_db \<Rightarrow> run_db \<Rightarrow> bool" where
  "refined T s s' \<longleftrightarrow> (db_keyed s \<longrightarrow> db_keyed s' \<and> moves T (core_of s) (core_of s'))"

interpretation frame: tx_preorder framed
  by unfold_locales (auto simp: framed_def)

interpretation refine: tx_preorder "refined T" for T
  by unfold_locales (auto simp: refined_def intro: moves_trans)

lemma framed_core: "framed s s' \<Longrightarrow> core_of s' = core_of s \<and> db_keyed s' = db_keyed s"
  by (simp add: framed_def core_of_def db_keyed_def runs_get_def approvals_get_def delegations_get_def)

lemma framed_refined: "tx_rel framed m \<Longrightarrow> tx_rel (refined T) m"
  unfolding tx_rel_def refined_def using framed_core moves_refl by metis

text \<open>Reads are normalised to reads of the abstract state.\<close>

lemma core_reads:
  "runs_get i db = co_runs (core_of db) i"
  "wq_get i (rd_work db) = co_work (core_of db) i"
  "approvals_get a db = co_approvals (core_of db) a"
  "delegations_get g db = co_delegations (core_of db) g"
  by (simp_all add: core_of_def)

lemma core_of_put:
  "core_of (rd_runs_update (merge_row rn_id r) db) = put_run r (core_of db)"
  "core_of (rd_approvals_update (merge_row ap_id a) db) = put_approval a (core_of db)"
  "core_of (rd_work_update (wq_enqueue i av e) db) = enqueue_run i av e (core_of db)"
  "core_of (rd_work_update (wq_remove i) db) = put_item i None (core_of db)"
  by (auto simp: core_of_def core_put runs_get_def approvals_get_def delegations_get_def get_merge_row
      wq_get_enqueue wq_get_remove)

lemma core_of_insert:
  "runs_get (rn_id r) db = None \<Longrightarrow> core_of (rd_runs_update (\<lambda>t. t @ [r]) db) = put_run r (core_of db)"
  "approvals_get (ap_id a) db = None \<Longrightarrow>
     core_of (rd_approvals_update (\<lambda>t. t @ [a]) db) = put_approval a (core_of db)"
  "delegations_get (dg_id d) db = None \<Longrightarrow>
     core_of (rd_delegations_update (\<lambda>t. t @ [d]) db) = put_delegation d (core_of db)"
  by (auto simp: core_of_def core_put runs_get_def approvals_get_def delegations_get_def get_row_append
      get_row_Cons fun_eq_iff split: option.split)

lemma keyed_snoc: "keyed key t \<Longrightarrow> get_row key (key r) t = None \<Longrightarrow> keyed key (t @ [r])"
  by (simp add: get_row_None_iff) (simp add: keyed_def)

lemma db_keyed_put:
  "db_keyed db \<Longrightarrow> db_keyed (rd_runs_update (merge_row rn_id r) db)"
  "db_keyed db \<Longrightarrow> db_keyed (rd_approvals_update (merge_row ap_id a) db)"
  "db_keyed db \<Longrightarrow> db_keyed (rd_work_update (wq_enqueue i av e) db)"
  "db_keyed db \<Longrightarrow> db_keyed (rd_work_update (wq_remove i) db)"
  "db_keyed db \<Longrightarrow> runs_get (rn_id r) db = None \<Longrightarrow> db_keyed (rd_runs_update (\<lambda>t. t @ [r]) db)"
  "db_keyed db \<Longrightarrow> approvals_get (ap_id a) db = None \<Longrightarrow> db_keyed (rd_approvals_update (\<lambda>t. t @ [a]) db)"
  "db_keyed db \<Longrightarrow> delegations_get (dg_id d) db = None \<Longrightarrow> db_keyed (rd_delegations_update (\<lambda>t. t @ [d]) db)"
  by (simp_all add: db_keyed_def keyed_merge keyed_enqueue wq_remove_def keyed_filter keyed_snoc
      runs_get_def approvals_get_def delegations_get_def)

section \<open>Statements that leave the abstract state alone\<close>

named_theorems frame_rules \<open>transactions that keep runs, work items, approvals and delegations\<close>

lemma frame_insert_row:
  "(\<And>g s. framed s (upd g s)) \<Longrightarrow> tx_rel framed (insert_row table upd clash r)"
  unfolding insert_row_def by (intro frame.rel_rules frame.rel_put) simp

lemma frame_primitives [frame_rules]:
  "tx_rel framed fresh_id"
  "tx_rel framed (tasks_add t)" "tx_rel framed (tasks_save t)"
  "tx_rel framed (steps_add st)" "tx_rel framed (steps_save st)"
  "tx_rel framed (tools_add ti)" "tx_rel framed (tools_save ti)" "tx_rel framed (artifacts_add af)"
  "tx_rel framed (schedules_complete_for_task k now c)"
  "tx_rel framed (skill_resolutions_add sr)" "tx_rel framed (skill_bindings_add sb)"
  "tx_rel framed (agent_resolutions_add ar)" "tx_rel framed (usage_add u)"
  "tx_rel framed (events_reserve_sequences i n)" "tx_rel framed (events_append e)"
  "tx_rel framed (task_events_reserve_sequences k n)" "tx_rel framed (task_events_append te)"
  by (unfold fresh_id_def tasks_add_def tasks_save_def steps_add_def steps_save_def tools_add_def tools_save_def
      artifacts_add_def schedules_complete_for_task_def skill_resolutions_add_def skill_bindings_add_def
      agent_resolutions_add_def usage_add_def events_reserve_sequences_def events_append_def
      task_events_reserve_sequences_def task_events_append_def)
     (intro frame.rel_rules frame_insert_row frame.rel_put frame.rel_step; simp add: framed_def)+

lemma frame_events [frame_rules]:
  "tx_rel framed (append_run_event i now e)"
  "tx_rel framed (append_run_events run now specs)"
  "tx_rel framed (append_task_event task now kind value)"
  by (unfold append_run_events_def append_run_event_def append_task_event_def)
     (intro frame.rel_rules frame_rules)+

lemma frame_cancel [frame_rules]:
  "tx_rel framed (cancel_tool now t)" "tx_rel framed (cancel_tools ts now)"
  "tx_rel framed (cancel_step now st)" "tx_rel framed (cancel_children i now)"
  by (unfold cancel_children_def cancel_step_def cancel_tools_def cancel_tool_def)
     (intro frame.rel_rules frame_rules)+

lemma frame_usage [frame_rules]:
  "tx_rel framed (usage_record run res n tools approvals now b)"
  "tx_rel framed (materialize_skill_usage_in_uow i now)"
  by (unfold materialize_skill_usage_in_uow_def usage_record_def Let_def) (intro frame.rel_rules frame_rules)+

lemma frame_inherit [frame_rules]: "tx_rel framed (inherit_frozen_resolutions_in_uow src retry)"
  unfolding inherit_frozen_resolutions_in_uow_def inherit_skills_def inherit_agent_def
  by (intro frame.rel_rules frame_rules)

lemma frame_task [frame_rules]:
  "tx_rel framed (ensure_task_can_own_a_run task now)" "tx_rel framed (CreateTask title description now)"
  "tx_rel framed (CompleteTask k now)" "tx_rel framed (FailTask k failure now)"
  by (unfold ensure_task_can_own_a_run_def CreateTask_def CompleteTask_def FailTask_def)
     (intro frame.rel_rules frame_rules)+

lemma frame_steps [frame_rules]:
  "tx_rel framed (CreateOrderedStep i name now)" "tx_rel framed (StartStep j now)"
  "tx_rel framed (CompleteStep j now)" "tx_rel framed (FailStep j failure now)"
  "tx_rel framed (SkipPendingStep j now)" "tx_rel framed (CancelStep j now)"
  by (unfold CreateOrderedStep_def StartStep_def CompleteStep_def FailStep_def SkipPendingStep_def
      CancelStep_def load_step_def)
     (intro frame.rel_rules frame_rules)+

lemma frame_approval_steps [frame_rules]:
  "tx_rel framed (load_running_step run j refusal)" "tx_rel framed (park_step st a now)"
  "tx_rel framed (load_approval_run p)" "tx_rel framed (load_approval_step p r)"
  "tx_rel framed (resume_step st a now)" "tx_rel framed (load_approval a)"
  by (unfold load_running_step_def park_step_def load_approval_run_def load_approval_step_def resume_step_def
      load_approval_def)
     (intro frame.rel_rules frame_rules)+

lemma frame_agents [frame_rules]:
  "tx_rel framed (agents_add ag)" "tx_rel framed (agents_save ag)" "tx_rel framed (agent_revisions_add av)"
  "tx_rel framed (task_agents_replace k ta)" "tx_rel framed (agent_resolutions_add_if_claimed ar w t g now)"
  by (unfold agents_add_def agents_save_def agent_revisions_add_def task_agents_replace_def
      agent_resolutions_add_if_claimed_def agent_resolutions_add_def)
     (intro frame.rel_rules frame_insert_row frame.rel_put; simp add: framed_def)+

lemma frame_registry [frame_rules]:
  "tx_rel framed (CreateAgent key name description now)"
  "tx_rel framed (CreateAgentRevision sha256 kinds ag_i instructions kind config src now)"
  "tx_rel framed (load_revision sha256 av_i)"
  "tx_rel framed (ActivateAgentRevision sha256 ag_i av_i now)"
  "tx_rel framed (DisableAgent ag_i now)" "tx_rel framed (ArchiveAgent ag_i now)"
  "tx_rel framed (ReplaceTaskAgent k ag_o now)"
  by (unfold CreateAgent_def CreateAgentRevision_def load_revision_def ActivateAgentRevision_def DisableAgent_def
      ArchiveAgent_def change_agent_def ReplaceTaskAgent_def)
     (intro frame.rel_rules frame_rules)+

lemma frame_resolution [frame_rules]:
  "tx_rel framed (conflict_if b m)" "tx_rel framed (check_frozen run ar dg n)"
  "tx_rel framed (check_runtime kinds revn)" "tx_rel framed (publish_resolution c ag_i revn clock)"
  by (unfold conflict_if_def check_frozen_def check_runtime_def publish_resolution_def Let_def)
     (intro frame.rel_rules frame_rules)+

lemma frame_load_for_resolution [frame_rules]: "tx_rel framed (load_for_resolution sha256 av_i)"
  unfolding load_for_resolution_def
  by (intro frame.rel_rules) (auto intro: frame.rel_rules split: sum.split domain_error.split)

lemma frame_resolve_run_agent [frame_rules]: "tx_rel framed (resolve_run_agent sha256 kinds c clock)"
  unfolding resolve_run_agent_def resolve_workflow_child_def resolve_bound_agent_def
  by (intro frame.rel_rules frame_rules)

lemma frame_ResolveRunAgent: "tx_rel framed (ResolveRunAgent sha256 kinds c clock later)"
  by (rule tx_relI) (auto dest!: ResolveRunAgent_cases dest: tx_relD [OF frame_resolve_run_agent] intro: frame.refl)

lemma frame_dispatch [frame_rules]:
  "tx_rel framed (check_parent_step i j)" "tx_rel framed (delegation_lineage depth dg)"
  "tx_rel framed (check_budgets m n i g)" "tx_rel framed (check_dispatch_input v)"
  "tx_rel framed (load_target_agent sha256 kinds key)"
  "tx_rel framed (GetDelegationRequest g')" "tx_rel framed (ListDelegationsForRun i)"
  by (unfold check_parent_step_def delegation_lineage_def check_budgets_def check_dispatch_input_def
      load_target_agent_def GetDelegationRequest_def ListDelegationsForRun_def)
     (intro frame.rel_rules frame_rules)+

lemma frame_tools [frame_rules]:
  "tx_rel framed (RequestToolInvocation cmd now)" "tx_rel framed (MarkToolInvocationRunning t moved now)"
  "tx_rel framed (MarkToolInvocationSucceeded t result moved now)"
  "tx_rel framed (MarkToolInvocationFailed t failure moved now)"
  "tx_rel framed (CancelToolInvocation t moved now)" "tx_rel framed (RecordArtifact rec now)"
  by (unfold RequestToolInvocation_def MarkToolInvocationRunning_def MarkToolInvocationSucceeded_def
      MarkToolInvocationFailed_def CancelToolInvocation_def RecordArtifact_def load_invocation_def
      commit_with_event_def check_invocation_approval_def check_artifact_step_def)
     (intro frame.rel_rules frame_rules)+

lemma frame_tool_action [frame_rules]:
  "tx_rel framed (require_claim c now)" "tx_rel framed (start_invocation run a approval now)"
  "tx_rel framed (record_candidate i st now ac)" "tx_rel framed (settle_invocation now st result ti)"
  "tx_rel framed (finish_tool_action a t result now)"
  by (unfold require_claim_def start_invocation_def record_candidate_def settle_invocation_def finish_tool_action_def Let_def)
     (intro frame.rel_rules frame_rules)+

section \<open>Rules for the statements that write the abstract state\<close>

named_theorems core_rules \<open>rules for statements, in terms of the abstract state\<close>

lemma list_ex_key_iff: "list_ex (\<lambda>x. key x = k) t \<longleftrightarrow> get_row key k t \<noteq> None"
  by (auto simp: get_row_None_iff list_ex_iff)

lemma rule_runs_add [core_rules]:
  "db_keyed s \<Longrightarrow> (\<And>s'. co_runs (core_of s) (rn_id r) = None \<Longrightarrow> db_keyed s' \<Longrightarrow>
     core_of s' = put_run r (core_of s) \<Longrightarrow> Q () s') \<Longrightarrow> wp (runs_add r) Q s"
  by (simp add: runs_add_def insert_row_def wp_simps list_ex_key_iff core_of_insert db_keyed_put
      flip: runs_get_def core_reads)

lemma rule_approvals_add [core_rules]:
  "db_keyed s \<Longrightarrow> (\<And>s'. co_approvals (core_of s) (ap_id a) = None \<Longrightarrow> db_keyed s' \<Longrightarrow>
     core_of s' = put_approval a (core_of s) \<Longrightarrow> Q () s') \<Longrightarrow> wp (approvals_add a) Q s"
  by (simp add: approvals_add_def insert_row_def wp_simps list_ex_key_iff core_of_insert db_keyed_put
      flip: approvals_get_def core_reads)

lemma rule_delegations_add [core_rules]:
  "db_keyed s \<Longrightarrow> (\<And>s'. co_delegations (core_of s) (dg_id d) = None \<Longrightarrow> db_keyed s' \<Longrightarrow>
     core_of s' = put_delegation d (core_of s) \<Longrightarrow> Q () s') \<Longrightarrow> wp (delegations_add d) Q s"
proof -
  assume k: "db_keyed s" and q: "\<And>s'. co_delegations (core_of s) (dg_id d) = None \<Longrightarrow> db_keyed s' \<Longrightarrow>
     core_of s' = put_delegation d (core_of s) \<Longrightarrow> Q () s'"
  have "delegations_get (dg_id d) s = None" if "\<not> list_ex (clash d) (rd_delegations s)"
    and "\<And>x. dg_id x = dg_id d \<Longrightarrow> clash d x" for clash :: "DelegationRequest \<Rightarrow> DelegationRequest \<Rightarrow> bool"
    using that unfolding delegations_get_def get_row_None_iff by (auto simp: list_ex_iff)
  then show ?thesis using k q
    by (auto simp: delegations_add_def insert_row_def wp_simps core_of_insert db_keyed_put simp flip: core_reads)
qed

lemma rule_runs_save [core_rules]:
  "db_keyed s \<Longrightarrow> (\<And>s'. db_keyed s' \<Longrightarrow> core_of s' = put_run r (core_of s) \<Longrightarrow> Q () s') \<Longrightarrow> wp (runs_save r) Q s"
  by (simp add: runs_save_def wp_simps core_of_put db_keyed_put)

lemma rule_approvals_save [core_rules]:
  "db_keyed s \<Longrightarrow> (\<And>s'. db_keyed s' \<Longrightarrow> core_of s' = put_approval a (core_of s) \<Longrightarrow> Q () s') \<Longrightarrow>
   wp (approvals_save a) Q s"
  by (simp add: approvals_save_def wp_simps core_of_put db_keyed_put)

lemma rule_work_enqueue [core_rules]:
  "db_keyed s \<Longrightarrow> (\<And>s'. db_keyed s' \<Longrightarrow> core_of s' = enqueue_run i av e (core_of s) \<Longrightarrow> Q () s') \<Longrightarrow>
   wp (work_enqueue i av e) Q s"
  by (simp add: work_enqueue_def wp_simps core_of_put db_keyed_put)

lemma rule_work_remove [core_rules]:
  "db_keyed s \<Longrightarrow> (\<And>s'. db_keyed s' \<Longrightarrow> core_of s' = put_item i None (core_of s) \<Longrightarrow> Q () s') \<Longrightarrow>
   wp (work_remove i) Q s"
  by (simp add: work_remove_def wp_simps core_of_put db_keyed_put)

text \<open>A conditional update or deletion of the work item \<open>q\<close>: it hits the item or changes nothing.\<close>

lemma core_of_work:
  assumes "\<And>i. wq_get i t' = (if i = q then w else wq_get i (rd_work s))"
  shows "core_of (rd_work_update (\<lambda>t. t') s) = put_item q w (core_of s)"
  using assms by (auto simp: core_of_def core_put runs_get_def approvals_get_def delegations_get_def)

lemma put_item_same: "co_work c q = w \<Longrightarrow> put_item q w c = c"
  by (simp add: put_item_def fun_upd_idem)

lemma rule_work_update:
  assumes k: "db_keyed s" and q: "\<And>i. P i \<Longrightarrow> wi_run_id i = q" and f: "\<And>i. wi_run_id (f i) = wi_run_id i"
    and hit: "\<And>i s'. co_work (core_of s) q = Some i \<Longrightarrow> P i \<Longrightarrow> db_keyed s' \<Longrightarrow>
      core_of s' = put_item q (Some (f i)) (core_of s) \<Longrightarrow> Q True s'"
    and miss: "\<And>s'. (\<And>i. co_work (core_of s) q = Some i \<Longrightarrow> \<not> P i) \<Longrightarrow> db_keyed s' \<Longrightarrow>
      core_of s' = core_of s \<Longrightarrow> Q False s'"
  shows "wp (work_step (wq_update P f)) Q s"
proof -
  let ?t = "snd (wq_update P f (rd_work s))" and ?s = "rd_work_update (\<lambda>t. snd (wq_update P f t)) s"
  have kw: "keyed wi_run_id (rd_work s)" using k by (simp add: db_keyed_def)
  have k': "db_keyed ?s" using k f by (simp add: db_keyed_def keyed_wq_update)
  have s: "?s = rd_work_update (\<lambda>t. ?t) s" by simp
  have c: "core_of ?s = put_item q (map_option (\<lambda>i. if P i then f i else i) (wq_get q (rd_work s))) (core_of s)"
    unfolding s by (rule core_of_work) (simp add: wq_get_update [OF q f])
  have "Q (fst (wq_update P f (rd_work s))) ?s"
  proof (cases "\<exists>i. wq_get q (rd_work s) = Some i \<and> P i")
    case True
    then have h: "fst (wq_update P f (rd_work s))" by (simp only: wq_update_def wq_hit [OF kw q] fst_conv)
    from True obtain i where "wq_get q (rd_work s) = Some i" "P i" by blast
    then show ?thesis using c k' h by (auto simp: core_reads intro!: hit)
  next
    case False
    then have "core_of ?s = core_of s" using c by (cases "wq_get q (rd_work s)") (simp_all add: put_item_same core_reads)
    moreover have "\<not> fst (wq_update P f (rd_work s))" using False by (simp only: wq_update_def wq_hit [OF kw q] fst_conv not_False_eq_True)
    ultimately show ?thesis using k' False by (auto simp: core_reads intro: miss)
  qed
  then show ?thesis by (simp add: work_step_def wp_simps)
qed

lemma rule_work_delete:
  assumes k: "db_keyed s" and q: "\<And>i. P i \<Longrightarrow> wi_run_id i = q"
    and hit: "\<And>i s'. co_work (core_of s) q = Some i \<Longrightarrow> P i \<Longrightarrow> db_keyed s' \<Longrightarrow>
      core_of s' = put_item q None (core_of s) \<Longrightarrow> Q True s'"
    and miss: "\<And>s'. (\<And>i. co_work (core_of s) q = Some i \<Longrightarrow> \<not> P i) \<Longrightarrow> db_keyed s' \<Longrightarrow>
      core_of s' = core_of s \<Longrightarrow> Q False s'"
  shows "wp (work_step (wq_delete P)) Q s"
proof -
  let ?t = "snd (wq_delete P (rd_work s))" and ?s = "rd_work_update (\<lambda>t. snd (wq_delete P t)) s"
  have kw: "keyed wi_run_id (rd_work s)" using k by (simp add: db_keyed_def)
  have k': "db_keyed ?s" using k by (simp add: db_keyed_def wq_delete_def keyed_filter)
  have s: "?s = rd_work_update (\<lambda>t. ?t) s" by simp
  have c: "core_of ?s = put_item q (case wq_get q (rd_work s) of None \<Rightarrow> None | Some i \<Rightarrow> if P i then None else Some i)
      (core_of s)"
    unfolding s by (rule core_of_work) (simp add: wq_get_delete [OF kw q])
  have "Q (fst (wq_delete P (rd_work s))) ?s"
  proof (cases "\<exists>i. wq_get q (rd_work s) = Some i \<and> P i")
    case True
    then have h: "fst (wq_delete P (rd_work s))" by (simp only: wq_delete_def wq_hit [OF kw q] fst_conv)
    from True obtain i where "wq_get q (rd_work s) = Some i" "P i" by blast
    then show ?thesis using c k' h by (auto simp: core_reads intro!: hit)
  next
    case False
    then have "core_of ?s = core_of s" using c by (cases "wq_get q (rd_work s)") (simp_all add: put_item_same core_reads)
    moreover have "\<not> fst (wq_delete P (rd_work s))" using False by (simp only: wq_delete_def wq_hit [OF kw q] fst_conv not_False_eq_True)
    ultimately show ?thesis using k' False by (auto simp: core_reads intro: miss)
  qed
  then show ?thesis by (simp add: work_step_def wp_simps)
qed

lemma rule_framed:
  assumes "tx_rel framed m" and "db_keyed s"
    and "\<And>x s'. db_keyed s' \<Longrightarrow> core_of s' = core_of s \<Longrightarrow> Q x s'"
  shows "wp m Q s"
  by (rule wpI) (use assms framed_core in \<open>blast dest: tx_relD\<close>)

lemma rule_refined:
  assumes "tx_rel (refined T) m" and "db_keyed s"
    and "\<And>x s'. db_keyed s' \<Longrightarrow> moves T (core_of s) (core_of s') \<Longrightarrow> Q x s'"
  shows "wp m Q s"
  by (rule wpI) (use assms in \<open>auto dest!: tx_relD simp: refined_def\<close>)

lemma refinedI:
  "(\<And>s. db_keyed s \<Longrightarrow> wp m (\<lambda>x s'. db_keyed s' \<and> moves T (core_of s) (core_of s')) s) \<Longrightarrow> tx_rel (refined T) m"
  unfolding tx_rel_wp refined_def by (rule allI, rule wpI) (blast dest: wpD)

end
