(* ===== verification/Run_Simulation.thy ===== *)
theory Run_Simulation
  imports Run_Refinement
begin

text \<open>
  The transactions of the run side, each shown to perform a path of abstract steps. The first
  section gives the paths that several transactions share; the others follow the transactions.
\<close>

lemmas frame_core_rules [core_rules] = frame_rules [THEN rule_framed]

section \<open>Paths\<close>

lemma run_newD:
  "run_new i k t e = Inr r \<Longrightarrow> rn_id r = i \<and> rn_status r = RunStatus.QUEUED \<and> run_inv r"
  using run_new_inv [of i k t e r] by (auto simp: run_new_def outcome_simps)

lemma lift_domain_Inr: "lift_domain x = Inr y \<longleftrightarrow> x = Inr y"
  by (cases x) (simp_all add: lift_domain_def)

lemma move_create:
  "co_runs c (rn_id r) = None \<Longrightarrow> run_new i k t x = Inr r \<Longrightarrow> moves T c (enqueue_run (rn_id r) a e (put_run r c))"
  by (blast intro: moves_step core_step.create dest: run_newD)

lemma core_of_keys: "core_keys (core_of s)"
  by (auto simp: core_keys_def runs_get_def wq_get_def approvals_get_def delegations_get_def core_of_def
      dest: get_row_key)

lemma core_ids:
  "co_runs (core_of s) i = Some r \<Longrightarrow> rn_id r = i"
  "co_work (core_of s) i = Some w \<Longrightarrow> wi_run_id w = i"
  "co_approvals (core_of s) a = Some p \<Longrightarrow> ap_id p = a"
  "co_delegations (core_of s) g = Some d \<Longrightarrow> dg_id d = g"
  using core_of_keys [of s] by (simp_all add: core_keys_def)

lemma put_commute [simp]:
  "put_item i w (put_item i w' c) = put_item i w c"
  "put_run r (put_item i w c) = put_item i w (put_run r c)"
  "put_approval p (put_item i w c) = put_item i w (put_approval p c)"
  "put_approval p (put_run r c) = put_run r (put_approval p c)"
  by (simp_all add: core_put)

lemma move_advance:
  "co_runs c i = Some r \<Longrightarrow> quiet x \<Longrightarrow> run_step x r = Done r' \<Longrightarrow> moves T c (put_run r' c)"
  by (rule moves_step [OF core_step.advance]) auto

lemma move_discard:
  "(\<And>r. co_runs c i = Some r \<Longrightarrow> parked (rn_status r)) \<Longrightarrow> moves T c (put_item i None c)"
  by (rule moves_step [OF core_step.discard]) auto

lemma move_finish:
  "co_runs c i = Some r \<Longrightarrow> quiet x \<Longrightarrow> run_step x r = Done r' \<Longrightarrow> rn_id r' = i \<Longrightarrow> parked (rn_status r') \<Longrightarrow>
   moves T c (put_item i None (put_run r' c))"
  by (rule moves_trans [OF move_advance move_discard]) auto

lemma move_claim:
  assumes "co_work c i = Some w" and "co_runs c i = Some r" and "token \<in> T"
  shows "rn_status r = RunStatus.RUNNING \<Longrightarrow> moves T c (put_item i (Some (take_claim worker token now e w)) c)"
    and "run_start t r = Done r' \<Longrightarrow> moves T c (put_item i (Some (take_claim worker token now e w)) (put_run r' c))"
  using moves_step [OF core_step.claim [of c i r w token worker now e]]
    moves_step [OF core_step.claim_start [of c i r t r' w token worker now e]] assms by simp_all

section \<open>Claiming\<close>

lemma discard_then:
  assumes m: "tx_rel (refined T) m" and s': "db_keyed s'" "core_of s' = put_item i x c"
    and p: "\<And>r. co_runs c i = Some r \<Longrightarrow> parked (rn_status r)"
  shows "wp (work_remove i) (\<lambda>_. wp m (\<lambda>y s''. db_keyed s'' \<and> moves T c (core_of s''))) s'"
proof (rule rule_work_remove [OF s'(1)], rule rule_refined [OF m])
  fix s1 s2 assume "db_keyed s2" "core_of s1 = put_item i None (core_of s')" "moves T (core_of s1) (core_of s2)"
  then show "db_keyed s2 \<and> moves T c (core_of s2)"
    using moves_trans [OF move_discard, of c i T "core_of s2"] p s'(2) by simp
qed

lemma refine_claim: "set tokens \<subseteq> T \<Longrightarrow> tx_rel (refined T) (claim_first w now e tokens cs)"
proof (induction w now e tokens cs rule: claim_first.induct)
  case (1 w now e token tokens c rest)
  have ih: "tx_rel (refined T) (claim_first w now e tokens rest)" and t: "token \<in> T"
    using 1 by simp_all
  let ?Q = "\<lambda>s x s'. db_keyed s' \<and> moves T (core_of s) (core_of s')"
  have won: "wp (start_claimed_run r now) (\<lambda>x s'. ?Q s x s') s'"
    if "co_work (core_of s) i = Some it" "co_runs (core_of s) i = Some r" "\<not> parked (rn_status r)" "db_keyed s'"
      "core_of s' = put_item i (Some (take_claim w token now e it)) (core_of s)" for s s' i it r
    using that move_claim [of "core_of s" i it r token T] t
    by (auto simp: start_claimed_run_def wp_simps parked_status intro!: rule_runs_save rule_framed [OF frame_events(2)])
  show ?case
    unfolding claim_first.simps wq_try_claim_def
  proof (rule refinedI, unfold wp_bind, rule rule_work_update, assumption, erule conjunct1, goal_cases)
    case (1 s i) then show ?case by (simp add: take_claim_def)
  next
    case (2 s it s')
    then show ?case
      by (auto simp: wp_simps core_reads split: option.split
          intro!: discard_then [OF ih] wp_mono [OF won])
  next
    case (3 s s')
    then show ?case by (auto simp: wp_simps intro: rule_refined [OF ih])
  qed
qed (simp_all add: refine.rel_return)


section \<open>Delegation reconciliation\<close>

lemma map_entry:
  assumes "\<And>k x. m k = Some x \<Longrightarrow> key x = k" and "\<And>x. P x \<Longrightarrow> key x = g"
  shows "m g = Some d \<Longrightarrow> P d \<Longrightarrow> (\<lambda>h. map_option (\<lambda>x. if P x then f x else x) (m h)) = m(g \<mapsto> f d)"
    and "(\<And>d. m g = Some d \<Longrightarrow> \<not> P d) \<Longrightarrow> (\<lambda>h. map_option (\<lambda>x. if P x then f x else x) (m h)) = m"
  using assms by (auto simp: fun_eq_iff map_option_case split: option.split)

lemma rule_finalize:
  assumes k: "db_keyed s"
    and hit: "\<And>d s'. co_delegations (core_of s) g = Some d \<Longrightarrow> dg_status d = DelegationStatus.DISPATCHED \<Longrightarrow>
      db_keyed s' \<Longrightarrow> core_of s' = put_delegation (d\<lparr>dg_status := st, dg_completed_at := Some t, dg_failure_code := f\<rparr>)
        (core_of s) \<Longrightarrow> Q True s'"
    and miss: "\<And>s'. db_keyed s' \<Longrightarrow> core_of s' = core_of s \<Longrightarrow> Q False s'"
  shows "wp (delegations_finalize_if_dispatched g st t f) Q s"
proof -
  let ?P = "\<lambda>d. dg_id d = g \<and> dg_status d = DelegationStatus.DISPATCHED"
  let ?f = "\<lambda>d. d\<lparr>dg_status := st, dg_completed_at := Some t, dg_failure_code := f\<rparr>"
  let ?s = "rd_delegations_update (update_rows ?P ?f) s"
  have kd: "keyed dg_id (rd_delegations s)" using k by (simp add: db_keyed_def)
  have k': "db_keyed ?s" using k by (simp add: db_keyed_def keyed_update)
  have n: "row_count ?P (rd_delegations s) =
      (case delegations_get g s of None \<Rightarrow> 0 | Some r \<Rightarrow> if ?P r then 1 else 0)"
    unfolding delegations_get_def by (rule keyed_row_count [OF kd]) simp
  let ?m = "\<lambda>h. map_option (\<lambda>d. if ?P d then ?f d else d) (co_delegations (core_of s) h)"
  have c: "core_of ?s = (core_of s)\<lparr>co_delegations := ?m\<rparr>"
    by (simp add: core_of_def runs_get_def approvals_get_def delegations_get_def get_row_update)
  note entry = map_entry [where m = "co_delegations (core_of s)" and key = dg_id and g = g and P = ?P and f = ?f, OF core_ids(4)]
  have "Q (row_count ?P (rd_delegations s) = 1) ?s"
  proof (cases "\<exists>d. delegations_get g s = Some d \<and> ?P d")
    case True
    then obtain d where d1: "co_delegations (core_of s) g = Some d" "?P d" by (auto simp: core_reads)
    then have "core_of ?s = put_delegation (?f d) (core_of s)"
      unfolding c by (simp add: entry(1) [OF _ _ d1] put_delegation_def)
    then show ?thesis using hit [of d ?s] d1 k' n by (simp add: core_reads)
  next
    case False
    then have "core_of ?s = core_of s"
      unfolding c by (subst entry(2)) (auto simp: core_reads)
    then show ?thesis using miss [of ?s] False k' n by (auto split: option.splits)
  qed
  then show ?thesis by (simp add: delegations_finalize_if_dispatched_def wp_simps Let_def)
qed


lemma settle_request_ident:
  "settle_request now st f d = Done d' \<Longrightarrow> dg_id d' = dg_id d \<and> dg_parent_run_id d' = dg_parent_run_id d"
  by (auto simp: settle_request_def delegation_defs outcome_simps Let_def split: DelegationStatus.splits)

lemma verdict_terminal:
  "delegation_verdict latest = (st, kind, f) \<Longrightarrow> st \<in> set TERMINAL_DELEGATION_STATUSES"
  by (auto simp: delegation_verdict_def TERMINAL_DELEGATION_STATUSES_def split: RunStatus.splits)

lemma sorted_head: "sort_key f ys = d # xs \<Longrightarrow> d \<in> set ys"
  by (metis list.set_intros(1) set_sort)

lemma child_request_in:
  "delegations_get_for_child_execution e s = Some d \<Longrightarrow> d \<in> set (rd_delegations s)"
  by (auto simp: delegations_get_for_child_execution_def split: list.splits dest: sorted_head)

lemma child_request_core:
  "db_keyed s \<Longrightarrow> delegations_get_for_child_execution e s = Some d \<Longrightarrow> co_delegations (core_of s) (dg_id d) = Some d"
  unfolding core_reads [symmetric] delegations_get_def
  by (rule keyed_get) (simp_all add: db_keyed_def child_request_in)

lemma refine_wake:
  assumes "co_delegations c (dg_id req) = Some d" "settled d d'" "dg_parent_run_id d = dg_parent_run_id req"
    "db_keyed s" "core_of s = put_delegation d' c" "core_keys c"
  shows "wp (wake_parent req kind value now) (\<lambda>x s'. db_keyed s' \<and> moves T c (core_of s')) s"
proof (cases "\<exists>r. co_runs c (dg_parent_run_id req) = Some r \<and> waits_for_delegation r (dg_id req)")
  case True
  then obtain r where r: "co_runs c (dg_parent_run_id req) = Some r" "waits_for_delegation r (dg_id req)" by blast
  then have "moves T c (enqueue_run (dg_parent_run_id req) av e (put_run r' (put_delegation d' c)))"
    if "run_resume_from_delegation (utc now) r = Done r'" for r' av e
    using moves_step [OF core_step.settle_waking] assms that by blast
  moreover have "rn_id r' = dg_parent_run_id req" if "run_resume_from_delegation (utc now) r = Done r'" for r'
    using run_step_id [OF named_run_steps(5) [OF that]] assms(6) r(1) by (simp add: core_keys_def)
  ultimately show ?thesis using r assms(4,5)
    by (auto simp: wake_parent_def wp_simps core_reads waits_for_delegation_def
        intro!: rule_runs_save rule_work_enqueue rule_framed [OF frame_events(2)])
next
  case False
  then have "moves T c (put_delegation d' c)"
    using assms by (intro moves_step [OF core_step.settle_idle]) auto
  then show ?thesis using False assms
    by (auto simp: wake_parent_def wp_simps core_reads waits_for_delegation_def split: option.split)
qed

lemma settled_update:
  "dg_status d = DelegationStatus.DISPATCHED \<Longrightarrow> st \<in> set TERMINAL_DELEGATION_STATUSES \<Longrightarrow>
   settled d (d\<lparr>dg_status := st, dg_completed_at := Some t, dg_failure_code := f\<rparr>)"
  by (auto simp: settled_def)

lemma refine_reconcile: "tx_rel (refined T) (reconcile_child_terminal_in_uow child now)"
proof (rule refinedI)
  fix s assume k: "db_keyed s"
  have "wp (delegations_finalize_if_dispatched (dg_id req) st now f) (\<lambda>won. wp
      (if \<not> won then tx_return () else tx_bind (tx_call (settle_request now st f req)) (\<lambda>x. wake_parent x kind body now))
      (\<lambda>x s'. db_keyed s' \<and> moves T (core_of s) (core_of s'))) s"
    if v: "delegation_verdict latest = (st, kind, f)"
      and d: "delegations_get_for_child_execution e s = Some req" for latest st kind f e req body
  proof (rule rule_finalize [OF k], goal_cases)
    case (1 d s')
    then have "d = req" using child_request_core [OF k d] by simp
    then show ?case using 1 settled_update [of d st f now] verdict_terminal [OF v]
      by (auto simp: wp_simps core_of_keys dest!: settle_request_ident intro!: refine_wake)
  next
    case (2 s')
    then show ?case by (simp add: wp_simps)
  qed
  then show "wp (reconcile_child_terminal_in_uow child now) (\<lambda>x s'. db_keyed s' \<and> moves T (core_of s) (core_of s')) s"
    using k by (auto simp: reconcile_child_terminal_in_uow_def wp_simps split: option.split prod.split)
qed

section \<open>Starting, finishing and cancelling runs\<close>

fun finishing :: "run_call \<Rightarrow> bool" where
  "finishing (RunSucceed t) \<longleftrightarrow> True"
| "finishing (RunFail t f) \<longleftrightarrow> True"
| "finishing (RunCancel t) \<longleftrightarrow> True"
| "finishing _ \<longleftrightarrow> False"

lemma finishing_parked: "finishing x \<Longrightarrow> run_step x r = Done r' \<Longrightarrow> quiet x \<and> parked (rn_status r')"
  by (cases x) (auto simp: parked_def run_defs outcome_simps TERMINAL_RUN_STATUSES_def)

lemma move_finishing:
  assumes "co_runs (core_of s) i = Some r" and "run_step x r = Done r'" and "finishing x"
  shows "moves T (core_of s) (put_item i None (put_run r' (core_of s))) \<and> rn_id r' = i"
  using move_finish [OF assms(1) _ assms(2)] finishing_parked [OF assms(3,2)] run_step_id [OF assms(2)]
    core_ids(1) [OF assms(1)] by simp

lemmas finish_steps =
  move_finishing [where x = "RunSucceed t" for t, simplified]
  move_finishing [where x = "RunFail t f" for t f, simplified]
  move_finishing [where x = "RunCancel t" for t, simplified]

lemma refine_CompleteRun: "tx_rel (refined T) (CompleteRun i now)"
  by (rule refinedI)
     (auto simp: CompleteRun_def succeed_run_event_specs_def wp_simps core_reads dest!: finish_steps(1) [where T = T]
       intro!: core_rules rule_refined [OF refine_reconcile [of T]] elim: moves_trans)

lemma refine_FailRun: "tx_rel (refined T) (FailRun i f now)"
  by (rule refinedI)
     (auto simp: FailRun_def fail_run_event_specs_def wp_simps core_reads dest!: finish_steps(2) [where T = T]
       intro!: core_rules rule_refined [OF refine_reconcile [of T]] elim: moves_trans)

lemma approval_cancel_resolves: "approval_cancel t nt p = Done p' \<Longrightarrow> resolves p p'"
  by (auto simp: approval_cancel_def resolves_def TERMINAL_APPROVAL_STATUSES_def)

lemma refine_cancel_approvals_loop:
  "db_keyed s \<Longrightarrow> (\<And>p. p \<in> set ps \<Longrightarrow> co_approvals (core_of s) (ap_id p) = Some p \<and> ap_run_id p = Some i) \<Longrightarrow>
   distinct (map ap_id ps) \<Longrightarrow> (\<And>r a. co_runs (core_of s) i = Some r \<Longrightarrow> \<not> waits_for_approval r a) \<Longrightarrow>
   wp (tx_each (cancel_pending_approval now) ps)
     (\<lambda>x s'. db_keyed s' \<and> moves T (core_of s) (core_of s') \<and> co_runs (core_of s') = co_runs (core_of s)) s"
proof (induction ps arbitrary: s)
  case (Cons p ps)
  have p: "co_approvals (core_of s) (ap_id p) = Some p" "ap_run_id p = Some i" using Cons.prems(2) by auto
  have step: "moves T (core_of s) (put_approval p' (core_of s)) \<and> ap_id p' = ap_id p"
    if "approval_cancel t nt p = Done p'" for t nt p'
    using moves_step [OF core_step.resolve_idle [OF p(1) approval_cancel_resolves [OF that]]] Cons.prems(4) p(2)
      resolves_ident [OF approval_cancel_resolves [OF that]] by auto
  have one: "wp (cancel_pending_approval now p) (\<lambda>x s'. db_keyed s' \<and>
      (\<exists>p'. core_of s' = put_approval p' (core_of s) \<and> ap_id p' = ap_id p) \<and> moves T (core_of s) (core_of s')) s"
    using Cons.prems(1) by (auto simp: wp_simps cancel_pending_approval_def dest!: step intro!: rule_approvals_save)
  show ?case
    unfolding tx_each.simps wp_bind wp_return
  proof (rule wp_mono [OF one], goal_cases)
    case (1 x s')
    have "q \<in> set ps \<Longrightarrow> ap_id q \<noteq> ap_id p" for q using Cons.prems(3) by (metis distinct.simps(2) image_eqI list.simps(9) set_map)
    then show ?case using Cons.prems 1
      by (intro wp_mono [OF Cons.IH [of s']]) (auto intro: moves_trans)
  qed
qed (simp add: wp_simps)

lemma distinct_listing: "keyed key t \<Longrightarrow> distinct (map key (sort_key f (filter P t)))"
  by (auto simp: keyed_def distinct_map intro: inj_on_subset)

lemma refine_cancel_approvals:
  assumes k: "db_keyed s" and "\<And>r a. co_runs (core_of s) i = Some r \<Longrightarrow> \<not> waits_for_approval r a"
  shows "wp (cancel_pending_approvals i now)
     (\<lambda>x s'. db_keyed s' \<and> moves T (core_of s) (core_of s') \<and> co_runs (core_of s') = co_runs (core_of s)) s"
proof -
  have ka: "keyed ap_id (rd_approvals s)" using k by (simp add: db_keyed_def)
  then have "distinct (map ap_id (approvals_list_pending_for_run i s))"
    unfolding approvals_list_pending_for_run_def by (rule distinct_listing)
  then show ?thesis using assms
    by (auto simp: cancel_pending_approvals_def wp_simps approvals_list_pending_for_run_def core_reads [symmetric]
        approvals_get_def intro!: refine_cancel_approvals_loop keyed_get [OF ka])
qed

lemma refine_cancel:
  assumes k: "db_keyed s" and r: "co_runs (core_of s) i = Some r"
  shows "wp (cancel_run_in_uow r now) (\<lambda>x s'. db_keyed s' \<and> moves T (core_of s) (core_of s')) s"
proof -
  have "moves T (core_of s) (put_run r' (core_of s)) \<and> rn_id r' = i \<and> parked (rn_status r') \<and>
      (\<forall>a. \<not> waits_for_approval r' a)" if "run_cancel (utc now) r = Done r'" for r'
    using move_advance [OF r, of "RunCancel (utc now)" r'] finishing_parked [of "RunCancel (utc now)" r r']
      run_step_id [of "RunCancel (utc now)" r r'] quiet_not_waiting [of "RunCancel (utc now)" r r'] core_ids(1) [OF r] that
    by simp
  note cancelled = this
  show ?thesis
    apply (clarsimp simp: cancel_run_in_uow_def wp_simps)
    apply (drule cancelled, clarify)
    apply (rule core_rules, rule k)
    apply (rule wp_mono [OF refine_cancel_approvals [where T = T]], assumption, simp)
    apply (auto simp: wp_simps intro!: core_rules rule_refined [OF refine_reconcile [of T]])
    apply (erule (1) moves_trans [OF _ moves_trans], erule moves_trans [OF move_discard, rotated], simp)
    done
qed

lemma row_core:
  "db_keyed s \<Longrightarrow> r \<in> set (rd_runs s) \<Longrightarrow> co_runs (core_of s) (rn_id r) = Some r"
  "db_keyed s \<Longrightarrow> p \<in> set (rd_approvals s) \<Longrightarrow> co_approvals (core_of s) (ap_id p) = Some p"
  by (simp_all add: core_reads [symmetric] runs_get_def approvals_get_def db_keyed_def keyed_get)

lemma sorted_last: "sort_key f (filter P ys) = xs @ [d] \<Longrightarrow> d \<in> set ys"
  by (metis filter_is_subset in_set_conv_decomp set_sort subsetD)

lemma latest_run_core:
  "db_keyed s \<Longrightarrow> runs_get_latest_for_execution e s = Some r \<Longrightarrow> co_runs (core_of s) (rn_id r) = Some r"
  by (rule row_core)
     (auto simp: runs_get_latest_for_execution_def runs_list_for_execution_def rev_eq_Cons_iff
       split: list.splits dest!: sorted_last)

lemma refine_CancelRun: "tx_rel (refined T) (CancelRun i now)"
  by (rule refinedI)
     (auto simp: CancelRun_def wp_simps core_reads split: option.split intro!: refine_cancel latest_run_core)

lemma refine_start: "tx_rel (refined T) (start_run_in_uow task now)"
  by (rule refinedI) (auto simp: start_run_in_uow_def wp_simps lift_domain_Inr intro!: core_rules move_create)

lemma refine_StartRun: "tx_rel (refined T) (StartRun k now)"
  unfolding StartRun_def by (intro refine.rel_rules refine_start)

lemma refine_StartQueuedRun: "tx_rel (refined T) (StartQueuedRun i now)"
  by (rule refinedI)
     (auto simp: StartQueuedRun_def wp_simps core_reads
       intro!: core_rules moves_step [OF core_step.advance [where x = "RunStart (utc now)"]])

lemma refine_RetryFailedRun: "tx_rel (refined T) (RetryFailedRun i now)"
  by (rule refinedI)
     (auto simp: RetryFailedRun_def wp_simps core_reads lift_domain_Inr intro!: core_rules move_create)

lemma refine_materialize_retry: "tx_rel (refined T) (materialize_retry policy run n now)"
  by (rule refinedI) (auto simp: materialize_retry_def wp_simps lift_domain_Inr intro!: core_rules move_create)

section \<open>Worker transactions\<close>

lemma rule_held [core_rules]:
  assumes k: "db_keyed s"
    and hit: "\<And>i s'. co_work (core_of s) (rc_run_id c) = Some i \<Longrightarrow>
      claimed_as (rc_worker_id c) (rc_claim_token c) (rc_claim_generation c) i \<Longrightarrow> db_keyed s' \<Longrightarrow>
      core_of s' = put_item (rc_run_id c) None (core_of s) \<Longrightarrow> Q True s'"
    and miss: "\<And>s'. db_keyed s' \<Longrightarrow> core_of s' = core_of s \<Longrightarrow> Q False s'"
  shows "wp (remove_if_claimed c now) Q s"
  unfolding remove_if_claimed_def claim_step_def wq_remove_if_claimed_def
  by (rule rule_work_delete [OF k]) (auto simp: held_def intro: hit miss)

lemma refine_RenewRunLease: "tx_rel (refined T) (RenewRunLease n c now)"
  unfolding RenewRunLease_def claim_step_def wq_renew_lease_def
  by (rule refinedI, unfold wp_bind, rule rule_work_update [where q = "rc_run_id c"])
     (auto simp: wp_simps held_def claimed_as_def intro!: moves_step [OF core_step.renew])

lemma move_release:
  assumes "co_work c i = Some w"
  shows "moves T c (put_item i (Some (unclaim (w\<lparr>wi_available_at := a, wi_enqueued_at := e\<rparr>))) c)"
    and "moves T c (put_item i (Some (unclaim w)) c)"
  using moves_step [OF core_step.release [OF assms, of e a], of T]
    moves_step [OF core_step.release [OF assms, of "wi_enqueued_at w" "wi_available_at w"], of T] by simp_all

lemma refine_RequeueClaimedRun: "tx_rel (refined T) (RequeueClaimedRun c t now)"
  unfolding RequeueClaimedRun_def claim_step_def wq_requeue_claimed_def
  by (rule refinedI, unfold wp_bind, rule rule_work_update [where q = "rc_run_id c"])
     (auto simp: wp_simps held_def intro: move_release)

lemma refine_ReleaseRunClaim: "tx_rel (refined T) (ReleaseRunClaim c now)"
  unfolding ReleaseRunClaim_def claim_step_def wq_release_claim_def
  by (rule refinedI, unfold wp_bind, rule rule_work_update [where q = "rc_run_id c"])
     (auto simp: wp_simps held_def intro: move_release)

lemma refine_ApplyFailedOutcome: "tx_rel (refined T) (ApplyFailedOutcome policy c f now)"
  by (rule refinedI)
     (auto simp: ApplyFailedOutcome_def fail_run_event_specs_def wp_simps core_reads
       intro!: core_rules rule_refined [OF refine_reconcile [of T]] rule_refined [OF refine_materialize_retry [of T]]
       intro: moves_trans [OF conjunct1 [OF finish_steps(2)]])

lemma refine_ApplySucceededOutcome: "tx_rel (refined T) (ApplySucceededOutcome c resp now)"
  by (rule refinedI)
     (auto simp: ApplySucceededOutcome_def succeed_run_event_specs_def wp_simps core_reads
       intro!: core_rules rule_refined [OF refine_reconcile [of T]]
       intro: moves_trans [OF conjunct1 [OF finish_steps(1)]])

lemma refine_apply_waiting:
  assumes checks: "\<And>Q s. (parked (rn_status r) \<Longrightarrow> Q () s) \<Longrightarrow> wp checks Q s"
    and r: "co_runs (core_of s) (rc_run_id c) = Some r" and k: "db_keyed s"
  shows "wp (apply_waiting c r resolved stale late checks lost now)
    (\<lambda>x s'. db_keyed s' \<and> moves T (core_of s) (core_of s')) s"
  using k r by (auto simp: apply_waiting_def wp_simps core_reads split: option.split
      intro!: checks rule_held move_discard)

lemma refine_ApplyWaitingOutcome: "tx_rel (refined T) (ApplyWaitingOutcome c a now)"
  by (rule refinedI)
     (auto simp: ApplyWaitingOutcome_def wp_simps core_reads parked_def intro!: refine_apply_waiting)

lemma refine_ApplyWaitingForDelegationOutcome: "tx_rel (refined T) (ApplyWaitingForDelegationOutcome c a now)"
  by (rule refinedI)
     (auto simp: ApplyWaitingForDelegationOutcome_def wp_simps core_reads parked_def intro!: refine_apply_waiting)

lemma refine_recover_item: "tx_rel (refined T) (recover_item now item)"
proof (rule refinedI)
  fix s assume k: "db_keyed s"
  let ?i = "wi_run_id item" and ?Q = "\<lambda>x s'. db_keyed s' \<and> moves T (core_of s) (core_of s')"
  have "wp (work_step (wq_clear_expired_claim ?i now)) ?Q s"
    unfolding wq_clear_expired_claim_def
    by (rule rule_work_update [OF k, where q = ?i]) (auto intro: move_release)
  moreover have "wp (work_step (wq_remove_if_lease_expired ?i now)) ?Q s"
    if "\<And>r. co_runs (core_of s) ?i = Some r \<Longrightarrow> parked (rn_status r)"
    unfolding wq_remove_if_lease_expired_def
    by (rule rule_work_delete [OF k, where q = ?i]) (auto intro: move_discard that)
  ultimately show "wp (recover_item now item) ?Q s"
    by (auto simp: recover_item_def wp_simps core_reads split: option.splits)
qed

lemma refine_RecoverExpiredLeases: "tx_rel (refined T) (RecoverExpiredLeases n now)"
  unfolding RecoverExpiredLeases_def by (intro refine.rel_rules refine_recover_item)

section \<open>Approvals\<close>

lemma approval_newD:
  "approval_new i run cat summ reason act inp t step ex fp subj cmd = Inr p \<Longrightarrow>
   ap_id p = i \<and> ap_run_id p = run \<and> ap_status p = ApprovalStatus.PENDING"
  by (auto simp: approval_new_def outcome_simps Let_def)

lemma move_park:
  assumes "co_runs c i = Some r" "rn_id r = i" "run_wait_for_approval t (ap_id p) r = Done r'"
    "co_approvals c (ap_id p) = None" "ap_status p = ApprovalStatus.PENDING" "ap_run_id p = Some i"
  shows "moves T c (put_item i None (put_run r' (put_approval p c)))"
proof (rule moves_trans [OF moves_step move_discard])
  show "core_step {} c (put_run r' (put_approval p c))" using assms by (auto intro: core_step.park)
  have "rn_id r' = i" using run_step_id [OF named_run_steps(2) [OF assms(3)]] assms(2) by simp
  then show "parked (rn_status r'')" if "co_runs (put_run r' (put_approval p c)) i = Some r''" for r''
    using that run_status_after(2) [OF assms(3)] by (simp add: parked_def)
qed simp

lemma refine_park:
  assumes d: "\<And>Q s. db_keyed s \<Longrightarrow> (\<And>s'. db_keyed s' \<Longrightarrow>
      core_of s' = put_item (rq_run_id cmd) None (core_of s) \<Longrightarrow> Q () s') \<Longrightarrow> wp drop_item Q s"
  shows "tx_rel (refined T) (park_for_approval cmd drop_item now)"
  apply (rule refinedI)
  apply (auto simp: park_for_approval_def wp_simps core_reads lift_domain_Inr intro!: core_rules d)
  apply (frule core_ids(1), drule approval_newD)
  apply (auto intro!: move_park)
  done

lemma refine_RequestApproval: "tx_rel (refined T) (RequestApproval cmd now)"
  unfolding RequestApproval_def by (rule refine_park, rule rule_work_remove)

lemma refine_RequestToolApproval: "tx_rel (refined T) (RequestToolApproval cmd w k g now)"
  unfolding RequestToolApproval_def Let_def
  by (intro refine.rel_rules refine_park) (auto simp: wp_simps intro!: rule_held)

lemma rule_transition [core_rules]:
  assumes k: "db_keyed s" and p: "ap_status p \<noteq> target"
    and hit: "\<And>p' s'. resolves p p' \<Longrightarrow> db_keyed s' \<Longrightarrow> core_of s' = put_approval p' (core_of s) \<Longrightarrow> Q p' s'"
  shows "wp (transition_approval_in_transaction p target now who nt) Q s"
proof -
  have "resolves p p'" if "approval_approve t x y p = Done p' \<or> approval_reject t x y p = Done p' \<or>
      approval_cancel t y p = Done p' \<or> approval_expire t p = Done p'" for p' t x y
    using that
    by (auto simp: resolves_def approval_approve_def approval_reject_def approval_cancel_def approval_expire_def
        TERMINAL_APPROVAL_STATUSES_def outcome_simps split: if_splits)
  then show ?thesis using k p
    by (cases target) (auto simp: transition_approval_in_transaction_def wp_simps intro!: rule_approvals_save hit)
qed

lemma refine_resume:
  assumes p: "co_approvals (core_of s0) a = Some p" "resolves p p'" "ap_run_id p = Some i"
    and r: "co_runs (core_of s0) i = Some r"
    and s: "db_keyed s" "core_of s = put_approval p' (core_of s0)"
  shows "wp (resume_run r p' now) (\<lambda>x s'. db_keyed s' \<and> moves T (core_of s0) (core_of s')) s"
proof (cases "waits_for_approval r a")
  case True
  have id: "ap_id p' = a" using resolves_ident [OF p(2)] core_ids(3) [OF p(1)] by simp
  have "moves T (core_of s0) (enqueue_run i av e (put_run r' (put_approval p' (core_of s0)))) \<and> rn_id r' = i"
    if "run_resume (utc now) r = Done r'" for r' av e
    using moves_step [OF core_step.resolve_waking [OF p(1,2) r True that]] run_step_id [OF named_run_steps(3) [OF that]]
      core_ids(1) [OF r] by auto
  then show ?thesis using True s id
    by (auto simp: resume_run_def waits_for_approval_def wp_simps intro!: rule_runs_save rule_work_enqueue)
next
  case False
  have id: "ap_id p' = a" using resolves_ident [OF p(2)] core_ids(3) [OF p(1)] by simp
  have "moves T (core_of s0) (put_approval p' (core_of s0))"
    using False r p by (intro moves_step [OF core_step.resolve_idle]) auto
  then show ?thesis using False s id by (auto simp: resume_run_def waits_for_approval_def wp_simps)
qed

lemma refine_resolve:
  assumes k: "db_keyed s" and p: "co_approvals (core_of s) a = Some p"
  shows "wp (resolve_approval p target now who nt) (\<lambda>x s'. db_keyed s' \<and> moves T (core_of s) (core_of s')) s"
proof (cases "ap_run_id p")
  case None
  have "moves T (core_of s) (put_approval p' (core_of s))" if "resolves p p'" for p'
    using p that None by (intro moves_step [OF core_step.resolve_idle]) auto
  then show ?thesis using k None
    by (auto simp: resolve_approval_def load_approval_run_def wp_simps
        intro!: rule_framed [OF frame_approval_steps(4)] rule_transition)
next
  case (Some i)
  show ?thesis using k
    by (auto simp: resolve_approval_def load_approval_run_def Some wp_simps core_reads split_beta
        intro!: rule_framed [OF frame_approval_steps(4)] rule_framed [OF frame_approval_steps(5)] rule_transition
          wp_mono [OF refine_resume [OF p _ Some, where T = T]] rule_framed [OF frame_events(2)])
qed

lemma refine_load_resolve:
  "tx_rel (refined T) (tx_bind (load_approval a) (\<lambda>p. resolve_approval p target now who nt))"
  by (rule refinedI) (auto simp: load_approval_def wp_simps core_reads intro: refine_resolve)

lemma refine_ExpireApproval: "tx_rel (refined T) (ExpireApproval a now)"
  by (rule refinedI) (auto simp: ExpireApproval_def load_approval_def wp_simps core_reads intro: refine_resolve)

lemma refine_resolutions:
  "tx_rel (refined T) (ApproveRequest a resolver nt now)"
  "tx_rel (refined T) (RejectRequest a resolver nt now)"
  "tx_rel (refined T) (CancelApproval a nt now)"
  unfolding ApproveRequest_def RejectRequest_def CancelApproval_def by (rule refine_load_resolve)+

lemma refine_expire_each: "expire_each ids s = (r, s') \<Longrightarrow> refined T s s'"
proof (induction ids s arbitrary: r s' rule: expire_each.induct)
  case (2 i now ids s)
  then show ?case
    by (auto split: sum.splits prod.splits if_splits intro: refine.refl
        dest!: tx_relD [OF refine_ExpireApproval [of T]] elim: refine.trans)
qed (simp add: refine.refl)

lemma refine_ExpireDueApprovals: "ExpireDueApprovals n now clock s = (r, s') \<Longrightarrow> refined T s s'"
  by (simp add: ExpireDueApprovals_def Let_def refine_expire_each)

section \<open>Task cancellation\<close>

lemma task_cancel_one:
  assumes k: "db_keyed s" and r: "co_runs (core_of s) (rn_id r) = Some r"
  shows "wp (task_cancel_run now r) (\<lambda>x s'. db_keyed s' \<and> moves T (core_of s) (core_of s') \<and>
    (\<forall>i. i \<noteq> rn_id r \<longrightarrow> co_runs (core_of s') i = co_runs (core_of s) i)) s"
proof -
  have "moves T (core_of s) (put_run r' (core_of s)) \<and> rn_id r' = rn_id r" if "run_cancel (utc now) r = Done r'" for r'
    using move_advance [OF r, of "RunCancel (utc now)" r'] run_step_id [of "RunCancel (utc now)" r r'] that by simp
  note cancelled = this
  show ?thesis
    apply (clarsimp simp: task_cancel_run_def wp_simps k)
    apply (drule cancelled, clarify)
    apply (rule core_rules, rule k)
    apply (auto simp: wp_simps intro!: core_rules)
    done
qed

lemma refine_task_cancel_loop:
  "db_keyed s \<Longrightarrow> (\<And>r. r \<in> set rs \<Longrightarrow> co_runs (core_of s) (rn_id r) = Some r) \<Longrightarrow> distinct (map rn_id rs) \<Longrightarrow>
   wp (tx_each (task_cancel_run now) rs) (\<lambda>x s'. db_keyed s' \<and> moves T (core_of s) (core_of s')) s"
proof (induction rs arbitrary: s)
  case (Cons r rs)
  show ?case
    unfolding tx_each.simps wp_bind wp_return
  proof (rule wp_mono [OF task_cancel_one [where T = T]], goal_cases)
    case (3 x s')
    have "q \<in> set rs \<Longrightarrow> rn_id q \<noteq> rn_id r" for q using Cons.prems(3) by (metis distinct.simps(2) image_eqI list.simps(9) set_map)
    then show ?case using Cons.prems 3
      by (intro wp_mono [OF Cons.IH [of s']]) (auto intro: moves_trans)
  qed (use Cons.prems in auto)
qed (simp add: wp_simps)

lemma refine_CancelTask: "tx_rel (refined T) (CancelTask k now)"
proof (rule refinedI)
  fix s assume k: "db_keyed s"
  have d: "distinct (map rn_id (runs_list_for_task t s'))" if "db_keyed s'" for t s'
    unfolding runs_list_for_task_def using that by (intro distinct_listing) (simp add: db_keyed_def)
  have m: "co_runs (core_of s') (rn_id r) = Some r" if "db_keyed s'" "r \<in> set (runs_list_for_task t s')" for t s' r
    using that by (intro row_core) (simp_all add: runs_list_for_task_def)
  show "wp (CancelTask k now) (\<lambda>x s'. db_keyed s' \<and> moves T (core_of s) (core_of s')) s"
    using k by (auto simp: CancelTask_def wp_simps d dest: m
        intro!: core_rules wp_mono [OF refine_task_cancel_loop [where T = T]])
qed

section \<open>Delegation dispatch\<close>

lemma refine_CreateDelegationRequest:
  "tx_rel (refined T) (CreateDelegationRequest sha256 i ag_i obj inp contract st now)"
  by (rule refinedI)
     (auto simp: CreateDelegationRequest_def wp_simps lift_domain_Inr
       intro!: core_rules moves_step [OF core_step.request])

lemma rule_start_run:
  assumes k: "db_keyed s"
    and q: "\<And>j t x r a e s'. run_new j t (utc now) x = Inr r \<Longrightarrow> co_runs (core_of s) (rn_id r) = None \<Longrightarrow> db_keyed s' \<Longrightarrow>
      core_of s' = enqueue_run (rn_id r) a e (put_run r (core_of s)) \<Longrightarrow> Q (rn_id r) s'"
  shows "wp (start_run_in_uow task now) Q s"
  using k by (auto simp: start_run_in_uow_def wp_simps lift_domain_Inr intro!: core_rules q)

lemma rule_create_child:
  assumes k: "db_keyed s"
    and q: "\<And>t r a e s'. run_inv r \<Longrightarrow> rn_status r = RunStatus.QUEUED \<Longrightarrow> co_runs (core_of s) (rn_id r) = None \<Longrightarrow>
      db_keyed s' \<Longrightarrow> core_of s' = enqueue_run (rn_id r) a e (put_run r (core_of s)) \<Longrightarrow> Q (t, rn_id r) s'"
  shows "wp (create_child req ag_i now) Q s"
  using k by (auto simp: create_child_def wp_simps lift_domain_Inr dest!: run_newD intro!: core_rules rule_start_run q)

lemma delegation_dispatchD:
  "delegation_dispatch t r now d = Done d' \<Longrightarrow>
   dg_id d' = dg_id d \<and> dg_parent_run_id d' = dg_parent_run_id d \<and> dg_status d' = DelegationStatus.DISPATCHED"
  by (auto simp: delegation_defs outcome_simps Let_def)

lemma delegation_newD:
  "delegation_new sha256 i p ag_i obj inp contract t st g n = Inr d \<Longrightarrow> dg_parent_run_id d = p"
  by (auto simp: delegation_new_def delegation_post_init_def outcome_simps Let_def)

lemma move_dispatch:
  assumes p: "co_runs c i = Some r" "rn_id r = i" and w: "run_wait_for_delegation t (dg_id d) r = Done r'"
    and d: "co_delegations c (dg_id d) = None" "dg_status d = DelegationStatus.DISPATCHED" "dg_parent_run_id d = i"
    and n: "run_inv n" "rn_status n = RunStatus.QUEUED" "co_runs c (rn_id n) = None"
  shows "moves T c (put_item i None (put_run r' (put_delegation d (enqueue_run (rn_id n) a e (put_run n c)))))"
proof -
  let ?c = "enqueue_run (rn_id n) a e (put_run n c)" let ?d = "put_run r' (put_delegation d ?c)"
  have "rn_id n \<noteq> i" using p n by auto
  then have "core_step {} ?c ?d" using p d by (intro core_step.dispatch [OF _ w]) auto
  moreover have "rn_id r' = i" using run_step_id [OF named_run_steps(4) [OF w]] p(2) by simp
  then have "parked (rn_status x)" if "co_runs ?d i = Some x" for x
    using that run_status_after(4) [OF w] by (simp add: parked_def)
  ultimately show ?thesis
    using moves_trans [OF moves_step [OF core_step.create [OF n(3,1,2)]] moves_trans [OF moves_step move_discard]]
    by (metis empty_subsetI)
qed

lemma refine_DispatchDelegation:
  "tx_rel (refined T) (DispatchDelegation sha256 kinds per_run per_tree max_depth c cmd now)"
  apply (rule refinedI)
  apply (auto simp: DispatchDelegation_def wp_simps core_reads lift_domain_Inr split_beta
      dest!: delegation_newD delegation_dispatchD intro!: core_rules rule_create_child)
  apply (frule core_ids(1))
  apply (auto intro!: move_dispatch)
  done

section \<open>Tool actions\<close>

lemma authorizing_row:
  assumes "db_keyed s" and "find_authorizing_approval (approvals_list_for_run i s) f = Some p"
  shows "co_approvals (core_of s) (ap_id p) = Some p"
proof -
  have "p \<in> set (rd_approvals s)"
    using find_authorizing_approval_SomeD [OF assms(2)] by (simp add: approvals_list_for_run_def)
  then show ?thesis using assms(1) keyed_get [of ap_id "rd_approvals s" p]
    by (simp add: core_of_def approvals_get_def db_keyed_def)
qed

lemma refine_authorize_protected: "tx_rel (refined T) (authorize_protected sha256 a now)"
proof (rule refinedI)
  fix s assume k: "db_keyed s"
  then show "wp (authorize_protected sha256 a now) (\<lambda>x s'. db_keyed s' \<and> moves T (core_of s) (core_of s')) s"
    by (auto simp: authorize_protected_def Let_def wp_simps split: option.split
        intro!: rule_approvals_save intro: moves_refl moves_step [OF core_step.consume [OF authorizing_row]])
qed

lemma refine_begin_tool_action: "tx_rel (refined T) (begin_tool_action sha256 a now)"
  unfolding begin_tool_action_def Let_def
  by (intro refine.rel_rules refine_authorize_protected frame_rules [THEN framed_refined])

end
