(* ===== verification/Run_System.thy ===== *)
theory Run_System
  imports Run_Simulation
begin

text \<open>
  The run side as a transition system: \<open>run_system T s s'\<close> is one committed transaction, with the
  claim tokens \<open>T\<close> it drew. Clients, workers and maintenance loops interleave in any order, so an
  execution is any path of such steps (\<open>fence_path run_system\<close>). The system contains every
  transaction of the modelled use cases except \<^verbatim>\<open>CompleteRunWorkItem\<close>, which no application calls and
  which would take the work item of a running run away.
\<close>

inductive run_system :: "string set \<Rightarrow> run_db \<Rightarrow> run_db \<Rightarrow> bool" where
  create_task: "CreateTask title description now s = Inr (k, s') \<Longrightarrow> run_system {} s s'"
| start_run: "StartRun k now s = Inr (i, s') \<Longrightarrow> run_system {} s s'"
| start_queued: "StartQueuedRun i now s = Inr (r, s') \<Longrightarrow> run_system {} s s'"
| complete_run: "CompleteRun i now s = Inr (r, s') \<Longrightarrow> run_system {} s s'"
| fail_run: "FailRun i failure now s = Inr (r, s') \<Longrightarrow> run_system {} s s'"
| cancel_run: "CancelRun i now s = Inr (r, s') \<Longrightarrow> run_system {} s s'"
| retry_run: "RetryFailedRun i now s = Inr (r, s') \<Longrightarrow> run_system {} s s'"
| claim: "ClaimNextRun w lease n tokens now s = Inr (c, s') \<Longrightarrow> run_system (set tokens) s s'"
| renew: "RenewRunLease lease k now s = Inr (t, s') \<Longrightarrow> run_system {} s s'"
| release: "ReleaseRunClaim k now s = Inr (u, s') \<Longrightarrow> run_system {} s s'"
| requeue: "RequeueClaimedRun k t now s = Inr (u, s') \<Longrightarrow> run_system {} s s'"
| failed: "ApplyFailedOutcome policy k failure now s = Inr (r, s') \<Longrightarrow> run_system {} s s'"
| succeeded: "ApplySucceededOutcome k response now s = Inr (r, s') \<Longrightarrow> run_system {} s s'"
| parked: "ApplyWaitingOutcome k a now s = Inr (r, s') \<Longrightarrow> run_system {} s s'"
| parked_delegation: "ApplyWaitingForDelegationOutcome k g now s = Inr (r, s') \<Longrightarrow> run_system {} s s'"
| recover: "RecoverExpiredLeases n now s = Inr (m, s') \<Longrightarrow> run_system {} s s'"
| request_approval: "RequestApproval cmd now s = Inr (p, s') \<Longrightarrow> run_system {} s s'"
| request_tool_approval: "RequestToolApproval cmd w t g now s = Inr (p, s') \<Longrightarrow> run_system {} s s'"
| approve: "ApproveRequest a who reply now s = Inr (p, s') \<Longrightarrow> run_system {} s s'"
| reject: "RejectRequest a who reply now s = Inr (p, s') \<Longrightarrow> run_system {} s s'"
| cancel_approval: "CancelApproval a reply now s = Inr (p, s') \<Longrightarrow> run_system {} s s'"
| expire: "ExpireDueApprovals n now clock s = (r, s') \<Longrightarrow> run_system {} s s'"
| create_step: "CreateOrderedStep i name now s = Inr (st, s') \<Longrightarrow> run_system {} s s'"
| start_step: "StartStep j now s = Inr (st, s') \<Longrightarrow> run_system {} s s'"
| complete_step: "CompleteStep j now s = Inr (st, s') \<Longrightarrow> run_system {} s s'"
| fail_step: "FailStep j failure now s = Inr (st, s') \<Longrightarrow> run_system {} s s'"
| skip_step: "SkipPendingStep j now s = Inr (st, s') \<Longrightarrow> run_system {} s s'"
| cancel_step: "CancelStep j now s = Inr (st, s') \<Longrightarrow> run_system {} s s'"
| request_tool: "RequestToolInvocation tc now s = Inr (ti, s') \<Longrightarrow> run_system {} s s'"
| tool_running: "MarkToolInvocationRunning t moved now s = Inr (ti, s') \<Longrightarrow> run_system {} s s'"
| tool_succeeded: "MarkToolInvocationSucceeded t result moved now s = Inr (ti, s') \<Longrightarrow> run_system {} s s'"
| tool_failed: "MarkToolInvocationFailed t failure moved now s = Inr (ti, s') \<Longrightarrow> run_system {} s s'"
| cancel_tool: "CancelToolInvocation t moved now s = Inr (ti, s') \<Longrightarrow> run_system {} s s'"
| begin_tool: "begin_tool_action sha256 act now s = Inr (x, s') \<Longrightarrow> run_system {} s s'"
| finish_tool: "finish_tool_action act t result now s = Inr (u, s') \<Longrightarrow> run_system {} s s'"
| artifact: "RecordArtifact rac now s = Inr (af, s') \<Longrightarrow> run_system {} s s'"
| complete_task: "CompleteTask k now s = Inr (tk, s') \<Longrightarrow> run_system {} s s'"
| fail_task: "FailTask k failure now s = Inr (tk, s') \<Longrightarrow> run_system {} s s'"
| cancel_task: "CancelTask k now s = Inr (tk, s') \<Longrightarrow> run_system {} s s'"
| create_agent: "CreateAgent key name description now s = Inr (ag, s') \<Longrightarrow> run_system {} s s'"
| create_revision: "CreateAgentRevision sha256 kinds ag instructions kind config src now s = Inr (av, s') \<Longrightarrow>
    run_system {} s s'"
| activate_revision: "ActivateAgentRevision sha256 ag av now s = Inr (x, s') \<Longrightarrow> run_system {} s s'"
| disable_agent: "DisableAgent ag now s = Inr (x, s') \<Longrightarrow> run_system {} s s'"
| archive_agent: "ArchiveAgent ag now s = Inr (x, s') \<Longrightarrow> run_system {} s s'"
| bind_agent: "ReplaceTaskAgent k ago now s = Inr (b, s') \<Longrightarrow> run_system {} s s'"
| resolve_agent: "ResolveRunAgent sha256 kinds c clock later s = Inr (ar, s') \<Longrightarrow> run_system {} s s'"
| request_delegation: "CreateDelegationRequest sha256 i ag obj inp contract sto now s = Inr (d, s') \<Longrightarrow>
    run_system {} s s'"
| dispatch: "DispatchDelegation sha256 kinds per_run per_tree max_depth c cmd now s = Inr (d, s') \<Longrightarrow>
    run_system {} s s'"

definition no_rows :: "(nat \<Rightarrow> string) \<Rightarrow> run_db" where
  "no_rows uuid =
     \<lparr>rd_tasks = [], rd_runs = [], rd_steps = [], rd_approvals = [], rd_tools = [], rd_artifacts = [],
      rd_work = [], rd_events = [], rd_event_counters = [], rd_task_events = [], rd_task_counters = [],
      rd_delegations = [], rd_executions = [], rd_nodes = [], rd_schedules = [], rd_skill_resolutions = [],
      rd_skill_bindings = [], rd_agent_resolutions = [], rd_usage = [], rd_agents = [],
      rd_agent_revisions = [], rd_task_agents = [], rd_task_workflows = [], rd_uuid = uuid, rd_drawn = 0\<rparr>"

section \<open>Every step refines the abstract machine\<close>

lemma refine_ClaimNextRun: "tx_rel (refined (set tokens)) (ClaimNextRun w lease n tokens now)"
  unfolding ClaimNextRun_def by (intro refine.rel_rules refine_claim subset_refl)

lemmas refined_transactions =
  refine_StartRun refine_StartQueuedRun refine_CompleteRun refine_FailRun refine_CancelRun refine_RetryFailedRun
  refine_ClaimNextRun refine_RenewRunLease refine_ReleaseRunClaim refine_RequeueClaimedRun
  refine_ApplyFailedOutcome refine_ApplySucceededOutcome refine_ApplyWaitingOutcome
  refine_ApplyWaitingForDelegationOutcome refine_RecoverExpiredLeases refine_RequestApproval
  refine_RequestToolApproval refine_resolutions refine_CancelTask refine_CreateDelegationRequest
  refine_DispatchDelegation refine_begin_tool_action frame_rules [THEN framed_refined] frame_ResolveRunAgent [THEN framed_refined]

lemma run_system_refined: "run_system T s s' \<Longrightarrow> refined T s s'"
proof (induction rule: run_system.induct)
  case (expire n now clock s r s')
  then show ?case by (rule refine_ExpireDueApprovals)
qed (erule tx_relD [rotated], rule refined_transactions)+

lemma run_path_refined: "fence_path run_system T s s' \<Longrightarrow> refined T s s'"
proof (induction rule: fence_path.induct)
  case (move T s s' U s'')
  then have "refined T s s'" "refined U s' s''" by (simp_all add: run_system_refined)
  then show ?case unfolding refined_def
    by (meson Un_upper1 Un_upper2 moves_mono moves_trans)
qed (simp add: refine.refl)

lemma run_path_trans:
  "fence_path run_system T s s' \<Longrightarrow> fence_path run_system U s' s'' \<Longrightarrow> fence_path run_system (T \<union> U) s s''"
  by (rule fence_path_trans)

lemma no_rows_core: "db_keyed (no_rows uuid) \<and> core_inv (core_of (no_rows uuid))"
  by (simp add: db_keyed_def keyed_def no_rows_def core_of_def runs_get_def wq_get_def approvals_get_def
      delegations_get_def get_row_def core_inv_def core_keys_def runs_ok_def items_ok_def runnable_ok_def
      approval_waits_ok_def delegation_waits_ok_def)

text \<open>What holds of every database the system reaches.\<close>

lemma reachable_core:
  "fence_path run_system T (no_rows uuid) s \<Longrightarrow> db_keyed s \<and> core_inv (core_of s)"
  using run_path_refined [of T "no_rows uuid" s] no_rows_core [of uuid] moves_inv by (auto simp: refined_def)

end
