(* ===== verification/Run_Preorder.thy ===== *)
theory Run_Preorder
  imports Run_System
begin

text \<open>
  Relations between the database before and after a transaction that hold of every transaction of the
  run system. A client gives a preorder and shows that the repositories' writes satisfy it, together
  with the few transactions that write tool invocations back; the locale extends that to every
  use case and to whole executions.
\<close>

named_theorems db_rules \<open>transactions that satisfy a preorder on databases\<close>

locale db_preorder = tx_preorder R for R :: "run_db \<Rightarrow> run_db \<Rightarrow> bool" +
  assumes draw: "R s (s\<lparr>rd_drawn := rd_drawn s + 1\<rparr>)"
    and writes:
      "tx_rel R (tasks_add t)" "tx_rel R (tasks_save t)" "tx_rel R (runs_add r)" "tx_rel R (runs_save r)"
      "tx_rel R (steps_add st)" "tx_rel R (steps_save st)" "tx_rel R (approvals_add p)" "tx_rel R (approvals_save p)"
      "tx_rel R (tools_add ti)" "tx_rel R (artifacts_add af)" "tx_rel R (delegations_add d)"
      "tx_rel R (delegations_finalize_if_dispatched g ds now f)" "tx_rel R (schedules_complete_for_task k now c)"
    and more_writes:
      "tx_rel R (skill_resolutions_add sr)" "tx_rel R (skill_bindings_add sb)" "tx_rel R (agent_resolutions_add ar)"
      "tx_rel R (usage_add u)" "tx_rel R (agents_add ag)" "tx_rel R (agents_save ag)" "tx_rel R (agent_revisions_add av)"
      "tx_rel R (task_agents_replace k ta)" "tx_rel R (work_enqueue i av' en)" "tx_rel R (work_remove i)"
      "tx_rel R (work_step w)" "tx_rel R (task_events_reserve_sequences k n)" "tx_rel R (task_events_append te)"
    and event_batch: "tx_rel R (append_run_events run now specs)"
    and tool_writes:
      "tx_rel R (cancel_children i now)" "tx_rel R (FailStep j failure now)" "tx_rel R (CancelStep j now)"
      "tx_rel R (MarkToolInvocationRunning tid moved now)" "tx_rel R (MarkToolInvocationSucceeded tid v moved now)"
      "tx_rel R (MarkToolInvocationFailed tid failure moved now)" "tx_rel R (CancelToolInvocation tid moved now)"
      "tx_rel R (start_invocation run a approval now)" "tx_rel R (finish_tool_action a tid result now)"
begin

lemma db_fresh_id [db_rules]: "tx_rel R fresh_id"
  unfolding fresh_id_def by (rule rel_step) (use draw in simp)

lemmas db_writes [db_rules] = writes more_writes event_batch tool_writes

lemma db_shared [db_rules]:
  "tx_rel R (append_task_event task now kind value)"
  "tx_rel R (materialize_skill_usage_in_uow i now)"
  "tx_rel R (inherit_frozen_resolutions_in_uow src retry)"
  "tx_rel R (reconcile_child_terminal_in_uow child now)"
  "tx_rel R (ensure_task_can_own_a_run task now)"
  by (unfold append_task_event_def materialize_skill_usage_in_uow_def usage_record_def inherit_frozen_resolutions_in_uow_def inherit_skills_def
      inherit_agent_def reconcile_child_terminal_in_uow_def wake_parent_def ensure_task_can_own_a_run_def Let_def)
     (intro rel_rules db_rules)+

lemma db_lifecycle [db_rules]:
  "tx_rel R (CreateTask title description now)" "tx_rel R (start_run_in_uow task now)"
  "tx_rel R (StartRun k now)" "tx_rel R (StartQueuedRun i now)"
  "tx_rel R (fail_run_event_specs run now failure)" "tx_rel R (succeed_run_event_specs run now)"
  "tx_rel R (CompleteRun i now)" "tx_rel R (FailRun i failure now)"
  "tx_rel R (cancel_run_in_uow run now)" "tx_rel R (CancelRun i now)"
  "tx_rel R (RetryFailedRun i now)"
  by (unfold CreateTask_def StartRun_def start_run_in_uow_def StartQueuedRun_def fail_run_event_specs_def
      succeed_run_event_specs_def CompleteRun_def FailRun_def CancelRun_def cancel_run_in_uow_def
      cancel_pending_approvals_def cancel_pending_approval_def RetryFailedRun_def)
     (intro rel_rules db_rules)+

lemma db_claim_first: "tx_rel R (claim_first w now e tokens cs)"
  by (induction w now e tokens cs rule: claim_first.induct)
     (unfold claim_first.simps start_claimed_run_def, (intro rel_rules db_rules; simp)+)

lemma db_worker [db_rules]:
  "tx_rel R (ClaimNextRun w lease n tokens now)" "tx_rel R (RenewRunLease lease k now)"
  "tx_rel R (ReleaseRunClaim k now)" "tx_rel R (RequeueClaimedRun k t now)"
  "tx_rel R (remove_if_claimed k now)" "tx_rel R (materialize_retry policy run a now)"
  "tx_rel R (ApplyFailedOutcome policy k failure now)" "tx_rel R (ApplySucceededOutcome k response now)"
  "tx_rel R (ApplyWaitingOutcome k a' now)" "tx_rel R (ApplyWaitingForDelegationOutcome k g now)"
  "tx_rel R (RecoverExpiredLeases n now)"
  by (unfold ClaimNextRun_def RenewRunLease_def ReleaseRunClaim_def RequeueClaimedRun_def remove_if_claimed_def
      claim_step_def materialize_retry_def ApplyFailedOutcome_def ApplySucceededOutcome_def ApplyWaitingOutcome_def
      ApplyWaitingForDelegationOutcome_def apply_waiting_def RecoverExpiredLeases_def recover_item_def)
     (intro rel_rules db_rules db_claim_first)+

lemma db_steps_of_approval [db_rules]:
  "tx_rel R (load_running_step run j refusal)" "tx_rel R (park_step sto a now)"
  "tx_rel R (load_approval_run p)" "tx_rel R (load_approval_step p ro)"
  "tx_rel R (resume_step sto a now)" "tx_rel R (resume_run run p now)" "tx_rel R (load_approval a)"
  by (unfold load_running_step_def park_step_def load_approval_run_def load_approval_step_def resume_step_def
      resume_run_def load_approval_def)
     (intro rel_rules db_rules)+

lemma db_transition [db_rules]: "tx_rel R (transition_approval_in_transaction p target now who reply)"
  by (cases target) (simp_all add: transition_approval_in_transaction_def rel_rules db_rules)

lemma db_park: "tx_rel R drop_item \<Longrightarrow> tx_rel R (park_for_approval cmd drop_item now)"
  unfolding park_for_approval_def by (intro rel_rules db_rules)

lemma db_resolve [db_rules]: "tx_rel R (resolve_approval p target now who reply)"
  unfolding resolve_approval_def by (intro rel_rules db_rules)

lemma db_approvals [db_rules]:
  "tx_rel R (RequestApproval cmd now)" "tx_rel R (RequestToolApproval cmd w t g now)"
  "tx_rel R (ApproveRequest a resolver reply now)" "tx_rel R (RejectRequest a resolver reply now)"
  "tx_rel R (CancelApproval a reply now)" "tx_rel R (ExpireApproval a now)"
  by (unfold RequestApproval_def RequestToolApproval_def ApproveRequest_def RejectRequest_def CancelApproval_def
      ExpireApproval_def Let_def)
     (intro rel_rules db_rules db_park)+

lemma db_expire_each: "expire_each ids s = (r, s') \<Longrightarrow> R s s'"
proof (induction ids s arbitrary: r s' rule: expire_each.induct)
  case (2 i now ids s)
  then show ?case
    by (auto split: sum.splits prod.splits if_splits intro: refl
        dest!: tx_relD [OF db_approvals(6)] elim: trans)
qed (simp add: refl)

lemma db_children [db_rules]:
  "tx_rel R (CreateOrderedStep i name now)" "tx_rel R (StartStep j now)"
  "tx_rel R (CompleteStep j now)" "tx_rel R (SkipPendingStep j now)"
  "tx_rel R (RequestToolInvocation tc now)"
  "tx_rel R (RecordArtifact rac now)"
  by (unfold CreateOrderedStep_def StartStep_def CompleteStep_def SkipPendingStep_def load_step_def
      RequestToolInvocation_def RecordArtifact_def check_invocation_approval_def check_artifact_step_def)
     (intro rel_rules db_rules)+

lemma db_tool_action [db_rules]:
  "tx_rel R (require_claim c now)"
  "tx_rel R (authorize_protected sha256 a now)" "tx_rel R (begin_tool_action sha256 a now)"
  by (unfold require_claim_def authorize_protected_def begin_tool_action_def Let_def)
     (intro rel_rules db_rules)+

lemma db_tasks [db_rules]:
  "tx_rel R (CompleteTask k now)" "tx_rel R (FailTask k failure now)" "tx_rel R (CancelTask k now)"
  by (unfold CompleteTask_def FailTask_def CancelTask_def task_cancel_run_def) (intro rel_rules db_rules)+

lemma db_agents [db_rules]:
  "tx_rel R (CreateAgent key name description now)"
  "tx_rel R (CreateAgentRevision sha256 kinds ag_i instructions kind config src now)"
  "tx_rel R (load_revision sha256 av_i)" "tx_rel R (ActivateAgentRevision sha256 ag_i av_i now)"
  "tx_rel R (DisableAgent ag_i now)" "tx_rel R (ArchiveAgent ag_i now)"
  "tx_rel R (ReplaceTaskAgent k ag_o now)" "tx_rel R (conflict_if b m)"
  by (unfold CreateAgent_def CreateAgentRevision_def load_revision_def ActivateAgentRevision_def DisableAgent_def
      ArchiveAgent_def change_agent_def ReplaceTaskAgent_def conflict_if_def)
     (intro rel_rules db_rules)+

lemma db_load_for_resolution [db_rules]: "tx_rel R (load_for_resolution sha256 av_i)"
  unfolding load_for_resolution_def
  by (intro rel_rules) (auto intro: rel_rules split: sum.split domain_error.split)

lemma db_resolve_run_agent: "tx_rel R (resolve_run_agent sha256 kinds c clock)"
  unfolding resolve_run_agent_def resolve_workflow_child_def resolve_bound_agent_def check_frozen_def
    check_runtime_def publish_resolution_def agent_resolutions_add_if_claimed_def Let_def
  by (intro rel_rules db_rules)

lemma db_ResolveRunAgent [db_rules]: "tx_rel R (ResolveRunAgent sha256 kinds c clock later)"
  by (rule tx_relI) (auto dest!: ResolveRunAgent_cases dest: tx_relD [OF db_resolve_run_agent] intro: refl)

lemma db_delegation [db_rules]:
  "tx_rel R (CreateDelegationRequest sha256 i ag_i obj inp contract st now)"
  "tx_rel R (DispatchDelegation sha256 kinds per_run per_tree max_depth c cmd now)"
  by (unfold CreateDelegationRequest_def DispatchDelegation_def check_parent_step_def delegation_lineage_def
      check_budgets_def check_dispatch_input_def load_target_agent_def create_child_def)
     (intro rel_rules db_rules)+

lemma run_system_rel: "run_system T s s' \<Longrightarrow> R s s'"
proof (induction rule: run_system.induct)
  case (expire n now clock s r s')
  then show ?case by (simp add: ExpireDueApprovals_def Let_def db_expire_each)
qed (erule tx_relD [rotated], rule db_rules)+

lemma run_path_rel: "fence_path run_system T s s' \<Longrightarrow> R s s'"
  by (induction rule: fence_path.induct) (auto intro: refl trans run_system_rel)

end

end
