(* ===== verification/Tool_Safety.thy ===== *)
theory Tool_Safety
  imports Run_Preorder
begin

text \<open>
  Tool actions under interleaving. The stored invocations keep their identity whatever transactions
  commit (\<open>kept\<close>), consumed approvals never change, and a protected action whose approval was consumed
  is found again by the replay search; so an action that needs approval reaches the gateway at most
  once, however workers interleave, stop and start again.
\<close>

section \<open>Invocations keep their identity\<close>

definition holds_tools :: "run_db \<Rightarrow> run_db \<Rightarrow> bool" where
  "holds_tools s s' \<longleftrightarrow> keyed ti_id (rd_tools s') \<and>
     (\<forall>t \<in> set (rd_tools s). \<exists>t' \<in> set (rd_tools s'). tool_ident t' = tool_ident t)"

definition kept :: "run_db \<Rightarrow> run_db \<Rightarrow> bool" where
  "kept s s' \<longleftrightarrow> (keyed ti_id (rd_tools s) \<longrightarrow> holds_tools s s')"

lemma holds_trans: "holds_tools s t \<Longrightarrow> holds_tools t u \<Longrightarrow> holds_tools s u"
  unfolding holds_tools_def by metis

interpretation stock: tx_preorder kept
  by unfold_locales (auto simp: kept_def holds_tools_def, metis)

lemma keptI: "rd_tools s' = rd_tools s \<Longrightarrow> kept s s'"
  by (auto simp: kept_def holds_tools_def)

lemma kept_wp: "(\<And>s. keyed ti_id (rd_tools s) \<Longrightarrow> wp m (\<lambda>x. holds_tools s) s) \<Longrightarrow> tx_rel kept m"
  by (rule tx_relI) (auto simp: kept_def dest: wpD)

lemma holds_refl: "keyed ti_id (rd_tools s) \<Longrightarrow> holds_tools s s"
  by (auto simp: holds_tools_def)

lemma holds_framed: "holds_tools s0 s \<Longrightarrow> rd_tools s' = rd_tools s \<Longrightarrow> holds_tools s0 s'"
  by (simp add: holds_tools_def)

lemma rule_holds:
  "tx_rel kept m \<Longrightarrow> holds_tools s0 s \<Longrightarrow> (\<And>x s'. holds_tools s0 s' \<Longrightarrow> holds_tools s s' \<Longrightarrow> Q x s') \<Longrightarrow> wp m Q s"
  by (rule wpI) (metis holds_trans holds_tools_def kept_def tx_relD)

lemma holds_merge:
  assumes "keyed ti_id (rd_tools s)" and "t0 \<in> set (rd_tools s)" and "tool_ident t = tool_ident t0"
  shows "holds_tools s (rd_tools_update (merge_row ti_id t) s)"
proof -
  have i: "ti_id t = ti_id t0" using assms(3) by (simp add: tool_ident_def)
  have "\<exists>x' \<in> set (merge_row ti_id t (rd_tools s)). tool_ident x' = tool_ident x" if x: "x \<in> set (rd_tools s)" for x
  proof (cases "ti_id x = ti_id t")
    case True
    then have "x = t0" using i x assms(1,2) keyed_get [OF assms(1)] by (metis option.inject)
    then show ?thesis using assms(2,3) i by (auto simp: merge_row_def update_rows_def intro!: bexI [of _ t])
  next
    case False
    with x show ?thesis by (auto simp: merge_row_def update_rows_def intro!: bexI [of _ x])
  qed
  then show ?thesis using keyed_merge [OF assms(1)] by (simp add: holds_tools_def)
qed

lemma rule_holds_save:
  assumes "holds_tools s0 s" and "t0 \<in> set (rd_tools s)" and "tool_ident t = tool_ident t0"
    and "\<And>s'. holds_tools s0 s' \<Longrightarrow> holds_tools s s' \<Longrightarrow> Q () s'"
  shows "wp (tools_save t) Q s"
proof -
  have "keyed ti_id (rd_tools s)" using assms(1) by (simp add: holds_tools_def)
  from holds_merge [OF this assms(2,3)] assms(1,4) show ?thesis
    by (auto simp: tools_save_def wp_simps intro: holds_trans)
qed

lemma kept_insert_row: "(\<And>g s. rd_tools (upd g s) = rd_tools s) \<Longrightarrow> tx_rel kept (insert_row table upd clash r)"
  unfolding insert_row_def by (intro stock.rel_rules stock.rel_put keptI) simp

lemma holds_add:
  "holds_tools s0 s \<Longrightarrow> \<forall>x \<in> set (rd_tools s). ti_id x \<noteq> ti_id t \<Longrightarrow> holds_tools s0 (rd_tools_update (\<lambda>u. u @ [t]) s)"
  by (auto simp: holds_tools_def keyed_def)

lemma rule_holds_add:
  "holds_tools s0 s \<Longrightarrow> (\<And>s'. holds_tools s0 s' \<Longrightarrow> t \<in> set (rd_tools s') \<Longrightarrow> Q () s') \<Longrightarrow> wp (tools_add t) Q s"
  using holds_add [of s0 s t] by (auto simp: tools_add_def insert_row_def wp_simps list_ex_iff)

lemma kept_tools_add: "tx_rel kept (tools_add t)"
  by (rule kept_wp) (auto intro: rule_holds_add [OF holds_refl])

named_theorems kept_rules \<open>transactions that keep the stored invocations\<close>

lemma kept_writes [kept_rules]:
  "tx_rel kept (tasks_add t)" "tx_rel kept (tasks_save t)" "tx_rel kept (runs_add r)" "tx_rel kept (runs_save r)"
  "tx_rel kept (steps_add st)" "tx_rel kept (steps_save st)" "tx_rel kept (approvals_add p)" "tx_rel kept (approvals_save p)"
  "tx_rel kept (tools_add ti)" "tx_rel kept (artifacts_add af)" "tx_rel kept (delegations_add d)"
  "tx_rel kept (delegations_finalize_if_dispatched g ds now f)" "tx_rel kept (schedules_complete_for_task k now c)"
  by (unfold tasks_add_def tasks_save_def runs_add_def runs_save_def steps_add_def steps_save_def approvals_add_def
      approvals_save_def artifacts_add_def delegations_add_def delegations_finalize_if_dispatched_def
      schedules_complete_for_task_def Let_def)
     (rule kept_tools_add | (intro stock.rel_rules kept_insert_row stock.rel_put stock.rel_step; simp add: keptI))+

lemma kept_more_writes [kept_rules]:
  "tx_rel kept (skill_resolutions_add sr)" "tx_rel kept (skill_bindings_add sb)" "tx_rel kept (agent_resolutions_add ar)"
  "tx_rel kept (usage_add u)" "tx_rel kept (agents_add ag)" "tx_rel kept (agents_save ag)" "tx_rel kept (agent_revisions_add av)"
  "tx_rel kept (task_agents_replace k ta)" "tx_rel kept (work_enqueue i av' en)" "tx_rel kept (work_remove i)"
  "tx_rel kept (work_step w)" "tx_rel kept (task_events_reserve_sequences k n)" "tx_rel kept (task_events_append te)"
  by (unfold skill_resolutions_add_def skill_bindings_add_def agent_resolutions_add_def usage_add_def agents_add_def
      agents_save_def agent_revisions_add_def task_agents_replace_def work_enqueue_def work_remove_def work_step_def
      task_events_reserve_sequences_def task_events_append_def)
     (intro stock.rel_rules kept_insert_row stock.rel_put stock.rel_step; simp add: keptI)+

lemma kept_fresh_id [kept_rules]: "tx_rel kept fresh_id"
  unfolding fresh_id_def by (rule stock.rel_step) (simp add: keptI)

lemma kept_event_batch [kept_rules]: "tx_rel kept (append_run_events run now specs)"
proof -
  have "tx_rel kept (events_append e)" for e
    unfolding events_append_def by (rule kept_insert_row) simp
  moreover have "tx_rel kept (events_reserve_sequences i n)" for i n
    unfolding events_reserve_sequences_def by (rule stock.rel_step) (simp add: keptI)
  ultimately show ?thesis
    unfolding append_run_events_def append_run_event_def by (intro stock.rel_rules kept_fresh_id)
qed

lemma tool_calls_ident:
  "tool_cancel t i = Done i' \<Longrightarrow> tool_ident i' = tool_ident i"
  "tool_start t i = Done i' \<Longrightarrow> tool_ident i' = tool_ident i"
  "tool_succeed t v i = Done i' \<Longrightarrow> tool_ident i' = tool_ident i"
  "tool_fail t f i = Done i' \<Longrightarrow> tool_ident i' = tool_ident i"
  by (auto simp: tool_defs outcome_simps Let_def tool_ident_def)

lemma rule_cancel_tools:
  assumes "holds_tools s0 s" and "\<forall>t \<in> set ts. \<exists>t' \<in> set (rd_tools s). tool_ident t' = tool_ident t"
    and "\<And>x s'. holds_tools s0 s' \<Longrightarrow> Q x s'"
  shows "wp (tx_each (cancel_tool now) ts) Q s"
  using assms
proof (induction ts arbitrary: s Q)
  case (Cons t ts)
  have more: "\<forall>t \<in> set ts. \<exists>t' \<in> set (rd_tools s'). tool_ident t' = tool_ident t" if "holds_tools s s'" for s'
    using that Cons.prems(2) unfolding holds_tools_def by (metis list.set_intros(2))
  obtain t' where t': "t' \<in> set (rd_tools s)" "tool_ident t' = tool_ident t" using Cons.prems(2) by auto
  have h: "holds_tools s s" using Cons.prems(1) by (auto simp: holds_tools_def)
  have rest: "wp (tx_each (cancel_tool now) ts) (\<lambda>ys. wp (tx_return (y # ys)) Q) s'"
    if "holds_tools s0 s'" "holds_tools s s'" for y s'
    by (rule Cons.IH [OF that(1) more [OF that(2)]]) (simp add: wp_simps Cons.prems(3))
  show ?case
    unfolding tx_each.simps wp_bind cancel_tool_def [of now t] using rest Cons.prems(1) h
    by (auto simp: wp_simps dest!: tool_calls_ident(1) intro!: rule_holds_save [OF Cons.prems(1) t'(1)] simp: t'(2))
qed (simp add: wp_simps)

lemma kept_cancel_listed:
  assumes "\<And>s. set (f s) \<subseteq> set (rd_tools s)" and "\<And>x. tx_rel kept (k x)"
  shows "tx_rel kept (tx_bind (tx_get f) (\<lambda>ts. tx_bind (cancel_tools ts now) k))"
proof (rule kept_wp)
  fix s :: run_db assume "keyed ti_id (rd_tools s)"
  then have "wp (tx_each (cancel_tool now) (f s)) (\<lambda>x. wp (k (concat x)) (\<lambda>y. holds_tools s)) s"
    using assms(1) [of s] by (intro rule_cancel_tools [OF holds_refl]) (auto intro: rule_holds [OF assms(2)])
  then show "wp (tx_bind (tx_get f) (\<lambda>ts. tx_bind (cancel_tools ts now) k)) (\<lambda>x. holds_tools s) s"
    by (simp add: cancel_tools_def wp_simps)
qed

lemma listed_tools: "set (tools_list_for_run i s) \<subseteq> set (rd_tools s)" "set (tools_list_for_step j s) \<subseteq> set (rd_tools s)"
  by (auto simp: tools_list_for_run_def tools_list_for_step_def)

lemma kept_cancels [kept_rules]:
  "tx_rel kept (cancel_children i now)" "tx_rel kept (FailStep j failure now)" "tx_rel kept (CancelStep j now)"
  by (unfold cancel_children_def cancel_step_def FailStep_def CancelStep_def load_step_def)
     (intro kept_cancel_listed listed_tools stock.rel_rules kept_rules)+

lemma kept_marks [kept_rules]:
  "tx_rel kept (MarkToolInvocationRunning t moved now)" "tx_rel kept (MarkToolInvocationSucceeded t v moved now)"
  "tx_rel kept (MarkToolInvocationFailed t failure moved now)" "tx_rel kept (CancelToolInvocation t moved now)"
  by (rule kept_wp; auto simp: MarkToolInvocationRunning_def MarkToolInvocationSucceeded_def MarkToolInvocationFailed_def
      CancelToolInvocation_def load_invocation_def commit_with_event_def tools_get_def wp_simps holds_refl
      dest!: tool_calls_ident get_row_in intro!: rule_holds_save [OF holds_refl] rule_holds [OF kept_event_batch])+

lemma kept_tool_actions [kept_rules]:
  "tx_rel kept (start_invocation run a approval now)" "tx_rel kept (finish_tool_action a t result now)"
proof -
  show "tx_rel kept (start_invocation run a approval now)"
    by (rule kept_wp)
       (auto simp: start_invocation_def wp_simps dest!: tool_calls_ident intro!: rule_holds [OF kept_fresh_id holds_refl] rule_holds_add
         rule_holds_save rule_holds [OF kept_event_batch])
  have each: "tx_rel kept (tx_each (record_candidate i st now) cs)" for i st cs
    unfolding record_candidate_def by (intro stock.rel_rules kept_rules)
  show "tx_rel kept (finish_tool_action a t result now)"
    by (rule kept_wp)
       (auto simp: finish_tool_action_def settle_invocation_def require_claim_def tools_get_def Let_def wp_simps
         dest!: tool_calls_ident get_row_in intro!: rule_holds_save [OF holds_refl] rule_holds [OF each]
         rule_holds [OF kept_event_batch])
qed

interpretation stock: db_preorder kept
  by unfold_locales (rule kept_rules keptI; simp)+

section \<open>What a tool action leaves in the database\<close>

text \<open>An invocation of the action is stored; for a protected action it names a consumed approval of exactly that action.\<close>

definition backed :: "(string \<Rightarrow> string) \<Rightarrow> run_db \<Rightarrow> tool_action \<times> ToolInvocationId \<Rightarrow> bool" where
  "backed sha256 s x \<longleftrightarrow> (case x of (a, i) \<Rightarrow> \<exists>t \<in> set (rd_tools s).
     ti_id t = i \<and> ti_run_id t = rc_run_id (ta_claim a) \<and>
     (tk_approval_required (ta_risk a) \<longrightarrow> (\<exists>p. ti_approval_request_id t = Some (ap_id p) \<and>
        approvals_get (ap_id p) s = Some p \<and> ap_run_id p = Some (rc_run_id (ta_claim a)) \<and>
        ap_status p = ApprovalStatus.APPROVED \<and> ap_consumed_at p \<noteq> None \<and>
        ap_authorization_fingerprint p = Some (action_fingerprint sha256 a))))"

definition sound_db :: "run_db \<Rightarrow> bool" where
  "sound_db s \<longleftrightarrow> db_keyed s \<and> core_inv (core_of s) \<and> keyed ti_id (rd_tools s)"

lemma sound_step:
  assumes "run_system T s s'" and "sound_db s"
  shows "sound_db s'"
proof -
  have "refined T s s'" "kept s s'"
    using run_system_refined [OF assms(1)] stock.run_system_rel [OF assms(1)] by simp_all
  then show ?thesis using assms(2) moves_inv by (auto simp: sound_db_def refined_def kept_def holds_tools_def)
qed

lemma backed_step:
  assumes "run_system T s s'" and "sound_db s" and "backed sha256 s x"
  shows "backed sha256 s' x"
proof -
  obtain a i where x: "x = (a, i)" by (cases x)
  obtain t where t: "t \<in> set (rd_tools s)" "ti_id t = i" "ti_run_id t = rc_run_id (ta_claim a)"
    and b: "tk_approval_required (ta_risk a) \<longrightarrow> (\<exists>p. ti_approval_request_id t = Some (ap_id p) \<and>
        approvals_get (ap_id p) s = Some p \<and> ap_run_id p = Some (rc_run_id (ta_claim a)) \<and>
        ap_status p = ApprovalStatus.APPROVED \<and> ap_consumed_at p \<noteq> None \<and>
        ap_authorization_fingerprint p = Some (action_fingerprint sha256 a))"
    using assms(3) unfolding backed_def x by auto
  have "holds_tools s s'" using stock.run_system_rel [OF assms(1)] assms(2) by (simp add: kept_def sound_db_def)
  then obtain t' where t': "t' \<in> set (rd_tools s')" "tool_ident t' = tool_ident t" using t(1) by (auto simp: holds_tools_def)
  have "core_final (core_of s) (core_of s')"
    using run_system_refined [OF assms(1)] assms(2) by (auto simp: refined_def sound_db_def core_inv_def intro: moves_final)
  then have "approvals_get (ap_id p) s' = Some p"
    if "approvals_get (ap_id p) s = Some p" "ap_status p = ApprovalStatus.APPROVED" "ap_consumed_at p \<noteq> None" for p
    using that by (auto simp: core_final_def keeps_def core_reads approval_over_def TERMINAL_APPROVAL_STATUSES_def)
  with b t t' show ?thesis unfolding backed_def x by (auto simp: tool_ident_def intro!: bexI [of _ t'])
qed

section \<open>Replay detection finds what was executed\<close>

lemma replay_invocations_None:
  "replay_invocations legacy p ts = Inr None \<Longrightarrow> t \<in> set ts \<Longrightarrow> ti_approval_request_id t = Some (ap_id p) \<Longrightarrow>
   ap_authorization_fingerprint p = Some legacy"
  by (induction legacy p ts rule: replay_invocations.induct)
     (auto simp: tool_result_succeeded_def tool_result_failed_def outcome_simps split: if_splits option.splits)

lemma first_hit_None:
  "ebind m (\<lambda>found. case found of None \<Rightarrow> k | Some x \<Rightarrow> Inr (Some x)) = Inr None \<longleftrightarrow> m = Inr None \<and> k = Inr None"
  by (cases m) (auto split: option.splits)

lemma replay_approvals_None:
  "replay_approvals legacy s ps = Inr None \<Longrightarrow> p \<in> set ps \<Longrightarrow> ap_run_id p = Some i \<Longrightarrow>
   replay_invocations legacy p (tools_list_for_run i s) = Inr None"
  by (induction legacy s ps rule: replay_approvals.induct)
     (auto simp: first_hit_None split: option.splits)

text \<open>No digest of a version 2 material is the digest of the version 1 material of the same action.\<close>

definition versions_differ :: "(string \<Rightarrow> string) \<Rightarrow> bool" where
  "versions_differ sha256 \<longleftrightarrow> (\<forall>r st call scope. compute_authorization_fingerprint sha256 r st call scope \<noteq>
     compute_legacy_authorization_fingerprint sha256 r st call)"

definition same_action :: "(string \<Rightarrow> string) \<Rightarrow> tool_action \<Rightarrow> tool_action \<Rightarrow> bool" where
  "same_action sha256 a b \<longleftrightarrow> tk_approval_required (ta_risk a) \<and> tk_approval_required (ta_risk b) \<and>
     rc_run_id (ta_claim a) = rc_run_id (ta_claim b) \<and> action_fingerprint sha256 a = action_fingerprint sha256 b"

definition replay_search :: "(string \<Rightarrow> string) \<Rightarrow> tool_action \<Rightarrow> run_db \<Rightarrow> app_error + (ToolInvocationId \<times> ToolExecutionResult) option" where
  "replay_search sha256 a s = (let r = rc_run_id (ta_claim a) in
     find_replay sha256 (approvals_list_for_run r s) (action_fingerprint sha256 a) r (ta_step_id a) (ta_call a) s)"

lemma replay_finds:
  assumes "versions_differ sha256" and "backed sha256 s (b, i)" and "same_action sha256 a b"
  shows "replay_search sha256 a s \<noteq> Inr None"
proof
  let ?r = "rc_run_id (ta_claim a)" and ?f = "action_fingerprint sha256 a"
  let ?l = "compute_legacy_authorization_fingerprint sha256 ?r (ta_step_id a) (ta_call a)"
  assume n: "replay_search sha256 a s = Inr None"
  obtain t p where t: "t \<in> set (rd_tools s)" "ti_run_id t = ?r" "ti_approval_request_id t = Some (ap_id p)"
    and p: "approvals_get (ap_id p) s = Some p" "ap_run_id p = Some ?r" "ap_status p = ApprovalStatus.APPROVED"
      "ap_consumed_at p \<noteq> None" "ap_authorization_fingerprint p = Some ?f"
    using assms(2,3) by (auto simp: backed_def same_action_def)
  have "p \<in> set (approvals_list_for_run ?r s)"
    using p(1,2) get_row_in [of ap_id "ap_id p" "rd_approvals s" p] by (simp add: approvals_list_for_run_def approvals_get_def)
  then have "replay_invocations ?l p (tools_list_for_run ?r s) = Inr None"
    using n p by (auto simp: replay_search_def find_replay_def Let_def spent_def ap_is_consumed_def intro!: replay_approvals_None)
  then have "ap_authorization_fingerprint p = Some ?l"
    by (rule replay_invocations_None [of _ _ _ t]) (use t in \<open>simp_all add: tools_list_for_run_def\<close>)
  then have "?f = ?l" using p(5) by simp
  then show False using assms(1) by (auto simp: versions_differ_def action_fingerprint_def)
qed

section \<open>The first transaction\<close>

definition fresh_invocation :: "run_db \<Rightarrow> RunId \<Rightarrow> ApprovalRequestId option \<Rightarrow> ToolInvocationId \<Rightarrow> run_db \<Rightarrow> bool" where
  "fresh_invocation s r approval i s' \<longleftrightarrow> (\<forall>t \<in> set (rd_tools s). ti_id t \<noteq> i) \<and>
     (\<exists>t \<in> set (rd_tools s'). ti_id t = i \<and> ti_run_id t = r \<and> ti_approval_request_id t = approval)"

lemma fresh_invocation_holds:
  assumes "fresh_invocation s r approval i s1" and "holds_tools s1 s'"
  shows "fresh_invocation s r approval i s'"
proof -
  obtain t where t: "t \<in> set (rd_tools s1)" "ti_id t = i" "ti_run_id t = r" "ti_approval_request_id t = approval"
    using assms(1) by (auto simp: fresh_invocation_def)
  obtain t' where "t' \<in> set (rd_tools s')" "tool_ident t' = tool_ident t" using assms(2) t(1) by (auto simp: holds_tools_def)
  with assms(1) t show ?thesis by (auto simp: fresh_invocation_def tool_ident_def intro!: bexI [of _ t'])
qed

lemma started_is_fresh:
  assumes "tool_new i r name v now st approval prov = Inr t" and "tool_start now' t = Done t'"
    and "\<forall>x \<in> set (rd_tools s). ti_id x \<noteq> ti_id t" and "rd_tools s1 = rd_tools s"
  shows "fresh_invocation s r approval (ti_id t') (rd_tools_update (merge_row ti_id t' \<circ> (\<lambda>u. u @ [t])) s1)"
proof -
  have n: "ti_run_id t = r" "ti_approval_request_id t = approval" using assms(1)
    by (auto simp: tool_new_def outcome_simps Let_def)
  have i: "ti_id t' = ti_id t" "ti_run_id t' = r" "ti_approval_request_id t' = approval"
    using tool_calls_ident(2) [OF assms(2)] n by (simp_all add: tool_ident_def)
  have "t' \<in> set (merge_row ti_id t' u)" for u by (auto simp: merge_row_def)
  then show ?thesis using assms(3) i by (auto simp: fresh_invocation_def)
qed

lemma wp_start_invocation:
  assumes "keyed ti_id (rd_tools s)"
  shows "wp (start_invocation run a approval now)
    (\<lambda>i s'. rd_approvals s' = rd_approvals s \<and> fresh_invocation s (rc_run_id (ta_claim a)) approval i s') s"
proof -
  have h: "wp (append_run_events run now es) (\<lambda>x s'. fresh_invocation s r approval i s') s1"
    if "fresh_invocation s r approval i s1" "holds_tools s s1" for r i es s1
    by (rule rule_holds [OF kept_event_batch that(2)]) (rule fresh_invocation_holds [OF that(1)])
  have m: "holds_tools s (rd_tools_update (merge_row ti_id t' \<circ> (\<lambda>u. u @ [t])) s1)"
    if "rd_tools s1 = rd_tools s" "\<forall>x \<in> set (rd_tools s). ti_id x \<noteq> ti_id t" "tool_start n t = Done t'" for t t' n s1
  proof -
    let ?s = "rd_tools_update (\<lambda>u. u @ [t]) s1"
    have "holds_tools s ?s" using holds_add [of s s1 t] that holds_refl [OF assms] by (simp add: holds_tools_def)
    moreover have "holds_tools ?s (rd_tools_update (merge_row ti_id t') ?s)"
      using \<open>holds_tools s ?s\<close> tool_calls_ident(2) [OF that(3)] by (intro holds_merge [of _ t]) (simp_all add: holds_tools_def)
    ultimately show ?thesis using holds_trans by fastforce
  qed
  have "wp (start_invocation run a approval now)
      (\<lambda>i s'. fresh_invocation s (rc_run_id (ta_claim a)) approval i s') s"
    by (auto simp: start_invocation_def fresh_id_def tools_add_def tools_save_def insert_row_def wp_simps lift_domain_Inr
        list_ex_iff intro!: h started_is_fresh m)
  then have "fresh_invocation s (rc_run_id (ta_claim a)) approval i s'"
    if "start_invocation run a approval now s = Inr (i, s')" for i s' using that by (rule wpD)
  moreover have "rd_approvals s' = rd_approvals s" if "start_invocation run a approval now s = Inr (i, s')" for i s'
    using tx_relD [OF frame_tool_action(2) that] by (simp add: framed_def)
  ultimately show ?thesis by (intro wpI) simp
qed

text \<open>The approval a protected action consumes: its own, unused before and final from now on.\<close>

definition grants :: "(string \<Rightarrow> string) \<Rightarrow> tool_action \<Rightarrow> run_db \<Rightarrow> ApprovalRequestId option \<Rightarrow> bool" where
  "grants sha256 a s approval \<longleftrightarrow> (\<exists>p. approval = Some (ap_id p) \<and> approvals_get (ap_id p) s = Some p \<and>
     ap_run_id p = Some (rc_run_id (ta_claim a)) \<and> ap_status p = ApprovalStatus.APPROVED \<and> ap_consumed_at p \<noteq> None \<and>
     ap_authorization_fingerprint p = Some (action_fingerprint sha256 a))"

lemma consumed_grants:
  assumes "find_authorizing_approval (approvals_list_for_run (rc_run_id (ta_claim a)) s) (action_fingerprint sha256 a) = Some p"
    and "approval_consume now p = Done p'"
  shows "grants sha256 a (rd_approvals_update (merge_row ap_id p') s) (Some (ap_id p'))"
  using find_authorizing_approval_SomeD [OF assms(1)] assms(2)
  by (auto simp: grants_def authorizes_def approvals_list_for_run_def approvals_get_def get_merge_row
      approval_consume_def outcome_simps intro!: exI [of _ p'])

lemma rule_authorize:
  assumes "\<And>x. Q (Inl x) s"
    and "\<And>approval s'. replay_search sha256 a s = Inr None \<Longrightarrow> grants sha256 a s' approval \<Longrightarrow> rd_tools s' = rd_tools s \<Longrightarrow>
      Q (Inr approval) s'"
  shows "wp (authorize_protected sha256 a now) Q s"
  using assms consumed_grants [of a s sha256]
  by (auto simp: authorize_protected_def approvals_save_def replay_search_def Let_def wp_simps split: option.split)

lemma backed_fresh:
  assumes "fresh_invocation s (rc_run_id (ta_claim a)) approval i s'"
    and "tk_approval_required (ta_risk a) \<Longrightarrow> grants sha256 a s1 approval" and "rd_approvals s' = rd_approvals s1"
  shows "backed sha256 s' (a, i)"
  using assms by (fastforce simp: fresh_invocation_def backed_def grants_def approvals_get_def)

lemma begin_post:
  assumes "sound_db s" and "begin_tool_action sha256 a now s = Inr (Inr i, s')"
  shows "backed sha256 s' (a, i) \<and> (\<forall>t \<in> set (rd_tools s). ti_id t \<noteq> i) \<and>
    (tk_approval_required (ta_risk a) \<longrightarrow> replay_search sha256 a s = Inr None)"
proof -
  let ?P = "\<lambda>x s'. \<forall>i. x = Inr i \<longrightarrow> backed sha256 s' (a, i) \<and> (\<forall>t \<in> set (rd_tools s). ti_id t \<noteq> i) \<and>
    (tk_approval_required (ta_risk a) \<longrightarrow> replay_search sha256 a s = Inr None)"
  have start: "wp (start_invocation run a approval now) (\<lambda>i s'. ?P (Inr i) s') s1"
    if "rd_tools s1 = rd_tools s" "tk_approval_required (ta_risk a) \<longrightarrow> replay_search sha256 a s = Inr None"
      "tk_approval_required (ta_risk a) \<Longrightarrow> grants sha256 a s1 approval" for run approval s1
  proof (rule wp_mono [OF wp_start_invocation])
    show "keyed ti_id (rd_tools s1)" using assms(1) that(1) by (simp add: sound_db_def)
    show "?P (Inr j) s'" if "rd_approvals s' = rd_approvals s1 \<and> fresh_invocation s1 (rc_run_id (ta_claim a)) approval j s'" for j s'
      using that \<open>rd_tools s1 = rd_tools s\<close> \<open>tk_approval_required (ta_risk a) \<longrightarrow> _\<close>
        backed_fresh [OF _ \<open>tk_approval_required (ta_risk a) \<Longrightarrow> grants sha256 a s1 approval\<close>, of s1 j s']
      by (simp add: fresh_invocation_def)
  qed
  have "wp (begin_tool_action sha256 a now) ?P s"
    by (auto simp: begin_tool_action_def require_claim_def Let_def wp_simps split: sum.split
        intro!: rule_authorize start [simplified])
  from wpD [OF this assms(2)] show ?thesis by simp
qed

section \<open>Workers, the gateway and everything else\<close>

text \<open>
  Any number of workers run \<^verbatim>\<open>ExecuteToolAction\<close>, each somewhere in \<open>tool_next\<close>; between their steps any
  transaction of the run system may commit and any worker may stop and start another action. The log
  holds the calls the gateway received.\<close>

record tool_world =
  tw_db :: run_db
  tw_pc :: "nat \<Rightarrow> tool_pc"
  tw_calls :: "(tool_action \<times> ToolInvocationId) list"

definition place :: "nat \<Rightarrow> tool_pc \<Rightarrow> tool_world \<Rightarrow> tool_world" where
  "place p pc w = w\<lparr>tw_pc := (tw_pc w)(p := pc)\<rparr>"

definition advance ::
  "(string \<Rightarrow> string) \<Rightarrow> (ToolCall \<Rightarrow> app_error + ToolRiskAssessment) \<Rightarrow> nat \<Rightarrow> instant \<Rightarrow> ToolExecutionResult
   \<Rightarrow> tool_world \<Rightarrow> tool_world" where
  "advance sha256 assess p now answer w =
     (case tool_next sha256 assess now answer (tw_pc w p) (tw_db w) of
        (pc, db, called) \<Rightarrow> \<lparr>tw_db = db, tw_pc = (tw_pc w)(p := pc),
          tw_calls = tw_calls w @ (case called of None \<Rightarrow> [] | Some x \<Rightarrow> [x])\<rparr>)"

inductive tool_system ::
  "(string \<Rightarrow> string) \<Rightarrow> (ToolCall \<Rightarrow> app_error + ToolRiskAssessment) \<Rightarrow> tool_world \<Rightarrow> tool_world \<Rightarrow> bool"
  for sha256 assess where
  begins: "tool_system sha256 assess w w"
| proposes: "tool_system sha256 assess w w' \<Longrightarrow> tool_system sha256 assess w (place p (Proposed c st call) w')"
| stops: "tool_system sha256 assess w w' \<Longrightarrow> tool_system sha256 assess w (place p ToolIdle w')"
| advances: "tool_system sha256 assess w w' \<Longrightarrow> tool_system sha256 assess w (advance sha256 assess p now answer w')"
| commits: "tool_system sha256 assess w w' \<Longrightarrow> run_system T (tw_db w') db \<Longrightarrow>
    tool_system sha256 assess w (w'\<lparr>tw_db := db\<rparr>)"

text \<open>The calls a worker is committed to but has not made yet.\<close>

fun pending_call :: "tool_pc \<Rightarrow> (tool_action \<times> ToolInvocationId) option" where
  "pending_call (Begun a i) = Some (a, i)"
| "pending_call (Verified a i) = Some (a, i)"
| "pending_call pc = None"

text \<open>
  The books of the calls: those made and, per worker, the one it is committed to. Every one is backed
  by the database, no two share an invocation, and equal protected actions are the same call.\<close>

type_synonym tool_call_entry = "tool_action \<times> ToolInvocationId"

definition entries :: "tool_call_entry list \<Rightarrow> (nat \<Rightarrow> tool_call_entry option) \<Rightarrow> tool_call_entry set" where
  "entries calls pend = set calls \<union> {x. \<exists>p. pend p = Some x}"

definition ledger ::
  "(string \<Rightarrow> string) \<Rightarrow> run_db \<Rightarrow> tool_call_entry list \<Rightarrow> (nat \<Rightarrow> tool_call_entry option) \<Rightarrow> bool" where
  "ledger sha256 db calls pend \<longleftrightarrow> sound_db db \<and>
     (\<forall>x \<in> entries calls pend. backed sha256 db x) \<and> distinct (map snd calls) \<and>
     (\<forall>p x. pend p = Some x \<longrightarrow> snd x \<notin> snd ` set calls) \<and>
     (\<forall>p q x y. pend p = Some x \<longrightarrow> pend q = Some y \<longrightarrow> snd x = snd y \<longrightarrow> p = q) \<and>
     (\<forall>x \<in> entries calls pend. \<forall>y \<in> entries calls pend. same_action sha256 (fst x) (fst y) \<longrightarrow> snd x = snd y)"

lemma entries_drop: "entries calls (pend(p := None)) \<subseteq> entries calls pend"
  by (auto simp: entries_def split: if_splits)

lemma ledger_sub:
  assumes "ledger sha256 db calls pend" and "entries calls' pend' \<subseteq> entries calls pend" and "distinct (map snd calls')"
    and "\<And>p x. pend' p = Some x \<Longrightarrow> snd x \<notin> snd ` set calls'"
    and "\<And>p q x y. pend' p = Some x \<Longrightarrow> pend' q = Some y \<Longrightarrow> snd x = snd y \<Longrightarrow> p = q"
  shows "ledger sha256 db calls' pend'"
  using assms unfolding ledger_def by (meson subsetD)

lemma ledgerD:
  assumes "ledger sha256 db calls pend"
  shows "distinct (map snd calls)" and "pend p = Some x \<Longrightarrow> snd x \<notin> snd ` set calls"
    and "pend p = Some x \<Longrightarrow> pend q = Some y \<Longrightarrow> snd x = snd y \<Longrightarrow> p = q"
    and "x \<in> entries calls pend \<Longrightarrow> backed sha256 db x" and "sound_db db"
    and "x \<in> entries calls pend \<Longrightarrow> y \<in> entries calls pend \<Longrightarrow> same_action sha256 (fst x) (fst y) \<Longrightarrow> snd x = snd y"
  using assms unfolding ledger_def by blast+

lemma ledger_drop: "ledger sha256 db calls pend \<Longrightarrow> ledger sha256 db calls (pend(p := None))"
  by (rule ledger_sub [OF _ entries_drop]) (auto split: if_splits dest: ledgerD(1,2) intro: ledgerD(3))

lemma ledger_commit: "ledger sha256 db calls pend \<Longrightarrow> run_system T db db' \<Longrightarrow> ledger sha256 db' calls pend"
  unfolding ledger_def using sound_step [of T db db'] backed_step [of T db db' sha256] by blast

lemma ledger_call:
  assumes "ledger sha256 db calls pend" and "pend p = Some x"
  shows "ledger sha256 db (calls @ [x]) (pend(p := None))"
proof -
  have e: "entries (calls @ [x]) (pend(p := None)) \<subseteq> entries calls pend"
    using assms(2) by (auto simp: entries_def split: if_splits)
  show ?thesis
  proof (rule ledger_sub [OF assms(1) e])
    show "distinct (map snd (calls @ [x]))" using ledgerD(1,2) [OF assms(1)] assms(2) by auto
    show "snd y \<notin> snd ` set (calls @ [x])" if "(pend(p := None)) q = Some y" for q y
      using that ledgerD(2) [OF assms(1), of q y] ledgerD(3) [OF assms(1), of q y p x] assms(2) by (auto split: if_splits)
    show "q = q'" if "(pend(p := None)) q = Some y" "(pend(p := None)) q' = Some z" "snd y = snd z" for q q' y z
      using that by (auto split: if_splits intro: ledgerD(3) [OF assms(1)])
  qed
qed

lemma same_action_sym: "same_action sha256 a b \<Longrightarrow> same_action sha256 b a"
  by (simp add: same_action_def)

lemma ledger_admit:
  assumes l: "ledger sha256 db calls pend" and v: "versions_differ sha256"
    and b: "begin_tool_action sha256 a now db = Inr (Inr i, db')"
  shows "ledger sha256 db' calls (pend(p := Some (a, i)))"
proof -
  have sound: "sound_db db" using l by (simp add: ledger_def)
  have run: "run_system {} db db'" using b by (rule run_system.begin_tool)
  note post = begin_post [OF sound b]
  have old: "entries calls (pend(p := Some (a, i))) \<subseteq> insert (a, i) (entries calls pend)"
    by (auto simp: entries_def split: if_splits)
  have apart: "snd x \<noteq> i" if "x \<in> entries calls pend" for x
    using l that post by (auto simp: ledger_def backed_def)
  have alone: "\<not> same_action sha256 a (fst x)" if x: "x \<in> entries calls pend" for x
  proof
    assume same: "same_action sha256 a (fst x)"
    have "backed sha256 db (fst x, snd x)" using l x by (simp add: ledger_def)
    from replay_finds [OF v this same] post same show False by (simp add: same_action_def)
  qed
  note l' = ledger_commit [OF l run]
  show ?thesis unfolding ledger_def
  proof (intro conjI ballI allI impI)
    show "sound_db db'" "distinct (map snd calls)" using l' by (simp_all add: ledger_def)
    show "backed sha256 db' x" if "x \<in> entries calls (pend(p := Some (a, i)))" for x
      using subsetD [OF old that] ledgerD(4) [OF l', of x] post by blast
    show "snd x \<notin> snd ` set calls" if "(pend(p := Some (a, i))) q = Some x" for q x
    proof (cases "q = p")
      case True
      then have "snd x = i" using that by auto
      moreover have "snd y \<noteq> i" if "y \<in> set calls" for y using that by (intro apart) (simp add: entries_def)
      ultimately show ?thesis by (metis imageE)
    qed (use that ledgerD(2) [OF l, of q x] in simp)
    show "q = q'" if "(pend(p := Some (a, i))) q = Some x" "(pend(p := Some (a, i))) q' = Some y" "snd x = snd y" for q q' x y
    proof -
      have n: "pend r = Some z \<Longrightarrow> snd z \<noteq> i" for r z using apart [of z] by (auto simp: entries_def)
      show ?thesis using that n [of q x] n [of q' y] ledgerD(3) [OF l, of q x q' y] by (cases "q = p"; cases "q' = p") auto
    qed
    show "snd x = snd y" if "x \<in> entries calls (pend(p := Some (a, i)))" "y \<in> entries calls (pend(p := Some (a, i)))"
      "same_action sha256 (fst x) (fst y)" for x y
    proof -
      have "x = (a, i) \<or> x \<in> entries calls pend" "y = (a, i) \<or> y \<in> entries calls pend" using old that(1,2) by blast+
      then show ?thesis using alone [of x] alone [of y] that(3) same_action_sym [OF that(3)] ledgerD(6) [OF l, of x y] by auto
    qed
  qed
qed

section \<open>Every execution\<close>

definition tool_world_inv :: "(string \<Rightarrow> string) \<Rightarrow> tool_world \<Rightarrow> bool" where
  "tool_world_inv sha256 w \<longleftrightarrow> ledger sha256 (tw_db w) (tw_calls w) (\<lambda>p. pending_call (tw_pc w p))"

lemma pending_upd: "(\<lambda>q. pending_call (if q = p then pc else f q)) = (\<lambda>q. pending_call (f q))(p := pending_call pc)"
  by auto

lemma ledger_same: "ledger sha256 db calls pend \<Longrightarrow> pend p = x \<Longrightarrow> ledger sha256 db calls (pend(p := x))"
  by auto

lemma place_inv: "tool_world_inv sha256 w \<Longrightarrow> pending_call pc = None \<Longrightarrow> tool_world_inv sha256 (place p pc w)"
  unfolding tool_world_inv_def place_def by (simp add: pending_upd ledger_drop)

lemma advance_inv:
  assumes "tool_world_inv sha256 w" and v: "versions_differ sha256"
  shows "tool_world_inv sha256 (advance sha256 assess p now answer w)"
proof -
  let ?pend = "\<lambda>q. pending_call (tw_pc w q)"
  have l: "ledger sha256 (tw_db w) (tw_calls w) ?pend" using assms(1) by (simp add: tool_world_inv_def)
  note drop = ledger_drop [OF l, of p]
  note commit = ledger_commit [OF drop]
  show ?thesis
  proof (cases "tw_pc w p")
    case (Proposed c st call)
    then show ?thesis using drop commit [OF run_system.begin_tool] ledger_admit [OF l v, of _ now _ _ p]
      by (auto simp: advance_def tool_world_inv_def pending_upd Let_def split: sum.split prod.split)
  next
    case (Begun a i)
    then have "?pend p = Some (a, i)" by simp
    with Begun drop ledger_same [OF l this] show ?thesis
      by (auto simp: advance_def tool_world_inv_def pending_upd require_claim_def tx_bind_def tx_get_def tx_guard_def
          tx_return_def tx_raise_def)
  next
    case (Verified a i)
    then have "?pend p = Some (a, i)" by simp
    with Verified ledger_call [OF l this] show ?thesis
      by (simp add: advance_def tool_world_inv_def pending_upd)
  next
    case (Answered a i r)
    then show ?thesis using drop commit [OF run_system.finish_tool]
      by (auto simp: advance_def tool_world_inv_def pending_upd split: sum.split)
  qed (use drop in \<open>auto simp: advance_def tool_world_inv_def pending_upd\<close>)
qed

lemma tool_system_inv:
  "tool_system sha256 assess w w' \<Longrightarrow> versions_differ sha256 \<Longrightarrow> tool_world_inv sha256 w \<Longrightarrow> tool_world_inv sha256 w'"
proof (induction rule: tool_system.induct)
  case (commits w w' T db)
  then show ?case using ledger_commit unfolding tool_world_inv_def by fastforce
qed (simp_all add: place_inv advance_inv)

definition tool_world_new :: "(nat \<Rightarrow> string) \<Rightarrow> tool_world" where
  "tool_world_new uuid = \<lparr>tw_db = no_rows uuid, tw_pc = (\<lambda>p. ToolIdle), tw_calls = []\<rparr>"

lemma tool_world_new_inv: "tool_world_inv sha256 (tool_world_new uuid)"
  using no_rows_core [of uuid]
  by (simp add: tool_world_inv_def tool_world_new_def ledger_def entries_def sound_db_def keyed_def)
     (simp add: no_rows_def)

end
