(* ===== verification/Run_Events.thy ===== *)
theory Run_Events
  imports Run_Preorder
begin

text \<open>
  The event stream of a run: whatever transactions commit, the stored events of a run are numbered
  1, 2, 3, ... without gap or duplicate, and a committed event is never changed or removed. The
  counter table holds the next number of each run, and every event has an identifier that was drawn
  for it. \<open>logged\<close> is the preorder every transaction
  satisfies; only the batch append touches the two tables.
\<close>

definition run_events :: "RunId \<Rightarrow> run_db \<Rightarrow> RunEvent list" where
  "run_events i s = filter (\<lambda>e. ev_run_id e = i) (rd_events s)"

definition next_sequence :: "RunId \<Rightarrow> run_db \<Rightarrow> int" where
  "next_sequence i s = (case map_of (rd_event_counters s) i of None \<Rightarrow> 1 | Some n \<Rightarrow> n)"

definition events_ok :: "run_db \<Rightarrow> bool" where
  "events_ok s \<longleftrightarrow> distinct (map fst (rd_event_counters s)) \<and>
     (\<forall>i. 1 \<le> next_sequence i s \<and> map ev_sequence (run_events i s) = [1..next_sequence i s - 1]) \<and>
     (\<forall>e \<in> set (rd_events s). \<exists>n < rd_drawn s. ev_id e = Id (rd_uuid s n))"

definition logged :: "run_db \<Rightarrow> run_db \<Rightarrow> bool" where
  "logged s s' \<longleftrightarrow> rd_uuid s' = rd_uuid s \<and> rd_drawn s \<le> rd_drawn s' \<and>
     (events_ok s \<longrightarrow> events_ok s' \<and> (\<forall>i. \<exists>es. run_events i s' = run_events i s @ es))"

interpretation log: tx_preorder logged
proof
  show "logged s s" for s by (simp add: logged_def)
  show "logged s u" if "logged s t" "logged t u" for s t u
    using that unfolding logged_def by (metis append.assoc order_trans)
qed

section \<open>The batch append\<close>

lemma map_of_update:
  "map_of (update_rows (\<lambda>r. fst r = k) (\<lambda>r. (fst r, snd r + n)) t) i =
   (if i = k then map_option (\<lambda>v. v + n) (map_of t k) else map_of t i)"
  by (induction t) (auto simp: update_rows_def)

lemma bump_counter:
  fixes t :: "('k \<times> int) list"
  assumes "distinct (map fst t)"
  shows "fst (bump k n t) = (case map_of t k of None \<Rightarrow> 1 | Some v \<Rightarrow> v)"
    and "map_of (snd (bump k n t)) i =
      (if i = k then Some ((case map_of t k of None \<Rightarrow> 1 | Some v \<Rightarrow> v) + n) else map_of t i)"
    and "distinct (map fst (snd (bump k n t)))"
proof -
  let ?t = "if k \<in> fst ` set t then t else t @ [(k, 1)]"
  have m: "map_of ?t i = (if i = k then Some (case map_of t k of None \<Rightarrow> 1 | Some v \<Rightarrow> v) else map_of t i)" for i
  proof (cases "map_of t k")
    case None
    then have "k \<notin> fst ` set t" by (simp only: map_of_eq_None_iff not_False_eq_True)
    then show ?thesis using None by (auto simp: map_add_def split: option.split)
  next
    case (Some v)
    then have "k \<in> fst ` set t" by (metis map_of_eq_None_iff option.distinct(1))
    then show ?thesis using Some by simp
  qed
  show "fst (bump k n t) = (case map_of t k of None \<Rightarrow> 1 | Some v \<Rightarrow> v)"
    and "map_of (snd (bump k n t)) i =
      (if i = k then Some ((case map_of t k of None \<Rightarrow> 1 | Some v \<Rightarrow> v) + n) else map_of t i)"
    using m [of k] m [of i] by (simp_all add: bump_def Let_def map_of_update)
  have "map fst (update_rows P (\<lambda>r. (fst r, f r)) t') = map fst t'" for P f and t' :: "('k \<times> int) list"
    by (induction t') (auto simp: update_rows_def)
  then show "distinct (map fst (snd (bump k n t)))"
    using assms by (auto simp: bump_def Let_def)
qed

lemma wp_append_run_event:
  "wp (append_run_event i now x) (\<lambda>u s'. rd_event_counters s' = rd_event_counters s \<and>
     rd_uuid s' = rd_uuid s \<and> rd_drawn s' = Suc (rd_drawn s) \<and>
     (\<exists>e. rd_events s' = rd_events s @ [e] \<and> ev_run_id e = i \<and> ev_sequence e = fst x \<and>
       ev_id e = Id (rd_uuid s (rd_drawn s)))) s"
  by (auto simp: append_run_event_def fresh_id_def events_append_def insert_row_def wp_simps lift_domain_Inr
      run_event_post_init_def outcome_simps split_beta)

lemma wp_append_batch:
  "wp (tx_each (append_run_event i now) xs) (\<lambda>u s'. rd_event_counters s' = rd_event_counters s \<and>
     rd_uuid s' = rd_uuid s \<and> rd_drawn s \<le> rd_drawn s' \<and>
     (\<exists>es. rd_events s' = rd_events s @ es \<and> (\<forall>e \<in> set es. ev_run_id e = i) \<and> map ev_sequence es = map fst xs \<and>
       (\<forall>e \<in> set es. \<exists>n < rd_drawn s'. ev_id e = Id (rd_uuid s n)))) s"
proof (induction xs arbitrary: s)
  case (Cons x xs)
  show ?case
    unfolding tx_each.simps wp_bind wp_return
  proof (rule wp_mono [OF wp_append_run_event], goal_cases)
    case (1 u s')
    then obtain e where e: "rd_events s' = rd_events s @ [e]" "ev_run_id e = i" "ev_sequence e = fst x"
      "ev_id e = Id (rd_uuid s (rd_drawn s))"
      and c: "rd_event_counters s' = rd_event_counters s" "rd_uuid s' = rd_uuid s" "rd_drawn s' = Suc (rd_drawn s)"
      by blast
    show ?case
    proof (rule wp_mono [OF Cons.IH], goal_cases)
      case (1 v s'')
      then obtain es where "rd_events s'' = rd_events s' @ es" "\<forall>e \<in> set es. ev_run_id e = i"
        "map ev_sequence es = map fst xs" "rd_event_counters s'' = rd_event_counters s'"
        "rd_uuid s'' = rd_uuid s'" "rd_drawn s' \<le> rd_drawn s''"
        "\<forall>e \<in> set es. \<exists>n < rd_drawn s''. ev_id e = Id (rd_uuid s' n)" by blast
      with e c show ?case by (auto intro!: exI [of _ "e # es"] exI [of _ "rd_drawn s"])
    qed
  qed
qed (simp add: wp_simps)

lemma batch_numbers:
  "map fst (zip (map (\<lambda>k. a + int k) [0..<length xs]) xs) = [a..a + int (length xs) - 1]"
  by (rule nth_equalityI) auto

lemma upto_extend: "1 \<le> a \<Longrightarrow> 0 \<le> n \<Longrightarrow> [1..a - 1] @ [a..a + n - 1] = [1..a + n - 1]" for a n :: int
  using upto_split2 [of 1 "a - 1" "a + n - 1"] by (cases "a = 1"; cases "n = 0") auto

lemma log_append_run_events: "tx_rel logged (append_run_events run now specs)"
  unfolding tx_rel_wp
proof
  fix s :: run_db
  let ?i = "rn_id run" and ?n = "int (length specs)"
  let ?b = "bump ?i ?n (rd_event_counters s)"
  let ?s = "rd_event_counters_update (\<lambda>t. snd (bump ?i ?n t)) s"
  let ?xs = "zip (map (\<lambda>k. fst ?b + int k) [0..<length specs]) specs"
  have "logged s s'" if c: "rd_event_counters s' = snd ?b" and e: "rd_events s' = rd_events s @ es"
    and r: "\<forall>e \<in> set es. ev_run_id e = ?i" and q: "map ev_sequence es = map fst ?xs"
    and u: "rd_uuid s' = rd_uuid s" "rd_drawn s \<le> rd_drawn s'"
    and v: "\<forall>e \<in> set es. \<exists>n < rd_drawn s'. ev_id e = Id (rd_uuid s n)" for s' es
    unfolding logged_def
  proof (intro conjI impI)
    assume ok: "events_ok s"
    then have d: "distinct (map fst (rd_event_counters s))" by (simp add: events_ok_def)
    note b = bump_counter [OF d, of ?i ?n]
    have f: "filter (\<lambda>e. ev_run_id e = j) es = (if j = ?i then es else [])" for j
      using r by (auto simp: filter_empty_conv)
    have n: "next_sequence j s' = (if j = ?i then next_sequence ?i s + ?n else next_sequence j s)" for j
      using b(2) [of j] by (simp add: next_sequence_def c)
    have "fst ?b = next_sequence ?i s" using b(1) by (simp add: next_sequence_def)
    then have q': "map ev_sequence es = [next_sequence ?i s..next_sequence ?i s + ?n - 1]"
      using q batch_numbers [of "fst ?b" specs] by simp
    have j: "run_events j s' = run_events j s @ (if j = ?i then es else [])" for j
      by (simp add: run_events_def e f)
    have p: "1 \<le> next_sequence ?i s" using ok by (simp add: events_ok_def)
    then have "[1..next_sequence ?i s - 1] @ [next_sequence ?i s..next_sequence ?i s + ?n - 1] =
        [1..next_sequence ?i s + ?n - 1]" by (rule upto_extend) simp
    moreover have "1 \<le> next_sequence ?i s + ?n" using p by simp
    moreover have "\<forall>e \<in> set (rd_events s'). \<exists>n < rd_drawn s'. ev_id e = Id (rd_uuid s' n)"
      using ok u v by (auto simp: events_ok_def e) (meson order_less_le_trans)
    ultimately show "events_ok s'"
      using ok b(3) n j q' by (auto simp: events_ok_def c)
    show "\<forall>i. \<exists>es. run_events i s' = run_events i s @ es" using j by blast
  qed (use u in simp_all)
  then have "wp (tx_each (append_run_event ?i now) ?xs) (\<lambda>u. logged s) ?s"
    by (intro wp_mono [OF wp_append_batch]) auto
  then show "wp (append_run_events run now specs) (\<lambda>x. logged s) s"
    by (simp add: append_run_events_def events_reserve_sequences_def wp_simps)
qed

section \<open>Every transaction\<close>

named_theorems log_rules \<open>transactions that only append to the event streams\<close>

lemmas log_append [log_rules] = log_append_run_events

lemma loggedI:
  "rd_events s' = rd_events s \<Longrightarrow> rd_event_counters s' = rd_event_counters s \<Longrightarrow> rd_uuid s' = rd_uuid s \<Longrightarrow>
   rd_drawn s \<le> rd_drawn s' \<Longrightarrow> logged s s'"
  by (auto simp: logged_def events_ok_def run_events_def next_sequence_def) (meson order_less_le_trans)

lemma log_insert_row: "(\<And>g s. logged s (upd g s)) \<Longrightarrow> tx_rel logged (insert_row table upd clash r)"
  unfolding insert_row_def by (intro log.rel_rules log.rel_put) simp

lemma log_writes [log_rules]:
  "tx_rel logged fresh_id" "tx_rel logged (tasks_add t)" "tx_rel logged (tasks_save t)"
  "tx_rel logged (runs_add r)" "tx_rel logged (runs_save r)"
  "tx_rel logged (steps_add st)" "tx_rel logged (steps_save st)"
  "tx_rel logged (approvals_add p)" "tx_rel logged (approvals_save p)"
  "tx_rel logged (tools_add ti)" "tx_rel logged (tools_save ti)" "tx_rel logged (artifacts_add af)"
  "tx_rel logged (delegations_add d)" "tx_rel logged (delegations_finalize_if_dispatched g ds now f)"
  "tx_rel logged (schedules_complete_for_task k now c)"
  by (unfold fresh_id_def tasks_add_def tasks_save_def runs_add_def runs_save_def steps_add_def steps_save_def
      approvals_add_def approvals_save_def tools_add_def tools_save_def artifacts_add_def delegations_add_def
      delegations_finalize_if_dispatched_def schedules_complete_for_task_def Let_def)
     (intro log.rel_rules log_insert_row log.rel_put log.rel_step; simp add: loggedI)+

lemma log_more_writes [log_rules]:
  "tx_rel logged (skill_resolutions_add sr)" "tx_rel logged (skill_bindings_add sb)"
  "tx_rel logged (agent_resolutions_add ar)" "tx_rel logged (usage_add u)"
  "tx_rel logged (agents_add ag)" "tx_rel logged (agents_save ag)" "tx_rel logged (agent_revisions_add av)"
  "tx_rel logged (task_agents_replace k ta)"
  "tx_rel logged (work_enqueue i av' en)" "tx_rel logged (work_remove i)" "tx_rel logged (work_step f)"
  "tx_rel logged (task_events_reserve_sequences k n)" "tx_rel logged (task_events_append te)"
  by (unfold skill_resolutions_add_def skill_bindings_add_def agent_resolutions_add_def usage_add_def agents_add_def
      agents_save_def agent_revisions_add_def task_agents_replace_def work_enqueue_def work_remove_def work_step_def
      task_events_reserve_sequences_def task_events_append_def)
     (intro log.rel_rules log_insert_row log.rel_put log.rel_step; simp add: loggedI)+

lemma log_tool_writes [log_rules]:
  "tx_rel logged (cancel_children i now)" "tx_rel logged (FailStep j failure now)" "tx_rel logged (CancelStep j now)"
  "tx_rel logged (MarkToolInvocationRunning t moved now)" "tx_rel logged (MarkToolInvocationSucceeded t v moved now)"
  "tx_rel logged (MarkToolInvocationFailed t failure moved now)" "tx_rel logged (CancelToolInvocation t moved now)"
  "tx_rel logged (start_invocation run a approval now)" "tx_rel logged (finish_tool_action a t result now)"
  by (unfold cancel_children_def cancel_step_def cancel_tools_def cancel_tool_def FailStep_def CancelStep_def load_step_def
      MarkToolInvocationRunning_def MarkToolInvocationSucceeded_def MarkToolInvocationFailed_def CancelToolInvocation_def
      load_invocation_def commit_with_event_def start_invocation_def finish_tool_action_def require_claim_def
      settle_invocation_def record_candidate_def Let_def)
     (intro log.rel_rules log_rules)+

interpretation event_log: db_preorder logged
  by unfold_locales (rule log_rules loggedI; simp)+

lemmas run_system_logged = event_log.run_system_rel

lemmas run_path_logged = event_log.run_path_rel

lemma no_rows_events: "events_ok (no_rows uuid)"
  by (simp add: events_ok_def no_rows_def next_sequence_def run_events_def)

end
