(* ===== verification/Run_Claims.thy ===== *)
theory Run_Claims
  imports Run_Events
begin

text \<open>
  What a worker can rely on: what \<^verbatim>\<open>ClaimNextRun\<close> returns and that it returns (\<open>tot\<close> is the total
  counterpart of \<open>wp\<close>), and that a worker whose claim is no longer the stored one cannot commit.
\<close>

section \<open>A claim that is won\<close>

definition claim_won ::
  "string \<Rightarrow> instant \<Rightarrow> instant \<Rightarrow> string list \<Rightarrow> run_core \<Rightarrow> run_core \<Rightarrow> RunClaimResult \<Rightarrow> bool" where
  "claim_won w now e tokens c c' k \<longleftrightarrow>
     (let q = cr_claim k; i = rc_run_id q in
      rc_worker_id q = w \<and> rc_claim_token q \<in> set tokens \<and> cr_lease_expires_at k = e \<and>
      (\<exists>it. co_work c i = Some it \<and> due now it \<and> rc_claim_generation q = wi_claim_generation it + 1 \<and>
         co_work c' i = Some (take_claim w (rc_claim_token q) now e it)) \<and>
      (\<exists>r. co_runs c i = Some r \<and> \<not> parked (rn_status r)) \<and>
      (\<exists>r. co_runs c' i = Some r \<and> rn_status r = RunStatus.RUNNING))"

definition nothing_due :: "instant \<Rightarrow> RunWorkItem list \<Rightarrow> run_core \<Rightarrow> bool" where
  "nothing_due now cs c \<longleftrightarrow> (\<forall>d \<in> set cs. \<forall>it r. co_work c (wi_run_id d) = Some it \<longrightarrow> due now it \<longrightarrow>
     co_runs c (wi_run_id d) = Some r \<longrightarrow> parked (rn_status r))"

lemma claim_won_later:
  "claim_won w now e tokens (put_item j None c) c' k \<Longrightarrow> claim_won w now e (t # tokens) c c' k"
  "claim_won w now e tokens c c' k \<Longrightarrow> claim_won w now e (t # tokens) c c' k"
  by (auto simp: claim_won_def Let_def split: if_splits)

lemma wp_start_claimed_run:
  assumes "db_keyed s" and "co_runs (core_of s) i = Some r" and "\<not> parked (rn_status r)"
  shows "wp (start_claimed_run r now) (\<lambda>r' s'. db_keyed s' \<and> core_of s' = put_run r' (core_of s) \<and>
    rn_id r' = i \<and> rn_status r' = RunStatus.RUNNING) s"
proof -
  have i: "rn_id r = i" using assms(2) by (rule core_ids)
  have "rn_id r' = i \<and> rn_status r' = RunStatus.RUNNING" if "run_start (utc now) r = Done r'" for r'
    using that i run_step_id [of "RunStart (utc now)" r r'] run_status_after(1) [OF that] by simp
  moreover have "put_run r (core_of s) = core_of s" using assms(2) i by (simp add: put_run_def fun_upd_idem)
  ultimately show ?thesis using assms i
    by (auto simp: start_claimed_run_def wp_simps parked_status intro!: rule_runs_save rule_framed [OF frame_events(2)])
qed

definition claim_post ::
  "string \<Rightarrow> instant \<Rightarrow> instant \<Rightarrow> string list \<Rightarrow> RunWorkItem list \<Rightarrow> run_core \<Rightarrow> RunClaimResult option \<Rightarrow> run_db \<Rightarrow> bool"
where
  "claim_post w now e tokens cs c x s' \<longleftrightarrow>
     (case x of None \<Rightarrow> length cs \<le> length tokens \<longrightarrow> nothing_due now cs c
              | Some k \<Rightarrow> claim_won w now e tokens c (core_of s') k)"

lemma wp_claim_first:
  "db_keyed s \<Longrightarrow> wp (claim_first w now e tokens cs) (claim_post w now e tokens cs (core_of s)) s"
proof (induction w now e tokens cs arbitrary: s rule: claim_first.induct)
  case (1 w now e token tokens c rest)
  let ?i = "wi_run_id c" and ?Q = "claim_post w now e (token # tokens) (c # rest) (core_of s)"
  have skip: "wp (claim_first w now e tokens rest) ?Q s'"
    if "db_keyed s'" "core_of s' = put_item ?i None (core_of s) \<or> core_of s' = core_of s"
      "\<And>it r. co_work (core_of s) ?i = Some it \<Longrightarrow> due now it \<Longrightarrow> co_runs (core_of s) ?i = Some r \<Longrightarrow> parked (rn_status r)"
    for s'
    using that
    by (intro wp_mono [OF 1(1) [of _ s']])
       (auto simp: claim_post_def nothing_due_def split: option.splits if_splits intro: claim_won_later)
  have won: "wp (start_claimed_run r now) (\<lambda>r'. wp (tx_bind (tx_get (\<lambda>db. wq_get ?i (rd_work db))) (\<lambda>row.
      tx_bind (tx_found er row) (\<lambda>item.
      tx_bind (tx_get (runs_ordinal_for_execution (rn_id r'))) (\<lambda>ordinal.
      tx_return (Some \<lparr>cr_claim = \<lparr>rc_run_id = rn_id r', rc_worker_id = w, rc_claim_token = token,
        rc_claim_generation = wi_claim_generation item\<rparr>, cr_task_id = rn_task_id r', cr_attempt_number = ordinal,
        cr_acquired_at = now, cr_lease_expires_at = e\<rparr>))))) ?Q) s'"
    if "co_work (core_of s) ?i = Some it" "due now it" "co_runs (core_of s) ?i = Some r" "\<not> parked (rn_status r)"
      "db_keyed s'" "core_of s' = put_item ?i (Some (take_claim w token now e it)) (core_of s)" for it r s' er
    using that
    by (intro wp_mono [OF wp_start_claimed_run [of s' ?i]])
       (auto simp: wp_simps core_reads claim_post_def claim_won_def Let_def take_claim_def)
  show ?case
    unfolding claim_first.simps wq_try_claim_def
  proof (unfold wp_bind, rule rule_work_update, rule 1, erule conjunct1, goal_cases)
    case (1 i) then show ?case by simp
  next
    case (2 it s')
    have rem: "wp (work_remove ?i) (\<lambda>_. wp (claim_first w now e tokens rest) ?Q) s'"
      if "\<And>r. co_runs (core_of s) ?i = Some r \<Longrightarrow> parked (rn_status r)"
      using 2 that by (intro rule_work_remove skip) auto
    show ?case using 2 rem won [of it _ s']
      by (auto simp: wp_simps core_reads split: option.split)
  next
    case (3 s')
    then show ?case by (auto simp: wp_simps intro!: skip dest: core_ids(2))
  qed
qed (simp_all add: wp_simps claim_post_def nothing_due_def)

section \<open>Claiming returns\<close>

definition tot :: "'a tx \<Rightarrow> ('a \<Rightarrow> run_db \<Rightarrow> bool) \<Rightarrow> run_db \<Rightarrow> bool" where
  "tot m Q s \<longleftrightarrow> (\<exists>x s'. m s = Inr (x, s') \<and> Q x s')"

lemma tot_simps:
  "tot (tx_return x) Q s = Q x s"
  "tot (tx_get f) Q s = Q (f s) s"
  "tot (tx_bind m k) Q s = tot m (\<lambda>x. tot (k x) Q) s"
  "tot (tx_found e (Some v)) Q s = Q v s"
  "tot (tx_call (Done r)) Q s = Q r s"
  by (auto simp: tot_def tx_return_def tx_get_def tx_bind_def tx_found_def tx_call_def tx_lift_def call_method_def
      split: sum.splits)

text \<open>What a transaction needs to append events: numbering and identifiers are in order.\<close>

definition can_log :: "run_db \<Rightarrow> bool" where
  "can_log s \<longleftrightarrow> db_keyed s \<and> events_ok s \<and> inj (rd_uuid s)"

lemma tot_logged:
  assumes "\<not> isl (m s)" and "tx_rel logged m" and "can_log s"
    and "wp m (\<lambda>x s'. events_ok s' \<longrightarrow> inj (rd_uuid s') \<longrightarrow> Q x s') s"
  shows "tot m Q s"
proof -
  from assms(1) obtain x s' where m: "m s = Inr (x, s')" by (cases "m s") auto
  with assms(2) have "logged s s'" by (rule tx_relD)
  with assms(3) have "events_ok s'" "inj (rd_uuid s')" by (auto simp: logged_def can_log_def)
  with wpD [OF assms(4) m] m show ?thesis by (auto simp: tot_def)
qed

lemma append_one_returns:
  assumes "can_log s" and "\<not> isl (ensure_json_value ''RunEvent.payload'' v)"
  shows "\<not> isl (append_run_events run now [(kind, v, j)] s)"
proof -
  let ?i = "rn_id run"
  have ok: "events_ok s" and u: "inj (rd_uuid s)" using assms(1) by (auto simp: can_log_def)
  have n: "fst (bump ?i 1 (rd_event_counters s)) = next_sequence ?i s"
    using ok bump_counter(1) [of "rd_event_counters s" ?i 1] by (simp add: events_ok_def next_sequence_def)
  have p: "1 \<le> next_sequence ?i s" using ok by (simp add: events_ok_def)
  have q: "ev_sequence e < next_sequence ?i s" if "e \<in> set (rd_events s)" "ev_run_id e = ?i" for e
  proof -
    have "ev_sequence e \<in> set (map ev_sequence (run_events ?i s))" using that by (auto simp: run_events_def)
    moreover have "map ev_sequence (run_events ?i s) = [1..next_sequence ?i s - 1]"
      using ok by (simp add: events_ok_def)
    ultimately show ?thesis by simp
  qed
  have "ev_id e \<noteq> Id (rd_uuid s (rd_drawn s))" if e: "e \<in> set (rd_events s)" for e
  proof
    assume "ev_id e = Id (rd_uuid s (rd_drawn s))"
    moreover obtain n where "n < rd_drawn s" "ev_id e = Id (rd_uuid s n)"
      using e ok by (auto simp: events_ok_def)
    ultimately show False using u by (auto dest: injD)
  qed
  then have "\<not> list_ex (\<lambda>x. ev_id x = Id (rd_uuid s (rd_drawn s)) \<or>
      ev_run_id x = ?i \<and> ev_sequence x = next_sequence ?i s) (rd_events s)"
    using q by (fastforce simp: list_ex_iff)
  moreover obtain v' where "ensure_json_value ''RunEvent.payload'' v = Inr v'"
    using assms(2) by (cases "ensure_json_value ''RunEvent.payload'' v") auto
  ultimately show ?thesis using p n
    by (simp add: append_run_events_def append_run_event_def events_reserve_sequences_def fresh_id_def
        events_append_def insert_row_def tx_bind_def tx_step_def tx_get_def tx_guard_def tx_put_def tx_return_def
        tx_lift_def run_event_post_init_def lift_domain_def guard_def outcome_simps)
qed

lemma work_step_returns: "\<not> isl (work_step f s)" "\<not> isl (work_remove i s)" "\<not> isl (runs_save r s)"
  by (simp_all add: work_step_def work_remove_def runs_save_def tx_step_def tx_put_def)

lemma tot_append_one:
  assumes "can_log s" and "\<not> isl (ensure_json_value ''RunEvent.payload'' v)"
    and "\<And>u s'. core_of s' = core_of s \<Longrightarrow> can_log s' \<Longrightarrow> Q u s'"
  shows "tot (append_run_events run now [(kind, v, j)]) Q s"
  by (rule tot_logged [OF append_one_returns [OF assms(1,2)] log_append assms(1)])
     (use assms(1,3) in \<open>auto intro!: rule_framed [OF frame_events(2)] simp: can_log_def\<close>)

lemma tot_start_claimed_run:
  assumes s: "can_log s" and r: "\<not> parked (rn_status r)"
    and q: "\<And>r' s'. co_work (core_of s') = co_work (core_of s) \<Longrightarrow> can_log s' \<Longrightarrow> Q r' s'"
  shows "tot (start_claimed_run r now) Q s"
proof (cases "rn_status r = RunStatus.QUEUED")
  case True
  have d: "run_start (utc now) r = Done (r\<lparr>rn_started_at := Some now, rn_status := RunStatus.RUNNING\<rparr>)"
    using True by (simp add: run_start_def run_require_status_def outcome_simps)
  show ?thesis using True s
    by (auto simp: start_claimed_run_def tot_simps d payload_def id_value_def can_log_def
        intro!: tot_logged [OF work_step_returns(3)] log_writes rule_runs_save tot_append_one q)
next
  case False
  then show ?thesis using s by (simp add: start_claimed_run_def tot_simps q)
qed

lemma tot_claim_first: "can_log s \<Longrightarrow> tot (claim_first w now e tokens cs) (\<lambda>x s'. True) s"
proof (induction w now e tokens cs arbitrary: s rule: claim_first.induct)
  case (1 w now e token tokens c rest)
  have rem: "tot (work_remove i) (\<lambda>_. tot (claim_first w now e tokens rest) (\<lambda>x s'. True)) s'"
    if "can_log s'" for s' i
    using that 1(1)
    by (intro tot_logged [OF work_step_returns(2)])
       (auto intro!: log_more_writes rule_work_remove simp: can_log_def)
  show ?case
    unfolding claim_first.simps wq_try_claim_def tot_simps(3)
  proof (rule tot_logged [OF work_step_returns(1) _ 1(4)], rule log_more_writes,
      rule rule_work_update [where q = "wi_run_id c"], goal_cases)
    case (4 it s')
    show ?case using 4 rem [of s']
      by (auto simp: can_log_def tot_simps core_reads split: option.split intro!: tot_start_claimed_run)
  qed (use 1 in \<open>auto simp: can_log_def\<close>)
qed (simp_all add: tot_simps)

lemma ClaimNextRun_post:
  assumes "db_keyed s" and "ClaimNextRun w lease n tokens now s = Inr (x, s')"
  shows "claim_post w now (now + lease) tokens (wq_find_due_candidates now n (rd_work s)) (core_of s) x s'"
  using wpD [OF wp_claim_first [OF assms(1)]] assms(2)
  by (simp add: ClaimNextRun_def tx_bind_def tx_get_def)

lemma ClaimNextRun_serves:
  assumes s: "can_log s" and w: "wq_get i (rd_work s) = Some it" "due now it"
    and r: "runs_get i s = Some r" "\<not> parked (rn_status r)"
    and n: "length (rd_work s) \<le> n" "length (rd_work s) \<le> length tokens"
  shows "\<exists>k s'. ClaimNextRun w lease n tokens now s = Inr (Some k, s')"
proof -
  let ?cs = "wq_find_due_candidates now n (rd_work s)"
  have k: "db_keyed s" using s by (simp add: can_log_def)
  obtain x s' where x: "ClaimNextRun w lease n tokens now s = Inr (x, s')"
    using tot_claim_first [OF s, of w now "now + lease" tokens ?cs]
    by (auto simp: ClaimNextRun_def tot_def tx_bind_def tx_get_def)
  have "length (filter (due now) (rd_work s)) \<le> n" using n(1) length_filter_le le_trans by blast
  then have c: "?cs = sort_key wq_order (filter (due now) (rd_work s))"
    by (simp add: wq_find_due_candidates_def)
  then have l: "length ?cs \<le> length tokens" using n(2) length_filter_le le_trans by (metis length_sort)
  have "it \<in> set (rd_work s)" using w(1) unfolding wq_get_def by (rule get_row_in)
  then have "it \<in> set ?cs" using w(2) c by simp
  moreover have "wi_run_id it = i" using w(1) by (rule wq_get_Some_id)
  ultimately have "\<not> nothing_due now ?cs (core_of s)"
    using w r unfolding nothing_due_def by (auto simp: core_reads intro!: bexI [of _ it])
  with ClaimNextRun_post [OF k x] l have "x \<noteq> None" by (cases x) (simp_all add: claim_post_def)
  with x show ?thesis by auto
qed

section \<open>Fencing\<close>

lemma active_owns: "is_claim_active c now s \<Longrightarrow> core_owns (core_of s) c"
  by (auto simp: is_claim_active_def wq_is_claim_active_def core_owns_def core_reads split: option.splits)

lemma moves_displaced:
  assumes "moves T c c'" and "core_owns c k'" and "rc_run_id k = rc_run_id k'"
    and "rc_claim_token k \<noteq> rc_claim_token k'" and "rc_claim_token k \<notin> T"
  shows "\<not> core_owns c' k"
proof -
  from assms(1) obtain U where "U \<subseteq> T" "fence_path core_step U c c'" by (auto simp: moves_def)
  with assms show ?thesis using run_fence.displaced_forever [of U c c' k' k] by blast
qed

lemma claim_won_owns: "claim_won w now e tokens c c' k \<Longrightarrow> core_owns c' (cr_claim k)"
  by (auto simp: claim_won_def Let_def core_owns_def)

lemma wp_False: "wp m (\<lambda>x s'. False) s \<longleftrightarrow> isl (m s)"
  by (auto simp: wp_def split: sum.split)

lemma rule_not_owner:
  assumes "db_keyed s" and "\<not> core_owns (core_of s) c"
  shows "(\<And>s'. Q False s') \<Longrightarrow> wp (remove_if_claimed c now) Q s"
  using assms by (auto intro!: rule_held simp: core_owns_def)

lemma not_owner_keeps:
  assumes k: "db_keyed s" and n: "\<not> core_owns (core_of s) c"
  shows "isl (RenewRunLease l c now s)" "isl (ReleaseRunClaim c now s)" "isl (RequeueClaimedRun c t now s)"
proof -
  have u: "wp (claim_step (\<lambda>i w k g. wq_update (held i w k g now) f) c) Q s"
    if "\<And>s'. Q False s'" "\<And>i. wi_run_id (f i) = wi_run_id i" for f Q
    unfolding claim_step_def using k n that
    by (intro rule_work_update [where q = "rc_run_id c"]) (auto simp: held_def core_owns_def)
  show "isl (RenewRunLease l c now s)" "isl (ReleaseRunClaim c now s)" "isl (RequeueClaimedRun c t now s)"
    unfolding wp_False [symmetric] RenewRunLease_def ReleaseRunClaim_def RequeueClaimedRun_def wp_bind
      wq_renew_lease_def wq_release_claim_def wq_requeue_claimed_def
    by (rule u; simp add: wp_simps unclaim_def)+
qed

lemma not_owner_outcomes:
  assumes k: "db_keyed s" and n: "\<not> core_owns (core_of s) c"
  shows "isl (ApplyFailedOutcome policy c f now s)" "isl (ApplySucceededOutcome c resp now s)"
    "isl (DispatchDelegation sha256 kinds per_run per_tree max_depth c cmd now s)"
    "rq_run_id ac = rc_run_id c \<Longrightarrow>
       isl (RequestToolApproval ac (rc_worker_id c) (rc_claim_token c) (rc_claim_generation c) now s)"
    "isl (ResolveRunAgent sha256 kinds c clock later s)"
proof -
  have a: "\<not> is_claim_active c t s" for t using n active_owns by blast
  show "isl (ApplyFailedOutcome policy c f now s)" "isl (ApplySucceededOutcome c resp now s)"
    unfolding wp_False [symmetric]
    by (auto simp: ApplyFailedOutcome_def ApplySucceededOutcome_def wp_simps intro!: rule_not_owner [OF k n])
  show "isl (DispatchDelegation sha256 kinds per_run per_tree max_depth c cmd now s)"
    unfolding wp_False [symmetric] using a by (simp add: DispatchDelegation_def wp_simps)
  show "rq_run_id ac = rc_run_id c \<Longrightarrow>
       isl (RequestToolApproval ac (rc_worker_id c) (rc_claim_token c) (rc_claim_generation c) now s)"
    unfolding wp_False [symmetric] using a [of now] by (simp add: RequestToolApproval_def Let_def wp_simps is_claim_active_def)
  have "isl (resolve_run_agent sha256 kinds c clock s)"
    unfolding wp_False [symmetric] using a by (simp add: resolve_run_agent_def wp_simps)
  then show "isl (ResolveRunAgent sha256 kinds c clock later s)" using a
    by (auto simp: ResolveRunAgent_def tx_bind_def tx_get_def tx_guard_def tx_raise_def isl_def split: app_error.split)
qed

lemma not_owner_tools:
  assumes "\<not> core_owns (core_of s) c"
  shows "isl (require_claim c now s)" "ta_claim a = c \<Longrightarrow> isl (begin_tool_action sha256 a now s)"
    "ta_claim a = c \<Longrightarrow> isl (finish_tool_action a i result now s)"
proof -
  have "\<not> is_claim_active c t s" for t using assms active_owns by blast
  then show "isl (require_claim c now s)" "ta_claim a = c \<Longrightarrow> isl (begin_tool_action sha256 a now s)"
    "ta_claim a = c \<Longrightarrow> isl (finish_tool_action a i result now s)"
    unfolding wp_False [symmetric]
    by (auto simp: require_claim_def begin_tool_action_def finish_tool_action_def Let_def wp_simps)
qed

end
