(* ===== verification/Run_Children.thy ===== *)
theory Run_Children
  imports Run_System
begin

text \<open>
  The steps and tool invocations of a run end with it. \<open>tidy\<close> is the preorder of the transactions that
  finish no run: they open no child of a finished run. The transactions that finish a run cancel its
  children first or check that none is open, so \<open>closed\<close> holds of every database the system reaches.
\<close>

definition step_open :: "RunStep \<Rightarrow> bool" where
  "step_open st \<longleftrightarrow> st_status st \<notin> set TERMINAL_RUN_STEP_STATUSES"

definition tool_open :: "ToolInvocation \<Rightarrow> bool" where
  "tool_open t \<longleftrightarrow> ti_status t \<notin> set TERMINAL_TOOL_INVOCATION_STATUSES"

definition open_child :: "RunId \<Rightarrow> run_db \<Rightarrow> bool" where
  "open_child i s \<longleftrightarrow> (\<exists>st \<in> set (rd_steps s). st_run_id st = i \<and> step_open st) \<or>
     (\<exists>t \<in> set (rd_tools s). ti_run_id t = i \<and> tool_open t)"

definition ended :: "RunId \<Rightarrow> run_db \<Rightarrow> bool" where
  "ended i s \<longleftrightarrow> (\<exists>r. runs_get i s = Some r \<and> rn_status r \<in> set TERMINAL_RUN_STATUSES)"

definition closed :: "run_db \<Rightarrow> bool" where
  "closed s \<longleftrightarrow> (\<forall>i. ended i s \<longrightarrow> \<not> open_child i s)"

definition tidy :: "run_db \<Rightarrow> run_db \<Rightarrow> bool" where
  "tidy s s' \<longleftrightarrow> (\<forall>i. ended i s' \<longrightarrow> ended i s \<and> (open_child i s' \<longrightarrow> open_child i s))"

text \<open>All runs but the one that is being finished.\<close>

definition closed_but :: "RunId \<Rightarrow> run_db \<Rightarrow> bool" where
  "closed_but i s \<longleftrightarrow> (\<forall>j. j \<noteq> i \<longrightarrow> ended j s \<longrightarrow> \<not> open_child j s)"

interpretation tidy: tx_preorder tidy
  by unfold_locales (auto simp: tidy_def)

lemma tidy_closed: "tidy s s' \<Longrightarrow> closed s \<Longrightarrow> closed s'" "tidy s s' \<Longrightarrow> closed_but i s \<Longrightarrow> closed_but i s'"
  by (auto simp: tidy_def closed_def closed_but_def)

lemma closed_end: "closed_but i s \<Longrightarrow> \<not> open_child i s \<Longrightarrow> closed s"
  by (auto simp: closed_def closed_but_def)

lemma tidyI:
  "rd_runs s' = rd_runs s \<Longrightarrow> rd_steps s' = rd_steps s \<Longrightarrow> rd_tools s' = rd_tools s \<Longrightarrow> tidy s s'"
  by (simp add: tidy_def ended_def open_child_def runs_get_def)

section \<open>Statements\<close>

named_theorems tidy_rules \<open>transactions that finish no run and open no child of a finished run\<close>

lemma tidy_call: "(\<And>x. m = Done x \<Longrightarrow> tx_rel R (k x)) \<Longrightarrow> tx_rel R (tx_bind (tx_call m) k)"
  by (auto simp: tx_rel_wp wp_simps)

lemma tidy_lift: "(\<And>x. r = Inr x \<Longrightarrow> tx_rel R (k x)) \<Longrightarrow> tx_rel R (tx_bind (tx_lift r) k)"
  by (auto simp: tx_rel_wp wp_simps)

lemma set_merge_row: "x \<in> set (merge_row key r t) \<Longrightarrow> x = r \<or> x \<in> set t \<and> key x \<noteq> key r"
  by (auto simp: merge_row_def split: if_splits)

lemma merge_row_in: "r \<in> set (merge_row key r t)"
  by (auto simp: merge_row_def)

lemma tidy_steps_save: "\<not> step_open st \<Longrightarrow> tx_rel tidy (steps_save st)"
  unfolding steps_save_def
  by (rule tidy.rel_put) (auto simp: tidy_def ended_def runs_get_def open_child_def dest!: set_merge_row)

lemma tidy_tools_save: "\<not> tool_open t \<Longrightarrow> tx_rel tidy (tools_save t)"
  unfolding tools_save_def
  by (rule tidy.rel_put) (auto simp: tidy_def ended_def runs_get_def open_child_def dest!: set_merge_row)

lemma tidy_runs_save: "rn_status r \<notin> set TERMINAL_RUN_STATUSES \<Longrightarrow> tx_rel tidy (runs_save r)"
  unfolding runs_save_def
  by (rule tidy.rel_put) (auto simp: tidy_def ended_def runs_get_def open_child_def get_merge_row split: if_splits)

lemma tidy_runs_add: "rn_status r \<notin> set TERMINAL_RUN_STATUSES \<Longrightarrow> tx_rel tidy (runs_add r)"
  unfolding runs_add_def insert_row_def
  by (intro tidy.rel_rules tidy.rel_put)
     (auto simp: tidy_def ended_def runs_get_def open_child_def get_row_append get_row_Cons split: option.splits if_splits)

lemma tidy_insert_row: "(\<And>g s. tidy s (upd g s)) \<Longrightarrow> tx_rel tidy (insert_row table upd clash r)"
  unfolding insert_row_def by (intro tidy.rel_rules tidy.rel_put) simp

lemma tidy_writes [tidy_rules]:
  "tx_rel tidy fresh_id" "tx_rel tidy (tasks_add t)" "tx_rel tidy (tasks_save t)"
  "tx_rel tidy (approvals_add p)" "tx_rel tidy (approvals_save p)" "tx_rel tidy (artifacts_add af)"
  "tx_rel tidy (delegations_add d)" "tx_rel tidy (delegations_finalize_if_dispatched g ds now f)"
  "tx_rel tidy (schedules_complete_for_task k now c)"
  "tx_rel tidy (work_enqueue i av' en)" "tx_rel tidy (work_remove i)" "tx_rel tidy (work_step w)"
  by (unfold fresh_id_def tasks_add_def tasks_save_def
      approvals_add_def approvals_save_def artifacts_add_def delegations_add_def
      delegations_finalize_if_dispatched_def schedules_complete_for_task_def work_enqueue_def work_remove_def
      work_step_def Let_def)
     (intro tidy.rel_rules tidy_insert_row tidy.rel_put tidy.rel_step; simp add: tidyI)+

lemma tidy_more_writes [tidy_rules]:
  "tx_rel tidy (skill_resolutions_add sr)" "tx_rel tidy (skill_bindings_add sb)"
  "tx_rel tidy (agent_resolutions_add ar)" "tx_rel tidy (usage_add u)"
  "tx_rel tidy (agents_add ag)" "tx_rel tidy (agents_save ag)" "tx_rel tidy (agent_revisions_add av)"
  "tx_rel tidy (task_agents_replace k ta)"
  "tx_rel tidy (events_reserve_sequences i n)" "tx_rel tidy (events_append e)"
  "tx_rel tidy (task_events_reserve_sequences k n)" "tx_rel tidy (task_events_append te)"
  by (unfold skill_resolutions_add_def skill_bindings_add_def agent_resolutions_add_def usage_add_def agents_add_def
      agents_save_def agent_revisions_add_def task_agents_replace_def events_reserve_sequences_def events_append_def
      task_events_reserve_sequences_def task_events_append_def)
     (intro tidy.rel_rules tidy_insert_row tidy.rel_put tidy.rel_step; simp add: tidyI)+

lemma child_end:
  "step_cancel t st = Done st' \<Longrightarrow> \<not> step_open st' \<and> st_id st' = st_id st"
  "step_succeed t st = Done st' \<Longrightarrow> \<not> step_open st' \<and> st_id st' = st_id st"
  "step_fail t f st = Done st' \<Longrightarrow> \<not> step_open st' \<and> st_id st' = st_id st"
  "step_skip t st = Done st' \<Longrightarrow> \<not> step_open st' \<and> st_id st' = st_id st"
  "tool_cancel t ti = Done ti' \<Longrightarrow> \<not> tool_open ti' \<and> ti_id ti' = ti_id ti"
  "tool_fail t f ti = Done ti' \<Longrightarrow> \<not> tool_open ti' \<and> ti_id ti' = ti_id ti"
  "tool_succeed t v ti = Done ti' \<Longrightarrow> \<not> tool_open ti' \<and> ti_id ti' = ti_id ti"
  by (auto simp: step_entity_defs tool_defs outcome_simps Let_def step_open_def tool_open_def
      TERMINAL_RUN_STEP_STATUSES_def TERMINAL_TOOL_INVOCATION_STATUSES_def)

lemma run_not_end:
  "run_start t r = Done r' \<Longrightarrow> rn_status r' \<notin> set TERMINAL_RUN_STATUSES"
  "run_resume t r = Done r' \<Longrightarrow> rn_status r' \<notin> set TERMINAL_RUN_STATUSES"
  "run_wait_for_approval t a r = Done r' \<Longrightarrow> rn_status r' \<notin> set TERMINAL_RUN_STATUSES"
  "run_wait_for_delegation t g r = Done r' \<Longrightarrow> rn_status r' \<notin> set TERMINAL_RUN_STATUSES"
  "run_resume_from_delegation t r = Done r' \<Longrightarrow> rn_status r' \<notin> set TERMINAL_RUN_STATUSES"
  by (auto dest!: run_status_after simp: TERMINAL_RUN_STATUSES_def)

lemma run_new_not_end: "lift_domain (run_new i t now x) = Inr r \<Longrightarrow> rn_status r \<notin> set TERMINAL_RUN_STATUSES"
  by (auto simp: lift_domain_Inr run_new_def outcome_simps TERMINAL_RUN_STATUSES_def)

lemmas child_saves = child_end(1-4) [THEN conjunct1, THEN tidy_steps_save] child_end(5-7) [THEN conjunct1, THEN tidy_tools_save]
  run_not_end [THEN tidy_runs_save] run_new_not_end [THEN tidy_runs_add]

lemma tidy_events [tidy_rules]:
  "tx_rel tidy (append_run_event i now e)" "tx_rel tidy (append_run_events run now specs)"
  "tx_rel tidy (append_task_event task now kind value)"
  by (unfold append_run_events_def append_run_event_def append_task_event_def) (intro tidy.rel_rules tidy_rules)+

lemma tidy_cancel [tidy_rules]:
  "tx_rel tidy (cancel_tool now t)" "tx_rel tidy (cancel_tools ts now)"
  "tx_rel tidy (cancel_step now st)" "tx_rel tidy (cancel_children i now)"
  by (unfold cancel_children_def cancel_step_def cancel_tools_def cancel_tool_def)
     (intro tidy_call tidy.rel_rules tidy_rules child_saves | assumption)+

lemma tidy_shared [tidy_rules]:
  "tx_rel tidy (materialize_skill_usage_in_uow i now)"
  "tx_rel tidy (inherit_frozen_resolutions_in_uow src retry)"
  "tx_rel tidy (reconcile_child_terminal_in_uow child now)"
  "tx_rel tidy (ensure_task_can_own_a_run task now)" "tx_rel tidy (start_run_in_uow task now)"
  "tx_rel tidy (remove_if_claimed c now)" "tx_rel tidy (materialize_retry policy run n now)"
  "tx_rel tidy (cancel_pending_approvals i now)"
  by (unfold materialize_skill_usage_in_uow_def usage_record_def inherit_frozen_resolutions_in_uow_def inherit_skills_def
      inherit_agent_def reconcile_child_terminal_in_uow_def wake_parent_def ensure_task_can_own_a_run_def
      start_run_in_uow_def remove_if_claimed_def claim_step_def materialize_retry_def cancel_pending_approvals_def
      cancel_pending_approval_def Let_def)
     (intro tidy_call tidy_lift tidy.rel_rules tidy_rules child_saves | assumption)+

lemma tidy_simple [tidy_rules]:
  "tx_rel tidy (CreateTask title description now)" "tx_rel tidy (StartRun k now)"
  "tx_rel tidy (StartQueuedRun i now)" "tx_rel tidy (RetryFailedRun i now)"
  "tx_rel tidy (RenewRunLease lease c now)" "tx_rel tidy (ReleaseRunClaim c now)"
  "tx_rel tidy (RequeueClaimedRun c t now)" "tx_rel tidy (ApplyWaitingOutcome c a now)"
  "tx_rel tidy (ApplyWaitingForDelegationOutcome c g now)" "tx_rel tidy (RecoverExpiredLeases n now)"
  by (unfold CreateTask_def StartRun_def StartQueuedRun_def RetryFailedRun_def RenewRunLease_def ReleaseRunClaim_def
      RequeueClaimedRun_def claim_step_def ApplyWaitingOutcome_def ApplyWaitingForDelegationOutcome_def
      apply_waiting_def RecoverExpiredLeases_def recover_item_def)
     (intro tidy_call tidy_lift tidy.rel_rules tidy_rules child_saves | assumption)+

lemma tidy_claim_first: "tx_rel tidy (claim_first w now e tokens cs)"
  by (induction w now e tokens cs rule: claim_first.induct)
     (unfold claim_first.simps start_claimed_run_def,
      (intro tidy_call tidy.rel_rules tidy_rules child_saves | assumption | simp)+)

lemma tidy_ClaimNextRun [tidy_rules]: "tx_rel tidy (ClaimNextRun w lease n tokens now)"
  unfolding ClaimNextRun_def by (intro tidy.rel_rules tidy_claim_first)

lemma tidy_children [tidy_rules]:
  "tx_rel tidy (CompleteStep j now)" "tx_rel tidy (FailStep j failure now)"
  "tx_rel tidy (SkipPendingStep j now)" "tx_rel tidy (CancelStep j now)"
  "tx_rel tidy (MarkToolInvocationSucceeded t result moved now)"
  "tx_rel tidy (MarkToolInvocationFailed t failure moved now)" "tx_rel tidy (CancelToolInvocation t moved now)"
  "tx_rel tidy (RecordArtifact rac now)" "tx_rel tidy (CompleteTask k now)" "tx_rel tidy (FailTask k failure now)"
  by (unfold CompleteStep_def FailStep_def SkipPendingStep_def CancelStep_def load_step_def
      MarkToolInvocationSucceeded_def MarkToolInvocationFailed_def CancelToolInvocation_def RecordArtifact_def
      load_invocation_def commit_with_event_def check_artifact_step_def CompleteTask_def FailTask_def)
     (intro tidy_call tidy_lift tidy.rel_rules tidy_rules child_saves | assumption)+

lemma tidy_agents [tidy_rules]:
  "tx_rel tidy (CreateAgent key name description now)"
  "tx_rel tidy (CreateAgentRevision sha256 kinds ag_i instructions kind config src now)"
  "tx_rel tidy (load_revision sha256 av_i)" "tx_rel tidy (ActivateAgentRevision sha256 ag_i av_i now)"
  "tx_rel tidy (DisableAgent ag_i now)" "tx_rel tidy (ArchiveAgent ag_i now)"
  "tx_rel tidy (ReplaceTaskAgent k ag_o now)" "tx_rel tidy (conflict_if b m)"
  by (unfold CreateAgent_def CreateAgentRevision_def load_revision_def ActivateAgentRevision_def DisableAgent_def
      ArchiveAgent_def change_agent_def ReplaceTaskAgent_def conflict_if_def)
     (intro tidy.rel_rules tidy_rules)+

lemma tidy_load_for_resolution [tidy_rules]: "tx_rel tidy (load_for_resolution sha256 av_i)"
  unfolding load_for_resolution_def
  by (intro tidy.rel_rules) (auto intro: tidy.rel_rules split: sum.split domain_error.split)

lemma tidy_resolve_run_agent: "tx_rel tidy (resolve_run_agent sha256 kinds c clock)"
  unfolding resolve_run_agent_def resolve_workflow_child_def resolve_bound_agent_def check_frozen_def
    check_runtime_def publish_resolution_def agent_resolutions_add_if_claimed_def Let_def
  by (intro tidy.rel_rules tidy_rules)

lemma tidy_ResolveRunAgent [tidy_rules]: "tx_rel tidy (ResolveRunAgent sha256 kinds c clock later)"
  by (rule tx_relI) (auto dest!: ResolveRunAgent_cases dest: tx_relD [OF tidy_resolve_run_agent] intro: tidy.refl)

lemma tidy_delegation [tidy_rules]:
  "tx_rel tidy (CreateDelegationRequest sha256 i ag_i obj inp contract st now)"
  "tx_rel tidy (DispatchDelegation sha256 kinds per_run per_tree max_depth c cmd now)"
  by (unfold CreateDelegationRequest_def DispatchDelegation_def check_parent_step_def delegation_lineage_def
      check_budgets_def check_dispatch_input_def load_target_agent_def create_child_def)
     (intro tidy_call tidy.rel_rules tidy_rules child_saves | assumption)+

section \<open>Opening a child\<close>

text \<open>A child that is open after a statement belongs to a run that is not finished, or had an open child.\<close>

lemma tidy_step_row:
  "\<not> ended (st_run_id st) s \<or> (\<exists>x \<in> set (rd_steps s). st_run_id x = st_run_id st \<and> step_open x) \<Longrightarrow>
   tidy s (rd_steps_update (merge_row st_id st) s)"
  "\<not> ended (st_run_id st) s \<Longrightarrow> tidy s (rd_steps_update (\<lambda>t. t @ [st]) s)"
  by (auto simp: tidy_def ended_def open_child_def runs_get_def dest!: set_merge_row)

lemma tidy_tool_row:
  "x \<in> set (rd_tools s) \<Longrightarrow> ti_run_id x = ti_run_id t \<Longrightarrow> tool_open x \<Longrightarrow> tidy s (rd_tools_update (merge_row ti_id t) s)"
  "\<not> ended (ti_run_id t) s \<Longrightarrow> tidy s (rd_tools_update (\<lambda>u. u @ [t]) s)"
  by (auto simp: tidy_def ended_def open_child_def runs_get_def dest!: set_merge_row)

lemma not_ended: "runs_get i s = Some r \<Longrightarrow> rn_status r \<notin> set TERMINAL_RUN_STATUSES \<Longrightarrow> \<not> ended i s"
  by (simp add: ended_def)

text \<open>The rest of a transaction, from a state that is tidy relative to the first one.\<close>

lemma rule_tidy:
  assumes "tx_rel tidy m" and "tidy s0 s" and "\<And>x s'. tidy s s' \<Longrightarrow> tidy s0 s' \<Longrightarrow> Q x s'"
  shows "wp m Q s"
  by (rule wpI) (use assms tidy.trans in \<open>blast dest: tx_relD\<close>)

lemma tidyI_wp: "(\<And>s. wp m (\<lambda>x s'. tidy s s') s) \<Longrightarrow> tx_rel tidy m"
  by (simp add: tx_rel_wp)

lemma run_row_id: "runs_get i s = Some r \<Longrightarrow> rn_id r = i"
  unfolding runs_get_def by (rule get_row_key)

lemma rule_fresh_id:
  "tidy s0 s \<Longrightarrow> (\<And>x s'. tidy s0 s' \<Longrightarrow> rd_runs s' = rd_runs s \<Longrightarrow> Q x s') \<Longrightarrow> wp fresh_id Q s"
  using tidy.trans [OF _ tidyI] by (simp add: fresh_id_def wp_simps)

lemma rule_steps_add:
  "tidy s0 s \<Longrightarrow> \<not> ended (st_run_id st) s \<Longrightarrow> (\<And>s'. tidy s0 s' \<Longrightarrow> Q () s') \<Longrightarrow> wp (steps_add st) Q s"
  using tidy.trans [OF _ tidy_step_row(2)] by (simp add: steps_add_def insert_row_def wp_simps)

lemma rule_tools_add:
  "tidy s0 s \<Longrightarrow> \<not> ended (ti_run_id t) s \<Longrightarrow> (\<And>s'. tidy s0 s' \<Longrightarrow> Q () s') \<Longrightarrow> wp (tools_add t) Q s"
  using tidy.trans [OF _ tidy_tool_row(2)] by (simp add: tools_add_def insert_row_def wp_simps)

lemma child_new:
  "step_new a j b c d = Inr st \<Longrightarrow> st_run_id st = j"
  "tool_new a' j b' c' d' e f g = Inr t \<Longrightarrow> ti_run_id t = j"
  by (auto simp: step_new_def tool_new_def outcome_simps Let_def)

lemma running_not_ended:
  "runs_get i s = Some r \<Longrightarrow> rn_status r = RunStatus.QUEUED \<or> rn_status r = RunStatus.RUNNING \<Longrightarrow>
   rd_runs s' = rd_runs s \<Longrightarrow> \<not> ended (rn_id r) s'"
  using run_row_id [of i s r] by (auto simp: ended_def runs_get_def TERMINAL_RUN_STATUSES_def)

lemma tidy_CreateOrderedStep [tidy_rules]: "tx_rel tidy (CreateOrderedStep i name now)"
  by (rule tidyI_wp)
     (auto simp: CreateOrderedStep_def wp_simps lift_domain_Inr dest: running_not_ended dest!: child_new
       intro!: rule_fresh_id [OF tidy.refl] rule_steps_add rule_tidy [OF tidy_events(2)])

lemma tidy_RequestToolInvocation [tidy_rules]: "tx_rel tidy (RequestToolInvocation cmd now)"
  by (rule tidyI_wp)
     (auto simp: RequestToolInvocation_def load_running_step_def check_invocation_approval_def wp_simps lift_domain_Inr
       split: option.split dest: running_not_ended dest!: child_new
       intro!: rule_fresh_id [OF tidy.refl] rule_tools_add rule_tidy [OF tidy_events(2)])

lemma child_move:
  "step_start t st = Done st' \<Longrightarrow> step_open st \<and> st_run_id st' = st_run_id st"
  "step_resume t st = Done st' \<Longrightarrow> step_open st \<and> st_run_id st' = st_run_id st"
  "step_wait_for_approval t a st = Done st' \<Longrightarrow> step_open st \<and> st_run_id st' = st_run_id st"
  "tool_start t ti = Done ti' \<Longrightarrow> tool_open ti \<and> ti_run_id ti' = ti_run_id ti"
  by (auto simp: step_entity_defs tool_defs outcome_simps Let_def step_open_def tool_open_def
      TERMINAL_RUN_STEP_STATUSES_def TERMINAL_TOOL_INVOCATION_STATUSES_def)

lemma step_row_in: "steps_get j s = Some st \<Longrightarrow> st \<in> set (rd_steps s)"
  unfolding steps_get_def by (rule get_row_in)

lemma tool_row_in: "tools_get j s = Some t \<Longrightarrow> t \<in> set (rd_tools s)"
  unfolding tools_get_def by (rule get_row_in)

lemma rule_steps_save:
  assumes "tidy s0 s" and "x \<in> set (rd_steps s)" and "step_open x" and "st_run_id st = st_run_id x"
    and "\<And>s'. tidy s0 s' \<Longrightarrow> Q () s'"
  shows "wp (steps_save st) Q s"
  using assms(2-) tidy.trans [OF assms(1) tidy_step_row(1) [of st s]] by (auto simp: steps_save_def wp_simps)

lemma rule_tools_save:
  assumes "tidy s0 s" and "x \<in> set (rd_tools s)" and "tool_open x" and "ti_run_id t = ti_run_id x"
    and "\<And>s'. tidy s0 s' \<Longrightarrow> Q () s'"
  shows "wp (tools_save t) Q s"
  using assms(2-) tidy.trans [OF assms(1) tidy_tool_row(1) [of x s t]] by (auto simp: tools_save_def wp_simps)

lemma tidy_StartStep [tidy_rules]: "tx_rel tidy (StartStep j now)"
  by (rule tidyI_wp)
     (auto simp: StartStep_def load_step_def wp_simps intro: tidy.refl
       intro!: rule_steps_save [OF tidy.refl] rule_tidy [OF tidy_events(2)] dest!: child_move(1) step_row_in)

lemma tidy_MarkToolInvocationRunning [tidy_rules]: "tx_rel tidy (MarkToolInvocationRunning t moved now)"
  by (rule tidyI_wp)
     (auto simp: MarkToolInvocationRunning_def load_invocation_def commit_with_event_def wp_simps intro: tidy.refl
       intro!: rule_tools_save [OF tidy.refl] rule_tidy [OF tidy_events(2)] dest!: child_move(4) tool_row_in)

text \<open>A tool action opens an invocation under a running run and closes it with the gateway's answer.\<close>

lemma tidy_opened:
  assumes "tidy s0 s" and "\<not> ended (ti_run_id t) s" and "tool_start now t = Done t'"
  shows "tidy s0 (rd_tools_update (merge_row ti_id t' \<circ> (\<lambda>u. u @ [t])) s)"
  using tidy.trans [OF assms(1) tidy.trans [OF tidy_tool_row(2) [OF assms(2)] tidy_tool_row(1) [of t _ t']]]
    child_move(4) [OF assms(3)] by simp

lemma rule_start_invocation:
  assumes "tidy s0 s" and "\<not> ended (rc_run_id (ta_claim a)) s"
  shows "wp (start_invocation run a approval now) (\<lambda>x. tidy s0) s"
proof -
  have "\<not> ended (rc_run_id (ta_claim a)) s'" if "rd_runs s' = rd_runs s" for s'
    using that assms(2) by (simp add: ended_def runs_get_def)
  then show ?thesis
    by (auto simp: start_invocation_def tools_add_def tools_save_def insert_row_def wp_simps lift_domain_Inr
        dest!: child_new intro!: rule_fresh_id [OF assms(1)] rule_tidy [OF tidy_events(2) tidy_opened])
qed

lemma rule_settle_invocation:
  "(\<And>t spec. \<not> tool_open t \<Longrightarrow> Q (t, spec) s) \<Longrightarrow> wp (settle_invocation now st result ti) Q s"
  by (auto simp: settle_invocation_def wp_simps dest: child_end(5-))

lemma tidy_finish_tool_action [tidy_rules]: "tx_rel tidy (finish_tool_action a t result now)"
proof -
  have each: "tx_rel tidy (tx_each (record_candidate i st now) cs)" for i st cs
    unfolding record_candidate_def by (intro tidy.rel_rules tidy_rules)
  show ?thesis
    by (rule tidyI_wp)
       (auto simp: finish_tool_action_def require_claim_def Let_def wp_simps
         intro!: rule_settle_invocation rule_tidy [OF tidy_tools_save tidy.refl] rule_tidy [OF each] rule_tidy [OF tidy_events(2)])
qed

lemma rule_authorize_protected:
  assumes "\<And>x s'. tidy s s' \<Longrightarrow> rd_runs s' = rd_runs s \<Longrightarrow> Q x s'"
  shows "wp (authorize_protected sha256 a now) Q s"
  using assms [OF tidyI] assms [OF tidy.refl]
  by (auto simp: authorize_protected_def approvals_save_def Let_def wp_simps split: option.split)

lemma tidy_begin_tool_action [tidy_rules]: "tx_rel tidy (begin_tool_action sha256 a now)"
proof -
  have "wp (start_invocation run a approval now) (\<lambda>x. tidy s) s'"
    if "tidy s s'" "rd_runs s' = rd_runs s" "runs_get (rc_run_id (ta_claim a)) s = Some run" "rn_status run = RunStatus.RUNNING"
    for run approval s s'
    using that by (intro rule_start_invocation) (auto simp: ended_def runs_get_def TERMINAL_RUN_STATUSES_def)
  then show ?thesis
    by (auto simp: begin_tool_action_def require_claim_def Let_def tx_rel_wp wp_simps tidy.refl split: sum.split
        intro!: rule_authorize_protected)
qed

lemma tidy_transition:
  assumes "tidy s0 s" and "\<And>x s'. tidy s0 s' \<Longrightarrow> rd_steps s' = rd_steps s \<Longrightarrow> Q x s'"
  shows "wp (transition_approval_in_transaction p target now who reply) Q s"
proof -
  have "tidy s (rd_approvals_update f s)" for f by (rule tidyI) simp_all
  with tidy.trans [OF assms(1)] assms show ?thesis
    by (cases target) (auto simp: transition_approval_in_transaction_def approvals_save_def wp_simps)
qed

lemma rule_resume_step:
  "tidy s0 s \<Longrightarrow> (\<And>st. sto = Some st \<Longrightarrow> st \<in> set (rd_steps s)) \<Longrightarrow> (\<And>u s'. tidy s0 s' \<Longrightarrow> Q u s') \<Longrightarrow>
   wp (resume_step sto a now) Q s"
  by (auto simp: resume_step_def wp_simps split: option.split dest!: child_move(2) intro!: rule_steps_save)

lemma rule_park_step:
  "tidy s0 s \<Longrightarrow> \<not> ended i s \<Longrightarrow> (\<And>st. sto = Some st \<Longrightarrow> st_run_id st = i) \<Longrightarrow> (\<And>u s'. tidy s0 s' \<Longrightarrow> Q u s') \<Longrightarrow>
   wp (park_step sto a now) Q s"
  using tidy.trans [OF _ tidy_step_row(1)]
  by (auto simp: park_step_def steps_save_def wp_simps split: option.split dest!: child_move(3))

lemma rule_park_run:
  assumes "run_wait_for_approval t a r = Done r'" and "tidy s0 s"
    and "\<And>s'. tidy s0 s' \<Longrightarrow> \<not> ended (rn_id r) s' \<Longrightarrow> Q () s'"
  shows "wp (runs_save r') Q s"
proof -
  have i: "rn_id r' = rn_id r" using run_step_id [OF named_run_steps(2) [OF assms(1)]] .
  note n = run_not_end(3) [OF assms(1)]
  have "\<not> ended (rn_id r) (rd_runs_update (merge_row rn_id r') s)"
    using n i by (simp add: ended_def runs_get_def get_merge_row)
  moreover have "tidy s (rd_runs_update (merge_row rn_id r') s)"
    using tx_relD [OF tidy_runs_save [OF n]] by (simp add: runs_save_def tx_put_def)
  ultimately show ?thesis using assms(3) tidy.trans [OF assms(2)] by (simp add: runs_save_def wp_simps)
qed

lemma tidy_resume_run: "tx_rel tidy (resume_run r p now)"
  unfolding resume_run_def by (intro tidy_call tidy.rel_rules tidy_rules child_saves | assumption)+

lemma tidy_resolve [tidy_rules]: "tx_rel tidy (resolve_approval p target now who reply)"
  by (rule tidyI_wp)
     (auto simp: resolve_approval_def load_approval_run_def load_approval_step_def wp_simps split: option.split
       intro: tidy.refl step_row_in intro!: tidy_transition [OF tidy.refl] rule_resume_step
       rule_tidy [OF tidy_resume_run] rule_tidy [OF tidy_events(2)])

lemma tidy_approvals [tidy_rules]:
  "tx_rel tidy (ApproveRequest a resolver reply now)" "tx_rel tidy (RejectRequest a resolver reply now)"
  "tx_rel tidy (CancelApproval a reply now)" "tx_rel tidy (ExpireApproval a now)"
  by (unfold ApproveRequest_def RejectRequest_def CancelApproval_def ExpireApproval_def load_approval_def)
     (intro tidy.rel_rules tidy_rules)+

lemma tidy_expire_each: "expire_each ids s = (r, s') \<Longrightarrow> tidy s s'"
proof (induction ids s arbitrary: r s' rule: expire_each.induct)
  case (2 i now ids s)
  then show ?case
    by (auto split: sum.splits prod.splits if_splits intro: tidy.refl
        dest!: tx_relD [OF tidy_approvals(4)] elim: tidy.trans)
qed (simp add: tidy.refl)

lemma rule_tidy_running:
  assumes "tx_rel tidy m" and "tidy s0 s" and "\<not> ended i s" and "\<And>x s'. tidy s0 s' \<Longrightarrow> \<not> ended i s' \<Longrightarrow> Q x s'"
  shows "wp m Q s"
  by (rule rule_tidy [OF assms(1,2)]) (use assms(3,4) in \<open>auto simp: tidy_def\<close>)

lemma tidy_park:
  assumes "tx_rel tidy drop_item"
  shows "tx_rel tidy (park_for_approval cmd drop_item now)"
  by (rule tidyI_wp)
     (auto simp: park_for_approval_def load_running_step_def wp_simps split: option.split
       intro!: rule_tidy [OF tidy_writes(1) tidy.refl] rule_tidy [OF tidy_writes(4)] rule_park_run
         rule_tidy_running [OF assms] rule_park_step rule_tidy [OF tidy_events(2)],
      (erule (1) tidy.trans)+)

lemma tidy_requests [tidy_rules]:
  "tx_rel tidy (RequestApproval cmd now)" "tx_rel tidy (RequestToolApproval cmd w t g now)"
  by (unfold RequestApproval_def RequestToolApproval_def Let_def) (intro tidy.rel_rules tidy_park tidy_rules)+

section \<open>Finishing a run\<close>

text \<open>A loop that saves a settled version of every row it is given leaves no other row unsettled.\<close>

lemma wp_drain:
  assumes one: "\<And>x s. wp (f x) (\<lambda>u s'. \<not> bad x \<and> rows s' = rows s \<or>
      (\<exists>y. key y = key x \<and> \<not> bad y \<and> rows s' = merge_row key y (rows s))) s"
    and "\<forall>r \<in> set (rows s). bad r \<longrightarrow> r \<in> set xs"
  shows "wp (tx_each f xs) (\<lambda>u s'. \<forall>r \<in> set (rows s'). \<not> bad r) s"
  using assms(2)
proof (induction xs arbitrary: s)
  case (Cons x xs)
  have rest: "r \<in> set xs" if "\<not> bad x \<and> rows s' = rows s \<or>
      (\<exists>y. key y = key x \<and> \<not> bad y \<and> rows s' = merge_row key y (rows s))" "r \<in> set (rows s')" "bad r" for s' r
    using that(1)
  proof (elim disjE exE conjE)
    assume "\<not> bad x" "rows s' = rows s"
    with that Cons.prems show ?thesis by auto
  next
    fix y assume y: "key y = key x" "\<not> bad y" "rows s' = merge_row key y (rows s)"
    with that set_merge_row [of r key y "rows s"] have "r \<in> set (rows s)" "key r \<noteq> key x" by auto
    with that Cons.prems show ?thesis by auto
  qed
  show ?case unfolding tx_each.simps wp_bind wp_return
    by (rule wp_mono [OF one], rule Cons.IH, intro ballI impI, erule (2) rest)
qed (auto simp: wp_simps)

lemma wp_cancel_tool:
  "wp (cancel_tool now x) (\<lambda>u s'. \<not> (ti_run_id x = i \<and> tool_open x) \<and> rd_tools s' = rd_tools s \<or>
     (\<exists>y. ti_id y = ti_id x \<and> \<not> (ti_run_id y = i \<and> tool_open y) \<and> rd_tools s' = merge_row ti_id y (rd_tools s))) s"
proof -
  have "\<exists>y. ti_id y = ti_id x \<and> \<not> (ti_run_id y = i \<and> tool_open y) \<and>
      rd_tools (rd_tools_update (merge_row ti_id t) s) = merge_row ti_id y (rd_tools s)"
    if "tool_cancel (utc now) x = Done t" for t
    using child_end(5) [OF that] by (intro exI [of _ t]) simp
  then show ?thesis by (simp add: cancel_tool_def tools_save_def wp_simps tool_open_def [symmetric])
qed

lemma steps_kept_cancel_tools: "wp (cancel_tools ts now) (\<lambda>u s'. rd_steps s' = rd_steps s) s"
  unfolding cancel_tools_def wp_bind wp_return
  by (rule wp_each_inv) (auto simp: cancel_tool_def tools_save_def wp_simps)

lemma wp_cancel_step:
  "wp (cancel_step now x) (\<lambda>u s'. \<not> (st_run_id x = i \<and> step_open x) \<and> rd_steps s' = rd_steps s \<or>
     (\<exists>y. st_id y = st_id x \<and> \<not> (st_run_id y = i \<and> step_open y) \<and> rd_steps s' = merge_row st_id y (rd_steps s))) s"
proof -
  have "\<exists>y. st_id y = st_id x \<and> \<not> (st_run_id y = i \<and> step_open y) \<and> rd_steps s' = merge_row st_id y (rd_steps s)"
    if "step_cancel (utc now) x = Done st" "rd_steps s' = rd_steps (rd_steps_update (merge_row st_id st) s)" for st s'
    using child_end(1) [OF that(1)] that(2) by (intro exI [of _ st]) simp
  then have "wp (cancel_tools ts now) (\<lambda>u s'. \<exists>y. st_id y = st_id x \<and> \<not> (st_run_id y = i \<and> step_open y) \<and>
      rd_steps s' = merge_row st_id y (rd_steps s)) (rd_steps_update (merge_row st_id st) s)"
    if "step_cancel (utc now) x = Done st" for st ts
    using that by (intro wp_mono [OF steps_kept_cancel_tools]) blast
  then show ?thesis
    by (simp add: cancel_step_def steps_save_def wp_simps step_open_def [symmetric])
       (blast intro: wp_mono)
qed

lemma wp_cancel_children: "wp (cancel_children i now) (\<lambda>u s'. tidy s s' \<and> \<not> open_child i s') s"
proof (rule wp_conj)
  show "wp (cancel_children i now) (\<lambda>u s'. tidy s s') s"
    using tidy_cancel(4) [of i now] by (simp add: tx_rel_wp)
  have t: "wp (tx_bind (tx_each (cancel_tool now) (tools_list_for_run i s1)) (\<lambda>specs. tx_return (concat specs)))
      (\<lambda>u s2. \<forall>t \<in> set (rd_tools s2). \<not> (ti_run_id t = i \<and> tool_open t)) s1" for s1
    unfolding wp_bind wp_return
    by (rule wp_drain [OF wp_cancel_tool]) (auto simp: tools_list_for_run_def)
  have "wp (cancel_tools (tools_list_for_run i s1) now) (\<lambda>u s2. \<not> open_child i s2) s1"
    if "\<forall>st \<in> set (rd_steps s1). \<not> (st_run_id st = i \<and> step_open st)" for s1
    by (rule wp_mono [OF wp_conj [OF t [folded cancel_tools_def] steps_kept_cancel_tools]])
       (use that in \<open>auto simp: open_child_def\<close>)
  note tools = this
  show "wp (cancel_children i now) (\<lambda>u s'. \<not> open_child i s') s"
    unfolding cancel_children_def wp_bind wp_get wp_return
    by (rule wp_mono [OF wp_drain [OF wp_cancel_step [where i = i]]], simp add: steps_list_for_run_def, rule tools)
qed

definition keeps_closed :: "'a tx \<Rightarrow> bool" where
  "keeps_closed m \<longleftrightarrow> (\<forall>s. closed s \<longrightarrow> wp m (\<lambda>x. closed) s)"

lemma tidy_keeps_closed: "tx_rel tidy m \<Longrightarrow> keeps_closed m"
  unfolding keeps_closed_def tx_rel_wp by (blast intro: wp_mono tidy_closed)

lemma rule_closed: "keeps_closed m \<Longrightarrow> closed s \<Longrightarrow> (\<And>x s'. closed s' \<Longrightarrow> Q x s') \<Longrightarrow> wp m Q s"
  unfolding keeps_closed_def by (blast intro: wp_mono)

lemmas rule_tidy_closed = rule_closed [OF tidy_keeps_closed]

lemma closed_but_save: "closed s \<Longrightarrow> closed_but (rn_id r) (rd_runs_update (merge_row rn_id r) s)"
  by (auto simp: closed_def closed_but_def ended_def runs_get_def get_merge_row open_child_def)

lemma rule_save_closing:
  "closed s \<Longrightarrow> (\<And>s'. closed_but (rn_id r) s' \<Longrightarrow> Q () s') \<Longrightarrow> wp (runs_save r) Q s"
  by (simp add: runs_save_def wp_simps closed_but_save)

lemma rule_closing:
  "tx_rel tidy m \<Longrightarrow> closed_but i s \<Longrightarrow> (\<And>x s'. closed_but i s' \<Longrightarrow> Q x s') \<Longrightarrow> wp m Q s"
  by (rule wpI) (blast dest: tx_relD tidy_closed)

lemma rule_cancel_children:
  "closed_but i s \<Longrightarrow> (\<And>x s'. closed s' \<Longrightarrow> Q x s') \<Longrightarrow> wp (cancel_children i now) Q s"
  by (rule wp_mono [OF wp_cancel_children]) (blast intro: closed_end tidy_closed)

lemmas closing = rule_save_closing rule_closing [OF tidy_shared(8)] rule_closing [OF tidy_writes(11)] rule_cancel_children

lemma wp_succeed:
  assumes "closed s" and "\<not> open_child (rn_id r) s" and "\<And>x s'. closed s' \<Longrightarrow> Q x s'"
  shows "wp (succeed_run_event_specs r now) Q s"
proof -
  have "closed (rd_runs_update (merge_row rn_id r') s)" if "run_succeed (utc now) r = Done r'" for r'
  proof (rule closed_end [OF closed_but_save])
    have "rn_id r' = rn_id r" using that run_step_id [of "RunSucceed (utc now)" r r'] by simp
    then show "\<not> open_child (rn_id r') (rd_runs_update (merge_row rn_id r') s)"
      using assms(2) by (simp add: open_child_def)
  qed (rule assms)
  then show ?thesis using assms(3) by (auto simp: succeed_run_event_specs_def runs_save_def wp_simps)
qed

lemma open_child_lists:
  "open_child i s \<longleftrightarrow> (\<exists>st \<in> set (steps_list_for_run i s). st_status st \<notin> set TERMINAL_RUN_STEP_STATUSES) \<or>
     (\<exists>t \<in> set (tools_list_for_run i s). ti_status t \<notin> set TERMINAL_TOOL_INVOCATION_STATUSES)"
  by (auto simp: open_child_def steps_list_for_run_def tools_list_for_run_def step_open_def tool_open_def)

lemmas closed_end_rest = tidy_events(2) [THEN rule_tidy_closed] tidy_shared(1-7) [THEN rule_tidy_closed]

lemmas closed_rest = closed_end_rest tidy_events(3) [THEN rule_tidy_closed] tidy_writes(3,9,11) [THEN rule_tidy_closed]

lemma closed_CompleteRun: "keeps_closed (CompleteRun i now)"
  unfolding keeps_closed_def
  by (auto simp: CompleteRun_def wp_simps list_ex_iff open_child_lists split_beta intro!: wp_succeed closed_rest)

lemma closed_ApplySucceededOutcome: "keeps_closed (ApplySucceededOutcome c response now)"
proof -
  have "closed (rd_work_update f s) = closed s" "open_child i (rd_work_update f s) = open_child i s" for f i s
    by (simp_all add: closed_def ended_def open_child_def runs_get_def)
  then show ?thesis unfolding keeps_closed_def
    by (auto simp: ApplySucceededOutcome_def remove_if_claimed_def claim_step_def work_step_def wp_simps list_ex_iff
        open_child_lists split_beta intro!: wp_succeed closed_rest)
qed

lemma closed_fail: "keeps_closed (fail_run_event_specs run now failure)"
  unfolding keeps_closed_def fail_run_event_specs_def
  by (auto simp: wp_simps intro!: closing)

lemma closed_FailRun: "keeps_closed (FailRun i failure now)"
  unfolding keeps_closed_def
  by (auto simp: FailRun_def wp_simps split_beta intro!: rule_closed [OF closed_fail] closed_rest)

lemma closed_ApplyFailedOutcome: "keeps_closed (ApplyFailedOutcome policy c failure now)"
  unfolding keeps_closed_def
  by (auto simp: ApplyFailedOutcome_def wp_simps split_beta intro!: rule_closed [OF closed_fail] closed_rest)

lemma closed_cancel: "keeps_closed (cancel_run_in_uow run now)"
  unfolding keeps_closed_def cancel_run_in_uow_def by (auto simp: wp_simps intro!: closing closed_end_rest)

lemma closed_CancelRun: "keeps_closed (CancelRun i now)"
  unfolding keeps_closed_def CancelRun_def
  by (auto simp: wp_simps split: option.split intro!: rule_closed [OF closed_cancel])

lemma closed_task_cancel_run: "keeps_closed (task_cancel_run now run)"
  unfolding keeps_closed_def task_cancel_run_def by (auto simp: wp_simps intro!: closing closed_rest)

lemma closed_CancelTask: "keeps_closed (CancelTask k now)"
proof -
  have "wp (tx_each (task_cancel_run now) rs) (\<lambda>x. closed) s" if "closed s" for rs s
    using closed_task_cancel_run that unfolding keeps_closed_def by (intro wp_each_inv) auto
  then show ?thesis unfolding keeps_closed_def CancelTask_def
    by (auto simp: wp_simps intro!: closed_rest)
qed

section \<open>The system\<close>

lemmas closed_transactions =
  closed_CompleteRun closed_ApplySucceededOutcome closed_FailRun closed_ApplyFailedOutcome closed_CancelRun
  closed_CancelTask tidy_rules [THEN tidy_keeps_closed]

lemma keeps_closedD: "keeps_closed m \<Longrightarrow> m s = Inr (x, s') \<Longrightarrow> closed s \<Longrightarrow> closed s'"
  unfolding keeps_closed_def by (blast dest: wpD)

lemma run_system_closed: "run_system T s s' \<Longrightarrow> closed s \<Longrightarrow> closed s'"
proof (induction rule: run_system.induct)
  case (expire n now clock s r s')
  then show ?case by (auto simp: ExpireDueApprovals_def Let_def dest: tidy_expire_each tidy_closed)
qed (erule keeps_closedD [rotated], assumption, rule closed_transactions)+

lemma reachable_closed: "fence_path run_system T (no_rows uuid) s \<Longrightarrow> closed s"
proof -
  have "closed s \<Longrightarrow> fence_path run_system T s s' \<Longrightarrow> closed s'" for s s'
    by (rotate_tac, induction rule: fence_path.induct) (auto intro: run_system_closed)
  moreover have "closed (no_rows uuid)" by (simp add: closed_def open_child_def no_rows_def)
  ultimately show "fence_path run_system T (no_rows uuid) s \<Longrightarrow> closed s" by blast
qed

end
