(* ===== verification/Run_Outcomes.thy ===== *)
theory Run_Outcomes
  imports Run_Claims Run_Children
begin

text \<open>
  What the transactions that end an attempt leave behind: a failed outcome queues a retry of the same
  execution or settles the delegation it served, a cancelled run has no work item and no pending
  approval, and recovery leaves no expired claim.
\<close>

section \<open>A finished run has no work\<close>

lemma core_step_no_item:
  "core_step T c c' \<Longrightarrow> core_keys c \<Longrightarrow> co_runs c i = Some r \<Longrightarrow> run_over r \<Longrightarrow> co_work c i = None \<Longrightarrow> co_work c' i = None"
proof (induction rule: core_step.induct)
  case (resolve_waking c a p p' j s t s' av e)
  then have "j \<noteq> i" by (auto simp: run_over_def waits_for_approval_def TERMINAL_RUN_STATUSES_def)
  with resolve_waking show ?case by simp
next
  case (settle_waking c g d d' j s t s' av e)
  then have "j \<noteq> i" by (auto simp: run_over_def waits_for_delegation_def TERMINAL_RUN_STATUSES_def)
  with settle_waking show ?case by simp
qed auto

lemma moves_no_item:
  assumes "moves T c c'" and "core_keys c" and "co_runs c i = Some r" and "run_over r" and "co_work c i = None"
  shows "co_work c' i = None \<and> co_runs c' i = Some r \<and> core_keys c'"
  using assms(1)
proof (induction rule: moves_induct)
  case (step U d d')
  then have "core_final d d'" by (auto intro: core_step_final)
  then have "co_runs d' i = Some r" using step assms(4) by (auto simp: core_final_def keeps_def)
  with step core_step_no_item [of U d d' i r] show ?case using assms(4) core_step_keys by blast
qed (use assms in auto)

section \<open>No run waits for a workflow\<close>

text \<open>
  The transactions of the run system never call \<^verbatim>\<open>Run.wait_for_workflow\<close>; only the workflow scheduler,
  which the run system does not contain, parks a run there.\<close>

definition no_workflow_wait :: "run_core \<Rightarrow> bool" where
  "no_workflow_wait c \<longleftrightarrow> (\<forall>i r. co_runs c i = Some r \<longrightarrow> rn_status r \<noteq> RunStatus.WAITING_FOR_WORKFLOW)"

lemma no_workflow_wait_put:
  "no_workflow_wait c \<Longrightarrow> rn_status r \<noteq> RunStatus.WAITING_FOR_WORKFLOW \<Longrightarrow> no_workflow_wait (put_run r c)"
  "no_workflow_wait (put_item i x c) = no_workflow_wait c" "no_workflow_wait (put_approval p c) = no_workflow_wait c"
  "no_workflow_wait (put_delegation d c) = no_workflow_wait c" "no_workflow_wait (enqueue_run i a e c) = no_workflow_wait c"
  by (auto simp: no_workflow_wait_def core_put)

lemma core_step_no_workflow_wait: "core_step T c c' \<Longrightarrow> no_workflow_wait c \<Longrightarrow> no_workflow_wait c'"
proof (induction rule: core_step.induct)
  case (advance c i r x r')
  from quiet_status_after [OF advance(2,3)] have "rn_status r' \<noteq> RunStatus.WAITING_FOR_WORKFLOW"
    by (auto simp: TERMINAL_RUN_STATUSES_def)
  with advance show ?case by (simp add: no_workflow_wait_put)
qed (auto simp: no_workflow_wait_put intro!: no_workflow_wait_put(1) dest: run_status_after)

lemma reachable_no_workflow_wait: "fence_path run_system T (no_rows uuid) s \<Longrightarrow> no_workflow_wait (core_of s)"
proof -
  assume "fence_path run_system T (no_rows uuid) s"
  then have m: "moves T (core_of (no_rows uuid)) (core_of s)"
    using run_path_refined [of T "no_rows uuid" s] no_rows_core [of uuid] by (auto simp: refined_def)
  have "no_workflow_wait (core_of (no_rows uuid))" by (simp add: no_workflow_wait_def core_of_def runs_get_def get_row_def no_rows_def)
  with m show ?thesis by (induction rule: moves_induct) (auto intro: core_step_no_workflow_wait)
qed

section \<open>Waiting outcomes of a displaced worker\<close>

text \<open>
  A waiting outcome of a worker that does not own the claim is refused as long as the run has a work
  item. Without one the use case returns normally; it has changed nothing.\<close>

lemma not_owner_apply_waiting:
  assumes k: "db_keyed s" and n: "\<not> core_owns (core_of s) c"
    and checks: "\<And>Q. (\<And>x. Q x s) \<Longrightarrow> wp checks Q s"
  shows "wp (apply_waiting c run late stale conflict checks lost now)
    (\<lambda>r s'. s' = s \<and> wq_get (rc_run_id c) (rd_work s) = None) s"
  unfolding apply_waiting_def
  by (auto simp: wp_simps core_reads intro!: checks rule_not_owner [OF k n] split: option.splits)

lemma not_owner_waiting:
  assumes k: "db_keyed s" and n: "\<not> core_owns (core_of s) c"
  shows "wp (ApplyWaitingOutcome c a now) (\<lambda>r s'. s' = s \<and> wq_get (rc_run_id c) (rd_work s) = None) s"
    "wp (ApplyWaitingForDelegationOutcome c g now) (\<lambda>r s'. s' = s \<and> wq_get (rc_run_id c) (rd_work s) = None) s"
  by (auto simp: ApplyWaitingOutcome_def ApplyWaitingForDelegationOutcome_def wp_simps
      intro!: not_owner_apply_waiting [OF k n])

section \<open>Outcomes\<close>

lemma insort_key_map: "(\<And>x. k (f x) = k x) \<Longrightarrow> insort_key k (f x) (map f xs) = map f (insort_key k x xs)"
  by (induction xs) auto

lemma sort_key_map: "(\<And>x. k (f x) = k x) \<Longrightarrow> sort_key k (map f xs) = map f (sort_key k xs)"
  by (induction xs) (simp_all add: insort_key_map)

lemma ordinal_save:
  assumes k: "db_keyed s" and r: "runs_get i s = Some r" and same: "run_ident r' = run_ident r"
  shows "runs_ordinal_for_execution i (rd_runs_update (merge_row rn_id r') s) = runs_ordinal_for_execution i s"
proof -
  let ?f = "\<lambda>x. if x = r then r' else x" and ?t = "rd_runs s"
  have i: "rn_id r = i" "rn_id r' = i" and o: "run_order (?f x) = run_order x" "rn_id (?f x) = rn_id x"
    "rn_execution_id (?f x) = rn_execution_id x" for x
    using run_row_id [OF r] same by (auto simp: run_ident_def run_order_def)
  have in_t: "r \<in> set ?t" using r unfolding runs_get_def by (rule get_row_in)
  have "rn_id x = rn_id r' \<longleftrightarrow> x = r" if "x \<in> set ?t" for x
    using k that in_t i by (auto simp: db_keyed_def keyed_def distinct_map dest: inj_onD)
  then have m: "merge_row rn_id r' ?t = map ?f ?t" using in_t i by (auto simp: merge_row_def intro: map_cong)
  have l: "map rn_id (runs_list_for_execution e (rd_runs_update (merge_row rn_id r') s)) =
      map rn_id (runs_list_for_execution e s)" for e
    using o by (simp add: runs_list_for_execution_def m filter_map comp_def sort_key_map)
  have "runs_get i (rd_runs_update (merge_row rn_id r') s) = Some r'"
    using i by (simp add: runs_get_def get_merge_row)
  then show ?thesis using r l same by (simp add: runs_ordinal_for_execution_def run_ident_def)
qed

lemma ordinal_cong: "rd_runs s' = rd_runs s \<Longrightarrow> runs_ordinal_for_execution i s' = runs_ordinal_for_execution i s"
  by (simp add: runs_ordinal_for_execution_def runs_get_def runs_list_for_execution_def split: option.split)

text \<open>The part of a failed outcome that ends the attempt.\<close>

lemma run_fail_fields:
  "run_fail t f r = Done r' \<Longrightarrow> rn_status r' = RunStatus.FAILED \<and> rn_failure r' = Some f \<and> run_ident r' = run_ident r"
  using run_step_ident [of "RunFail t f" r r'] by (auto simp: run_fail_def outcome_simps)

definition attempt_failed :: "RunId \<Rightarrow> Failure \<Rightarrow> run_db \<Rightarrow> Run \<Rightarrow> run_db \<Rightarrow> bool" where
  "attempt_failed i f s r s' \<longleftrightarrow> db_keyed s' \<and> rn_id r = i \<and> rn_status r = RunStatus.FAILED \<and> rn_failure r = Some f \<and>
     core_of s' = put_run r (put_item i None (core_of s)) \<and>
     runs_ordinal_for_execution i s' = runs_ordinal_for_execution i s"

lemma rule_removed:
  assumes k: "db_keyed s" and "\<And>s'. db_keyed s' \<Longrightarrow> core_of s' = put_item (rc_run_id c) None (core_of s) \<Longrightarrow>
    rd_runs s' = rd_runs s \<Longrightarrow> Q s'"
  shows "wp (remove_if_claimed c now) (\<lambda>removed s'. removed \<longrightarrow> Q s') s"
proof -
  have "wp (remove_if_claimed c now) (\<lambda>x s'. rd_runs s' = rd_runs s) s"
    by (simp add: remove_if_claimed_def claim_step_def work_step_def wp_simps)
  moreover have "wp (remove_if_claimed c now) (\<lambda>removed s'. removed \<longrightarrow> db_keyed s' \<and>
      core_of s' = put_item (rc_run_id c) None (core_of s)) s"
    by (rule rule_held [OF k]) simp_all
  ultimately show ?thesis using assms(2) by (blast intro: wp_mono [OF wp_conj])
qed

lemma rule_after_failure:
  assumes "tx_rel framed m" and "attempt_failed i f s r s1" and "\<And>x s'. attempt_failed i f s r s' \<Longrightarrow> Q x s'"
  shows "wp m Q s1"
proof (rule wpI)
  fix x s' assume "m s1 = Inr (x, s')"
  with assms(1) have "framed s1 s'" by (rule tx_relD)
  then have "attempt_failed i f s r s'" using assms(2) framed_core [of s1 s'] ordinal_cong [of s' s1]
    by (simp add: attempt_failed_def framed_def)
  then show "Q x s'" by (rule assms(3))
qed

lemma rule_fail_attempt:
  assumes k: "db_keyed s1" and c: "core_of s1 = put_item i None (core_of s)" and t: "rd_runs s1 = rd_runs s"
    and r: "co_runs (core_of s) i = Some run"
    and q: "\<And>failed specs s'. attempt_failed i f s failed s' \<Longrightarrow> run_ident failed = run_ident run \<Longrightarrow> Q (failed, specs) s'"
  shows "wp (fail_run_event_specs run now f) Q s1"
proof -
  have "attempt_failed i f s failed (rd_runs_update (merge_row rn_id failed) s1) \<and> run_ident failed = run_ident run"
    if "run_fail (utc now) f run = Done failed" for failed
  proof -
    note fields = run_fail_fields [OF that]
    have g: "runs_get i s1 = Some run" using r c by (simp add: core_reads)
    then have "rn_id failed = i" using fields run_row_id [OF g] by (simp add: run_ident_def)
    then show ?thesis using fields k c ordinal_save [OF k g, of failed] ordinal_cong [OF t]
      by (simp add: attempt_failed_def db_keyed_put core_of_put)
  qed
  then show ?thesis using q
    by (auto simp: fail_run_event_specs_def runs_save_def wp_simps intro!: rule_after_failure [OF frame_cancel(4)])
qed

text \<open>What the transaction adds: a queued retry of the same execution, or nothing.\<close>

definition retry_queued :: "RetryPolicy \<Rightarrow> int \<Rightarrow> Run \<Rightarrow> instant \<Rightarrow> run_core \<Rightarrow> run_core \<Rightarrow> bool" where
  "retry_queued policy n r now c c' \<longleftrightarrow> (\<exists>q d. compute_delay policy (n + 1) = Inr d \<and>
     co_runs c (rn_id q) = None \<and> rn_status q = RunStatus.QUEUED \<and> rn_task_id q = rn_task_id r \<and>
     rn_execution_id q = rn_execution_id r \<and> c' = enqueue_run (rn_id q) (now + d) now (put_run q c))"

lemma wp_materialize_retry:
  assumes "db_keyed s"
  shows "wp (materialize_retry policy r n now) (\<lambda>x s'. retry_queued policy n r now (core_of s) (core_of s')) s"
proof -
  have "rn_status q = RunStatus.QUEUED \<and> rn_task_id q = k \<and> rn_execution_id q = e"
    if "run_new i k t (Some e) = Inr q" for i k t e q
    using that by (auto simp: run_new_def outcome_simps)
  then show ?thesis using assms
    by (auto simp: materialize_retry_def wp_simps lift_domain_Inr retry_queued_def intro!: core_rules
        rule_framed [OF frame_primitives(1)] rule_framed [OF frame_inherit] rule_framed [OF frame_events(2)])
qed

text \<open>Settling a delegation creates no run.\<close>

definition no_new_run :: "run_db \<Rightarrow> run_db \<Rightarrow> bool" where
  "no_new_run s s' \<longleftrightarrow> (\<forall>j. runs_get j s = None \<longrightarrow> runs_get j s' = None)"

interpretation roster: tx_preorder no_new_run
  by unfold_locales (auto simp: no_new_run_def)

lemma roster_framed: "tx_rel framed m \<Longrightarrow> tx_rel no_new_run m"
  unfolding tx_rel_def by (auto simp: no_new_run_def framed_def runs_get_def)

lemma roster_wake: "tx_rel no_new_run (wake_parent req kind value now)"
proof -
  have "no_new_run s (rd_work_update g (rd_runs_update (merge_row rn_id r') s))"
    if "runs_get i s = Some r" "run_resume_from_delegation (utc now) r = Done r'" for s i r r' g
    using run_step_id [OF named_run_steps(5) [OF that(2)]] that(1) run_row_id [OF that(1)]
    by (auto simp: no_new_run_def runs_get_def get_merge_row)
  moreover have "wp (append_run_events r now es) (\<lambda>x. no_new_run s) s1" if "no_new_run s s1" for r es s s1
    by (rule wpI) (use tx_relD [OF roster_framed [OF frame_events(2)]] that roster.trans in blast)
  ultimately show ?thesis
    by (simp add: wake_parent_def runs_save_def work_enqueue_def tx_rel_wp wp_simps roster.refl split: option.split)
qed

lemma roster_reconcile: "tx_rel no_new_run (reconcile_child_terminal_in_uow r now)"
proof -
  have "tx_rel no_new_run (delegations_finalize_if_dispatched i st t f)" for i st t f
    unfolding delegations_finalize_if_dispatched_def
    by (rule roster.rel_step) (simp add: Let_def no_new_run_def runs_get_def)
  then show ?thesis unfolding reconcile_child_terminal_in_uow_def
    by (intro roster.rel_rules roster_wake)
qed

definition failed_outcome :: "RetryPolicy \<Rightarrow> RunId \<Rightarrow> Failure \<Rightarrow> instant \<Rightarrow> run_db \<Rightarrow> Run \<Rightarrow> run_db \<Rightarrow> bool" where
  "failed_outcome policy i f now s r s' \<longleftrightarrow> (\<exists>s1. attempt_failed i f s r s1 \<and>
     (if is_retry_allowed policy (runs_ordinal_for_execution i s) f
      then retry_queued policy (runs_ordinal_for_execution i s) r now (core_of s1) (core_of s')
      else moves {} (core_of s1) (core_of s') \<and> no_new_run s1 s'))"

lemma rule_retry:
  assumes a: "attempt_failed i f s r s1" and n: "n = runs_ordinal_for_execution (rn_id r) s1"
    and q: "\<And>x s'. failed_outcome policy i f now s r s' \<Longrightarrow> Q x s'"
  shows "is_retry_allowed policy n f \<Longrightarrow> wp (materialize_retry policy r n now) Q s1"
    and "\<not> is_retry_allowed policy n f \<Longrightarrow> wp (reconcile_child_terminal_in_uow r now) Q s1"
proof -
  have k: "db_keyed s1" and m: "n = runs_ordinal_for_execution i s" using a n by (auto simp: attempt_failed_def)
  show "is_retry_allowed policy n f \<Longrightarrow> wp (materialize_retry policy r n now) Q s1"
    by (rule wp_mono [OF wp_materialize_retry [OF k]]) (use a m q in \<open>auto simp: failed_outcome_def\<close>)
  show "\<not> is_retry_allowed policy n f \<Longrightarrow> wp (reconcile_child_terminal_in_uow r now) Q s1"
    by (rule wp_mono [OF wp_conj [OF rule_refined [OF refine_reconcile [of "{}"] k, of "\<lambda>_ s'. moves {} (core_of s1) (core_of s')"]
          roster_reconcile [unfolded tx_rel_wp, rule_format]]]) (use a m q in \<open>auto simp: failed_outcome_def\<close>)
qed

lemma wp_ApplyFailedOutcome:
  assumes "db_keyed s"
  shows "wp (ApplyFailedOutcome policy c f now) (\<lambda>r s'. failed_outcome policy (rc_run_id c) f now s r s' \<and>
    (\<exists>run. runs_get (rc_run_id c) s = Some run \<and> run_ident r = run_ident run)) s"
  using assms
  by (auto simp: ApplyFailedOutcome_def wp_simps split_beta core_reads
      intro!: rule_removed rule_fail_attempt rule_after_failure [OF frame_events(2)] rule_after_failure [OF frame_usage(2)]
      rule_retry)

section \<open>Cancelling\<close>

definition pending_for :: "RunId \<Rightarrow> ApprovalRequest \<Rightarrow> bool" where
  "pending_for i p \<longleftrightarrow> ap_run_id p = Some i \<and> ap_status p = ApprovalStatus.PENDING"

definition same_approvals :: "run_db \<Rightarrow> run_db \<Rightarrow> bool" where
  "same_approvals s s' \<longleftrightarrow> rd_approvals s' = rd_approvals s"

interpretation same: tx_preorder same_approvals
  by unfold_locales (simp_all add: same_approvals_def)

lemma framed_same: "tx_rel framed m \<Longrightarrow> tx_rel same_approvals m"
  by (auto simp: tx_rel_def framed_def same_approvals_def)

lemma same_reconcile: "tx_rel same_approvals (reconcile_child_terminal_in_uow r now)"
proof -
  have "tx_rel same_approvals (delegations_finalize_if_dispatched g st t f)" "tx_rel same_approvals (runs_save x)"
    "tx_rel same_approvals (work_enqueue i a e)" for g st t f x i a e
    by (unfold delegations_finalize_if_dispatched_def runs_save_def work_enqueue_def Let_def)
       (intro same.rel_rules same.rel_put same.rel_step; simp add: same_approvals_def)+
  then show ?thesis unfolding reconcile_child_terminal_in_uow_def wake_parent_def
    by (intro same.rel_rules framed_same [OF frame_events(2)])
qed

lemma wp_cancel_pending_approval:
  "wp (cancel_pending_approval now x) (\<lambda>u s'. \<not> pending_for i x \<and> rd_approvals s' = rd_approvals s \<or>
     (\<exists>y. ap_id y = ap_id x \<and> \<not> pending_for i y \<and> rd_approvals s' = merge_row ap_id y (rd_approvals s))) s"
proof -
  have "\<exists>y. ap_id y = ap_id x \<and> \<not> pending_for i y \<and>
      rd_approvals (rd_approvals_update (merge_row ap_id a) s) = merge_row ap_id y (rd_approvals s)"
    if "approval_cancel t nt x = Done a" for a t nt
    using resolves_ident [OF approval_cancel_resolves [OF that]] resolves_status [OF approval_cancel_resolves [OF that]]
    by (intro exI [of _ a]) (auto simp: pending_for_def TERMINAL_APPROVAL_STATUSES_def)
  then show ?thesis by (simp add: cancel_pending_approval_def approvals_save_def wp_simps)
qed

lemma wp_cancel_pending_approvals:
  "wp (cancel_pending_approvals i now) (\<lambda>u s'. \<forall>p \<in> set (rd_approvals s'). \<not> pending_for i p) s"
  unfolding cancel_pending_approvals_def wp_bind wp_get
  by (rule wp_drain [OF wp_cancel_pending_approval])
     (auto simp: approvals_list_pending_for_run_def pending_for_def)

definition run_cancelled :: "Run \<Rightarrow> run_db \<Rightarrow> bool" where
  "run_cancelled r s \<longleftrightarrow> db_keyed s \<and> co_runs (core_of s) (rn_id r) = Some r \<and>
     (\<forall>p \<in> set (rd_approvals s). \<not> pending_for (rn_id r) p)"

lemma run_cancelled_framed: "framed s s' \<Longrightarrow> run_cancelled r s \<Longrightarrow> run_cancelled r s' \<and> core_of s' = core_of s"
  using framed_core [of s s'] by (simp add: run_cancelled_def framed_def)

lemma rule_cancelled:
  assumes "tx_rel framed m" and "run_cancelled r s" and "co_work (core_of s) (rn_id r) = None"
    and "\<And>x s'. run_cancelled r s' \<Longrightarrow> co_work (core_of s') (rn_id r) = None \<Longrightarrow> Q x s'"
  shows "wp m Q s"
  by (rule wpI) (use assms run_cancelled_framed in \<open>metis tx_relD\<close>)

lemma rule_cancelled_reconcile:
  assumes "run_cancelled r s" and "run_over r" and "co_work (core_of s) (rn_id r) = None"
    and "\<And>x s'. run_cancelled r s' \<Longrightarrow> co_work (core_of s') (rn_id r) = None \<Longrightarrow> Q x s'"
  shows "wp (reconcile_child_terminal_in_uow r now) Q s"
proof (rule wpI)
  fix x s' assume m: "reconcile_child_terminal_in_uow r now s = Inr (x, s')"
  have k: "db_keyed s'" and mv: "moves {} (core_of s) (core_of s')"
    using tx_relD [OF refine_reconcile m, of "{}"] assms(1) by (auto simp: refined_def run_cancelled_def)
  have "rd_approvals s' = rd_approvals s" using tx_relD [OF same_reconcile m] by (simp add: same_approvals_def)
  with moves_no_item [OF mv core_of_keys _ assms(2)] assms(1,3) k
  have "run_cancelled r s' \<and> co_work (core_of s') (rn_id r) = None" by (auto simp: run_cancelled_def)
  then show "Q x s'" using assms(4) by blast
qed

lemma run_cancel_fields:
  "run_cancel t r = Done r' \<Longrightarrow> rn_id r' = rn_id r \<and> rn_status r' = RunStatus.CANCELLED \<and> run_over r' \<and> \<not> waits_for_approval r' a"
  using run_step_ident [of "RunCancel t" r r']
  by (auto simp: run_cancel_def outcome_simps run_ident_def run_over_def TERMINAL_RUN_STATUSES_def waits_for_approval_def)

lemma rule_cancel_approvals:
  assumes k: "db_keyed s" and r: "co_runs (core_of s) (rn_id r) = Some r" "\<And>a. \<not> waits_for_approval r a"
    and q: "\<And>x s'. run_cancelled r s' \<Longrightarrow> Q x s'"
  shows "wp (cancel_pending_approvals (rn_id r) now) Q s"
  by (rule wp_mono [OF wp_conj [OF refine_cancel_approvals [OF k, of "rn_id r" now "{}"] wp_cancel_pending_approvals]])
     (use r q in \<open>auto simp: run_cancelled_def\<close>)

lemma rule_cancelled_remove:
  "run_cancelled r s \<Longrightarrow> (\<And>s'. run_cancelled r s' \<Longrightarrow> co_work (core_of s') (rn_id r) = None \<Longrightarrow> Q () s') \<Longrightarrow>
   wp (work_remove (rn_id r)) Q s"
  by (simp add: work_remove_def wp_simps run_cancelled_def db_keyed_put core_of_put)

lemma wp_cancel_run_in_uow:
  assumes "db_keyed s"
  shows "wp (cancel_run_in_uow run now) (\<lambda>r s'. rn_id r = rn_id run \<and> rn_status r = RunStatus.CANCELLED \<and>
    run_cancelled r s' \<and> co_work (core_of s') (rn_id r) = None) s"
  using assms
  by (auto simp: cancel_run_in_uow_def wp_simps dest: run_cancel_fields
      intro!: rule_runs_save rule_cancel_approvals rule_cancelled_remove rule_cancelled [OF frame_cancel(4)]
      rule_cancelled [OF frame_events(2)] rule_cancelled_reconcile rule_cancelled [OF frame_usage(2)])

section \<open>Recovery\<close>

definition recovered :: "instant \<Rightarrow> RunId \<Rightarrow> run_core \<Rightarrow> run_core \<Rightarrow> bool" where
  "recovered now i c c' \<longleftrightarrow> co_runs c' = co_runs c \<and> (\<forall>j. j \<noteq> i \<longrightarrow> co_work c' j = co_work c j) \<and>
     (\<forall>w. co_work c' i = Some w \<longrightarrow> \<not> expired now w) \<and>
     (\<forall>r. co_runs c i = Some r \<longrightarrow> \<not> parked (rn_status r) \<longrightarrow> co_work c i \<noteq> None \<longrightarrow> co_work c' i \<noteq> None)"

lemma expired_unclaim: "\<not> expired now (unclaim w)"
  by (simp add: expired_def)

lemma wp_recover_item:
  assumes k: "db_keyed s"
  shows "wp (recover_item now x) (\<lambda>b s'. db_keyed s' \<and> recovered now (wi_run_id x) (core_of s) (core_of s')) s"
proof -
  let ?i = "wi_run_id x" and ?Q = "\<lambda>b s'. db_keyed s' \<and> recovered now (wi_run_id x) (core_of s) (core_of s')"
  have "wp (work_step (wq_clear_expired_claim ?i now)) ?Q s"
    unfolding wq_clear_expired_claim_def
    by (rule rule_work_update [OF k, where q = ?i])
       (auto simp: recovered_def expired_unclaim dest: core_ids(2))
  moreover have "wp (work_step (wq_remove_if_lease_expired ?i now)) ?Q s"
    if "\<And>r. co_runs (core_of s) ?i = Some r \<Longrightarrow> parked (rn_status r)"
    unfolding wq_remove_if_lease_expired_def using that
    by (intro rule_work_delete [OF k, where q = ?i]) (auto simp: recovered_def dest: core_ids(2))
  ultimately show ?thesis by (auto simp: recover_item_def wp_simps core_reads split: option.split)
qed

definition all_recovered :: "instant \<Rightarrow> RunWorkItem list \<Rightarrow> run_core \<Rightarrow> run_core \<Rightarrow> bool" where
  "all_recovered now xs c c' \<longleftrightarrow> co_runs c' = co_runs c \<and>
     (\<forall>j w. co_work c' j = Some w \<longrightarrow> expired now w \<longrightarrow> j \<notin> wi_run_id ` set xs \<and> co_work c j = Some w) \<and>
     (\<forall>j r. co_runs c j = Some r \<longrightarrow> \<not> parked (rn_status r) \<longrightarrow> co_work c j \<noteq> None \<longrightarrow> co_work c' j \<noteq> None)"

lemma all_recovered_Cons:
  "recovered now (wi_run_id x) c c1 \<Longrightarrow> all_recovered now xs c1 c2 \<Longrightarrow> all_recovered now (x # xs) c c2"
proof -
  assume r: "recovered now (wi_run_id x) c c1" and a: "all_recovered now xs c1 c2"
  have "j \<notin> wi_run_id ` set (x # xs) \<and> co_work c j = Some w" if "co_work c2 j = Some w" "expired now w" for j w
  proof -
    have "j \<notin> wi_run_id ` set xs" and w: "co_work c1 j = Some w" using a that by (auto simp: all_recovered_def)
    moreover from w r that(2) have "j \<noteq> wi_run_id x" by (auto simp: recovered_def)
    ultimately show ?thesis using r by (simp add: recovered_def)
  qed
  moreover have "co_work c2 j \<noteq> None"
    if "co_runs c j = Some u" "\<not> parked (rn_status u)" "co_work c j \<noteq> None" for j u
  proof -
    have "co_work c1 j \<noteq> None" using r that by (cases "j = wi_run_id x") (auto simp: recovered_def)
    then show ?thesis using a r that unfolding all_recovered_def recovered_def by simp
  qed
  ultimately show ?thesis using a r unfolding all_recovered_def recovered_def by simp
qed

lemma wp_recover_all:
  "db_keyed s \<Longrightarrow> wp (tx_each (recover_item now) xs) (\<lambda>bs s'. db_keyed s' \<and> all_recovered now xs (core_of s) (core_of s')) s"
proof (induction xs arbitrary: s)
  case Nil
  then show ?case by (simp add: wp_simps all_recovered_def)
next
  case (Cons x xs)
  show ?case unfolding tx_each.simps wp_bind wp_return
    by (rule wp_mono [OF wp_recover_item [OF Cons.prems]], rule wp_mono [OF Cons.IH])
       (auto intro: all_recovered_Cons)
qed

lemma each_returns: "(\<And>x s. \<not> isl (f x s)) \<Longrightarrow> \<not> isl (tx_each f xs s)"
proof (induction xs arbitrary: s)
  case (Cons x xs)
  obtain y s1 where y: "f x s = Inr (y, s1)" using Cons.prems [of x s] by (cases "f x s") auto
  obtain ys s2 where "tx_each f xs s1 = Inr (ys, s2)" using Cons.IH [OF Cons.prems, of s1] by (cases "tx_each f xs s1") auto
  with y show ?case by (simp add: tx_bind_def tx_return_def)
qed (simp add: tx_return_def)

lemma recover_returns: "\<exists>m s'. RecoverExpiredLeases n now s = Inr (m, s')"
proof -
  have "\<not> isl (recover_item now x s)" for x s
    by (simp add: recover_item_def work_step_def tx_bind_def tx_get_def tx_step_def)
  then have "\<not> isl (tx_each (recover_item now) (wq_find_expired_claims now n (rd_work s)) s)" by (rule each_returns)
  then obtain bs s' where "tx_each (recover_item now) (wq_find_expired_claims now n (rd_work s)) s = Inr (bs, s')"
    by (cases "tx_each (recover_item now) (wq_find_expired_claims now n (rd_work s)) s") auto
  then show ?thesis by (simp add: RecoverExpiredLeases_def tx_bind_def tx_get_def tx_return_def)
qed

end
