(* ===== verification/Run_Properties.thy ===== *)
theory Run_Properties
  imports Run_Outcomes
begin

text \<open>
  The properties of run coordination, for every database the system of \<open>Run_System\<close> reaches from the
  empty one, whatever the order of the committed transactions. \<open>demo_uuid\<close> and the databases built
  with it are the concrete executions the properties are applied to.
\<close>

section \<open>A concrete execution\<close>

definition demo_uuid :: "nat \<Rightarrow> string" where
  "demo_uuid n = replicate n (CHR ''x'')"

definition committed :: "app_error + 'a \<times> run_db \<Rightarrow> run_db" where
  "committed r = snd (projr r)"

lemma committed_Inr: "\<not> isl r \<Longrightarrow> r = Inr (fst (projr r), committed r)"
  by (cases r) (simp_all add: committed_def)

definition demo_task :: run_db where
  "demo_task = committed (CreateTask ''title'' ''text'' 0 (no_rows demo_uuid))"

definition demo_queued :: run_db where
  "demo_queued = committed (StartRun (Id (demo_uuid 0)) 5 demo_task)"

definition demo_run :: RunId where
  "demo_run = Id (demo_uuid 1)"

definition demo_first :: "app_error + RunClaimResult option \<times> run_db" where
  "demo_first = ClaimNextRun ''w1'' 60 10 [''k1''] 10 demo_queued"

definition demo_claimed :: run_db where
  "demo_claimed = committed demo_first"

definition demo_second :: "app_error + RunClaimResult option \<times> run_db" where
  "demo_second = ClaimNextRun ''w2'' 60 10 [''k2''] 100 demo_claimed"

lemma demo_inj: "inj demo_uuid"
  by (rule injI) (metis demo_uuid_def length_replicate)

lemma demo_commits:
  "\<not> isl (CreateTask ''title'' ''text'' 0 (no_rows demo_uuid))"
  "\<not> isl (StartRun (Id (demo_uuid 0)) 5 demo_task)"
  "\<not> isl demo_first" "\<not> isl demo_second"
  by code_simp+

lemma path_step:
  "fence_path run_system T s s' \<Longrightarrow> run_system U s' s'' \<Longrightarrow> V = T \<union> U \<Longrightarrow> fence_path run_system V s s''"
  using fence_path.move [of run_system] by simp

lemma demo_queued_path: "fence_path run_system {} (no_rows demo_uuid) demo_queued"
proof -
  have a: "run_system {} (no_rows demo_uuid) demo_task"
    unfolding demo_task_def by (rule run_system.create_task [OF committed_Inr [OF demo_commits(1)]])
  have b: "run_system {} demo_task demo_queued"
    unfolding demo_queued_def by (rule run_system.start_run [OF committed_Inr [OF demo_commits(2)]])
  show ?thesis by (rule path_step [OF path_step [OF fence_path.stay a refl] b]) simp
qed

lemma demo_claimed_path: "fence_path run_system {''k1''} (no_rows demo_uuid) demo_claimed"
proof -
  have "run_system (set [''k1'']) demo_queued demo_claimed"
    unfolding demo_claimed_def
    by (rule run_system.claim [OF committed_Inr [OF demo_commits(3), unfolded demo_first_def], folded demo_first_def])
  then show ?thesis by (rule path_step [OF demo_queued_path]) simp
qed

section \<open>No unfinished run is forgotten\<close>

text \<open>
  C1: In every database the transactions of the run system reach, each run that is not finished is
  tracked: a queued run has an unclaimed work item, a running run has a work item, a run that waits for
  an approval waits for a pending approval of its own, a run that waits for a delegation waits for a
  dispatched delegation of its own, and no run waits for a workflow. Only the workflow scheduler, which
  is not among these transactions, parks a run in \<^verbatim>\<open>waiting_for_workflow\<close>.\<close>

theorem unfinished_runs_are_tracked:
  assumes "fence_path run_system T (no_rows uuid) s" and "runs_get i s = Some r"
  shows "case rn_status r of
      RunStatus.QUEUED \<Rightarrow> \<exists>w. wq_get i (rd_work s) = Some w \<and> wi_claimed_by w = None
    | RunStatus.RUNNING \<Rightarrow> \<exists>w. wq_get i (rd_work s) = Some w
    | RunStatus.WAITING_FOR_APPROVAL \<Rightarrow> \<exists>a p. rn_approval_request_id r = Some a \<and>
        approvals_get a s = Some p \<and> ap_status p = ApprovalStatus.PENDING \<and> ap_run_id p = Some i
    | RunStatus.WAITING_FOR_DELEGATION \<Rightarrow> \<exists>g d. rn_delegation_request_id r = Some g \<and>
        delegations_get g s = Some d \<and> dg_status d = DelegationStatus.DISPATCHED \<and> dg_parent_run_id d = i
    | RunStatus.WAITING_FOR_WORKFLOW \<Rightarrow> False
    | RunStatus.SUCCEEDED \<Rightarrow> True | RunStatus.FAILED \<Rightarrow> True | RunStatus.CANCELLED \<Rightarrow> True"
proof -
  have inv: "core_inv (core_of s)" using reachable_core [OF assms(1)] by simp
  have r: "co_runs (core_of s) i = Some r" using assms(2) by (simp add: core_reads)
  have "run_markers_ok r" using inv r by (auto simp: core_inv_def runs_ok_def run_inv_def)
  moreover have "rn_status r \<noteq> RunStatus.WAITING_FOR_WORKFLOW"
    using reachable_no_workflow_wait [OF assms(1)] r by (simp add: no_workflow_wait_def)
  ultimately show ?thesis
    using inv r approval_waitsD [of "core_of s" i r] delegation_waitsD [of "core_of s" i r]
    by (auto simp: core_inv_def runnable_ok_def run_markers_ok_def core_reads waits_for_approval_def
        waits_for_delegation_def split: RunStatus.split)
qed

theorem unfinished_runs_are_tracked_witness:
  "\<exists>w. wq_get demo_run (rd_work demo_queued) = Some w \<and> wi_claimed_by w = None"
proof -
  have "runs_get demo_run demo_queued = Some (the (runs_get demo_run demo_queued))"
    "rn_status (the (runs_get demo_run demo_queued)) = RunStatus.QUEUED" by code_simp+
  with unfinished_runs_are_tracked [OF demo_queued_path] show ?thesis by fastforce
qed

text \<open>
  C6: A queued or running run is never lost: from some instant on, a claim that looks at the whole
  queue returns a claim, in every reachable database. Identifiers are drawn without repetition.\<close>

theorem runnable_runs_are_claimed:
  assumes "fence_path run_system T (no_rows uuid) s" and "inj uuid"
    and "runs_get i s = Some r" and "rn_status r = RunStatus.QUEUED \<or> rn_status r = RunStatus.RUNNING"
  shows "\<exists>t. \<forall>now w lease tokens. t \<le> now \<and> length (rd_work s) \<le> length tokens \<longrightarrow>
    (\<exists>k s'. ClaimNextRun w lease (length (rd_work s)) tokens now s = Inr (Some k, s'))"
proof -
  have inv: "core_inv (core_of s)" and k: "db_keyed s" using reachable_core [OF assms(1)] by simp_all
  have "logged (no_rows uuid) s" using assms(1) by (rule run_path_logged)
  then have log: "can_log s" using k assms(2) no_rows_events [of uuid]
    by (simp add: logged_def can_log_def) (simp add: no_rows_def)
  have r: "co_runs (core_of s) i = Some r" using assms(3) by (simp add: core_reads)
  have "co_work (core_of s) i \<noteq> None"
    using inv r assms(4) unfolding core_inv_def runnable_ok_def by force
  then obtain it where w: "co_work (core_of s) i = Some it" by blast
  have it: "wq_get i (rd_work s) = Some it" "item_ok it"
    using w inv by (simp_all add: core_reads core_inv_def items_ok_def)
  let ?t = "max (wi_available_at it) (case wi_lease_expires_at it of None \<Rightarrow> wi_available_at it | Some e \<Rightarrow> e)"
  have "due now it" if "?t \<le> now" for now
    using that by (intro due_eventually [OF it(2)]) (auto split: option.splits)
  moreover have "\<not> parked (rn_status r)" using assms(4) by (auto simp: parked_status)
  ultimately show ?thesis
    by (intro exI [of _ ?t] allI impI, elim conjE)
       (rule ClaimNextRun_serves [OF log it(1) _ assms(3)]; simp)
qed

theorem runnable_runs_are_claimed_witness:
  "\<exists>t. \<forall>now w lease tokens. t \<le> now \<and> length (rd_work demo_queued) \<le> length tokens \<longrightarrow>
    (\<exists>k s'. ClaimNextRun w lease (length (rd_work demo_queued)) tokens now demo_queued = Inr (Some k, s'))"
proof -
  have "runs_get demo_run demo_queued = Some (the (runs_get demo_run demo_queued))"
    "rn_status (the (runs_get demo_run demo_queued)) = RunStatus.QUEUED" by code_simp+
  then show ?thesis using runnable_runs_are_claimed [OF demo_queued_path demo_inj] by blast
qed

section \<open>Claims\<close>

text \<open>
  C7: A claim that \<^verbatim>\<open>ClaimNextRun\<close> returns is exclusive: the work item was available and either
  unclaimed or its lease had run out, the item now carries the worker, the fresh token, the next
  generation and the new lease, the run was queued or running, and it is running now.\<close>

theorem claim_is_exclusive:
  assumes "fence_path run_system T (no_rows uuid) s"
    and "ClaimNextRun w lease n tokens now s = Inr (Some k, s')"
  shows "\<exists>it r r'.
    wq_get (rc_run_id (cr_claim k)) (rd_work s) = Some it \<and> wi_available_at it \<le> now \<and>
    (wi_claimed_by it = None \<or> (\<exists>e \<le> now. wi_lease_expires_at it = Some e)) \<and>
    wq_get (rc_run_id (cr_claim k)) (rd_work s') = Some (it\<lparr>
      wi_claimed_by := Some w, wi_claim_token := Some (rc_claim_token (cr_claim k)),
      wi_claim_generation := wi_claim_generation it + 1, wi_claimed_at := Some now,
      wi_heartbeat_at := Some now, wi_lease_expires_at := Some (now + lease)\<rparr>) \<and>
    rc_worker_id (cr_claim k) = w \<and> rc_claim_token (cr_claim k) \<in> set tokens \<and>
    rc_claim_generation (cr_claim k) = wi_claim_generation it + 1 \<and>
    runs_get (rc_run_id (cr_claim k)) s = Some r \<and>
    (rn_status r = RunStatus.QUEUED \<or> rn_status r = RunStatus.RUNNING) \<and>
    runs_get (rc_run_id (cr_claim k)) s' = Some r' \<and> rn_status r' = RunStatus.RUNNING"
proof -
  have "claim_won w now (now + lease) tokens (core_of s) (core_of s') k"
    using ClaimNextRun_post [OF conjunct1 [OF reachable_core [OF assms(1)]] assms(2)]
    by (simp add: claim_post_def)
  then show ?thesis
    by (auto simp: claim_won_def Let_def core_reads due_def lease_by_def take_claim_def parked_status
        split: option.splits)
qed

lemma demo_first_claim: "demo_first = Inr (fst (projr demo_first), demo_claimed)"
  unfolding demo_claimed_def by (rule committed_Inr [OF demo_commits(3)])

lemma demo_first_result:
  "fst (projr demo_first) = Some \<lparr>cr_claim = \<lparr>rc_run_id = demo_run, rc_worker_id = ''w1'', rc_claim_token = ''k1'',
     rc_claim_generation = 1\<rparr>, cr_task_id = Id (demo_uuid 0), cr_attempt_number = 1, cr_acquired_at = 10,
     cr_lease_expires_at = 70\<rparr>"
  by code_simp

theorem claim_is_exclusive_witness:
  "\<exists>it. wq_get demo_run (rd_work demo_claimed) = Some it \<and> wi_claimed_by it = Some ''w1'' \<and>
     wi_claim_token it = Some ''k1'' \<and> wi_lease_expires_at it = Some 70"
  using claim_is_exclusive [OF demo_queued_path
      demo_first_claim [unfolded demo_first_result, unfolded demo_first_def]]
  by auto

text \<open>
  C4: A worker that lost its run to another worker is fenced. After another claim of the run, and
  whatever the system does next, none of these transactions commits when the old claim is presented to
  it: renewing, releasing or requeueing, reporting failure or success, dispatching a delegation,
  requesting an approval, freezing the agent, or starting, confirming or finishing a tool action.
  Reporting that the run waits, for an approval or for a delegation, is refused while the run has a
  work item; without one the report may return normally, and then it has changed nothing. Tokens are
  not drawn twice.\<close>

theorem displaced_worker_is_fenced:
  assumes "fence_path run_system T (no_rows uuid) s"
    and "ClaimNextRun w lease n tokens now s = Inr (Some k', s1)"
    and "fence_path run_system U s1 s'"
    and "rc_run_id k = rc_run_id (cr_claim k')" and "rc_claim_token k \<notin> set tokens \<union> U"
  shows "isl (RenewRunLease lease' k t s') \<and> isl (ReleaseRunClaim k t s') \<and> isl (RequeueClaimedRun k available t s') \<and>
    isl (ApplyFailedOutcome policy k failure t s') \<and> isl (ApplySucceededOutcome k response t s') \<and>
    isl (DispatchDelegation sha256 kinds per_run per_tree max_depth k dispatch t s') \<and>
    isl (RequestToolApproval (cmd\<lparr>rq_run_id := rc_run_id k\<rparr>) (rc_worker_id k) (rc_claim_token k)
      (rc_claim_generation k) t s') \<and>
    isl (ResolveRunAgent sha256 kinds k clock later s') \<and>
    isl (begin_tool_action sha256 (act\<lparr>ta_claim := k\<rparr>) t s') \<and> isl (require_claim k t s') \<and>
    isl (finish_tool_action (act\<lparr>ta_claim := k\<rparr>) invocation result t s') \<and>
    (\<forall>r s''. ApplyWaitingOutcome k a t s' = Inr (r, s'') \<longrightarrow> s'' = s' \<and> wq_get (rc_run_id k) (rd_work s') = None) \<and>
    (\<forall>r s''. ApplyWaitingForDelegationOutcome k g t s' = Inr (r, s'') \<longrightarrow>
      s'' = s' \<and> wq_get (rc_run_id k) (rd_work s') = None)"
proof -
  have s: "db_keyed s" using reachable_core [OF assms(1)] by simp
  have won: "claim_won w now (now + lease) tokens (core_of s) (core_of s1) k'"
    using ClaimNextRun_post [OF s assms(2)] by (simp add: claim_post_def)
  note o = claim_won_owns [OF won]
  have t: "rc_claim_token (cr_claim k') \<in> set tokens" using won by (simp add: claim_won_def Let_def)
  have "refined (set tokens) s s1" using run_system_refined [OF run_system.claim [OF assms(2)]] .
  then have s1: "db_keyed s1" using s by (simp add: refined_def)
  with run_path_refined [OF assms(3)] have s': "db_keyed s'" and m: "moves U (core_of s1) (core_of s')"
    by (auto simp: refined_def)
  have "rc_claim_token k \<noteq> rc_claim_token (cr_claim k')" using assms(5) t by auto
  then have n: "\<not> core_owns (core_of s') k" using moves_displaced [OF m o assms(4)] assms(5) by simp
  with not_owner_keeps [OF s'] not_owner_outcomes [OF s'] not_owner_tools
    wpD [OF not_owner_waiting(1) [OF s' n]] wpD [OF not_owner_waiting(2) [OF s' n]] show ?thesis by simp
qed

lemma demo_second_claim:
  "\<exists>k. demo_second = Inr (Some k, committed demo_second) \<and> rc_run_id (cr_claim k) = demo_run"
proof -
  have "fst (projr demo_second) \<noteq> None" "map_option (\<lambda>k. rc_run_id (cr_claim k)) (fst (projr demo_second)) = Some demo_run"
    by code_simp+
  with committed_Inr [OF demo_commits(4)] show ?thesis by force
qed

text \<open>
  The second worker asks for an approval, which parks the run and removes its work item. The first one
  still cannot renew its lease, but its report that the run waits returns normally.\<close>

definition demo_second_claimed :: run_db where
  "demo_second_claimed = committed demo_second"

definition demo_lost :: RunClaim where
  "demo_lost = \<lparr>rc_run_id = demo_run, rc_worker_id = ''w1'', rc_claim_token = ''k1'', rc_claim_generation = 1\<rparr>"

definition demo_request :: RequestApprovalCommand where
  "demo_request = \<lparr>rq_run_id = demo_run, rq_category = TOOL_EXECUTION, rq_summary = ''send mail'', rq_reason = [],
     rq_requested_action = ''mail.send'', rq_requested_input = PyNone, rq_step_id = None, rq_expires_at = None,
     rq_authorization_fingerprint = Some (replicate 64 (CHR ''a''))\<rparr>"

definition demo_parked :: run_db where
  "demo_parked = committed (RequestToolApproval demo_request ''w2'' ''k2'' 2 110 demo_second_claimed)"

definition demo_parked_for :: ApprovalRequestId where
  "demo_parked_for = ap_id (hd (rd_approvals demo_parked))"

lemma demo_parked_path: "fence_path run_system {} demo_second_claimed demo_parked"
proof -
  have "\<not> isl (RequestToolApproval demo_request ''w2'' ''k2'' 2 110 demo_second_claimed)" by code_simp
  from run_system.request_tool_approval [OF committed_Inr [OF this]]
  have "run_system {} demo_second_claimed demo_parked" by (simp add: demo_parked_def)
  then show ?thesis by (rule path_step [OF fence_path.stay]) simp
qed

theorem displaced_worker_is_fenced_witness:
  "isl (RenewRunLease 60 demo_lost 120 demo_parked) \<and>
   (\<exists>r. ApplyWaitingOutcome demo_lost demo_parked_for 120 demo_parked = Inr (r, demo_parked))"
proof -
  obtain k where k: "demo_second = Inr (Some k, demo_second_claimed)" "rc_run_id (cr_claim k) = demo_run"
    using demo_second_claim by (auto simp: demo_second_claimed_def)
  have l: "rc_run_id demo_lost = rc_run_id (cr_claim k)" "rc_claim_token demo_lost \<notin> set [''k2''] \<union> {}"
    using k(2) by (simp_all add: demo_lost_def)
  note fenced = displaced_worker_is_fenced [OF demo_claimed_path k(1) [unfolded demo_second_def] demo_parked_path l, of 60 120]
  have "\<not> isl (ApplyWaitingOutcome demo_lost demo_parked_for 120 demo_parked)" by code_simp
  from committed_Inr [OF this] fenced [where a = demo_parked_for] show ?thesis by metis
qed

section \<open>History\<close>

text \<open>
  C10: History is final. A terminal run, an approval that was refused or granted and used, and a
  settled delegation keep every field, whatever the system does next.\<close>

theorem finished_rows_are_final:
  assumes "fence_path run_system T (no_rows uuid) s" and "fence_path run_system U s s'"
  shows "(runs_get i s = Some r \<and> rn_status r \<in> set TERMINAL_RUN_STATUSES \<longrightarrow> runs_get i s' = Some r) \<and>
    (approvals_get a s = Some p \<and> ap_status p \<in> set TERMINAL_APPROVAL_STATUSES \<and>
       (ap_status p = ApprovalStatus.APPROVED \<longrightarrow> ap_consumed_at p \<noteq> None) \<longrightarrow> approvals_get a s' = Some p) \<and>
    (delegations_get g s = Some d \<and> dg_status d \<in> set TERMINAL_DELEGATION_STATUSES \<longrightarrow>
       delegations_get g s' = Some d)"
proof -
  have "db_keyed s" "core_keys (core_of s)" using reachable_core [OF assms(1)] by (simp_all add: core_inv_def)
  then have "core_final (core_of s) (core_of s')"
    using run_path_refined [OF assms(2)] by (auto simp: refined_def intro: moves_final)
  then show ?thesis
    by (simp add: core_final_def keeps_def core_reads run_over_def approval_over_def delegation_over_def)
qed

text \<open>
  C13: The event stream of a run is numbered 1, 2, 3, ... without gaps and only grows: what a client
  read stays, in the same order.\<close>

theorem run_events_are_contiguous:
  assumes "fence_path run_system T (no_rows uuid) s" and "fence_path run_system U s s'"
  shows "map ev_sequence (run_events i s) = [1..int (length (run_events i s))] \<and>
    (\<exists>es. run_events i s' = run_events i s @ es)"
proof -
  have ok: "events_ok s" using run_path_logged [OF assms(1)] no_rows_events by (auto simp: logged_def)
  then have m: "map ev_sequence (run_events i s) = [1..next_sequence i s - 1]" "1 \<le> next_sequence i s"
    by (simp_all add: events_ok_def)
  then have "length (run_events i s) = nat (next_sequence i s - 1)" by (metis length_map length_upto diff_add_cancel)
  with m have "map ev_sequence (run_events i s) = [1..int (length (run_events i s))]" by simp
  then show ?thesis using run_path_logged [OF assms(2)] ok by (simp add: logged_def)
qed

definition demo_stepped :: run_db where
  "demo_stepped = committed (CreateOrderedStep demo_run ''step'' 15 demo_claimed)"

definition demo_cancelled :: run_db where
  "demo_cancelled = committed (CancelRun demo_run 20 demo_stepped)"

lemma demo_cancel_commits:
  "\<not> isl (CreateOrderedStep demo_run ''step'' 15 demo_claimed)" "\<not> isl (CancelRun demo_run 20 demo_stepped)"
  by code_simp+

lemma demo_stepped_path: "fence_path run_system {} demo_claimed demo_stepped"
  by (rule path_step [OF fence_path.stay run_system.create_step [OF committed_Inr [OF demo_cancel_commits(1)],
        folded demo_stepped_def]]) simp

lemma demo_cancel: "run_system {} demo_stepped demo_cancelled"
  unfolding demo_cancelled_def by (rule run_system.cancel_run [OF committed_Inr [OF demo_cancel_commits(2)]])

lemma demo_cancel_path: "fence_path run_system {} demo_claimed demo_cancelled"
  by (rule path_step [OF demo_stepped_path demo_cancel]) simp

lemma demo_cancelled_path: "fence_path run_system {''k1''} (no_rows demo_uuid) demo_cancelled"
  using fence_path_trans [OF demo_cancel_path demo_claimed_path] by simp

theorem finished_rows_are_final_witness:
  "\<exists>r. runs_get demo_run demo_cancelled = Some r \<and> rn_status r = RunStatus.CANCELLED \<and>
     (\<forall>U s'. fence_path run_system U demo_cancelled s' \<longrightarrow> runs_get demo_run s' = Some r)"
proof -
  have "map_option rn_status (runs_get demo_run demo_cancelled) = Some RunStatus.CANCELLED" by code_simp
  then obtain r where r: "runs_get demo_run demo_cancelled = Some r" "rn_status r = RunStatus.CANCELLED" by blast
  have "runs_get demo_run s' = Some r" if "fence_path run_system U demo_cancelled s'" for U s'
    using finished_rows_are_final [OF demo_cancelled_path that, of demo_run r] r by (simp add: TERMINAL_RUN_STATUSES_def)
  with r show ?thesis by blast
qed

theorem run_events_are_contiguous_witness:
  "map ev_sequence (run_events demo_run demo_claimed) = [1, 2] \<and>
   (\<exists>es. run_events demo_run demo_cancelled = run_events demo_run demo_claimed @ es)"
proof -
  have "length (run_events demo_run demo_claimed) = 2" by code_simp
  then show ?thesis
    using run_events_are_contiguous [OF demo_claimed_path demo_cancel_path, of demo_run]
    by (simp add: upto.simps)
qed

section \<open>The end of a run\<close>

text \<open>
  C11: The steps and tool invocations of a run end with it: under a run that succeeded, failed or was
  cancelled no step and no tool invocation is pending, running or waiting.\<close>

theorem children_end_with_their_run:
  assumes "fence_path run_system T (no_rows uuid) s"
    and "runs_get i s = Some r" and "rn_status r \<in> set TERMINAL_RUN_STATUSES"
  shows "(\<forall>st \<in> set (rd_steps s). st_run_id st = i \<longrightarrow> st_status st \<in> set TERMINAL_RUN_STEP_STATUSES) \<and>
    (\<forall>t \<in> set (rd_tools s). ti_run_id t = i \<longrightarrow> ti_status t \<in> set TERMINAL_TOOL_INVOCATION_STATUSES)"
proof -
  have "\<not> open_child i s" using reachable_closed [OF assms(1)] assms(2,3) by (auto simp: closed_def ended_def)
  then show ?thesis by (auto simp: open_child_def step_open_def tool_open_def)
qed

theorem children_end_with_their_run_witness:
  "\<exists>st \<in> set (rd_steps demo_cancelled). st_run_id st = demo_run \<and> st_status st = RunStepStatus.CANCELLED \<and>
     st_status st \<in> set TERMINAL_RUN_STEP_STATUSES"
proof -
  have "map_option rn_status (runs_get demo_run demo_cancelled) = Some RunStatus.CANCELLED" by code_simp
  then obtain r where r: "runs_get demo_run demo_cancelled = Some r" "rn_status r \<in> set TERMINAL_RUN_STATUSES"
    by (auto simp: TERMINAL_RUN_STATUSES_def)
  have "list_ex (\<lambda>st. st_run_id st = demo_run \<and> st_status st = RunStepStatus.CANCELLED) (rd_steps demo_cancelled)"
    by code_simp
  then show ?thesis using children_end_with_their_run [OF demo_cancelled_path r] by (auto simp: list_ex_iff)
qed

text \<open>
  C12: Cancelling a run that is not finished leaves nothing that could act on it: the run is cancelled,
  it has no work item, and none of its approvals is pending.\<close>

theorem cancel_leaves_no_work:
  assumes "fence_path run_system T (no_rows uuid) s"
    and "runs_get i s = Some r0" and "rn_status r0 \<notin> set TERMINAL_RUN_STATUSES"
    and "CancelRun i now s = Inr (r, s')"
  shows "runs_get i s' = Some r \<and> rn_status r = RunStatus.CANCELLED \<and> wq_get i (rd_work s') = None \<and>
    (\<forall>p \<in> set (rd_approvals s'). ap_run_id p = Some i \<longrightarrow> ap_status p \<noteq> ApprovalStatus.PENDING)"
proof -
  have k: "db_keyed s" using reachable_core [OF assms(1)] by simp
  have "cancel_run_in_uow r0 now s = Inr (r, s')"
    using assms(2-4)
    by (auto simp: CancelRun_def tx_bind_def tx_get_def tx_found_def tx_return_def tx_raise_def tx_guard_def
        TERMINAL_RUN_STATUSES_def split: if_splits)
  from wpD [OF wp_cancel_run_in_uow [OF k] this] run_row_id [OF assms(2)] show ?thesis
    by (auto simp: run_cancelled_def pending_for_def core_reads)
qed

theorem cancel_leaves_no_work_witness: "wq_get demo_run (rd_work demo_cancelled) = None"
proof -
  have "map_option rn_status (runs_get demo_run demo_stepped) = Some RunStatus.RUNNING" by code_simp
  then obtain r where r: "runs_get demo_run demo_stepped = Some r" "rn_status r \<notin> set TERMINAL_RUN_STATUSES"
    by (auto simp: TERMINAL_RUN_STATUSES_def)
  have p: "fence_path run_system {''k1''} (no_rows demo_uuid) demo_stepped"
    using fence_path_trans [OF demo_stepped_path demo_claimed_path] by simp
  show ?thesis
    using cancel_leaves_no_work [OF p r committed_Inr [OF demo_cancel_commits(2)], folded demo_cancelled_def] by simp
qed

end
