(* ===== verification/Run_Results.thy ===== *)
theory Run_Results
  imports Run_Properties
begin

text \<open>
  What a worker's report and the recovery of expired leases leave behind, in every database the run
  system reaches: a failed attempt is retried exactly when the policy allows it, and no claim outlives
  its lease once recovery has looked at the queue.\<close>

section \<open>Failed attempts\<close>

text \<open>Whatever follows in the transaction, the failed attempt stays stored and without work.\<close>

lemma failed_attempt_gone:
  assumes "core_inv (core_of s)" and a: "attempt_failed i f s r s1"
    and b: "retry_queued policy n r now (core_of s1) (core_of s') \<or> moves {} (core_of s1) (core_of s')"
  shows "runs_get i s' = Some r \<and> wq_get i (rd_work s') = None"
proof -
  have r: "rn_id r = i" "run_over r" and c1: "core_of s1 = put_run r (put_item i None (core_of s))"
    using a by (simp_all add: attempt_failed_def run_over_def TERMINAL_RUN_STATUSES_def)
  have "core_keys (core_of s1)" using assms(1) unfolding c1 core_inv_def by (intro keys_put) simp_all
  from b show ?thesis
  proof
    assume "retry_queued policy n r now (core_of s1) (core_of s')"
    then obtain q t where "co_runs (core_of s1) (rn_id q) = None"
      "core_of s' = enqueue_run (rn_id q) t now (put_run q (core_of s1))" by (auto simp: retry_queued_def)
    with c1 r show ?thesis by (auto simp: core_reads core_put)
  next
    assume "moves {} (core_of s1) (core_of s')"
    from moves_no_item [OF this \<open>core_keys (core_of s1)\<close>, of i r] c1 r show ?thesis by (simp add: core_reads core_put)
  qed
qed

text \<open>
  C8: A failed attempt is stored as failed with the reported failure, and its work item is gone. If the
  policy allows another attempt at this attempt's position in its execution, the transaction queues
  exactly that: a fresh run of the same task and execution whose unclaimed work item becomes available
  after the delay the policy computes. If not, no run is created.\<close>

theorem failed_attempts_are_retried:
  assumes "fence_path run_system T (no_rows uuid) s"
    and "ApplyFailedOutcome policy c f now s = Inr (r, s')"
    and "n = runs_ordinal_for_execution (rc_run_id c) s"
  shows "rn_status r = RunStatus.FAILED \<and> rn_failure r = Some f \<and>
    runs_get (rc_run_id c) s' = Some r \<and> wq_get (rc_run_id c) (rd_work s') = None \<and>
    (is_retry_allowed policy n f \<longrightarrow>
      (\<exists>q w d. runs_get (rn_id q) s = None \<and> runs_get (rn_id q) s' = Some q \<and> rn_status q = RunStatus.QUEUED \<and>
        rn_task_id q = rn_task_id r \<and> rn_execution_id q = rn_execution_id r \<and>
        wq_get (rn_id q) (rd_work s') = Some w \<and> wi_claimed_by w = None \<and>
        compute_delay policy (n + 1) = Inr d \<and> wi_available_at w = now + d)) \<and>
    (\<not> is_retry_allowed policy n f \<longrightarrow> (\<forall>j. runs_get j s = None \<longrightarrow> runs_get j s' = None))"
proof -
  let ?i = "rc_run_id c"
  have inv: "core_inv (core_of s)" and k: "db_keyed s" using reachable_core [OF assms(1)] by simp_all
  obtain s1 run where a: "attempt_failed ?i f s r s1" and old: "runs_get ?i s = Some run"
    and b: "if is_retry_allowed policy n f then retry_queued policy n r now (core_of s1) (core_of s')
      else moves {} (core_of s1) (core_of s') \<and> no_new_run s1 s'"
    using wpD [OF wp_ApplyFailedOutcome [OF k] assms(2)] assms(3) by (auto simp: failed_outcome_def)
  have r: "rn_id r = ?i" and c1: "core_of s1 = put_run r (put_item ?i None (core_of s))"
    using a by (simp_all add: attempt_failed_def)
  have none: "runs_get j s1 = None \<longleftrightarrow> runs_get j s = None" for j
    using old r c1 by (auto simp: core_reads core_put)
  have idle: "co_work (core_of s) j = None" if "runs_get j s = None" for j
    using inv that items_okD [of "core_of s" j] by (cases "co_work (core_of s) j") (simp_all add: core_inv_def core_reads)
  have gone: "runs_get ?i s' = Some r \<and> wq_get ?i (rd_work s') = None"
    using b by (intro failed_attempt_gone [OF inv a, of policy n now]) (simp split: if_splits)
  show ?thesis
  proof (intro conjI impI)
    assume "is_retry_allowed policy n f"
    with b obtain q d where q: "co_runs (core_of s1) (rn_id q) = None" "rn_status q = RunStatus.QUEUED"
      "rn_task_id q = rn_task_id r" "rn_execution_id q = rn_execution_id r" "compute_delay policy (n + 1) = Inr d"
      and c2: "core_of s' = enqueue_run (rn_id q) (now + d) now (put_run q (core_of s1))"
      by (auto simp: retry_queued_def)
    have new: "runs_get (rn_id q) s = None" "rn_id q \<noteq> ?i" using q(1) none [of "rn_id q"] old by (auto simp: core_reads)
    show "\<exists>q w d. runs_get (rn_id q) s = None \<and> runs_get (rn_id q) s' = Some q \<and> rn_status q = RunStatus.QUEUED \<and>
        rn_task_id q = rn_task_id r \<and> rn_execution_id q = rn_execution_id r \<and>
        wq_get (rn_id q) (rd_work s') = Some w \<and> wi_claimed_by w = None \<and>
        compute_delay policy (n + 1) = Inr d \<and> wi_available_at w = now + d"
      using q c1 c2 new idle [OF new(1)]
      by (intro exI [of _ q] exI [of _ "new_item (rn_id q) (now + d) now"] exI [of _ d])
         (simp add: core_reads core_put enqueued_def new_item_def)
  next
    show "rn_status r = RunStatus.FAILED" "rn_failure r = Some f" using a by (simp_all add: attempt_failed_def)
    show "runs_get ?i s' = Some r" "wq_get ?i (rd_work s') = None" using gone by simp_all
  next
    assume "\<not> is_retry_allowed policy n f"
    with b none show "\<forall>j. runs_get j s = None \<longrightarrow> runs_get j s' = None" by (simp add: no_new_run_def)
  qed
qed

definition demo_policy :: RetryPolicy where
  "demo_policy = \<lparr>rp_max_attempts = 3, rp_base_delay = 5, rp_multiplier = 2, rp_max_delay = 30\<rparr>"

definition demo_failure :: Failure where
  "demo_failure = \<lparr>fl_code = ''timeout'', fl_message = ''late'', fl_retryable = True, fl_cause = TIMEOUT, fl_details = PyNone\<rparr>"

definition demo_claim :: RunClaim where
  "demo_claim = \<lparr>rc_run_id = demo_run, rc_worker_id = ''w1'', rc_claim_token = ''k1'', rc_claim_generation = 1\<rparr>"

definition demo_failed :: "app_error + Run \<times> run_db" where
  "demo_failed = ApplyFailedOutcome demo_policy demo_claim demo_failure 30 demo_claimed"

theorem failed_attempts_are_retried_witness:
  "\<exists>r s' q w. ApplyFailedOutcome demo_policy demo_claim demo_failure 30 demo_claimed = Inr (r, s') \<and>
     rn_status r = RunStatus.FAILED \<and> runs_get (rn_id q) s' = Some q \<and> rn_status q = RunStatus.QUEUED \<and>
     wq_get (rn_id q) (rd_work s') = Some w \<and> wi_available_at w = 35"
proof -
  have "\<not> isl demo_failed" by code_simp
  then have e: "ApplyFailedOutcome demo_policy demo_claim demo_failure 30 demo_claimed =
    Inr (fst (projr demo_failed), committed demo_failed)" unfolding demo_failed_def by (rule committed_Inr)
  have "runs_ordinal_for_execution (rc_run_id demo_claim) demo_claimed = 1" "is_retry_allowed demo_policy 1 demo_failure"
    "compute_delay demo_policy 2 = Inr 5" by code_simp+
  with failed_attempts_are_retried [OF demo_claimed_path e refl] e show ?thesis by auto
qed

section \<open>Expired leases\<close>

text \<open>
  C9: Recovery with a batch at least as long as the queue always commits, changes no run and leaves no
  work item that carries a claim whose lease has run out, while every queued or running run still has
  its work item.\<close>

theorem recovery_leaves_no_expired_claim:
  assumes "fence_path run_system T (no_rows uuid) s" and "length (rd_work s) \<le> n"
  shows "\<exists>m s'. RecoverExpiredLeases n now s = Inr (m, s') \<and>
    (\<forall>i. runs_get i s' = runs_get i s) \<and> (\<forall>w \<in> set (rd_work s'). \<not> expired now w) \<and>
    (\<forall>i r. runs_get i s = Some r \<and> rn_status r \<in> {RunStatus.QUEUED, RunStatus.RUNNING} \<longrightarrow> wq_get i (rd_work s') \<noteq> None)"
proof -
  let ?xs = "wq_find_expired_claims now n (rd_work s)"
  have inv: "core_inv (core_of s)" and k: "db_keyed s" using reachable_core [OF assms(1)] by simp_all
  obtain m s' where e: "RecoverExpiredLeases n now s = Inr (m, s')" using recover_returns by blast
  have "wp (RecoverExpiredLeases n now)
      (\<lambda>m s'. db_keyed s' \<and> all_recovered now ?xs (core_of s) (core_of s')) s"
    unfolding RecoverExpiredLeases_def wp_bind wp_get wp_return by (rule wp_recover_all [OF k])
  from wpD [OF this e] have k': "db_keyed s'" and a: "all_recovered now ?xs (core_of s) (core_of s')" by simp_all
  have "\<not> expired now w" if "w \<in> set (rd_work s')" for w
  proof
    assume x: "expired now w"
    have "co_work (core_of s') (wi_run_id w) = Some w" using k' that keyed_get [of wi_run_id "rd_work s'" w]
      by (simp add: core_of_def wq_get_def db_keyed_def)
    with a x have y: "wi_run_id w \<notin> wi_run_id ` set ?xs" and o: "wq_get (wi_run_id w) (rd_work s) = Some w"
      by (auto simp: all_recovered_def core_reads)
    have "length (filter (expired now) (rd_work s)) \<le> n" using assms(2) by (rule order_trans [OF length_filter_le])
    then have "w \<in> set ?xs" using o x get_row_in [of wi_run_id "wi_run_id w" "rd_work s" w]
      by (simp add: wq_find_expired_claims_def wq_get_def)
    with y show False by blast
  qed
  moreover have "wq_get i (rd_work s') \<noteq> None"
    if "runs_get i s = Some r" "rn_status r \<in> {RunStatus.QUEUED, RunStatus.RUNNING}" for i r
  proof -
    have "co_work (core_of s) i \<noteq> None"
      using inv that unfolding core_inv_def runnable_ok_def by (force simp: core_reads)
    with a that show ?thesis by (auto simp: all_recovered_def parked_status core_reads)
  qed
  ultimately show ?thesis using e a by (auto simp: all_recovered_def core_reads)
qed

theorem recovery_leaves_no_expired_claim_witness:
  "list_ex (expired 100) (rd_work demo_claimed) \<and>
   (\<exists>m s'. RecoverExpiredLeases 50 100 demo_claimed = Inr (m, s') \<and>
     (\<forall>w \<in> set (rd_work s'). \<not> expired 100 w) \<and> wq_get demo_run (rd_work s') \<noteq> None)"
proof -
  have "list_ex (expired 100) (rd_work demo_claimed)" by code_simp
  moreover have "map_option rn_status (runs_get demo_run demo_claimed) = Some RunStatus.RUNNING" by code_simp
  moreover have "length (rd_work demo_claimed) \<le> 50" by code_simp
  ultimately show ?thesis using recovery_leaves_no_expired_claim [OF demo_claimed_path, of 50 100] by fastforce
qed

end
