(* ===== verification/Json_Decoding.thy ===== *)
theory Json_Decoding
  imports Canonical_Json
begin

text \<open>
  Canonical JSON text determines the value. Every printed value can be read off the front of a text
  that continues with a delimiter, so two values with the same text are equal; with sorted keys, two
  values have the same canonical text exactly when they differ in the order of keys only. Finite
  floats are printed as their \<^verbatim>\<open>repr\<close>, of which \<open>float_repr\<close> states the shape.
\<close>

definition num_char :: "char \<Rightarrow> bool" where
  "num_char c \<longleftrightarrow> c \<in> set ''0123456789.e+-''"

definition float_repr :: "string \<Rightarrow> bool" where
  "float_repr r \<longleftrightarrow> r \<noteq> [] \<and> hd r \<in> set ''-0123456789'' \<and> list_all num_char r \<and>
     (CHR ''.'' \<in> set r \<or> CHR ''e'' \<in> set r)"

fun json_text_ok :: "pyval \<Rightarrow> bool" where
  "json_text_ok (PyFloat f) \<longleftrightarrow> (case f of Finite r \<Rightarrow> float_repr r | _ \<Rightarrow> False)"
| "json_text_ok (PyList xs) \<longleftrightarrow> list_all json_text_ok xs"
| "json_text_ok (PyDict es) \<longleftrightarrow> list_all (\<lambda>(k, x). (case k of PyStr s \<Rightarrow> True | _ \<Rightarrow> False) \<and> json_text_ok x) es"
| "json_text_ok (PyOther t) \<longleftrightarrow> False"
| "json_text_ok _ \<longleftrightarrow> True"

section \<open>Numbers\<close>

definition digit_value :: "char \<Rightarrow> nat" where
  "digit_value c = of_char c - 48"

lemma digit_value_nth: "n < 10 \<Longrightarrow> digit_value (''0123456789'' ! n) = n"
proof -
  assume "n < 10"
  then have "n \<in> set [0..<10]" by simp
  then show ?thesis by (simp add: upt_rec digit_value_def) auto
qed

lemma show_nat_value: "foldl (\<lambda>acc c. 10 * acc + digit_value c) 0 (show_nat n) = n"
proof (induction n rule: show_nat.induct)
  case (1 n)
  show ?case
  proof (cases "n < 10")
    case True
    then show ?thesis by (subst show_nat.simps) (simp add: digit_value_nth)
  next
    case False
    then show ?thesis using 1 by (subst show_nat.simps) (simp add: digit_value_nth)
  qed
qed

lemma show_nat_inj: "show_nat m = show_nat n \<longleftrightarrow> m = n"
  using show_nat_value [of m] show_nat_value [of n] by metis

lemma show_nat_not_Nil: "show_nat n \<noteq> []"
  by (subst show_nat.simps) simp

lemma show_nat_hd: "hd (show_nat n) \<in> set ''0123456789''"
  using show_nat_digits [of n] show_nat_not_Nil [of n] by (cases "show_nat n") auto

lemma show_int_inj: "show_int i = show_int j \<longleftrightarrow> i = j"
proof
  assume e: "show_int i = show_int j"
  have n: "show_nat k \<noteq> CHR ''-'' # show_nat m" for k m
    using show_nat_hd [of k] by (cases "show_nat k") auto
  show "i = j" using e n [of "nat i" "nat (- j)"] n [of "nat j" "nat (- i)"]
    by (auto simp: show_int_def show_nat_inj split: if_splits)
qed simp

lemma show_int_chars: "set (show_int i) \<subseteq> set ''-0123456789''" "show_int i \<noteq> []"
proof -
  have "set (show_nat n) \<subseteq> set ''-0123456789''" for n
    using subset_trans [OF show_nat_digits, of "set ''-0123456789''" n] by simp
  then show "set (show_int i) \<subseteq> set ''-0123456789''" by (simp add: show_int_def)
  show "show_int i \<noteq> []" by (simp add: show_int_def show_nat_not_Nil)
qed

section \<open>Strings\<close>

lemma of_char_inj: "(of_char c :: nat) = of_char d \<Longrightarrow> c = d"
  by simp

lemma hex_digit_inj: "m < 16 \<Longrightarrow> n < 16 \<Longrightarrow> hex_digit m = hex_digit n \<Longrightarrow> m = n"
proof -
  have "distinct ''0123456789abcdef''" by simp
  then show "m < 16 \<Longrightarrow> n < 16 \<Longrightarrow> hex_digit m = hex_digit n \<Longrightarrow> m = n"
    unfolding hex_digit_def by (subst (asm) nth_eq_iff_index_eq) simp_all
qed

text \<open>The code of one character: itself, a two-character escape, or a six-character escape.\<close>

definition short_escapes :: "(nat \<times> char) list" where
  "short_escapes = [(34, CHR 0x22), (92, CHR 0x5C), (10, CHR ''n''), (13, CHR ''r''), (9, CHR ''t''), (12, CHR ''f''), (8, CHR ''b'')]"

lemma json_escape_alt:
  "json_escape a c = (case map_of short_escapes (of_char c) of
     Some x \<Rightarrow> [CHR 0x5C, x]
   | None \<Rightarrow> if (of_char c :: nat) < 32 \<or> a \<and> 126 < (of_char c :: nat)
       then CHR 0x5C # ''u00'' @ [hex_digit (of_char c div 16), hex_digit (of_char c mod 16)] else [c])"
  by (simp add: json_escape_def short_escapes_def Let_def)

lemma json_escape_cases:
  obtains (plain) "json_escape a c = [c]" "c \<noteq> CHR 0x5C" "c \<noteq> CHR 0x22"
  | (short) x where "json_escape a c = [CHR 0x5C, x]" "(of_char c, x) \<in> set short_escapes"
  | (long) "json_escape a c = CHR 0x5C # ''u00'' @ [hex_digit (of_char c div 16), hex_digit (of_char c mod 16)]"
proof (cases "map_of short_escapes (of_char c)")
  case None
  then have n: "c \<noteq> CHR 0x5C" "c \<noteq> CHR 0x22" by (auto simp: short_escapes_def)
  show ?thesis
  proof (cases "(of_char c :: nat) < 32 \<or> a \<and> 126 < (of_char c :: nat)")
    case True
    with None show ?thesis by (intro long) (simp add: json_escape_alt)
  next
    case False
    with None n show ?thesis by (intro plain) (simp_all add: json_escape_alt)
  qed
next
  case (Some x)
  show ?thesis by (rule short [OF _ map_of_SomeD [OF Some]]) (simp add: json_escape_alt Some)
qed

lemma json_escape_prefix:
  assumes "json_escape a c @ u = json_escape a d @ v"
  shows "c = d \<and> u = v"
proof -
  have h: "(of_char x :: nat) div 16 < 16" "(of_char x :: nat) mod 16 < 16" for x :: char
    using nat_of_char_less_256 [of x] by (simp_all add: less_mult_imp_div_less)
  have s: "x \<noteq> CHR ''u''" if "(n, x) \<in> set short_escapes" for n x
    using that by (auto simp: short_escapes_def)
  have i: "n = m" if "(n, x) \<in> set short_escapes" "(m, x) \<in> set short_escapes" for n m x
    using that by (auto simp: short_escapes_def)
  show ?thesis
  proof (cases a c rule: json_escape_cases)
    case plain
    then show ?thesis using assms by (cases a d rule: json_escape_cases) auto
  next
    case c: (short x)
    show ?thesis
    proof (cases a d rule: json_escape_cases)
      case plain
      then show ?thesis using assms c(1) by simp
    next
      case (short y)
      then have "y = x" "u = v" using assms c(1) by simp_all
      then show ?thesis using of_char_inj [OF i [OF c(2)], of d] short(2) by simp
    next
      case long
      then show ?thesis using assms c(1) s [OF c(2)] by simp
    qed
  next
    case long
    show ?thesis
    proof (cases a d rule: json_escape_cases)
      case plain
      then show ?thesis using assms long by simp
    next
      case (short x)
      then show ?thesis using assms long s [OF short(2)] by simp
    next
      case long': long
      have "(of_char c :: nat) div 16 = of_char d div 16" "(of_char c :: nat) mod 16 = of_char d mod 16" "u = v"
        using assms long long' hex_digit_inj [OF h(1) h(1), of c d] hex_digit_inj [OF h(2) h(2), of c d] by simp_all
      then have "(of_char c :: nat) = of_char d" by (metis div_mult_mod_eq)
      with \<open>u = v\<close> show ?thesis using of_char_inj by blast
    qed
  qed
qed

lemma json_escape_hd: "\<exists>x xs. json_escape a c = x # xs \<and> x \<noteq> CHR 0x22"
  by (cases a c rule: json_escape_cases) auto

lemma json_string_prefix: "json_string a s @ u = json_string a t @ v \<Longrightarrow> s = t \<and> u = v"
proof -
  have "concat (map (json_escape a) s) @ CHR 0x22 # u = concat (map (json_escape a) t) @ CHR 0x22 # v \<Longrightarrow> s = t \<and> u = v"
  proof (induction s arbitrary: t)
    case Nil
    then show ?case using json_escape_hd [of a "hd t"] by (cases t) auto
  next
    case (Cons c s)
    show ?case
    proof (cases t)
      case Nil
      then show ?thesis using Cons.prems json_escape_hd [of a c] by auto
    next
      case (Cons d t')
      then show ?thesis using Cons.prems Cons.IH [of t'] json_escape_prefix [of a c _ d] by fastforce
    qed
  qed
  then show "json_string a s @ u = json_string a t @ v \<Longrightarrow> s = t \<and> u = v" by (simp add: json_string_def)
qed

section \<open>Separated items\<close>

definition delimited :: "string \<Rightarrow> bool" where
  "delimited u \<longleftrightarrow> u = [] \<or> hd u \<in> set '',]}''"

text \<open>A printer whose output can be read off the front of a text that continues with a delimiter.\<close>

definition decodes :: "('a \<Rightarrow> string) \<Rightarrow> 'a \<Rightarrow> 'a \<Rightarrow> bool" where
  "decodes p x y \<longleftrightarrow> (\<forall>u v. delimited u \<longrightarrow> delimited v \<longrightarrow> p x @ u = p y @ v \<longrightarrow> x = y \<and> u = v)"

lemma decodesD: "decodes p x y \<Longrightarrow> delimited u \<Longrightarrow> delimited v \<Longrightarrow> p x @ u = p y @ v \<Longrightarrow> x = y \<and> u = v"
  by (simp add: decodes_def)

lemma comma_sep_Cons: "comma_sep (x # xs) = x @ concat (map (Cons (CHR '','')) xs)"
  by (induction xs arbitrary: x) auto

lemma delimited_items: "c \<in> set '']}'' \<Longrightarrow> delimited (concat (map (\<lambda>x. CHR '','' # p x) xs) @ c # u)"
  by (cases xs) (auto simp: delimited_def)

lemma items_prefix:
  assumes "c \<in> set '']}''" and "\<And>x y. x \<in> set xs \<Longrightarrow> y \<in> set ys \<Longrightarrow> decodes p x y"
    and "concat (map (\<lambda>x. CHR '','' # p x) xs) @ c # u = concat (map (\<lambda>x. CHR '','' # p x) ys) @ c # v"
  shows "xs = ys \<and> u = v"
  using assms(2,3)
proof (induction xs arbitrary: ys)
  case Nil
  then show ?case using assms(1) by (cases ys) auto
next
  case (Cons x xs)
  show ?case
  proof (cases ys)
    case Nil
    then show ?thesis using Cons.prems(2) assms(1) by auto
  next
    case ys: (Cons y ys')
    have "x = y \<and> concat (map (\<lambda>x. CHR '','' # p x) xs) @ c # u = concat (map (\<lambda>x. CHR '','' # p x) ys') @ c # v"
      by (rule decodesD [OF Cons.prems(1) delimited_items [OF assms(1)] delimited_items [OF assms(1)]])
         (use Cons.prems(2) ys in auto)
    with Cons.IH [of ys'] Cons.prems(1) ys show ?thesis by simp
  qed
qed

lemma comma_sep_prefix:
  assumes c: "c \<in> set '']}''" and d: "\<And>x y. x \<in> set xs \<Longrightarrow> y \<in> set ys \<Longrightarrow> decodes p x y"
    and h: "\<And>x. x \<in> set xs \<union> set ys \<Longrightarrow> p x \<noteq> [] \<and> hd (p x) \<noteq> c"
    and e: "comma_sep (map p xs) @ c # u = comma_sep (map p ys) @ c # v"
  shows "xs = ys \<and> u = v"
proof (cases xs)
  case Nil
  then show ?thesis using e h [of "hd ys"] by (cases ys; cases "p (hd ys)") (auto simp: comma_sep_Cons)
next
  case x: (Cons x xs')
  show ?thesis
  proof (cases ys)
    case Nil
    then show ?thesis using e h [of x] x by (cases "p x") (auto simp: comma_sep_Cons)
  next
    case y: (Cons y ys')
    let ?t = "\<lambda>zs. concat (map (\<lambda>z. CHR '','' # p z) zs)"
    have "p x @ ?t xs' @ c # u = p y @ ?t ys' @ c # v" using e x y by (simp add: comma_sep_Cons comp_def)
    then have "x = y \<and> ?t xs' @ c # u = ?t ys' @ c # v"
      using x y by (intro decodesD [OF d delimited_items [OF c] delimited_items [OF c]]) auto
    moreover have "xs' = ys' \<and> u = v" if "?t xs' @ c # u = ?t ys' @ c # v"
      by (rule items_prefix [OF c _ that]) (use d x y in auto)
    ultimately show ?thesis using x y by simp
  qed
qed

section \<open>Values\<close>

fun lead :: "pyval \<Rightarrow> char \<Rightarrow> bool" where
  "lead PyNone c \<longleftrightarrow> c = CHR ''n''"
| "lead (PyBool b) c \<longleftrightarrow> b \<and> c = CHR ''t'' \<or> \<not> b \<and> c = CHR ''f''"
| "lead (PyInt i) c \<longleftrightarrow> c \<in> set ''-0123456789''"
| "lead (PyFloat f) c \<longleftrightarrow> c \<in> set ''-0123456789''"
| "lead (PyStr s) c \<longleftrightarrow> c = CHR 0x22"
| "lead (PyList xs) c \<longleftrightarrow> c = CHR ''[''"
| "lead (PyDict es) c \<longleftrightarrow> c = CHR ''{''"
| "lead (PyOther t) c \<longleftrightarrow> False"

lemma lead_print: "json_text_ok v \<Longrightarrow> json_print a v \<noteq> [] \<and> lead v (hd (json_print a v))"
proof (cases v)
  case (PyInt i)
  then show ?thesis using show_int_chars [of i] by (cases "show_int i") auto
qed (auto simp: json_string_def float_repr_def split: pyfloat.splits)

lemma number_prefix:
  assumes "list_all num_char s" and "list_all num_char t" and "delimited u" and "delimited v" and "s @ u = t @ v"
  shows "s = t \<and> u = v"
proof -
  have n: "takeWhile num_char (r @ w) = r" if "list_all num_char r" "delimited w" for r w
    using that by (cases w) (auto simp: list_all_iff delimited_def num_char_def takeWhile_append)
  show ?thesis using n [OF assms(1,3)] n [OF assms(2,4)] assms(5) by simp
qed

lemma int_text: "list_all num_char (show_int i)" "CHR ''.'' \<notin> set (show_int i)" "CHR ''e'' \<notin> set (show_int i)"
proof -
  have c: "x \<in> set ''-0123456789''" if "x \<in> set (show_int i)" for x using that show_int_chars(1) [of i] by blast
  show "list_all num_char (show_int i)" using c by (fastforce simp: list_all_iff num_char_def)
  show "CHR ''.'' \<notin> set (show_int i)" "CHR ''e'' \<notin> set (show_int i)" using c by fastforce+
qed

lemma decodes_number:
  "decodes (json_print a) (PyInt i) (PyInt j)"
  "float_repr r \<Longrightarrow> decodes (json_print a) (PyFloat (Finite r)) (PyInt j)"
  "float_repr r \<Longrightarrow> decodes (json_print a) (PyInt j) (PyFloat (Finite r))"
  "float_repr r \<Longrightarrow> float_repr s \<Longrightarrow> decodes (json_print a) (PyFloat (Finite r)) (PyFloat (Finite s))"
proof -
  note int = int_text
  show "decodes (json_print a) (PyInt i) (PyInt j)"
    unfolding decodes_def using number_prefix [OF int(1) int(1), of _ _ i j] by (auto simp: show_int_inj)
  show "decodes (json_print a) (PyFloat (Finite r)) (PyInt j)" if "float_repr r"
    unfolding decodes_def using number_prefix [of r "show_int j"] int [of j] that by (auto simp: float_repr_def)
  show "decodes (json_print a) (PyInt j) (PyFloat (Finite r))" if "float_repr r"
    unfolding decodes_def using number_prefix [of "show_int j" r] int [of j] that by (auto simp: float_repr_def)
  show "decodes (json_print a) (PyFloat (Finite r)) (PyFloat (Finite s))" if "float_repr r" "float_repr s"
    unfolding decodes_def using number_prefix [of r s] that by (auto simp: float_repr_def)
qed

lemma decodes_string: "decodes (json_print a) (PyStr s) (PyStr t)"
  unfolding decodes_def using json_string_prefix [of a s _ t] by auto

lemma decodes_list:
  assumes "\<And>x y. x \<in> set xs \<Longrightarrow> y \<in> set ys \<Longrightarrow> decodes (json_print a) x y"
    and "list_all json_text_ok xs" and "list_all json_text_ok ys"
  shows "decodes (json_print a) (PyList xs) (PyList ys)"
  unfolding decodes_def
proof (intro allI impI)
  fix u v assume "json_print a (PyList xs) @ u = json_print a (PyList ys) @ v"
  then have e: "comma_sep (map (json_print a) xs) @ CHR '']'' # u = comma_sep (map (json_print a) ys) @ CHR '']'' # v" by simp
  have "lead x (hd (json_print a x)) \<and> json_print a x \<noteq> []" if "x \<in> set xs \<union> set ys" for x
    using that assms(2,3) lead_print by (auto simp: list_all_iff)
  moreover have "\<not> lead x (CHR '']'')" for x by (cases x) auto
  ultimately have "json_print a x \<noteq> [] \<and> hd (json_print a x) \<noteq> CHR '']''" if "x \<in> set xs \<union> set ys" for x
    using that by metis
  from comma_sep_prefix [OF _ assms(1) this e] show "PyList xs = PyList ys \<and> u = v" by simp
qed

definition entry_text :: "bool \<Rightarrow> pyval \<times> pyval \<Rightarrow> string" where
  "entry_text a e = json_string a (key_str (fst e)) @ '':'' @ json_print a (snd e)"

lemma decodes_entry:
  assumes "decodes (json_print a) x y"
  shows "decodes (entry_text a) (PyStr s, x) (PyStr t, y)"
  unfolding decodes_def
proof (intro allI impI)
  fix u v assume d: "delimited u" "delimited v" and "entry_text a (PyStr s, x) @ u = entry_text a (PyStr t, y) @ v"
  then have "json_string a s @ CHR '':'' # json_print a x @ u = json_string a t @ CHR '':'' # json_print a y @ v"
    by (simp add: entry_text_def key_str_def)
  from json_string_prefix [OF this] decodesD [OF assms d] show "(PyStr s, x) = (PyStr t, y) \<and> u = v" by simp
qed

lemma decodes_dict:
  assumes "\<And>k x l y. (k, x) \<in> set es \<Longrightarrow> (l, y) \<in> set fs \<Longrightarrow> decodes (json_print a) x y"
    and "json_text_ok (PyDict es)" and "json_text_ok (PyDict fs)"
  shows "decodes (json_print a) (PyDict es) (PyDict fs)"
  unfolding decodes_def
proof (intro allI impI)
  have "entry_text a = (\<lambda>(k, x). json_string a (key_str k) @ CHR '':'' # json_print a x)"
    by (rule ext) (simp add: entry_text_def split_beta)
  moreover fix u v assume "json_print a (PyDict es) @ u = json_print a (PyDict fs) @ v"
  ultimately have e: "comma_sep (map (entry_text a) es) @ CHR ''}'' # u = comma_sep (map (entry_text a) fs) @ CHR ''}'' # v"
    by simp
  have k: "\<exists>s x. e = (PyStr s, x)" if "e \<in> set es \<union> set fs" for e
    using that assms(2,3) by (cases e) (auto simp: list_all_iff split: pyval.splits)
  have "decodes (entry_text a) e f" if ef: "e \<in> set es" "f \<in> set fs" for e f
  proof -
    obtain s x t y where "e = (PyStr s, x)" "f = (PyStr t, y)" using k [of e] k [of f] ef by blast
    then show ?thesis using decodes_entry [OF assms(1)] ef by blast
  qed
  moreover have "entry_text a e \<noteq> [] \<and> hd (entry_text a e) \<noteq> CHR ''}''" for e by (simp add: entry_text_def json_string_def)
  ultimately show "PyDict es = PyDict fs \<and> u = v" using comma_sep_prefix [of _ es fs, OF _ _ _ e] by simp
qed

lemma different_leads: "json_text_ok v \<Longrightarrow> json_text_ok w \<Longrightarrow> (\<And>c. lead v c \<Longrightarrow> lead w c \<Longrightarrow> False) \<Longrightarrow> decodes (json_print a) v w"
proof -
  assume v: "json_text_ok v" and w: "json_text_ok w" and n: "\<And>c. lead v c \<Longrightarrow> lead w c \<Longrightarrow> False"
  have "hd (json_print a v @ x) \<noteq> hd (json_print a w @ y)" for x y
    using lead_print [OF v, of a] lead_print [OF w, of a] n by (auto simp: hd_append)
  then show ?thesis unfolding decodes_def by metis
qed

lemma json_print_decodes: "json_text_ok v \<Longrightarrow> json_text_ok w \<Longrightarrow> decodes (json_print a) v w"
proof (induction v arbitrary: w)
  case PyNone
  show ?case
  proof (cases "w = PyNone")
    case False
    then show ?thesis by (intro different_leads [OF PyNone]) (cases w; auto split: if_splits)
  qed (simp add: decodes_def)
next
  case (PyBool b)
  show ?case
  proof (cases "w = PyBool b")
    case False
    then show ?thesis by (intro different_leads [OF PyBool]) (cases w; cases b; auto split: if_splits)
  qed (simp add: decodes_def)
next
  case (PyInt i)
  then show ?case by (cases w) (auto intro: different_leads decodes_number split: pyfloat.splits)
next
  case (PyStr s)
  then show ?case by (cases w) (auto intro: different_leads decodes_string)
next
  case (PyFloat f)
  then show ?case by (cases w) (auto intro: different_leads decodes_number split: pyfloat.splits)
next
  case (PyList xs)
  then show ?case by (cases w) (auto intro: different_leads intro!: decodes_list simp: list_all_iff)
next
  case (PyDict es)
  show ?case
  proof (cases w)
    case w: (PyDict fs)
    have ok: "json_text_ok x" if "(k, x) \<in> set es \<or> (k, x) \<in> set fs" for k x
      using PyDict.prems that unfolding w by (fastforce simp: list_all_iff)
    have "decodes (json_print a) x y" if "(k, x) \<in> set es" "(l, y) \<in> set fs" for k x l y
      using PyDict.IH(2) [OF that(1), of x] ok that by auto
    then show ?thesis using PyDict.prems unfolding w by (intro decodes_dict)
  qed (use PyDict.prems in \<open>auto intro: different_leads\<close>)
qed simp

section \<open>Canonical text\<close>

lemma json_sort_ok: "json_text_ok v \<Longrightarrow> json_text_ok (json_sort v)"
proof (induction v)
  case (PyDict es)
  have "json_text_ok (json_sort x)" if "(k, x) \<in> set es" for k x
    using PyDict.IH(2) [OF that, of x] PyDict.prems that by (fastforce simp: list_all_iff)
  then show ?case using PyDict.prems by (fastforce simp: list_all_iff)
qed (auto simp: list_all_iff)

lemma json_dumps_eq_iff:
  assumes "json_text_ok v" and "json_text_ok w"
  shows "json_dumps a v = json_dumps a w \<longleftrightarrow> json_sort v = json_sort w"
proof
  assume "json_dumps a v = json_dumps a w"
  then show "json_sort v = json_sort w"
    using json_print_decodes [OF json_sort_ok [OF assms(1)] json_sort_ok [OF assms(2)], of a]
    by (auto simp: json_dumps_def decodes_def delimited_def)
qed (simp add: json_dumps_def)

lemma number_no_newline: "list_all num_char r \<Longrightarrow> CHR 0x0A \<notin> set r"
proof -
  have "\<not> num_char (CHR 0x0A)" by (simp add: num_char_def)
  then show "list_all num_char r \<Longrightarrow> CHR 0x0A \<notin> set r" unfolding list_all_iff by blast
qed

lemma json_print_no_newline: "json_text_ok v \<Longrightarrow> CHR 0x0A \<notin> set (json_print a v)"
proof (induction v)
  case (PyInt i)
  show ?case using number_no_newline [OF int_text(1)] by simp
next
  case (PyFloat f)
  then show ?case by (auto simp: float_repr_def dest: number_no_newline split: pyfloat.splits)
next
  case (PyList xs)
  then show ?case using comma_sep_set [of "map (json_print a) xs"] by (fastforce simp: list_all_iff)
next
  case (PyDict es)
  let ?t = "\<lambda>(k, x). json_string a (key_str k) @ '':'' @ json_print a x"
  have "CHR 0x0A \<notin> set (?t e)" if "e \<in> set es" for e
    using PyDict.IH(2) [of e "snd e"] PyDict.prems that json_string_no_newline [of a "key_str (fst e)"]
    by (cases e) (fastforce simp: list_all_iff)
  then show ?case using comma_sep_set [of "map ?t es"] by fastforce
qed (use json_string_no_newline in simp_all)

lemma json_dumps_no_newline: "json_text_ok v \<Longrightarrow> CHR 0x0A \<notin> set (json_dumps a v)"
  unfolding json_dumps_def by (intro json_print_no_newline json_sort_ok)

end
