(* ===== verification/Tool_Properties.thy ===== *)
theory Tool_Properties
  imports Tool_Safety Run_Results Json_Decoding
begin

text \<open>
  The properties of tool actions: an action that needs approval reaches the gateway at most once and
  only under an approval of exactly that action, and what the fingerprint of an action determines.
\<close>

section \<open>At most once\<close>

text \<open>
  C3: However workers interleave, stop and start again, and whatever transactions commit in between,
  the gateway receives every invocation at most once, and a protected action of a run (one
  fingerprint) at most once at all. Each protected call is backed by an approved and consumed
  approval of that run with exactly the fingerprint of the action, which the invocation names.
  The digests of the two fingerprint versions are assumed not to collide.\<close>

theorem protected_actions_run_at_most_once:
  assumes "tool_system sha256 assess (tool_world_new uuid) w" and "versions_differ sha256"
  shows "distinct (map snd (tw_calls w)) \<and>
    length (filter (\<lambda>(a, i). tk_approval_required (ta_risk a) \<and> rc_run_id (ta_claim a) = r \<and>
      action_fingerprint sha256 a = f) (tw_calls w)) \<le> 1 \<and>
    ((a, i) \<in> set (tw_calls w) \<and> tk_approval_required (ta_risk a) \<longrightarrow>
      (\<exists>t p. t \<in> set (rd_tools (tw_db w)) \<and> ti_id t = i \<and> ti_run_id t = rc_run_id (ta_claim a) \<and>
        ti_approval_request_id t = Some (ap_id p) \<and> approvals_get (ap_id p) (tw_db w) = Some p \<and>
        ap_run_id p = Some (rc_run_id (ta_claim a)) \<and> ap_status p = ApprovalStatus.APPROVED \<and>
        ap_consumed_at p \<noteq> None \<and> ap_authorization_fingerprint p = Some (action_fingerprint sha256 a)))"
proof -
  let ?P = "\<lambda>(a, i). tk_approval_required (ta_risk a) \<and> rc_run_id (ta_claim a) = r \<and> action_fingerprint sha256 a = f"
  have l: "ledger sha256 (tw_db w) (tw_calls w) (\<lambda>p. pending_call (tw_pc w p))"
    using tool_system_inv [OF assms tool_world_new_inv] by (simp add: tool_world_inv_def)
  have d: "distinct (map snd (tw_calls w))" by (rule ledgerD(1) [OF l])
  have same: "snd x = snd y" if "x \<in> set (filter ?P (tw_calls w))" "y \<in> set (filter ?P (tw_calls w))" for x y
    using that by (intro ledgerD(6) [OF l]) (auto simp: entries_def same_action_def)
  have "length (filter ?P (tw_calls w)) \<le> 1"
  proof (cases "filter ?P (tw_calls w)")
    case (Cons x xs)
    have "distinct (map snd (filter ?P (tw_calls w)))" using d by (rule distinct_map_filter)
    then have "y \<notin> set xs" for y using Cons same [of x y] by (auto simp: Cons)
    then show ?thesis using Cons by (cases xs) auto
  qed simp
  with d ledgerD(4) [OF l, of "(a, i)"] show ?thesis by (auto simp: entries_def backed_def)
qed

definition demo_sha :: "string \<Rightarrow> string" where
  "demo_sha m = replicate 64 (if take 1 m = ''2'' then CHR ''a'' else CHR ''b'')"

definition demo_call :: ToolCall where
  "demo_call = \<lparr>tl_tool = ''mail.send'', tl_tool_input = PyDict [(PyStr ''to'', PyStr ''a'')]\<rparr>"

definition demo_assess :: "ToolCall \<Rightarrow> app_error + ToolRiskAssessment" where
  "demo_assess call = Inr \<lparr>tk_tool = tl_tool call, tk_read_only = False, tk_approval_required = True,
     tk_category = TOOL_EXECUTION, tk_summary = ''send mail'', tk_authorization_scope = None, tk_provenance = None\<rparr>"

definition demo_fingerprint :: string where
  "demo_fingerprint = compute_authorization_fingerprint demo_sha demo_run None demo_call None"

definition demo_asked :: run_db where
  "demo_asked = committed (RequestToolApproval \<lparr>rq_run_id = demo_run, rq_category = TOOL_EXECUTION,
     rq_summary = ''send mail'', rq_reason = [], rq_requested_action = ''mail.send'', rq_requested_input = PyNone,
     rq_step_id = None, rq_expires_at = None, rq_authorization_fingerprint = Some demo_fingerprint\<rparr>
     ''w1'' ''k1'' 1 12 demo_claimed)"

definition demo_approval :: ApprovalRequestId where
  "demo_approval = ap_id (hd (rd_approvals demo_asked))"

definition demo_approved :: run_db where
  "demo_approved = committed (ApproveRequest demo_approval ''owner'' None 14 demo_asked)"

definition demo_again :: run_db where
  "demo_again = committed (ClaimNextRun ''w1'' 60 10 [''k2''] 16 demo_approved)"

definition demo_answer :: ToolExecutionResult where
  "demo_answer = \<lparr>tr_status = ToolSucceeded, tr_output = PyNone, tr_failure = None, tr_artifacts = []\<rparr>"

definition demo_proposed :: tool_world where
  "demo_proposed = place 0 (Proposed \<lparr>rc_run_id = demo_run, rc_worker_id = ''w1'', rc_claim_token = ''k2'',
     rc_claim_generation = 1\<rparr> None demo_call) ((tool_world_new demo_uuid)\<lparr>tw_db := demo_again\<rparr>)"

definition demo_begun :: tool_world where
  "demo_begun = advance demo_sha demo_assess 0 17 demo_answer demo_proposed"

definition demo_called :: tool_world where
  "demo_called = advance demo_sha demo_assess 0 18 demo_answer (advance demo_sha demo_assess 0 18 demo_answer demo_begun)"

lemma demo_tool_commits:
  "\<not> isl (RequestToolApproval \<lparr>rq_run_id = demo_run, rq_category = TOOL_EXECUTION,
     rq_summary = ''send mail'', rq_reason = [], rq_requested_action = ''mail.send'', rq_requested_input = PyNone,
     rq_step_id = None, rq_expires_at = None, rq_authorization_fingerprint = Some demo_fingerprint\<rparr>
     ''w1'' ''k1'' 1 12 demo_claimed)"
  "\<not> isl (ApproveRequest demo_approval ''owner'' None 14 demo_asked)"
  "\<not> isl (ClaimNextRun ''w1'' 60 10 [''k2''] 16 demo_approved)"
  by code_simp+

lemma demo_again_path: "fence_path run_system {''k1'', ''k2''} (no_rows demo_uuid) demo_again"
proof -
  have a: "run_system {} demo_claimed demo_asked" unfolding demo_asked_def
    by (rule run_system.request_tool_approval [OF committed_Inr [OF demo_tool_commits(1)]])
  have b: "run_system {} demo_asked demo_approved" unfolding demo_approved_def
    by (rule run_system.approve [OF committed_Inr [OF demo_tool_commits(2)]])
  have "run_system (set [''k2'']) demo_approved demo_again" unfolding demo_again_def
    by (rule run_system.claim [OF committed_Inr [OF demo_tool_commits(3)]])
  then show ?thesis by (rule path_step [OF path_step [OF path_step [OF demo_claimed_path a refl] b refl]]) auto
qed

lemma tool_system_path:
  "fence_path run_system T s s' \<Longrightarrow> tool_system sha256 assess w (v\<lparr>tw_db := s\<rparr>) \<Longrightarrow>
   tool_system sha256 assess w (v\<lparr>tw_db := s'\<rparr>)"
proof (induction rule: fence_path.induct)
  case (move T s s' U s'')
  then have "run_system U (tw_db (v\<lparr>tw_db := s'\<rparr>)) s''" by simp
  from tool_system.commits [OF move.IH [OF move.prems] this] show ?case by simp
qed simp

lemma demo_called_path: "tool_system demo_sha demo_assess (tool_world_new demo_uuid) demo_called"
proof -
  have "tool_system demo_sha demo_assess (tool_world_new demo_uuid) ((tool_world_new demo_uuid)\<lparr>tw_db := no_rows demo_uuid\<rparr>)"
    using tool_system.begins [of demo_sha demo_assess "tool_world_new demo_uuid"] by (simp add: tool_world_new_def)
  from tool_system_path [OF demo_again_path this] show ?thesis
    unfolding demo_called_def demo_begun_def demo_proposed_def by (intro tool_system.advances tool_system.proposes)
qed

lemma demo_versions: "versions_differ demo_sha"
proof -
  have "show_nat FINGERPRINT_VERSION = ''2''" by code_simp
  then show ?thesis
    by (simp add: versions_differ_def compute_authorization_fingerprint_def compute_legacy_authorization_fingerprint_def
        authorization_material_def legacy_material_def demo_sha_def)
qed

theorem protected_actions_run_at_most_once_witness:
  "length (tw_calls demo_called) = 1 \<and> tk_approval_required (ta_risk (fst (hd (tw_calls demo_called)))) \<and>
   length (filter (\<lambda>(a, i). tk_approval_required (ta_risk a) \<and> rc_run_id (ta_claim a) = demo_run \<and>
      action_fingerprint demo_sha a = demo_fingerprint) (tw_calls demo_called)) \<le> 1"
proof -
  have "length (tw_calls demo_called) = 1" "tk_approval_required (ta_risk (fst (hd (tw_calls demo_called))))" by code_simp+
  with protected_actions_run_at_most_once [OF demo_called_path demo_versions] show ?thesis by blast
qed

section \<open>What a fingerprint determines\<close>

definition plain_id :: "'k ident \<Rightarrow> bool" where
  "plain_id i \<longleftrightarrow> id_str i \<noteq> [] \<and> CHR 0x0A \<notin> set (id_str i)"

lemma line_split:
  "CHR 0x0A \<notin> set s \<Longrightarrow> CHR 0x0A \<notin> set t \<Longrightarrow> s @ newline @ u = t @ newline @ v \<longleftrightarrow> s = t \<and> u = v"
proof (induction s arbitrary: t)
  case Nil
  then show ?case by (cases t) (auto simp: newline_def)
next
  case (Cons c s)
  then show ?case by (cases t) (auto simp: newline_def)
qed

lemma name_part_no_newline: "name_part s \<Longrightarrow> CHR 0x0A \<notin> set s"
proof
  assume p: "name_part s" and n: "CHR 0x0A \<in> set s"
  obtain c cs where s: "s = c # cs" using n by (cases s) simp_all
  have "c \<noteq> CHR 0x0A" using p unfolding s name_part_def by auto
  then have "CHR 0x0A \<in> set cs" using n s by simp
  moreover have "list_all (\<lambda>x. x \<in> set ''abcdefghijklmnopqrstuvwxyz0123456789_'') cs" using p unfolding s name_part_def by simp
  ultimately have "CHR 0x0A \<in> set ''abcdefghijklmnopqrstuvwxyz0123456789_''" unfolding list_all_iff by blast
  then show False by simp
qed

lemma tool_name_shape:
  assumes "tool_name_match s"
  obtains t where "CHR 0x0A \<notin> set t" and "s = t \<or> s = t @ newline"
proof -
  define t where "t = (if s \<noteq> [] \<and> last s = CHR 0x0A then butlast s else s)"
  have s: "s = t \<or> s = t @ newline" unfolding t_def newline_def by (metis append_butlast_last_id)
  have p: "name_part (takeWhile (\<lambda>c. c \<noteq> CHR ''.'') t)"
    and q: "case dropWhile (\<lambda>c. c \<noteq> CHR ''.'') t of [] \<Rightarrow> False | d # rest \<Rightarrow> name_part rest"
    using assms by (simp_all add: tool_name_match_def Let_def t_def)
  obtain d rest where r: "dropWhile (\<lambda>c. c \<noteq> CHR ''.'') t = d # rest" "name_part rest" using q by (auto split: list.splits)
  then have "d = CHR ''.''" using hd_dropWhile [of "\<lambda>c. c \<noteq> CHR ''.''" t] by force
  then have "t = takeWhile (\<lambda>c. c \<noteq> CHR ''.'') t @ CHR ''.'' # rest"
    using r takeWhile_dropWhile_id [of "\<lambda>c. c \<noteq> CHR ''.''" t] by simp
  moreover have "CHR 0x0A \<notin> set (takeWhile (\<lambda>c. c \<noteq> CHR ''.'') t @ CHR ''.'' # rest)"
    using name_part_no_newline [OF p] name_part_no_newline [OF r(2)] by simp
  ultimately have "CHR 0x0A \<notin> set t" by metis
  with s that show thesis by blast
qed

lemma tool_line_split:
  assumes "tool_name_match s" and "tool_name_match t" and "u \<noteq> []" "hd u = CHR ''{''" and "v \<noteq> []" "hd v = CHR ''{''"
  shows "s @ newline @ u = t @ newline @ v \<longleftrightarrow> s = t \<and> u = v"
proof -
  obtain s' where s: "CHR 0x0A \<notin> set s'" "s = s' \<or> s = s' @ newline" using tool_name_shape [OF assms(1)] .
  obtain t' where t: "CHR 0x0A \<notin> set t'" "t = t' \<or> t = t' @ newline" using tool_name_shape [OF assms(2)] .
  have n: "u \<noteq> newline @ v" "v \<noteq> newline @ u" using assms(3-6) by (auto simp: newline_def)
  have ne: "s' \<noteq> t' @ newline" "s' @ newline \<noteq> t'" using s(1) t(1) by (auto simp: newline_def)
  note split = line_split [OF s(1) t(1)]
  from s(2) t(2) show ?thesis
  proof (elim disjE)
    assume "s = s'" "t = t'"
    then show ?thesis using split [of u v] by simp
  next
    assume "s = s'" "t = t' @ newline"
    then show ?thesis using split [of u "newline @ v"] n ne by simp
  next
    assume "s = s' @ newline" "t = t'"
    then show ?thesis using split [of "newline @ u" v] n ne by simp
  next
    assume "s = s' @ newline" "t = t' @ newline"
    then show ?thesis using split [of "newline @ u" "newline @ v"] by simp
  qed
qed

lemma call_text:
  assumes "tool_call_post_init call = Inr call" and "json_text_ok (tl_tool_input call)"
  shows "tool_name_match (tl_tool call)" and "\<exists>x. json_dumps True (tl_tool_input call) = CHR ''{'' # x"
    and "CHR 0x0A \<notin> set (json_dumps True (tl_tool_input call))"
proof -
  show "tool_name_match (tl_tool call)" "\<exists>x. json_dumps True (tl_tool_input call) = CHR ''{'' # x"
    using assms by (auto simp: tool_call_post_init_def outcome_simps is_py_dict_def json_dumps_def split: pyval.splits)
  show "CHR 0x0A \<notin> set (json_dumps True (tl_tool_input call))" using assms(2) by (rule json_dumps_no_newline)
qed

text \<open>
  C16: The text whose digest is the fingerprint of an action determines the action: two calls that pass
  validation have the same text exactly when they agree on the run, the step, the tool, the input up
  to the order of keys, and the authorisation scope (an absent scope counts as an empty one). No text
  of the current version is a text of the first version. Identifiers are non-empty and hold no line
  feed, as those drawn by \<^verbatim>\<open>new\<close> are, and finite floats are printed in the shape of \<^verbatim>\<open>repr\<close>.\<close>

theorem fingerprint_binds_the_action:
  assumes "tool_call_post_init call = Inr call" and "tool_call_post_init call' = Inr call'"
    and "json_text_ok (tl_tool_input call)" and "json_text_ok (tl_tool_input call')"
    and "plain_id r" and "plain_id r'" and "pred_option plain_id st" and "pred_option plain_id st'"
  shows "(authorization_material r st call scope = authorization_material r' st' call' scope' \<longleftrightarrow>
      r = r' \<and> st = st' \<and> tl_tool call = tl_tool call' \<and>
      json_sort (tl_tool_input call) = json_sort (tl_tool_input call') \<and> or_else scope [] = or_else scope' []) \<and>
    authorization_material r st call scope \<noteq> legacy_material r' st' call'"
proof -
  let ?step = "\<lambda>st. case st of None \<Rightarrow> [] | Some s \<Rightarrow> id_str s"
  let ?in = "\<lambda>c. json_dumps True (tl_tool_input c)"
  have two: "show_nat FINGERPRINT_VERSION = ''2''" by code_simp
  have "id_str r = id_str r' \<longleftrightarrow> r = r'" by (metis ident.expand)
  moreover have "?step st = ?step st' \<longleftrightarrow> st = st'"
    using assms(7,8) by (cases st; cases st') (auto simp: plain_id_def intro: ident.expand)
  moreover have "CHR 0x0A \<notin> set (?step st)" "CHR 0x0A \<notin> set (?step st')"
    using assms(7,8) by (cases st; cases st'; simp add: plain_id_def)+
  moreover have "?in call @ newline @ x = ?in call' @ newline @ y \<longleftrightarrow>
      json_sort (tl_tool_input call) = json_sort (tl_tool_input call') \<and> x = y" for x y
    using line_split [OF call_text(3) [OF assms(1,3)] call_text(3) [OF assms(2,4)]] json_dumps_eq_iff [OF assms(3,4)] by simp
  moreover have "tl_tool call @ newline @ ?in call @ x = tl_tool call' @ newline @ ?in call' @ y \<longleftrightarrow>
      tl_tool call = tl_tool call' \<and> ?in call @ x = ?in call' @ y" for x y
    using call_text(2) [OF assms(1,3)] call_text(2) [OF assms(2,4)]
    by (intro tool_line_split call_text(1) [OF assms(1,3)] call_text(1) [OF assms(2,4)]) auto
  ultimately show ?thesis
    using assms(5,6) line_split [of "id_str r" "id_str r'"] line_split [of "?step st" "?step st'"]
    unfolding authorization_material_def legacy_material_def two by (simp add: plain_id_def)
qed

theorem fingerprint_binds_the_action_witness:
  "authorization_material demo_run None demo_call None \<noteq>
   authorization_material demo_run None (demo_call\<lparr>tl_tool_input := PyDict [(PyStr ''to'', PyStr ''b'')]\<rparr>) None"
proof -
  let ?c = "demo_call\<lparr>tl_tool_input := PyDict [(PyStr ''to'', PyStr ''b'')]\<rparr>"
  have "tool_call_post_init demo_call = Inr demo_call" "tool_call_post_init ?c = Inr ?c"
    "json_text_ok (tl_tool_input demo_call)" "json_text_ok (tl_tool_input ?c)" "plain_id demo_run" by code_simp+
  note binds = fingerprint_binds_the_action [OF this(1-4) this(5) this(5), of None None None None]
  have "json_sort (tl_tool_input demo_call) \<noteq> json_sort (tl_tool_input ?c)" by code_simp
  with binds show ?thesis by simp
qed

end
