(* ===== verification/Delegation_Properties.thy ===== *)
theory Delegation_Properties
  imports Tool_Properties "HOL-Library.Code_Target_Nat"
begin

text \<open>
  Delegations over their lifetime: a dispatch stays within its budgets, and what happens to the parent
  when the task of the child is cancelled.
\<close>

definition same_delegations :: "run_db \<Rightarrow> run_db \<Rightarrow> bool" where
  "same_delegations s s' \<longleftrightarrow> rd_delegations s' = rd_delegations s"






section \<open>Budgets\<close>






section \<open>Task cancellation\<close>

lemma cancel_one:
  assumes "runs_get (rn_id q) s = Some r" and "r = q \<or> rn_status r \<in> set TERMINAL_RUN_STATUSES"
  shows "wp (task_cancel_run now q) (\<lambda>x s'. same_delegations s s' \<and>
    (\<forall>i. i \<noteq> rn_id q \<longrightarrow> runs_get i s' = runs_get i s) \<and> ended (rn_id q) s') s"
proof -
  have f: "rn_id q' = rn_id q \<and> rn_status q' \<in> set TERMINAL_RUN_STATUSES" if "run_cancel (utc now) q = Done q'" for q'
    using that run_step_id [of "RunCancel (utc now)" q q']
    by (auto simp: run_cancel_def outcome_simps TERMINAL_RUN_STATUSES_def)
  have keep: "wp m Q s'" if "tx_rel framed m" and "\<And>x s''. framed s' s'' \<Longrightarrow> Q x s''" for m :: "'x tx" and Q s'
    using that by (intro wpI) (metis tx_relD)
  show ?thesis using assms
    by (auto simp: task_cancel_run_def wp_simps runs_save_def same_delegations_def ended_def framed_def runs_get_def
        get_merge_row dest!: f intro!: keep [OF frame_cancel(4)] keep [OF frame_events(2)] keep [OF frame_usage(2)])
qed

lemma cancel_loop:
  assumes "\<And>q. q \<in> set rs \<Longrightarrow> runs_get (rn_id q) s = Some q \<or> ended (rn_id q) s"
  shows "wp (tx_each (task_cancel_run now) rs) (\<lambda>x s'. same_delegations s s' \<and>
    (\<forall>i. i \<notin> rn_id ` set rs \<longrightarrow> runs_get i s' = runs_get i s) \<and> (\<forall>q \<in> set rs. ended (rn_id q) s')) s"
  using assms
proof (induction rs arbitrary: s)
  case (Cons q rs)
  obtain r where r: "runs_get (rn_id q) s = Some r" "r = q \<or> rn_status r \<in> set TERMINAL_RUN_STATUSES"
    using Cons.prems [of q] by (auto simp: ended_def)
  show ?case unfolding tx_each.simps wp_bind wp_return
  proof (rule wp_mono [OF cancel_one [OF r]])
    fix x s1 assume one: "same_delegations s s1 \<and> (\<forall>i. i \<noteq> rn_id q \<longrightarrow> runs_get i s1 = runs_get i s) \<and> ended (rn_id q) s1"
    have "runs_get (rn_id p) s1 = Some p \<or> ended (rn_id p) s1" if "p \<in> set rs" for p
      using Cons.prems [of p] that one by (cases "rn_id p = rn_id q") (auto simp: ended_def)
    from Cons.IH [OF this] show "wp (tx_each (task_cancel_run now) rs) (\<lambda>x s'. same_delegations s s' \<and>
      (\<forall>i. i \<notin> rn_id ` set (q # rs) \<longrightarrow> runs_get i s' = runs_get i s) \<and> (\<forall>p \<in> set (q # rs). ended (rn_id p) s')) s1"
    proof (rule wp_mono)
      fix y s2 assume rest: "same_delegations s1 s2 \<and> (\<forall>i. i \<notin> rn_id ` set rs \<longrightarrow> runs_get i s2 = runs_get i s1) \<and>
        (\<forall>p \<in> set rs. ended (rn_id p) s2)"
      have "ended (rn_id q) s2" using one rest by (cases "rn_id q \<in> rn_id ` set rs") (auto simp: ended_def)
      then show "same_delegations s s2 \<and> (\<forall>i. i \<notin> rn_id ` set (q # rs) \<longrightarrow> runs_get i s2 = runs_get i s) \<and>
        (\<forall>p \<in> set (q # rs). ended (rn_id p) s2)"
        using one rest by (auto simp: same_delegations_def)
    qed
  qed
qed (simp add: wp_simps same_delegations_def)

definition only_task_ended :: "TaskId \<Rightarrow> run_db \<Rightarrow> run_db \<Rightarrow> bool" where
  "only_task_ended k s s' \<longleftrightarrow> same_delegations s s' \<and>
     (\<forall>i r. runs_get i s = Some r \<longrightarrow> rn_task_id r \<noteq> k \<longrightarrow> runs_get i s' = Some r) \<and>
     (\<forall>i r. runs_get i s = Some r \<longrightarrow> rn_task_id r = k \<longrightarrow> ended i s')"

lemma task_runs:
  assumes "db_keyed s" and "framed s s'"
  shows "r \<in> set (runs_list_for_task k s') \<longleftrightarrow> runs_get (rn_id r) s = Some r \<and> rn_task_id r = k"
  using assms by (auto simp: runs_list_for_task_def framed_def db_keyed_def runs_get_def dest: get_row_in intro: keyed_get)

lemma cancel_task_loop:
  assumes "db_keyed s" and f: "framed s s'"
  shows "wp (tx_each (task_cancel_run now) (runs_list_for_task k s')) (\<lambda>x s''. only_task_ended k s s'') s'"
proof (rule wp_mono [OF cancel_loop])
  let ?rs = "runs_list_for_task k s'"
  note rs = task_runs [OF assms, of _ k]
  have g: "runs_get i s' = runs_get i s" for i using f by (simp add: framed_def runs_get_def)
  show "runs_get (rn_id q) s' = Some q \<or> ended (rn_id q) s'" if "q \<in> set ?rs" for q
    using that rs [of q] g by simp
  fix x s'' assume a: "same_delegations s' s'' \<and> (\<forall>i. i \<notin> rn_id ` set ?rs \<longrightarrow> runs_get i s'' = runs_get i s') \<and>
    (\<forall>q \<in> set ?rs. ended (rn_id q) s'')"
  have "(rn_task_id r \<noteq> k \<longrightarrow> runs_get i s'' = Some r) \<and> (rn_task_id r = k \<longrightarrow> ended i s'')" if r: "runs_get i s = Some r" for i r
  proof (cases "rn_task_id r = k")
    case True
    have i: "rn_id r = i" by (rule run_row_id [OF r])
    then have "r \<in> set ?rs" using rs [of r] r True by simp
    with a i True show ?thesis by auto
  next
    case False
    have "i \<notin> rn_id ` set ?rs"
    proof
      assume "i \<in> rn_id ` set ?rs"
      then obtain q where "i = rn_id q" "q \<in> set ?rs" by blast
      with rs [of q] r False show False by simp
    qed
    with a g r False show ?thesis by simp
  qed
  moreover have "same_delegations s s''" using a f by (simp add: same_delegations_def framed_def)
  ultimately show "only_task_ended k s s''" by (simp add: only_task_ended_def)
qed

lemma cancel_task_runs:
  assumes k: "db_keyed s"
  shows "wp (CancelTask k now) (\<lambda>t s'. s' = s \<and> map_option tk_status (tasks_get k s) = Some TaskStatus.CANCELLED \<or>
    only_task_ended k s s') s"
proof -
  have t: "tk_id x' = k" if "tasks_get k s = Some x" "task_cancel (utc now) x = Done x'" for x x'
    using that by (auto simp: task_cancel_def outcome_simps tasks_get_def dest: get_row_key)
  have keep: "wp m Q s'" if "tx_rel framed m" "framed s s'" "\<And>x s''. framed s s'' \<Longrightarrow> Q x s''" for m :: "'x tx" and Q s'
  proof (rule wpI)
    fix x s'' assume "m s' = Inr (x, s'')"
    from that(3) [OF frame.trans [OF that(2) tx_relD [OF that(1) this]]] show "Q x s''" .
  qed
  show ?thesis
    apply (clarsimp simp: CancelTask_def wp_simps)
    apply (rule keep [OF frame_primitives(3) frame.refl])
    apply (rule keep [OF frame_primitives(9)], assumption)
    apply (rule keep [OF frame_events(3)], assumption)
    apply (frule (1) t)
    apply simp
    apply (rule wp_mono [OF cancel_task_loop [OF k]])
    apply assumption
    apply simp
    done
qed

section \<open>Properties\<close>

text \<open>A worker dispatches a delegation from the run it holds, and the delegated task is cancelled.\<close>

definition demo_kinds :: "string list" where
  "demo_kinds = [''claude_cli'']"

definition demo_agent :: run_db where
  "demo_agent = committed (CreateAgent ''helper'' ''Helper'' ''text'' 11 demo_claimed)"

definition demo_revised :: run_db where
  "demo_revised = committed (CreateAgentRevision demo_sha demo_kinds (Id (demo_uuid 4)) ''help'' ''claude_cli'' (PyDict [])
     OPERATOR 11 demo_agent)"

definition demo_active :: run_db where
  "demo_active = committed (ActivateAgentRevision demo_sha (Id (demo_uuid 4)) (Id (demo_uuid 5)) 11 demo_revised)"

definition demo_dispatch :: DispatchCommand where
  "demo_dispatch = \<lparr>dc_target_agent_key = ''helper'', dc_objective = ''look'', dc_input_payload = PyDict [],
     dc_expected_output_contract = ''text'', dc_parent_run_step_id = None\<rparr>"

definition demo_delegated :: run_db where
  "demo_delegated = committed (DispatchDelegation demo_sha demo_kinds 1 1 1 demo_claim demo_dispatch 12 demo_active)"

definition demo_abandoned :: run_db where
  "demo_abandoned = committed (CancelTask (Id (demo_uuid 7)) 20 demo_delegated)"

lemma demo_delegation_commits:
  "\<not> isl (CreateAgent ''helper'' ''Helper'' ''text'' 11 demo_claimed)"
  "\<not> isl (CreateAgentRevision demo_sha demo_kinds (Id (demo_uuid 4)) ''help'' ''claude_cli'' (PyDict []) OPERATOR 11 demo_agent)"
  "\<not> isl (ActivateAgentRevision demo_sha (Id (demo_uuid 4)) (Id (demo_uuid 5)) 11 demo_revised)"
  "\<not> isl (DispatchDelegation demo_sha demo_kinds 1 1 1 demo_claim demo_dispatch 12 demo_active)"
  "\<not> isl (CancelTask (Id (demo_uuid 7)) 20 demo_delegated)"
  by code_simp+

lemma demo_delegated_path: "fence_path run_system {''k1''} (no_rows demo_uuid) demo_delegated"
proof -
  have a: "run_system {} demo_claimed demo_agent" unfolding demo_agent_def
    by (rule run_system.create_agent [OF committed_Inr [OF demo_delegation_commits(1)]])
  have b: "run_system {} demo_agent demo_revised" unfolding demo_revised_def
    by (rule run_system.create_revision [OF committed_Inr [OF demo_delegation_commits(2)]])
  have c: "run_system {} demo_revised demo_active" unfolding demo_active_def
    by (rule run_system.activate_revision [OF committed_Inr [OF demo_delegation_commits(3)]])
  have "run_system {} demo_active demo_delegated" unfolding demo_delegated_def
    by (rule run_system.dispatch [OF committed_Inr [OF demo_delegation_commits(4)]])
  then show ?thesis
    by (rule path_step [OF path_step [OF path_step [OF path_step [OF demo_claimed_path a refl] b refl] c refl]]) simp
qed



text \<open>
  C15: Cancelling a task ends every run of that task, unless the task was cancelled before, and touches
  no other run and no delegation. So a run of another task that waits for a delegation to the cancelled
  task goes on waiting for a delegation that stays dispatched, although its child has ended.\<close>

theorem cancel_task_ends_only_its_runs:
  assumes "fence_path run_system T (no_rows uuid) s" and "CancelTask k now s = Inr (t, s')"
  shows "rd_delegations s' = rd_delegations s \<and>
    (\<forall>i r. runs_get i s = Some r \<and> rn_task_id r \<noteq> k \<longrightarrow> runs_get i s' = Some r) \<and>
    (map_option tk_status (tasks_get k s) = Some TaskStatus.CANCELLED \<or>
      (\<forall>i r. runs_get i s = Some r \<and> rn_task_id r = k \<longrightarrow>
        (\<exists>r'. runs_get i s' = Some r' \<and> rn_status r' \<in> set TERMINAL_RUN_STATUSES)))"
proof -
  have "db_keyed s" using reachable_core [OF assms(1)] by simp
  from wpD [OF cancel_task_runs [OF this] assms(2)] show ?thesis
    by (auto simp: only_task_ended_def same_delegations_def ended_def)
qed

theorem cancel_task_ends_only_its_runs_witness:
  "map_option rn_status (runs_get demo_run demo_abandoned) = Some RunStatus.WAITING_FOR_DELEGATION \<and>
   map dg_status (rd_delegations demo_abandoned) = [DelegationStatus.DISPATCHED] \<and>
   map_option rn_status (runs_get (Id (demo_uuid 8)) demo_abandoned) = Some RunStatus.CANCELLED"
proof -
  note only = cancel_task_ends_only_its_runs [OF demo_delegated_path committed_Inr [OF demo_delegation_commits(5)],
      folded demo_abandoned_def]
  have "map_option (\<lambda>r. (rn_status r, rn_task_id r)) (runs_get demo_run demo_delegated) =
      Some (RunStatus.WAITING_FOR_DELEGATION, Id (demo_uuid 0))" by code_simp
  then obtain r where r: "runs_get demo_run demo_delegated = Some r" "rn_status r = RunStatus.WAITING_FOR_DELEGATION"
    "rn_task_id r = Id (demo_uuid 0)" by auto
  have "rn_task_id r \<noteq> Id (demo_uuid 7)" using r(3) by (simp add: demo_uuid_def)
  with only r have "runs_get demo_run demo_abandoned = Some r" by blast
  moreover have "map dg_status (rd_delegations demo_delegated) = [DelegationStatus.DISPATCHED]" by code_simp
  moreover have "map_option rn_status (runs_get (Id (demo_uuid 8)) demo_abandoned) = Some RunStatus.CANCELLED" by code_simp
  ultimately show ?thesis using only r(2) by simp
qed

end
