(* ===== verification/Spec2Isabelle.thy ===== *)
theory Spec2Isabelle
  imports Task_Entity Run_Entity Step_Entity Approval_Entity Tool_Entity Delegation_Entity
    Workflow_Entity Workflow_Execution_Entity Delivery_Properties Entity_Properties Workflow_Properties
    Schedule_Entity Delegation_Properties
begin

text \<open>
  This library verifies the durable core of Friday, a personal assistant that runs tasks with language
  model agents: the entities of \<^verbatim>\<open>src/src/friday/domain\<close>, the use cases of
  \<^verbatim>\<open>src/src/friday/application\<close> that move them in transactions, and the tables of
  \<^verbatim>\<open>src/src/friday/infrastructure/persistence\<close> they are stored in.

  \<^bold>\<open>The program.\<close> A client creates a task and starts a run of it, which puts a work item into a queue.
  A worker claims the item under a lease, starts the run, and reports an outcome: success, failure
  (which may queue a retry of the same execution), a wait for a human approval, or a wait for a delegation
  to another agent, whose child task and run are created in the same transaction. Approvals and ended
  child runs wake the waiting run by queueing it again. Inside a run a worker performs tool actions; a
  protected one needs an approval whose fingerprint is that of the exact action, and consumes it. Results
  leave the system as outbound deliveries, which dispatchers claim, check against a configured route, and
  hand to a transport. Maintenance loops recover expired leases and expire approvals. Clients, workers and
  loops are separate processes that share only the database.

  \<^bold>\<open>How the code is modelled.\<close>
  \<^item> A class is a record, an enum a datatype, a method that mutates its object a function into
    \<open>('e, 's) outcome\<close> (\<open>Friday_Prelude\<close>), which keeps the object as a raise left it. Validators are
    functions into a sum. Times are integers (microseconds), text is a list of 8-bit characters,
    identifiers carry a phantom tag (\<open>Identifiers\<close>).
  \<^item> A unit of work is a function \<open>run_db \<Rightarrow> app_error + 'a \<times> run_db\<close> (\<open>Transactions\<close>): \<open>Inl\<close> is a
    transaction that raised and was rolled back. A table is the list of its rows; a repository method is a
    read or a conditional update of it. The clock reading, fresh identifiers and claim tokens are inputs.
  \<^item> Concurrency is interleaving of committed transactions, in any order: \<open>run_system\<close> (\<open>Run_System\<close>) for
    the run side, \<open>dispatch_step\<close> (\<open>Delivery_Dispatch\<close>) for dispatchers and \<open>tool_system\<close> (\<open>Tool_Safety\<close>)
    for workers with tool calls. In the last two a process may stop between any two steps and start over.

  \<^bold>\<open>Theories and sources.\<close>
  \<^item> Prelude: \<open>Friday_Prelude\<close>, \<open>Identifiers\<close>, \<open>Json_Values\<close>, \<open>Canonical_Json\<close>, \<open>Json_Decoding\<close> (canonical
    text determines the value), \<open>Lifecycle\<close> (the contract of an entity, as locales), \<open>Tables\<close>,
    \<open>Transactions\<close> (weakest preconditions and preorders), \<open>Claim_Fence\<close> (the fencing contract).
  \<^item> Entities: \<open>Task_Entity\<close>, \<open>Run_Entity\<close>, \<open>Step_Entity\<close>, \<open>Approval_Entity\<close>, \<open>Tool_Entity\<close>,
    \<open>Delegation_Entity\<close>, \<open>Workflow_Graph\<close> and \<open>Workflow_Entity\<close>, \<open>Workflow_Execution_Entity\<close>,
    \<open>Delivery_Entity\<close>, \<open>Schedule_Entity\<close>, \<open>Agent_Entity\<close>, \<open>Run_Records\<close>: the classes under
    \<^verbatim>\<open>domain\<close>. Each interprets the lifecycle contract on its own methods.
  \<^item> Rows: \<open>Rows\<close>, \<open>Execution_Rows\<close>, \<open>Row_Agreement\<close>: the row classes, CHECK constraints and mappers of
    \<^verbatim>\<open>models.py\<close> and \<^verbatim>\<open>mappers.py\<close>.
  \<^item> Run side: \<open>Retry_Policy\<close>, \<open>Work_Queue\<close>, \<open>Run_Db\<close> (repositories), \<open>Run_Lifecycle\<close>,
    \<open>Worker_Coordination\<close>, \<open>Approval_Workflow\<close>, \<open>Child_Lifecycle\<close>, \<open>Agent_Registry\<close>, \<open>Delegation_Dispatch\<close>,
    \<open>Tool_Execution\<close>: the use cases of \<^verbatim>\<open>application\<close>, a definition per use case, named after its class.
  \<^item> Run proofs: \<open>Run_Core\<close> is the abstract specification, an inductive relation over runs, work items,
    approvals and delegations; \<open>Run_Refinement\<close> and \<open>Run_Simulation\<close> show that every transaction performs a
    path of its steps, so its invariant holds of every reachable database. \<open>Run_Preorder\<close>, \<open>Run_Events\<close>,
    \<open>Run_Children\<close>, \<open>Run_Claims\<close>, \<open>Run_Outcomes\<close> and \<open>Tool_Safety\<close> treat what the abstract state leaves out.
  \<^item> Deliveries: \<open>Delivery_Lifecycle\<close> (\<^verbatim>\<open>delivery_lifecycle.py\<close> and its two repositories),
    \<open>Delivery_Dispatch\<close> (\<^verbatim>\<open>messaging/dispatcher.py\<close> as a step machine), \<open>Delivery_Safety\<close>,
    \<open>Delivery_Fencing\<close>, \<open>Delivery_Ledger\<close>, \<open>Delivery_Recovery\<close>.

  \<^bold>\<open>What is shown.\<close>
  \<^item> Runs (\<open>Run_Properties\<close>, \<open>Run_Results\<close>, \<open>Delegation_Properties\<close>): every unfinished run is tracked by a
    work item, a pending approval or a dispatched delegation; a claim over the whole queue finds a runnable
    run once it is due; a claim is exclusive and a displaced worker cannot act; finished rows are final and
    a finished run has no open step or tool invocation; failed attempts are retried as the policy says;
    recovery over the whole queue leaves no expired claim; a cancelled run has no work item and no pending
    approval; event streams have no gaps; delegations stay within their budgets; cancelling a task ends its
    runs and touches no other run and no delegation.
  \<^item> Tool actions (\<open>Tool_Properties\<close>): a protected action reaches the gateway at most once, under an approval
    of exactly that action, and the text behind a fingerprint determines the action.
  \<^item> Deliveries (\<open>Delivery_Properties\<close>): a delivery is sent at most once, to the route it was authorised
    for; displaced claims are fenced; the attempt ledger agrees with the deliveries; the transport's reply is
    recorded; expired claims are settled unless a backoff overflows, which blocks every claim.
  \<^item> Entities and rows (\<open>Entity_Properties\<close>): invariants over arbitrary sequences of calls, frozen terminal
    states, agreement with the CHECK constraints and round trips through the rows.
  \<^item> Workflow definitions (\<open>Workflow_Properties\<close> and below): which graphs, keys, payloads and stored
    revisions are accepted.

  \<^bold>\<open>Parameters and hypotheses.\<close> The digest \<open>sha256\<close> is a parameter. At-most-once execution of protected actions
  assumes \<open>versions_differ\<close>: no digest of a current fingerprint text is that of a first-version text. Some
  statements assume that identifiers or claim tokens are not drawn twice. Registered runtimes, the zone
  database, the transport's replies and the tool gateway's answers are arguments.

  \<^bold>\<open>Bounds.\<close> All loops of the model are structural recursions or carry a termination proof (the worklist of
  the graph check); there is no fuel. Batch sizes are those of the source and appear in the statements.
  \<open>ClaimNextRun\<close> and \<open>ClaimNextDelivery\<close> draw one token per candidate from a list.

  \<^bold>\<open>What is not modelled.\<close>
  \<^item> Transactions are serial: races inside SQLite before the first write, and foreign keys, are outside.
    Times do not overflow. The backoff multiplier is a rational, not a double.
  \<^item> The workflow scheduler (\<^verbatim>\<open>workflow_execution_use_cases.py\<close>), and with it the status
    \<^verbatim>\<open>waiting_for_workflow\<close>, which no transaction of \<open>run_system\<close> enters; schedule materialisation;
    skill evaluation and promotion; conversations. They have transactions of their own that the reachability
    statements do not cover. \<^verbatim>\<open>CompleteRunWorkItem\<close> is defined but not part of \<open>run_system\<close>, since no
    part of the application calls it.
  \<^item> The agent run processor, memory, computer use, MCP, the tool gateways, the brain runtimes and the
    webhook transport: they drive external programs. The HTTP API, the worker process, the web client and
    the migrations are input and output around the modelled use cases, as are read-only queries and paging.
\<close>

text \<open>
  C5: \<^verbatim>\<open>validate_workflow_dag\<close> accepts a graph exactly when it is non-empty and within
  the node and edge limits, its node ids, node keys and edges are free of duplicates, all
  nodes and edges belong to one revision, every edge joins two of the nodes, and the edge
  relation is acyclic.
\<close>

theorem validate_workflow_dag_correct:
  "validate_workflow_dag nodes edges = Inr () \<longleftrightarrow>
     nodes \<noteq> [] \<and> length nodes \<le> 64 \<and> length edges \<le> 256 \<and>
     distinct (map wn_id nodes) \<and> distinct (map wn_node_key nodes) \<and>
     distinct (map edge_pair edges) \<and>
     (\<exists>r. wn_revision_id ` set nodes \<subseteq> {r} \<and> we_revision_id ` set edges \<subseteq> {r}) \<and>
     edge_pair ` set edges \<subseteq> wn_id ` set nodes \<times> wn_id ` set nodes \<and>
     acyclic (edge_pair ` set edges)"
  unfolding validate_workflow_dag_iff dag_valid_def dag_owner_iff by blast

end
